(* ===== verification/Prelude.thy ===== *)
theory Prelude
  imports
    Main
    "HOL-Library.State_Monad"
    "HOL-Library.AList"
    "HOL-Library.Word"
begin

text \<open>
  What the components share: the Go values the controller passes around (errors, dynamically
  typed query results, 32-bit and 64-bit integers), the pieces of Go's \<open>fmt\<close>,
  \<open>strconv\<close> and \<open>strings\<close> packages the sources call, and a small program logic over
  \<open>HOL-Library.State_Monad\<close>: Hoare triples for statements about results, and frame relations
  (\<open>state_io_rel\<close>) for what an operation may do to the state whatever it returns.
  Go strings are byte sequences and are modelled as \<open>string\<close>.
\<close>

section \<open>Definitions\<close>

named_theorems hoare_intros \<open>introduction rules of the Hoare calculus\<close>
named_theorems go_str \<open>simplification rules of the string functions\<close>

subsection \<open>Go errors and results\<close>

type_synonym int32 = "32 word"
type_synonym int64 = "64 word"
type_synonym uint64 = "64 word"

text \<open>
  An error value: \<open>fmt.Errorf\<close> without a wrapped cause, the Neo4j driver's error (code and
  message), the Kubernetes API's not-found status, and \<open>fmt.Errorf("... %w", err)\<close>.
\<close>

datatype go_error =
    ErrorString string
  | Neo4jError string string
  | NotFound string
  | Wrapped string go_error

type_synonym 'a go_result = "go_error + 'a"

text \<open>\<open>err.Error()\<close>; a wrapping format string ends in a colon, a space and the cause.\<close>

fun Error :: "go_error \<Rightarrow> string" where
  "Error (ErrorString m) = m"
| "Error (Neo4jError c m) = ''Neo4jError: '' @ c @ '' ('' @ m @ '')''"
| "Error (NotFound m) = m"
| "Error (Wrapped m e) = m @ '': '' @ Error e"

text \<open>\<open>errors.As(err, *neo4j.Neo4jError)\<close> and the API machinery's \<open>IsNotFound\<close> walk the chain.\<close>

fun as_neo4j :: "go_error \<Rightarrow> (string \<times> string) option" where
  "as_neo4j (Neo4jError c m) = Some (c, m)"
| "as_neo4j (Wrapped m e) = as_neo4j e"
| "as_neo4j _ = None"

fun IsNotFound :: "go_error \<Rightarrow> bool" where
  "IsNotFound (NotFound m) = True"
| "IsNotFound (Wrapped m e) = IsNotFound e"
| "IsNotFound _ = False"

text \<open>
  Values of the type \<open>interface{}\<close> that the driver and the YAML decoder deliver. A float64 is
  a finite rational or one of the non-finite values.
\<close>

datatype goval =
    VNil
  | VBool bool
  | VInt int
  | VInt64 int
  | VFloat64 "int \<times> int"
  | VNonFinite
  | VString string
  | VMap "(string \<times> goval) list"
  | VOther string

type_synonym gomap = "(string \<times> goval) list"

text \<open>The type name that the verb \<open>%T\<close> prints.\<close>

fun type_name :: "goval \<Rightarrow> string" where
  "type_name VNil = ''<nil>''"
| "type_name (VBool _) = ''bool''"
| "type_name (VInt _) = ''int''"
| "type_name (VInt64 _) = ''int64''"
| "type_name (VFloat64 _) = ''float64''"
| "type_name VNonFinite = ''float64''"
| "type_name (VString _) = ''string''"
| "type_name (VMap _) = ''map[string]interface {}''"
| "type_name (VOther t) = t"

text \<open>
  Go's conversion of a float64 to \<open>int\<close> drops the fraction; a value out of range (or not a
  number) gives the smallest 64-bit integer on amd64. The pair is numerator and denominator.
\<close>

definition trunc_frac :: "int \<times> int \<Rightarrow> int" where
  "trunc_frac f = (case f of (n, d) \<Rightarrow> sgn n * sgn d * (\<bar>n\<bar> div \<bar>d\<bar>))"

definition float_to_int :: "int \<times> int \<Rightarrow> int" where
  "float_to_int f = (let t = trunc_frac f
     in if - (2 ^ 63) \<le> t \<and> t < 2 ^ 63 then t else - (2 ^ 63))"

subsection \<open>Go's string functions\<close>

definition digit_char :: "nat \<Rightarrow> char" where
  "digit_char d = char_of (48 + d)"

fun nat_to_string :: "nat \<Rightarrow> string" where
  "nat_to_string n =
     (if n < 10 then [digit_char n]
      else nat_to_string (n div 10) @ [digit_char (n mod 10)])"

text \<open>The verb \<open>%d\<close> and \<open>strconv.Itoa\<close>.\<close>

definition itoa :: "int \<Rightarrow> string" where
  "itoa i = (if i < 0 then CHR ''-'' # nat_to_string (nat (- i)) else nat_to_string (nat i))"

definition is_digit :: "char \<Rightarrow> bool" where
  "is_digit c \<longleftrightarrow> 48 \<le> (of_char c :: nat) \<and> (of_char c :: nat) \<le> 57"

definition digit_val :: "char \<Rightarrow> nat" where
  "digit_val c = of_char c - 48"

fun digits_value :: "nat \<Rightarrow> string \<Rightarrow> nat" where
  "digits_value acc [] = acc"
| "digits_value acc (c # cs) = digits_value (10 * acc + digit_val c) cs"

text \<open>\<open>strconv.ParseInt(s, 10, 64)\<close> and \<open>strconv.Atoi\<close>: an optional sign, digits, in range.\<close>

definition split_sign :: "string \<Rightarrow> bool \<times> string" where
  "split_sign s = (case s of
      [] \<Rightarrow> (False, [])
    | c # cs \<Rightarrow> if c = CHR ''-'' then (True, cs)
                else if c = CHR ''+'' then (False, cs) else (False, s))"

definition parse_int :: "nat \<Rightarrow> string \<Rightarrow> int option" where
  "parse_int bits s = (let (neg, ds) = split_sign s in
     if ds = [] \<or> \<not> list_all is_digit ds then None
     else let v = int (digits_value 0 ds); i = (if neg then - v else v)
          in if - (2 ^ (bits - 1)) \<le> i \<and> i < 2 ^ (bits - 1) then Some i else None)"

definition Atoi :: "string \<Rightarrow> int option" where
  "Atoi s = parse_int 64 s"

text \<open>
  \<open>fmt.Sscanf(s, "%d", &x)\<close> for an int32 \<open>x\<close>: leading blanks are skipped (a newline is an
  error), the longest signed run of digits is the token, and the rest of the input is ignored.
\<close>

definition is_blank :: "char \<Rightarrow> bool" where
  "is_blank c \<longleftrightarrow> (of_char c :: nat) \<in> {9, 11, 12, 13, 32}"

definition sscanf_int32 :: "string \<Rightarrow> int32 option" where
  "sscanf_int32 s = (let (neg, ds) = split_sign (dropWhile is_blank s); tok = takeWhile is_digit ds in
     if tok = [] then None
     else let v = int (digits_value 0 tok); i = (if neg then - v else v)
          in if - (2 ^ 31) \<le> i \<and> i < 2 ^ 31 then Some (word_of_int i) else None)"

text \<open>\<open>strings.ReplaceAll\<close> for single characters, \<open>HasPrefix\<close>, \<open>HasSuffix\<close>, \<open>Contains\<close>,
  \<open>LastIndex\<close> of a single character, \<open>TrimSpace\<close> and \<open>ToLower\<close> (ASCII).\<close>

definition ReplaceAll :: "string \<Rightarrow> char \<Rightarrow> char \<Rightarrow> string" where
  "ReplaceAll s old new = map (\<lambda>c. if c = old then new else c) s"

fun HasPrefix :: "string \<Rightarrow> string \<Rightarrow> bool" where
  "HasPrefix s [] = True"
| "HasPrefix [] (p # ps) = False"
| "HasPrefix (c # cs) (p # ps) = (c = p \<and> HasPrefix cs ps)"

definition HasSuffix :: "string \<Rightarrow> string \<Rightarrow> bool" where
  "HasSuffix s t = HasPrefix (rev s) (rev t)"

fun Contains :: "string \<Rightarrow> string \<Rightarrow> bool" where
  "Contains [] t = (t = [])"
| "Contains (c # cs) t = (HasPrefix (c # cs) t \<or> Contains cs t)"

text \<open>The part after the last occurrence of a character, \<open>None\<close> when there is none.\<close>

definition after_last :: "char \<Rightarrow> string \<Rightarrow> string option" where
  "after_last c s = (if c \<in> set s then Some (rev (takeWhile (\<lambda>x. x \<noteq> c) (rev s))) else None)"

definition is_space :: "char \<Rightarrow> bool" where
  "is_space c \<longleftrightarrow> (of_char c :: nat) \<in> {9, 10, 11, 12, 13, 32}"

definition TrimSpace :: "string \<Rightarrow> string" where
  "TrimSpace s = rev (dropWhile is_space (rev (dropWhile is_space s)))"

definition lower_char :: "char \<Rightarrow> char" where
  "lower_char c = (if 65 \<le> (of_char c :: nat) \<and> (of_char c :: nat) \<le> 90
     then char_of ((of_char c :: nat) + 32) else c)"

definition ToLower :: "string \<Rightarrow> string" where
  "ToLower s = map lower_char s"

subsection \<open>A program logic for the state monad\<close>

abbreviation return :: "'a \<Rightarrow> ('s, 'a) state" where
  "return \<equiv> State_Monad.return"

definition gets :: "('s \<Rightarrow> 'a) \<Rightarrow> ('s, 'a) state" where
  "gets f = State (\<lambda>s. (f s, s))"

definition modify :: "('s \<Rightarrow> 's) \<Rightarrow> ('s, unit) state" where
  "modify f = State (\<lambda>s. ((), f s))"

text \<open>A \<open>for\<close> loop whose body returns nothing.\<close>

fun for_each :: "'x list \<Rightarrow> ('x \<Rightarrow> ('s, unit) state) \<Rightarrow> ('s, unit) state" where
  "for_each [] f = return ()"
| "for_each (x # xs) f = do { f x; for_each xs f }"

definition exec :: "('s, 'a) state \<Rightarrow> 's \<Rightarrow> 's" where
  "exec m s = snd (run_state m s)"

definition eval_result :: "('s, 'a) state \<Rightarrow> 's \<Rightarrow> 'a" where
  "eval_result m s = fst (run_state m s)"

definition hoare :: "('s \<Rightarrow> bool) \<Rightarrow> ('s, 'a) state \<Rightarrow> ('a \<Rightarrow> 's \<Rightarrow> bool) \<Rightarrow> bool" where
  "hoare P m Q \<longleftrightarrow> (\<forall>s. P s \<longrightarrow> Q (eval_result m s) (exec m s))"

subsection \<open>Transition systems\<close>

text \<open>The states that a step relation reaches from a set of initial states.\<close>

inductive reach :: "('s \<Rightarrow> bool) \<Rightarrow> ('s \<Rightarrow> 's \<Rightarrow> bool) \<Rightarrow> 's \<Rightarrow> bool" for init step where
  reach_init: "init s \<Longrightarrow> reach init step s"
| reach_step: "reach init step s \<Longrightarrow> step s t \<Longrightarrow> reach init step t"

section \<open>Lemmas\<close>

subsection \<open>Decimal numbers\<close>

declare nat_to_string.simps [simp del]

lemma nat_to_string_small [simp]: "n < 10 \<Longrightarrow> nat_to_string n = [digit_char n]"
  by (subst nat_to_string.simps) simp

lemma nat_to_string_step:
  "\<not> n < 10 \<Longrightarrow> nat_to_string n = nat_to_string (n div 10) @ [digit_char (n mod 10)]"
  by (subst nat_to_string.simps) simp

lemma digit_char_props [simp]:
  assumes "d < 10"
  shows "is_digit (digit_char d)" and "digit_val (digit_char d) = d"
  using assms by (auto simp: is_digit_def digit_char_def digit_val_def)

lemma is_digit_neq [simp]: "is_digit c \<Longrightarrow> c \<noteq> CHR ''-''" "is_digit c \<Longrightarrow> c \<noteq> CHR ''+''"
  "\<not> is_digit CHR ''-''" "\<not> is_digit CHR ''+''"
  by (auto simp: is_digit_def)

lemma digits_value_append: "digits_value acc (xs @ ys) = digits_value (digits_value acc xs) ys"
  by (induction xs arbitrary: acc) auto

lemma nat_to_string_value [simp]: "digits_value 0 (nat_to_string n) = n"
proof (induction n rule: nat_to_string.induct)
  case (1 n)
  then show ?case
    by (cases "n < 10") (simp_all add: nat_to_string_step digits_value_append)
qed

lemma nat_to_string_digits [simp]: "list_all is_digit (nat_to_string n)"
proof (induction n rule: nat_to_string.induct)
  case (1 n)
  then show ?case by (cases "n < 10") (simp_all add: nat_to_string_step)
qed

lemma nat_to_string_nonempty [simp]: "nat_to_string n \<noteq> []"
  by (subst nat_to_string.simps) simp

lemma nat_to_string_inject [simp]: "nat_to_string m = nat_to_string n \<longleftrightarrow> m = n"
  by (metis nat_to_string_value)

lemma nat_to_string_no_dash [simp]: "CHR ''-'' \<notin> set (nat_to_string n)"
  using nat_to_string_digits [of n] by (auto simp: list_all_iff)

lemma nat_to_string_Cons:
  obtains d ds where "nat_to_string n = d # ds" and "is_digit d"
  using nat_to_string_digits [of n] nat_to_string_nonempty [of n]
  by (cases "nat_to_string n") auto

lemma split_sign_nat [simp]: "split_sign (nat_to_string n) = (False, nat_to_string n)"
  by (rule nat_to_string_Cons [of n]) (auto simp: split_sign_def)

lemma split_sign_itoa: "split_sign (itoa i) = (i < 0, nat_to_string (nat \<bar>i\<bar>))"
  by (auto simp: itoa_def) (simp add: split_sign_def)

lemma itoa_inject [simp]: "itoa i = itoa j \<longleftrightarrow> i = j"
proof
  assume "itoa i = itoa j"
  then have "split_sign (itoa i) = split_sign (itoa j)" by simp
  then show "i = j" by (auto simp: split_sign_itoa abs_if split: if_splits)
qed simp

lemma parse_int_itoa:
  assumes "- (2 ^ (bits - 1)) \<le> i" and "i < 2 ^ (bits - 1)"
  shows "parse_int bits (itoa i) = Some i"
  using assms by (auto simp: parse_int_def split_sign_itoa Let_def)

lemma itoa_not_blank: "itoa i = c # cs \<Longrightarrow> \<not> is_blank c"
  by (rule nat_to_string_Cons [of "nat i"])
    (auto simp: itoa_def is_blank_def is_digit_def split: if_splits)

lemma dropWhile_blank_itoa [simp]: "dropWhile is_blank (itoa i) = itoa i"
  by (cases "itoa i") (auto dest: itoa_not_blank)

lemma takeWhile_digits [simp]: "takeWhile is_digit (nat_to_string n) = nat_to_string n"
  using nat_to_string_digits [of n] by (simp add: list_all_iff)

lemma sscanf_itoa: "sscanf_int32 (itoa (sint i)) = Some i"
proof -
  have "- (2 ^ 31) \<le> sint i" and "sint i < 2 ^ 31"
    using sint_greater_eq [of i] sint_less [of i] by auto
  then show ?thesis by (auto simp: sscanf_int32_def split_sign_itoa Let_def)
qed

subsection \<open>Strings\<close>

lemma ReplaceAll_length [simp]: "length (ReplaceAll s a b) = length s"
  by (simp add: ReplaceAll_def)

lemma ReplaceAll_back: "b \<notin> set s \<Longrightarrow> ReplaceAll (ReplaceAll s a b) b a = s"
  by (induction s) (auto simp: ReplaceAll_def)

lemma ReplaceAll_inj:
  assumes "b \<notin> set s" and "b \<notin> set t" and "ReplaceAll s a b = ReplaceAll t a b"
  shows "s = t"
  using assms by (metis ReplaceAll_back)

lemma HasPrefix_iff: "HasPrefix s p \<longleftrightarrow> (\<exists>r. s = p @ r)"
  by (induction s p rule: HasPrefix.induct) auto

lemma HasSuffix_iff: "HasSuffix s p \<longleftrightarrow> (\<exists>r. s = r @ p)"
proof -
  have "HasSuffix s p \<longleftrightarrow> (\<exists>r. rev s = rev p @ r)"
    by (simp add: HasSuffix_def HasPrefix_iff)
  also have "\<dots> \<longleftrightarrow> (\<exists>r. s = r @ p)"
    by (metis rev_append rev_rev_ident)
  finally show ?thesis .
qed

lemma after_last_append:
  "c \<notin> set t \<Longrightarrow> after_last c (s @ c # t) = Some t"
proof -
  assume "c \<notin> set t"
  then have "takeWhile (\<lambda>x. x \<noteq> c) (rev t @ c # rev s) = rev t"
    by (subst takeWhile_append2) auto
  then show ?thesis by (simp add: after_last_def)
qed

subsection \<open>Association lists\<close>

lemma alist_update_mem: "x \<in> set (AList.update k v al) \<Longrightarrow> x = (k, v) \<or> x \<in> set al"
  by (induction al) (auto split: if_splits)

lemma alist_delete_mem: "x \<in> set (AList.delete k al) \<Longrightarrow> x \<in> set al \<and> fst x \<noteq> k"
  by (auto simp: AList.delete_eq)

lemma alist_update_distinct [simp]:
  "distinct (map fst al) \<Longrightarrow> distinct (map fst (AList.update k v al))"
  by (rule distinct_update)

lemma alist_delete_distinct [simp]:
  "distinct (map fst al) \<Longrightarrow> distinct (map fst (AList.delete k al))"
  by (rule distinct_delete)

lemma map_of_alist_update [simp]: "map_of (AList.update k v al) = (map_of al)(k \<mapsto> v)"
  by (rule update_conv')

lemma map_of_alist_delete [simp]: "map_of (AList.delete k al) = (map_of al)(k := None)"
  by (rule delete_conv')

lemma length_alist_update:
  "length (AList.update k v al) = (if k \<in> fst ` set al then length al else Suc (length al))"
  by (induction al) auto

subsection \<open>Hoare triples\<close>

lemma run_state_gets [simp]: "run_state (gets f) s = (f s, s)"
  by (simp add: gets_def)

lemma run_state_modify [simp]: "run_state (modify f) s = ((), f s)"
  by (simp add: modify_def)

lemma exec_simps [simp]:
  "exec (return x) s = s"
  "exec (gets f) s = s"
  "exec (modify g) s = g s"
  "exec (State_Monad.bind m k) s = exec (k (eval_result m s)) (exec m s)"
  by (simp_all add: exec_def eval_result_def split: prod.split)

lemma eval_result_simps [simp]:
  "eval_result (return x) s = x"
  "eval_result (gets f) s = f s"
  "eval_result (modify g) s = ()"
  "eval_result (State_Monad.bind m k) s = eval_result (k (eval_result m s)) (exec m s)"
  by (simp_all add: exec_def eval_result_def split: prod.split)

lemma hoareI: "(\<And>s. P s \<Longrightarrow> Q (eval_result m s) (exec m s)) \<Longrightarrow> hoare P m Q"
  by (simp add: hoare_def)

lemma hoareD: "hoare P m Q \<Longrightarrow> P s \<Longrightarrow> Q (eval_result m s) (exec m s)"
  by (simp add: hoare_def)

lemma hoare_conseq:
  assumes "hoare P' m Q'" and "\<And>s. P s \<Longrightarrow> P' s" and "\<And>a s. Q' a s \<Longrightarrow> Q a s"
  shows "hoare P m Q"
  using assms by (simp add: hoare_def)

lemma hoare_return [hoare_intros]: "(\<And>s. P s \<Longrightarrow> Q x s) \<Longrightarrow> hoare P (return x) Q"
  by (simp add: hoare_def)

lemma hoare_bind [hoare_intros]:
  assumes "hoare P m R" and "\<And>a. hoare (R a) (k a) Q"
  shows "hoare P (State_Monad.bind m k) Q"
  using assms by (simp add: hoare_def)

lemma hoare_if [hoare_intros]:
  assumes "b \<Longrightarrow> hoare P m Q" and "\<not> b \<Longrightarrow> hoare P n Q"
  shows "hoare P (if b then m else n) Q"
  using assms by simp

lemma hoare_case_sum [hoare_intros]:
  assumes "\<And>e. x = Inl e \<Longrightarrow> hoare P (f e) Q" and "\<And>a. x = Inr a \<Longrightarrow> hoare P (g a) Q"
  shows "hoare P (case x of Inl e \<Rightarrow> f e | Inr a \<Rightarrow> g a) Q"
  using assms by (cases x) auto

lemma hoare_case_option [hoare_intros]:
  assumes "x = None \<Longrightarrow> hoare P m Q" and "\<And>a. x = Some a \<Longrightarrow> hoare P (g a) Q"
  shows "hoare P (case x of None \<Rightarrow> m | Some a \<Rightarrow> g a) Q"
  using assms by (cases x) auto

lemma hoare_for_each:
  assumes "\<And>x. x \<in> set xs \<Longrightarrow> hoare I (f x) (\<lambda>_. I)"
  shows "hoare I (for_each xs f) (\<lambda>_. I)"
  using assms
proof (induction xs)
  case Nil
  then show ?case by (simp add: hoare_def)
next
  case (Cons x xs)
  have "hoare I (State_Monad.bind (f x) (\<lambda>_. for_each xs f)) (\<lambda>_. I)"
    by (rule hoare_bind [where R = "\<lambda>_. I"]) (use Cons in auto)
  then show ?case by simp
qed

subsection \<open>Frame relations\<close>

lemma io_relI: "(\<And>s. R s (exec m s)) \<Longrightarrow> state_io_rel R m"
  by (simp add: state_io_rel_def exec_def)

lemma io_relD: "state_io_rel R m \<Longrightarrow> R s (exec m s)"
  by (simp add: state_io_rel_def exec_def)

text \<open>
  A preorder on states that an operation stays inside: what it never changes, what it may append
  to the trace. The laws make it compositional, so each operation's frame follows from its parts.
\<close>

locale frame_relation =
  fixes R :: "'s \<Rightarrow> 's \<Rightarrow> bool"
  assumes frame_refl: "R s s"
    and frame_trans: "R s t \<Longrightarrow> R t u \<Longrightarrow> R s u"
begin

lemma frame_return: "state_io_rel R (return x)"
  by (auto simp: frame_refl)

lemma frame_gets: "state_io_rel R (gets f)"
  by (auto simp: frame_refl)

lemma frame_bind:
  assumes "state_io_rel R m" and "\<And>a. state_io_rel R (k a)"
  shows "state_io_rel R (State_Monad.bind m k)"
  unfolding state_io_rel_def
proof
  fix s
  have "R s (exec m s)" and "R (exec m s) (exec (k (eval_result m s)) (exec m s))"
    using assms by (auto simp: state_io_rel_def exec_def)
  then have "R s (exec (State_Monad.bind m k) s)"
    by (simp add: frame_trans)
  then show "R s (snd (run_state (State_Monad.bind m k) s))"
    by (simp only: exec_def)
qed

lemma frame_if:
  "\<lbrakk>b \<Longrightarrow> state_io_rel R m; \<not> b \<Longrightarrow> state_io_rel R n\<rbrakk> \<Longrightarrow> state_io_rel R (if b then m else n)"
  by simp

lemma frame_case_sum:
  "\<lbrakk>\<And>e. x = Inl e \<Longrightarrow> state_io_rel R (f e); \<And>a. x = Inr a \<Longrightarrow> state_io_rel R (g a)\<rbrakk>
   \<Longrightarrow> state_io_rel R (case x of Inl e \<Rightarrow> f e | Inr a \<Rightarrow> g a)"
  by (cases x) simp_all

lemma frame_case_option:
  "\<lbrakk>x = None \<Longrightarrow> state_io_rel R m; \<And>a. x = Some a \<Longrightarrow> state_io_rel R (g a)\<rbrakk>
   \<Longrightarrow> state_io_rel R (case x of None \<Rightarrow> m | Some a \<Rightarrow> g a)"
  by (cases x) simp_all

lemma frame_case_prod:
  "(\<And>a b. x = (a, b) \<Longrightarrow> state_io_rel R (f a b)) \<Longrightarrow> state_io_rel R (case x of (a, b) \<Rightarrow> f a b)"
  by (cases x) simp

lemma frame_let: "(\<And>a. a = x \<Longrightarrow> state_io_rel R (f a)) \<Longrightarrow> state_io_rel R (let a = x in f a)"
  by simp

lemma frame_for_each: "(\<And>x. state_io_rel R (f x)) \<Longrightarrow> state_io_rel R (for_each xs f)"
  by (induction xs) (auto intro: frame_return frame_bind)

lemmas frame_rules =
  frame_return frame_gets frame_bind frame_if frame_case_sum frame_case_option frame_case_prod
  frame_let frame_for_each

end

subsection \<open>Invariants\<close>

text \<open>An inductive invariant of a transition system holds in every state that it reaches.\<close>

locale inductive_invariant =
  fixes init :: "'s \<Rightarrow> bool" and step :: "'s \<Rightarrow> 's \<Rightarrow> bool" and inv :: "'s \<Rightarrow> bool"
  assumes inv_init: "init s \<Longrightarrow> inv s"
    and inv_step: "inv s \<Longrightarrow> step s t \<Longrightarrow> inv t"
begin

lemma inv_reach: "reach init step s \<Longrightarrow> inv s"
  by (induction rule: reach.induct) (auto intro: inv_init inv_step)

end

end
