(* ===== verification/World.thy ===== *)
theory World
  imports Prelude
begin

text \<open>
  The controller's environment. Everything outside the repository that the sources call (the Neo4j
  driver and the Memgraph servers behind it, the Kubernetes API, the informer's store, the
  YAML and JSON codecs, the clock) is a field of the record \<open>environment\<close>: a function of the
  interactions so far, given as the list \<open>trace\<close> (newest first), and of the call's arguments. A
  theorem quantified over all environments holds whatever these parts answer, and however their
  state evolves between two calls. Every call appends one event with its answer to \<open>trace\<close>, so
  safety properties are statements about the events a run appends.
  Beside the calls, a trace records each change of a gateway's upstream (\<open>IoUpstream\<close>), so that
  the order of routing changes and database commands can be stated.
\<close>

section \<open>Definitions\<close>

text \<open>The parts of \<open>v1.Pod\<close> and of the owner references that the sources read.\<close>

record owner_ref =
  Kind :: string
  APIVersion :: string
  OwnerName :: string
  UID :: string

record pod =
  PodName :: string
  PodNamespace :: string
  PodIP :: string
  StartTime :: "int option"
  CreationTimestamp :: int
  Conditions :: "(string \<times> string) list"
  DeletionTimestamp :: "int option"
  Phase :: string
  NodeName :: string
  OwnerReferences :: "owner_ref list"

text \<open>A driver is known by the address it was created for and its instance number.\<close>

type_synonym driver = "string \<times> nat"
type_synonym bolt_record = gomap
type_synonym cm_data = "(string \<times> string) list"

text \<open>Which case of the \<open>select\<close> in \<open>RunQueryWithTimeout\<close> fires.\<close>

datatype select_case = ResultReady | TimedOut | CtxDone go_error

datatype io =
    IoNewDriver string "nat go_result"
  | IoVerify driver "go_error option"
  | IoClose driver "go_error option"
  | IoQuery driver string "bolt_record list go_result"
  | IoSelect string string select_case
  | IoStoreList "pod list"
  | IoStoreGet string "pod option go_result"
  | IoCMGet string "cm_data go_result"
  | IoCMUpdate string cm_data "owner_ref option" "go_error option"
  | IoCMCreate string cm_data "owner_ref option" "go_error option"
  | IoPodGet string "pod go_result"
  | IoRSGet string "owner_ref list go_result"
  | IoRange "string list"
  | IoUpstream string string

type_synonym history = "io list"

record environment =
  env_new_driver :: "history \<Rightarrow> string \<Rightarrow> nat go_result"
  env_verify :: "history \<Rightarrow> driver \<Rightarrow> go_error option"
  env_close :: "history \<Rightarrow> driver \<Rightarrow> go_error option"
  env_query :: "history \<Rightarrow> driver \<Rightarrow> string \<Rightarrow> bolt_record list go_result"
  env_select :: "history \<Rightarrow> string \<Rightarrow> string \<Rightarrow> select_case"
  env_store_list :: "history \<Rightarrow> pod list"
  env_store_get :: "history \<Rightarrow> string \<Rightarrow> pod option go_result"
  env_cm_get :: "history \<Rightarrow> string \<Rightarrow> cm_data go_result"
  env_cm_update :: "history \<Rightarrow> string \<Rightarrow> cm_data \<Rightarrow> owner_ref option \<Rightarrow> go_error option"
  env_cm_create :: "history \<Rightarrow> string \<Rightarrow> cm_data \<Rightarrow> owner_ref option \<Rightarrow> go_error option"
  env_pod_get :: "history \<Rightarrow> string \<Rightarrow> pod go_result"
  env_rs_get :: "history \<Rightarrow> string \<Rightarrow> owner_ref list go_result"
  env_range :: "history \<Rightarrow> string list \<Rightarrow> string list"
  env_yaml :: "string \<Rightarrow> string + gomap"
  env_json :: "gomap \<Rightarrow> string"
  env_print :: "goval \<Rightarrow> string"
  env_getenv :: "string \<Rightarrow> string"

record io_state =
  trace :: history

definition emit :: "io \<Rightarrow> ('z io_state_scheme, unit) state" where
  "emit e = modify (\<lambda>s. s\<lparr>trace := e # trace s\<rparr>)"

definition call :: "(history \<Rightarrow> 'r) \<Rightarrow> ('r \<Rightarrow> io) \<Rightarrow> ('z io_state_scheme, 'r) state" where
  "call f ev = do { h \<leftarrow> gets trace; emit (ev (f h)); return (f h) }"

definition new_driver :: "environment \<Rightarrow> string \<Rightarrow> ('z io_state_scheme, nat go_result) state" where
  "new_driver env a = call (\<lambda>h. env_new_driver env h a) (IoNewDriver a)"

definition verify_connectivity ::
  "environment \<Rightarrow> driver \<Rightarrow> ('z io_state_scheme, go_error option) state" where
  "verify_connectivity env d = call (\<lambda>h. env_verify env h d) (IoVerify d)"

definition close_driver :: "environment \<Rightarrow> driver \<Rightarrow> ('z io_state_scheme, go_error option) state" where
  "close_driver env d = call (\<lambda>h. env_close env h d) (IoClose d)"

definition session_run ::
  "environment \<Rightarrow> driver \<Rightarrow> string \<Rightarrow> ('z io_state_scheme, bolt_record list go_result) state" where
  "session_run env d q = call (\<lambda>h. env_query env h d q) (IoQuery d q)"

definition select_result ::
  "environment \<Rightarrow> string \<Rightarrow> string \<Rightarrow> ('z io_state_scheme, select_case) state" where
  "select_result env a q = call (\<lambda>h. env_select env h a q) (IoSelect a q)"

definition store_list :: "environment \<Rightarrow> ('z io_state_scheme, pod list) state" where
  "store_list env = call (env_store_list env) IoStoreList"

definition store_get :: "environment \<Rightarrow> string \<Rightarrow> ('z io_state_scheme, pod option go_result) state" where
  "store_get env key = call (\<lambda>h. env_store_get env h key) (IoStoreGet key)"

definition cm_get :: "environment \<Rightarrow> string \<Rightarrow> ('z io_state_scheme, cm_data go_result) state" where
  "cm_get env name = call (\<lambda>h. env_cm_get env h name) (IoCMGet name)"

definition cm_update :: "environment \<Rightarrow> string \<Rightarrow> cm_data \<Rightarrow> owner_ref option
    \<Rightarrow> ('z io_state_scheme, go_error option) state" where
  "cm_update env name d ow = call (\<lambda>h. env_cm_update env h name d ow) (IoCMUpdate name d ow)"

definition cm_create :: "environment \<Rightarrow> string \<Rightarrow> cm_data \<Rightarrow> owner_ref option
    \<Rightarrow> ('z io_state_scheme, go_error option) state" where
  "cm_create env name d ow = call (\<lambda>h. env_cm_create env h name d ow) (IoCMCreate name d ow)"

definition pod_get :: "environment \<Rightarrow> string \<Rightarrow> ('z io_state_scheme, pod go_result) state" where
  "pod_get env name = call (\<lambda>h. env_pod_get env h name) (IoPodGet name)"

definition rs_get :: "environment \<Rightarrow> string \<Rightarrow> ('z io_state_scheme, owner_ref list go_result) state" where
  "rs_get env name = call (\<lambda>h. env_rs_get env h name) (IoRSGet name)"

text \<open>
  Go's \<open>range\<close> over a map visits every key once, in an order the runtime picks: the environment
  proposes an order, and a proposal that is not an enumeration of the keys is not taken.
\<close>

definition pick_order :: "string list \<Rightarrow> string list \<Rightarrow> string list" where
  "pick_order keys ord = (if distinct ord \<and> set ord = set keys then ord else keys)"

definition range_keys :: "environment \<Rightarrow> string list \<Rightarrow> ('z io_state_scheme, string list) state" where
  "range_keys env keys = call (\<lambda>h. pick_order keys (env_range env h keys)) IoRange"

text \<open>A run appends only events that satisfy a predicate.\<close>

definition emits :: "(io \<Rightarrow> bool) \<Rightarrow> 'z io_state_scheme \<Rightarrow> 'z io_state_scheme \<Rightarrow> bool" where
  "emits A s t \<longleftrightarrow> (\<exists>new. trace t = new @ trace s \<and> list_all A new)"

text \<open>
  The commands that change a Memgraph instance, and their destination. The events of database
  operations: commands only as admitted, and no change of a gateway's upstream.
\<close>

definition is_command :: "string \<Rightarrow> bool" where
  "is_command q \<longleftrightarrow> HasPrefix q ''SET '' \<or> HasPrefix q ''REGISTER '' \<or> HasPrefix q ''DROP ''"

fun command_to :: "(string \<Rightarrow> string \<Rightarrow> bool) \<Rightarrow> io \<Rightarrow> bool" where
  "command_to A (IoQuery d q r) = (is_command q \<longrightarrow> A (fst d) q)"
| "command_to A (IoUpstream gw a) = False"
| "command_to A _ = True"

definition new_events :: "'z io_state_scheme \<Rightarrow> 'z io_state_scheme \<Rightarrow> io list" where
  "new_events s t = take (length (trace t) - length (trace s)) (trace t)"

section \<open>Lemmas\<close>

lemma emits_refl [simp, intro]: "emits A s s"
  by (simp add: emits_def)

lemma emits_trans: "emits A s t \<Longrightarrow> emits A t u \<Longrightarrow> emits A s u"
  by (fastforce simp: emits_def)

lemma emits_mono: "emits A s t \<Longrightarrow> (\<And>e. A e \<Longrightarrow> B e) \<Longrightarrow> emits B s t"
  by (auto simp: emits_def list_all_iff)

lemma emits_new_events: "emits A s t \<Longrightarrow> list_all A (new_events s t)"
  by (auto simp: emits_def new_events_def)

lemma new_events_append: "trace t = new @ trace s \<Longrightarrow> new_events s t = new"
  by (simp add: new_events_def)

interpretation io_frame: frame_relation "emits A" for A
  by unfold_locales (auto intro: emits_trans)

lemma emits_emit: "A e \<Longrightarrow> state_io_rel (emits A) (emit e)"
  by (rule state_io_relI) (auto simp: emit_def emits_def)

lemma emits_modify: "(\<And>s. trace (f s) = trace s) \<Longrightarrow> state_io_rel (emits A) (modify f)"
  by (rule state_io_relI) (auto simp: emits_def)

lemma emits_call: "(\<And>r. A (ev r)) \<Longrightarrow> state_io_rel (emits A) (call f ev)"
  by (rule state_io_relI) (auto simp: call_def emits_def emit_def)

lemma emits_weaken:
  "state_io_rel (emits A) m \<Longrightarrow> (\<And>e. A e \<Longrightarrow> B e) \<Longrightarrow> state_io_rel (emits B) m"
  by (auto simp: state_io_rel_def intro: emits_mono)

lemmas call_defs =
  new_driver_def verify_connectivity_def close_driver_def session_run_def select_result_def
  store_list_def store_get_def cm_get_def cm_update_def cm_create_def pod_get_def rs_get_def
  range_keys_def

lemma call_run:
  "eval_result (call f ev) s = f (trace s)"
  "exec (call f ev) s = s\<lparr>trace := ev (f (trace s)) # trace s\<rparr>"
  by (simp_all add: call_def emit_def)

lemma pick_order_set [simp]: "set (pick_order keys ord) = set keys"
  by (simp add: pick_order_def)

lemma pick_order_distinct: "distinct keys \<Longrightarrow> distinct (pick_order keys ord)"
  by (simp add: pick_order_def)

subsection \<open>What a run appended\<close>

lemma emits_extends: "emits A s t \<Longrightarrow> \<exists>new. trace t = new @ trace s"
  by (auto simp: emits_def)

lemma new_events_trans:
  assumes "emits A s t" and "emits B t u"
  shows "new_events s u = new_events t u @ new_events s t"
  using assms by (auto simp: emits_def new_events_def)

lemma new_events_refl [simp]: "new_events s s = []"
  by (simp add: new_events_def)

lemma new_events_emits: "emits A s t \<Longrightarrow> e \<in> set (new_events s t) \<Longrightarrow> A e"
  by (drule emits_new_events) (auto simp: list_all_iff)

lemma new_events_cong: "trace t = trace t' \<Longrightarrow> new_events s t = new_events s t'"
  by (simp add: new_events_def)

end
