(* ===== verification/Connection_Pool.thy ===== *)
theory Connection_Pool
  imports World
begin

text \<open>
  \<open>internal/controller/connection_pool.go\<close>: the pool of Neo4j drivers, one per Bolt address, and
  the record of each pod's last known IP. The two maps are association lists with distinct keys.
  The mutex makes each operation atomic. In \<open>RunQueryWithTimeout\<close> the query runs to its end and
  \<open>select_result\<close> says which case of the \<open>select\<close> fired; on a timeout the answer is dropped
  but what the query did to the pool and to the server stays, as the goroutine is not stopped.
\<close>

section \<open>Definitions\<close>

record pool_state = io_state +
  drivers :: "(string \<times> driver) list"
  podIPs :: "(string \<times> string) list"

definition put_driver :: "string \<Rightarrow> driver \<Rightarrow> ('z pool_state_scheme, unit) state" where
  "put_driver a d = modify (\<lambda>s. s\<lparr>drivers := AList.update a d (drivers s)\<rparr>)"

definition delete_driver :: "string \<Rightarrow> ('z pool_state_scheme, unit) state" where
  "delete_driver a = modify (\<lambda>s. s\<lparr>drivers := AList.delete a (drivers s)\<rparr>)"

definition createDriver :: "environment \<Rightarrow> string \<Rightarrow> ('z pool_state_scheme, driver go_result) state" where
  "createDriver env boltAddress = do {
     ds \<leftarrow> gets drivers;
     case map_of ds boltAddress of
       Some d \<Rightarrow> return (Inr d)
     | None \<Rightarrow> do {
         r \<leftarrow> new_driver env boltAddress;
         case r of
           Inl e \<Rightarrow> return (Inl (Wrapped (''failed to create driver for '' @ boltAddress) e))
         | Inr n \<Rightarrow> do {
             v \<leftarrow> verify_connectivity env (boltAddress, n);
             case v of
               Some e \<Rightarrow> do {
                 close_driver env (boltAddress, n);
                 return (Inl (Wrapped (''failed to verify connectivity to '' @ boltAddress) e)) }
             | None \<Rightarrow> do {
                 put_driver boltAddress (boltAddress, n);
                 return (Inr (boltAddress, n)) } } } }"

definition removeDriver :: "environment \<Rightarrow> string \<Rightarrow> ('z pool_state_scheme, unit go_result) state" where
  "removeDriver env boltAddress = do {
     ds \<leftarrow> gets drivers;
     case map_of ds boltAddress of
       None \<Rightarrow> return (Inr ())
     | Some d \<Rightarrow> do {
         c \<leftarrow> close_driver env d;
         case c of
           Some e \<Rightarrow> return (Inl (Wrapped (''failed to close driver for '' @ boltAddress) e))
         | None \<Rightarrow> do { delete_driver boltAddress; return (Inr ()) } } }"

text \<open>The branch of \<open>GetDriver\<close> for a pooled driver: use it if it still answers, replace it if not.\<close>

definition recheck_driver ::
  "environment \<Rightarrow> string \<Rightarrow> driver \<Rightarrow> ('z pool_state_scheme, driver go_result) state" where
  "recheck_driver env boltAddress d = do {
     v \<leftarrow> verify_connectivity env d;
     case v of
       None \<Rightarrow> return (Inr d)
     | Some e \<Rightarrow> do { removeDriver env boltAddress; createDriver env boltAddress } }"

definition GetDriver :: "environment \<Rightarrow> string \<Rightarrow> ('z pool_state_scheme, driver go_result) state" where
  "GetDriver env boltAddress =
     (if boltAddress = '''' then return (Inl (ErrorString ''bolt address is empty''))
      else do {
        ds \<leftarrow> gets drivers;
        case map_of ds boltAddress of
          None \<Rightarrow> createDriver env boltAddress
        | Some d \<Rightarrow> recheck_driver env boltAddress d })"

definition UpdatePodIP ::
  "environment \<Rightarrow> string \<Rightarrow> string \<Rightarrow> ('z pool_state_scheme, unit) state" where
  "UpdatePodIP env podName newIP = do {
     ips \<leftarrow> gets podIPs;
     ds \<leftarrow> gets drivers;
     (case map_of ips podName of
        None \<Rightarrow> return ()
      | Some existingIP \<Rightarrow>
          if existingIP = newIP then return ()
          else (case map_of ds (existingIP @ '':7687'') of
                  None \<Rightarrow> return ()
                | Some d \<Rightarrow> do { close_driver env d; delete_driver (existingIP @ '':7687'') }));
     modify (\<lambda>s. s\<lparr>podIPs := AList.update podName newIP (podIPs s)\<rparr>) }"

definition InvalidatePodConnection ::
  "environment \<Rightarrow> string \<Rightarrow> ('z pool_state_scheme, unit) state" where
  "InvalidatePodConnection env podName = do {
     ips \<leftarrow> gets podIPs;
     ds \<leftarrow> gets drivers;
     case map_of ips podName of
       None \<Rightarrow> return ()
     | Some ip \<Rightarrow> (case map_of ds (ip @ '':7687'') of
         None \<Rightarrow> return ()
       | Some d \<Rightarrow> do { close_driver env d; delete_driver (ip @ '':7687'') }) }"

definition pool_InvalidateConnection ::
  "environment \<Rightarrow> string \<Rightarrow> ('z pool_state_scheme, unit go_result) state" where
  "pool_InvalidateConnection env boltAddress = removeDriver env boltAddress"

definition close_pooled :: "environment \<Rightarrow> string \<Rightarrow> ('z pool_state_scheme, unit) state" where
  "close_pooled env a = do {
     ds \<leftarrow> gets drivers;
     case map_of ds a of None \<Rightarrow> return () | Some d \<Rightarrow> do { close_driver env d; return () } }"

definition pool_Close :: "environment \<Rightarrow> ('z pool_state_scheme, unit) state" where
  "pool_Close env = do {
     ds \<leftarrow> gets drivers;
     keys \<leftarrow> range_keys env (map fst ds);
     for_each keys (close_pooled env);
     modify (\<lambda>s. s\<lparr>drivers := [], podIPs := []\<rparr>) }"

definition RunQuery ::
  "environment \<Rightarrow> string \<Rightarrow> string \<Rightarrow> ('z pool_state_scheme, bolt_record list go_result) state" where
  "RunQuery env boltAddress query = do {
     r \<leftarrow> GetDriver env boltAddress;
     case r of
       Inl e \<Rightarrow> return (Inl (Wrapped (''failed to get driver for '' @ boltAddress) e))
     | Inr d \<Rightarrow> session_run env d query }"

text \<open>The timeout is in whole seconds, as all callers give it.\<close>

definition RunQueryWithTimeout :: "environment \<Rightarrow> string \<Rightarrow> string \<Rightarrow> nat
    \<Rightarrow> ('z pool_state_scheme, bolt_record list go_result) state" where
  "RunQueryWithTimeout env boltAddress query timeout =
     (if boltAddress = '''' then return (Inl (ErrorString ''bolt address is empty''))
      else do {
        res \<leftarrow> RunQuery env boltAddress query;
        c \<leftarrow> select_result env boltAddress query;
        case c of
          ResultReady \<Rightarrow> return res
        | TimedOut \<Rightarrow> return (Inl (ErrorString
            (''bolt query timed out after '' @ itoa (int timeout) @ ''s'')))
        | CtxDone e \<Rightarrow> return (Inl e) })"

text \<open>Well-formedness: one driver per address, created for that address, and verified.\<close>

definition pool_wf :: "'z pool_state_scheme \<Rightarrow> bool" where
  "pool_wf s \<longleftrightarrow> distinct (map fst (drivers s)) \<and>
     (\<forall>(a, d) \<in> set (drivers s). fst d = a \<and> IoVerify d None \<in> set (trace s))"

text \<open>
  A step from a well-formed pool: it keeps the pool well-formed, appends only \<open>A\<close>-events and
  leaves every field outside the pool alone.
\<close>

definition pool_step ::
  "(io \<Rightarrow> bool) \<Rightarrow> 'z pool_state_scheme \<Rightarrow> 'z pool_state_scheme \<Rightarrow> bool" where
  "pool_step A s t \<longleftrightarrow>
     (pool_wf s \<longrightarrow> pool_wf t \<and> emits A s t \<and> pool_state.more t = pool_state.more s)"

text \<open>Events of one query on one address: the query goes to that address and nowhere else.\<close>

fun query_event :: "string \<Rightarrow> string \<Rightarrow> io \<Rightarrow> bool" where
  "query_event a q (IoQuery d q' r) = (fst d = a \<and> q' = q)"
| "query_event a q (IoNewDriver a' r) = (a' = a)"
| "query_event a q (IoVerify d r) = (fst d = a)"
| "query_event a q (IoClose d r) = (fst d = a)"
| "query_event a q (IoSelect a' q' c) = (a' = a \<and> q' = q)"
| "query_event a q _ = False"

definition pool_event :: "io \<Rightarrow> bool" where
  "pool_event e = (case e of IoClose d r \<Rightarrow> True | IoRange ks \<Rightarrow> True | _ \<Rightarrow> False)"

text \<open>An answer to a query was given by the server at the queried address.\<close>

definition answered :: "string \<Rightarrow> string \<Rightarrow> bolt_record list \<Rightarrow> io list \<Rightarrow> bool" where
  "answered a q rs evs \<longleftrightarrow> (\<exists>n. IoQuery (a, n) q (Inr rs) \<in> set evs)"

section \<open>Lemmas\<close>

lemma pool_wf_grow:
  assumes "pool_wf s" and "drivers t = drivers s" and "set (trace s) \<subseteq> set (trace t)"
  shows "pool_wf t"
  using assms by (fastforce simp: pool_wf_def)

lemma pool_wf_lookup: "pool_wf s \<Longrightarrow> map_of (drivers s) a = Some d \<Longrightarrow> fst d = a"
  by (auto simp: pool_wf_def dest: map_of_SomeD)

lemma pool_wf_trace: "pool_wf s \<Longrightarrow> set (trace s) \<subseteq> set h \<Longrightarrow> pool_wf (s\<lparr>trace := h\<rparr>)"
  by (rule pool_wf_grow) auto

lemma pool_wf_put:
  assumes "pool_wf s" and "IoVerify (a, n) None \<in> set h" and "set (trace s) \<subseteq> set h"
  shows "pool_wf (s\<lparr>trace := h, drivers := AList.update a (a, n) (drivers s)\<rparr>)"
  using assms by (auto simp: pool_wf_def dest!: alist_update_mem)

lemma pool_wf_delete: "pool_wf s \<Longrightarrow> pool_wf (s\<lparr>drivers := AList.delete a (drivers s)\<rparr>)"
  by (auto simp: pool_wf_def dest!: alist_delete_mem)

lemma pool_wf_cut:
  "pool_wf s \<Longrightarrow> set (trace s) \<subseteq> set h \<Longrightarrow>
   pool_wf (s\<lparr>trace := h, drivers := AList.delete a (drivers s)\<rparr>)"
  by (fastforce simp: pool_wf_def dest!: alist_delete_mem)

interpretation pool_frame: frame_relation "pool_step A" for A
  by unfold_locales (auto simp: pool_step_def intro: emits_trans)

lemma pool_step_call [intro]: "(\<And>r. A (ev r)) \<Longrightarrow> state_io_rel (pool_step A) (call f ev)"
  by (rule state_io_relI)
    (auto simp: call_def emit_def pool_step_def emits_def elim!: pool_wf_grow)

lemma pool_step_delete [intro]: "state_io_rel (pool_step A) (delete_driver a)"
  by (rule state_io_relI) (auto simp: delete_driver_def pool_step_def emits_def intro: pool_wf_delete)

lemma pool_step_weaken:
  "state_io_rel (pool_step A) m \<Longrightarrow> (\<And>e. A e \<Longrightarrow> B e) \<Longrightarrow> state_io_rel (pool_step B) m"
  by (auto simp: state_io_rel_def pool_step_def intro: emits_mono)

lemma pool_step_modify:
  "(\<And>s. trace (f s) = trace s) \<Longrightarrow> (\<And>s. drivers (f s) = drivers s) \<Longrightarrow>
   (\<And>s. pool_state.more (f s) = pool_state.more s) \<Longrightarrow> state_io_rel (pool_step A) (modify f)"
  by (rule state_io_relI) (auto simp: pool_step_def emits_def elim!: pool_wf_grow)

lemma createDriver_step: "state_io_rel (pool_step (query_event a q)) (createDriver env a)"
  by (rule state_io_relI)
    (auto simp: createDriver_def call_defs call_def emit_def put_driver_def pool_step_def emits_def
      split: option.splits sum.splits intro!: pool_wf_trace pool_wf_put)

lemmas pool_step_rules [intro] = pool_frame.frame_rules pool_step_call pool_step_delete

lemma removeDriver_step: "state_io_rel (pool_step (query_event a q)) (removeDriver env a)"
  by (rule state_io_relI)
    (auto simp: removeDriver_def call_defs call_def emit_def delete_driver_def pool_step_def emits_def
      dest: pool_wf_lookup split: option.splits intro!: pool_wf_trace pool_wf_cut)

lemma recheck_driver_step:
  "fst d = a \<Longrightarrow> state_io_rel (pool_step (query_event a q)) (recheck_driver env a d)"
  unfolding recheck_driver_def verify_connectivity_def
  by (intro pool_frame.frame_rules createDriver_step removeDriver_step pool_step_call) simp_all

lemma GetDriver_cases:
  obtains "a = ''''" and "exec (GetDriver env a) s = s"
    and "eval_result (GetDriver env a) s = Inl (ErrorString ''bolt address is empty'')"
  | "exec (GetDriver env a) s = exec (createDriver env a) s"
    and "eval_result (GetDriver env a) s = eval_result (createDriver env a) s"
  | d where "map_of (drivers s) a = Some d"
    and "exec (GetDriver env a) s = exec (recheck_driver env a d) s"
    and "eval_result (GetDriver env a) s = eval_result (recheck_driver env a d) s"
  by (cases "a = ''''"; cases "map_of (drivers s) a") (simp_all add: GetDriver_def)

lemma GetDriver_step: "state_io_rel (pool_step (query_event a q)) (GetDriver env a)"
proof (rule io_relI)
  fix s :: "'z pool_state_scheme"
  show "pool_step (query_event a q) s (exec (GetDriver env a) s)"
  proof (cases rule: GetDriver_cases [of a env s])
    case 1
    then show ?thesis by (simp add: pool_frame.frame_refl)
  next
    case 2
    then show ?thesis using io_relD [OF createDriver_step] by simp
  next
    case (3 d)
    show ?thesis
    proof (cases "pool_wf s")
      case True
      with 3 show ?thesis by (metis io_relD [OF recheck_driver_step] pool_wf_lookup)
    qed (simp add: pool_step_def)
  qed
qed

lemma createDriver_addr:
  "pool_wf s \<Longrightarrow> eval_result (createDriver env a) s = Inr d \<Longrightarrow> fst d = a"
  by (auto simp: createDriver_def call_defs call_run dest: pool_wf_lookup split: option.splits sum.splits)

lemma recheck_driver_addr:
  fixes s :: "'z pool_state_scheme"
  assumes "pool_wf s" and "fst d = a" and "eval_result (recheck_driver env a d) s = Inr d'"
  shows "fst d' = a"
proof -
  have "pool_wf (exec (removeDriver env a) t)" if "pool_wf t" for t :: "'z pool_state_scheme"
    using io_relD [OF removeDriver_step [of a "''''" env], of t] that by (simp add: pool_step_def)
  then have "pool_wf (exec (removeDriver env a) (s\<lparr>trace := h # trace s\<rparr>))" for h
    using assms(1) by (simp add: pool_wf_trace subset_insertI)
  from createDriver_addr [OF this] show ?thesis
    using assms(2,3) by (simp add: recheck_driver_def verify_connectivity_def call_run split: option.splits)
qed

lemma GetDriver_addr:
  "pool_wf s \<Longrightarrow> eval_result (GetDriver env a) s = Inr d \<Longrightarrow> fst d = a"
  by (cases rule: GetDriver_cases [of a env s])
    (auto dest: createDriver_addr recheck_driver_addr pool_wf_lookup)

text \<open>A query reaches only the address it is meant for, whatever the pool held before.\<close>

lemma RunQuery_step: "state_io_rel (pool_step (query_event a q)) (RunQuery env a q)"
proof (rule io_relI)
  fix s :: "'z pool_state_scheme"
  let ?d = "eval_result (GetDriver env a) s" and ?s = "exec (GetDriver env a) s"
  have "pool_step (query_event a q) s ?s"
    by (rule io_relD [OF GetDriver_step])
  moreover have "pool_step (query_event a q) ?s (exec (RunQuery env a q) s)" if "pool_wf s"
    using GetDriver_addr [OF that, of env a]
    by (cases ?d)
      (auto simp: RunQuery_def session_run_def call_run pool_step_def emits_def intro!: pool_wf_trace)
  ultimately show "pool_step (query_event a q) s (exec (RunQuery env a q) s)"
    by (auto simp: pool_step_def intro: emits_trans)
qed

lemma RunQueryWithTimeout_step:
  "state_io_rel (pool_step (query_event a q)) (RunQueryWithTimeout env a q n)"
  unfolding RunQueryWithTimeout_def select_result_def
  by (intro pool_frame.frame_if pool_frame.frame_return pool_frame.frame_bind RunQuery_step
      pool_step_call, simp, simp split: select_case.split, intro conjI allI pool_frame.frame_return impI)

text \<open>The remaining operations close and forget drivers, and nothing else.\<close>

lemma UpdatePodIP_step: "state_io_rel (pool_step pool_event) (UpdatePodIP env n ip)"
  unfolding UpdatePodIP_def close_driver_def
  by (intro pool_frame.frame_rules pool_step_call pool_step_delete pool_step_modify)
    (simp_all add: pool_event_def)

lemma InvalidatePodConnection_step:
  "state_io_rel (pool_step pool_event) (InvalidatePodConnection env n)"
  unfolding InvalidatePodConnection_def close_driver_def
  by (intro pool_frame.frame_rules pool_step_call pool_step_delete) (simp_all add: pool_event_def)

lemma pool_InvalidateConnection_step:
  "state_io_rel (pool_step pool_event) (pool_InvalidateConnection env a)"
  unfolding pool_InvalidateConnection_def removeDriver_def close_driver_def
  by (intro pool_frame.frame_rules pool_step_call pool_step_delete) (simp_all add: pool_event_def)

lemma pool_step_clear: "state_io_rel (pool_step A) (modify (\<lambda>s. s\<lparr>drivers := [], podIPs := []\<rparr>))"
  by (rule state_io_relI) (auto simp: pool_step_def pool_wf_def emits_def)

lemma pool_Close_step: "state_io_rel (pool_step pool_event) (pool_Close env)"
  unfolding pool_Close_def close_pooled_def close_driver_def range_keys_def
  by (intro pool_frame.frame_rules pool_step_call pool_step_clear) (simp_all add: pool_event_def)

text \<open>The driver that \<open>createDriver\<close> returns is the pooled one.\<close>

lemma createDriver_pooled:
  "eval_result (createDriver env a) s = Inr d \<Longrightarrow> map_of (drivers (exec (createDriver env a) s)) a = Some d"
  by (auto simp: createDriver_def call_defs call_run put_driver_def split: option.splits sum.splits)

lemma answered_append [simp]: "answered a q rs (xs @ ys) \<longleftrightarrow> answered a q rs xs \<or> answered a q rs ys"
  by (auto simp: answered_def)

lemma RunQuery_answered:
  assumes "pool_wf s" and "eval_result (RunQuery env a q) s = Inr rs"
  shows "answered a q rs (new_events s (exec (RunQuery env a q) s))"
proof -
  let ?s = "exec (GetDriver env a) s"
  obtain d where d: "eval_result (GetDriver env a) s = Inr d"
    using assms(2) by (cases "eval_result (GetDriver env a) s") (auto simp: RunQuery_def)
  then have a: "fst d = a"
    using GetDriver_addr assms(1) by blast
  have t: "trace (exec (RunQuery env a q) s) = IoQuery d q (Inr rs) # trace ?s"
    using assms(2) d by (simp add: RunQuery_def session_run_def call_run)
  have "\<exists>new. trace ?s = new @ trace s"
    using io_relD [OF GetDriver_step [of a q env], of s] assms(1)
    by (auto simp: pool_step_def emits_def)
  then show ?thesis
    using t a by (auto simp: answered_def new_events_def intro: exI [of _ "snd d"])
qed

lemma RunQueryWithTimeout_answered:
  assumes "pool_wf s" and "eval_result (RunQueryWithTimeout env a q n) s = Inr rs"
  shows "answered a q rs (new_events s (exec (RunQueryWithTimeout env a q n) s))"
proof -
  let ?s = "exec (RunQuery env a q) s" and ?t = "exec (RunQueryWithTimeout env a q n) s"
  have "eval_result (RunQuery env a q) s = Inr rs"
    using assms(2)
    by (auto simp: RunQueryWithTimeout_def select_result_def call_run split: if_splits select_case.splits)
  then have "answered a q rs (new_events s ?s)"
    using RunQuery_answered assms(1) by blast
  moreover have "emits (\<lambda>_. True) ?s ?t"
    using assms(2)
    by (auto simp: RunQueryWithTimeout_def select_result_def call_run emits_def
        split: if_splits select_case.splits)
  moreover have "emits (query_event a q) s ?s"
    using io_relD [OF RunQuery_step [of a q env], of s] assms(1) by (simp add: pool_step_def)
  ultimately show ?thesis by (metis answered_append new_events_trans)
qed

end
