(* ===== verification/Data_Info.thy ===== *)
theory Data_Info
  imports World
begin

text \<open>
  The pure half of \<open>internal/controller/memgraph_client.go\<close>: the rows of \<open>SHOW REPLICAS\<close>
  and \<open>SHOW STORAGE INFO\<close>, the decoding of \<open>data_info\<close> from a string (through the YAML decoder,
  a parameter) or from a map the driver already decoded, and the health assessment of a replica.
  A nil \<open>*DataInfoStatus\<close> is \<open>None\<close>.
\<close>

section \<open>Definitions\<close>

record DataInfoStatus =
  di_Behind :: int
  di_Status :: string
  di_Timestamp :: int
  di_IsHealthy :: bool
  di_ErrorReason :: string

record ReplicaInfo =
  ri_Name :: string
  ri_SocketAddress :: string
  ri_SyncMode :: string
  ri_SystemInfo :: string
  ri_DataInfo :: string
  ri_ParsedDataInfo :: "DataInfoStatus option"

record StorageInfo =
  VertexCount :: int
  EdgeCount :: int

definition replica_GetPodName :: "ReplicaInfo \<Rightarrow> string" where
  "replica_GetPodName ri = ReplaceAll (ri_Name ri) CHR ''_'' CHR ''-''"

definition IsHealthy :: "ReplicaInfo \<Rightarrow> bool" where
  "IsHealthy ri = (case ri_ParsedDataInfo ri of None \<Rightarrow> False | Some d \<Rightarrow> di_IsHealthy d)"

definition GetHealthReason :: "ReplicaInfo \<Rightarrow> string" where
  "GetHealthReason ri = (case ri_ParsedDataInfo ri of
      None \<Rightarrow> ''No health information available''
    | Some d \<Rightarrow> if di_IsHealthy d then ''Replica is healthy'' else di_ErrorReason d)"

definition RequiresRecovery :: "ReplicaInfo \<Rightarrow> bool" where
  "RequiresRecovery ri = (case ri_ParsedDataInfo ri of
      None \<Rightarrow> False
    | Some d \<Rightarrow>
        if di_Status d = ''invalid'' then True
        else if di_Status d = ''empty'' then True
        else if di_Status d = ''malformed'' \<or> di_Status d = ''parse_error'' then False
        else if di_Status d = ''ready'' then False
        else di_Behind d < 0)"

definition GetRecoveryAction :: "ReplicaInfo \<Rightarrow> string" where
  "GetRecoveryAction ri = (if IsHealthy ri then ''none''
     else case ri_ParsedDataInfo ri of
        None \<Rightarrow> ''investigate''
      | Some d \<Rightarrow>
          if di_Status d = ''invalid'' then ''re-register''
          else if di_Status d = ''empty'' then ''restart-pod''
          else if di_Status d = ''malformed'' \<or> di_Status d = ''parse_error'' then ''investigate''
          else if di_Behind d < - 10 then ''manual-intervention''
          else ''re-register'')"

definition assessReplicationHealth :: "string \<Rightarrow> int \<Rightarrow> bool \<times> string" where
  "assessReplicationHealth st behind =
     (if st = ''ready'' \<and> behind \<ge> 0 then (True, '''')
      else if st = ''invalid'' then (False, ''Replication status marked as invalid'')
      else if st = ''replicating'' then
        (if behind < 0
         then (False, ''Replication in progress but behind is negative: '' @ itoa behind)
         else (False, ''Replication in progress (transitional state)''))
      else if behind < 0 then (False, ''Negative replication lag detected: '' @ itoa behind)
      else if st = ''empty'' then (False, ''Empty data_info indicates connection failure'')
      else if st = ''unknown'' \<or> st = ''malformed''
        then (False, ''Unable to determine replication health'')
      else (False, ''Unknown replication status: '' @ st))"

definition bad_status :: "string \<Rightarrow> int \<Rightarrow> string \<Rightarrow> DataInfoStatus" where
  "bad_status st behind reason =
     \<lparr>di_Behind = behind, di_Status = st, di_Timestamp = 0, di_IsHealthy = False,
      di_ErrorReason = reason\<rparr>"

definition assessed :: "string \<Rightarrow> int \<Rightarrow> int \<Rightarrow> DataInfoStatus" where
  "assessed st behind ts =
     \<lparr>di_Behind = behind, di_Status = st, di_Timestamp = ts,
      di_IsHealthy = fst (assessReplicationHealth st behind),
      di_ErrorReason = snd (assessReplicationHealth st behind)\<rparr>"

text \<open>Type assertions on the decoded map: the default unless the key is there with that type.\<close>

definition int_field :: "gomap \<Rightarrow> string \<Rightarrow> int \<Rightarrow> int" where
  "int_field m k d = (case map_of m k of Some (VInt i) \<Rightarrow> i | _ \<Rightarrow> d)"

definition str_field :: "gomap \<Rightarrow> string \<Rightarrow> string \<Rightarrow> string" where
  "str_field m k d = (case map_of m k of Some (VString x) \<Rightarrow> x | _ \<Rightarrow> d)"

text \<open>The decoder \<open>env_yaml\<close> returns the error text or the top-level map.\<close>

definition parseDataInfo :: "environment \<Rightarrow> string \<Rightarrow> DataInfoStatus go_result" where
  "parseDataInfo env raw = (let str = TrimSpace raw in
     if str = '''' then Inr (bad_status ''unknown'' (- 1) ''Missing data_info field'')
     else if str = ''{}'' then
       Inr (bad_status ''empty'' 0 ''Empty data_info - possible connection failure'')
     else case env_yaml env str of
       Inl e \<Rightarrow> Inr (bad_status ''malformed'' (- 1) (''Unable to parse data_info YAML: '' @ e))
     | Inr yamlData \<Rightarrow> (case map_of yamlData ''memgraph'' of
         None \<Rightarrow> Inr (bad_status ''malformed'' (- 1) ''Missing 'memgraph' key in data_info'')
       | Some (VMap memgraphMap) \<Rightarrow>
           let behind = int_field memgraphMap ''behind'' (- 1);
               st = str_field memgraphMap ''status'' ''unknown'';
               ts = int_field memgraphMap ''ts'' 0
           in Inr (assessed st behind ts)
       | Some _ \<Rightarrow> Inr (bad_status ''malformed'' (- 1) ''Invalid memgraph data structure'')))"

text \<open>Go's type switch over the numeric types, \<open>None\<close> for its default case.\<close>

fun switch_int :: "goval \<Rightarrow> int option" where
  "switch_int (VInt v) = Some v"
| "switch_int (VInt64 v) = Some v"
| "switch_int (VFloat64 f) = Some (float_to_int f)"
| "switch_int VNonFinite = Some (- (2 ^ 63))"
| "switch_int _ = None"

definition parse_ts :: "gomap \<Rightarrow> int" where
  "parse_ts m = (case map_of m ''ts'' of None \<Rightarrow> 0
     | Some v \<Rightarrow> (case switch_int v of None \<Rightarrow> 0 | Some t \<Rightarrow> t))"

definition parse_status :: "gomap \<Rightarrow> int \<Rightarrow> DataInfoStatus" where
  "parse_status m behind = (case map_of m ''status'' of
      None \<Rightarrow> assessed ''unknown'' behind (parse_ts m)
    | Some (VString st) \<Rightarrow> assessed st behind (parse_ts m)
    | Some v \<Rightarrow> bad_status ''malformed'' (- 1) (''Invalid 'status' value type: '' @ type_name v))"

definition parseDataInfoMap :: "gomap \<Rightarrow> DataInfoStatus go_result" where
  "parseDataInfoMap dataInfoMap = (case map_of dataInfoMap ''memgraph'' of
      None \<Rightarrow> Inr (bad_status ''malformed'' (- 1) ''Missing 'memgraph' key in data_info'')
    | Some (VMap m) \<Rightarrow> (case map_of m ''behind'' of
        None \<Rightarrow> Inr (parse_status m (- 1))
      | Some v \<Rightarrow> (case switch_int v of
          Some b \<Rightarrow> Inr (parse_status m b)
        | None \<Rightarrow> Inr (bad_status ''malformed'' (- 1)
                          (''Invalid 'behind' value type: '' @ type_name v))))
    | Some _ \<Rightarrow> Inr (bad_status ''malformed'' (- 1) ''Invalid 'memgraph' value type in data_info''))"

text \<open>The \<open>data_info\<close> field of a row: the raw text kept beside it and its parsed form.\<close>

definition record_data_info :: "environment \<Rightarrow> bolt_record \<Rightarrow> string \<times> DataInfoStatus" where
  "record_data_info env r = (case map_of r ''data_info'' of
      None \<Rightarrow> ('''', bad_status ''missing'' (- 1)
                 ''data_info field not present in SHOW REPLICAS output'')
    | Some (VString str) \<Rightarrow> (str, case parseDataInfo env str of
          Inl e \<Rightarrow> bad_status ''parse_error'' (- 1) (''Parse error: '' @ Error e)
        | Inr d \<Rightarrow> d)
    | Some (VMap m) \<Rightarrow> (env_json env m, case parseDataInfoMap m of
          Inl e \<Rightarrow> bad_status ''parse_error'' (- 1) (''Map parse error: '' @ Error e)
        | Inr d \<Rightarrow> d)
    | Some v \<Rightarrow> (env_print env v, bad_status ''type_error'' (- 1)
                  (''data_info field has unexpected type: '' @ type_name v)))"

definition record_replica :: "environment \<Rightarrow> bolt_record \<Rightarrow> ReplicaInfo" where
  "record_replica env r =
     \<lparr>ri_Name = str_field r ''name'' '''',
      ri_SocketAddress = str_field r ''socket_address'' '''',
      ri_SyncMode = str_field r ''sync_mode'' '''',
      ri_SystemInfo = str_field r ''system_info'' '''',
      ri_DataInfo = fst (record_data_info env r),
      ri_ParsedDataInfo = Some (snd (record_data_info env r))\<rparr>"

text \<open>One row of \<open>SHOW STORAGE INFO\<close> folded into the counts read so far.\<close>

definition record_storage :: "StorageInfo \<Rightarrow> bolt_record \<Rightarrow> StorageInfo" where
  "record_storage si r =
     (let si1 = (case map_of r ''storage info'' of
                   Some (VString _) \<Rightarrow> \<lparr>VertexCount = 0, EdgeCount = 0\<rparr> | _ \<Rightarrow> si);
          si2 = (case map_of r ''vertex_count'' of
                   Some (VInt64 c) \<Rightarrow> si1\<lparr>VertexCount := c\<rparr> | _ \<Rightarrow> si1)
      in (case map_of r ''edge_count'' of
            Some (VInt64 c) \<Rightarrow> si2\<lparr>EdgeCount := c\<rparr> | _ \<Rightarrow> si2))"

definition records_storage :: "bolt_record list \<Rightarrow> StorageInfo" where
  "records_storage rs = foldl record_storage \<lparr>VertexCount = 0, EdgeCount = 0\<rparr> rs"

text \<open>What every parsed status satisfies: the health flag is the specification of health, and an
  unhealthy status says why.\<close>

definition status_wf :: "DataInfoStatus \<Rightarrow> bool" where
  "status_wf d \<longleftrightarrow>
     (di_IsHealthy d = (di_Status d = ''ready'' \<and> 0 \<le> di_Behind d)) \<and>
     (di_IsHealthy d = (di_ErrorReason d = ''''))"

definition replica_wf :: "ReplicaInfo \<Rightarrow> bool" where
  "replica_wf ri = (case ri_ParsedDataInfo ri of None \<Rightarrow> False | Some d \<Rightarrow> status_wf d)"

text \<open>A decoder that returns a given map.\<close>

definition yaml_env :: "gomap \<Rightarrow> environment \<Rightarrow> environment" where
  "yaml_env m env = env\<lparr>env_yaml := (\<lambda>_. Inr m)\<rparr>"

section \<open>Lemmas\<close>

lemma assess_health_iff:
  "fst (assessReplicationHealth st b) \<longleftrightarrow> st = ''ready'' \<and> 0 \<le> b"
  by (auto simp: assessReplicationHealth_def)

lemma assess_reason_iff:
  "snd (assessReplicationHealth st b) = '''' \<longleftrightarrow> st = ''ready'' \<and> 0 \<le> b"
  by (auto simp: assessReplicationHealth_def)

lemma assessed_wf [simp]: "status_wf (assessed st b t)"
  by (simp add: status_wf_def assessed_def assess_health_iff assess_reason_iff)

lemma bad_status_wf [simp]:
  "st \<noteq> ''ready'' \<Longrightarrow> r \<noteq> '''' \<Longrightarrow> status_wf (bad_status st b r)"
  by (simp add: status_wf_def bad_status_def)

lemma parse_status_wf [simp]: "status_wf (parse_status m b)"
  by (simp add: parse_status_def split: option.split goval.split)

lemma parseDataInfo_ok: "\<exists>d. parseDataInfo env s = Inr d \<and> status_wf d"
  by (simp add: parseDataInfo_def Let_def split: sum.split option.split goval.split)

lemma parseDataInfoMap_ok: "\<exists>d. parseDataInfoMap m = Inr d \<and> status_wf d"
  by (simp add: parseDataInfoMap_def split: option.split goval.split)

lemma parse_result_wf [simp]:
  "status_wf (case parseDataInfo env s of Inl e \<Rightarrow> f e | Inr d \<Rightarrow> d)"
  "status_wf (case parseDataInfoMap m of Inl e \<Rightarrow> f e | Inr d \<Rightarrow> d)"
  using parseDataInfo_ok [of env s] parseDataInfoMap_ok [of m] by auto

lemma record_data_info_wf [simp]: "status_wf (snd (record_data_info env r))"
  by (simp add: record_data_info_def split: option.split goval.split)

lemma record_replica_wf [simp]: "replica_wf (record_replica env r)"
  by (simp add: replica_wf_def record_replica_def)

lemma replica_wf_healthy:
  assumes "replica_wf ri"
  obtains d where "ri_ParsedDataInfo ri = Some d"
    and "IsHealthy ri \<longleftrightarrow> di_Status d = ''ready'' \<and> 0 \<le> di_Behind d"
  using assms by (auto simp: replica_wf_def IsHealthy_def status_wf_def split: option.splits)




text \<open>
  The counts of a storage answer are read from columns named vertex_count and
  edge_count only: an answer that has them as rows (a column with the name, another with the value)
  counts as an empty database, whatever the values are.
\<close>

theorem storage_rows_ignored:
  assumes "\<forall>r \<in> set rs. map_of r ''vertex_count'' = None \<and> map_of r ''edge_count'' = None"
  shows "records_storage rs = \<lparr>VertexCount = 0, EdgeCount = 0\<rparr>"
proof -
  have "foldl record_storage \<lparr>VertexCount = 0, EdgeCount = 0\<rparr> rs = \<lparr>VertexCount = 0, EdgeCount = 0\<rparr>"
    using assms
  proof (induction rs)
    case (Cons r rs)
    have "record_storage \<lparr>VertexCount = 0, EdgeCount = 0\<rparr> r = \<lparr>VertexCount = 0, EdgeCount = 0\<rparr>"
      using Cons.prems by (simp add: record_storage_def Let_def split: option.split goval.split)
    then show ?case using Cons by simp
  qed simp
  then show ?thesis by (simp add: records_storage_def)
qed

theorem storage_rows_ignored_witness:
  "records_storage [[(''storage info'', VString ''vertex_count''), (''value'', VInt64 7)],
     [(''storage info'', VString ''edge_count''), (''value'', VInt64 3)]] = \<lparr>VertexCount = 0, EdgeCount = 0\<rparr>"
  by (rule storage_rows_ignored) simp

end
