(* ===== verification/Memgraph_Client.thy ===== *)
theory Memgraph_Client
  imports Connection_Pool Data_Info
begin

text \<open>
  The query half of \<open>internal/controller/memgraph_client.go\<close>: each method sends one statement
  through the pool and reads its rows. \<open>bolt_quote\<close> is the double quote of the registration
  statement.
\<close>

section \<open>Definitions\<close>

definition role_of_records :: "bolt_record list \<Rightarrow> string go_result" where
  "role_of_records records = (case records of
      [] \<Rightarrow> Inl (ErrorString ''no results returned from SHOW REPLICATION ROLE'')
    | record # _ \<Rightarrow> (case map_of record ''replication role'' of
        None \<Rightarrow> Inl (ErrorString ''replication role not found in result'')
      | Some (VString roleStr) \<Rightarrow> Inr roleStr
      | Some v \<Rightarrow> Inl (ErrorString (''replication role is not a string: '' @ type_name v))))"

definition QueryReplicationRole ::
  "environment \<Rightarrow> string \<Rightarrow> ('z pool_state_scheme, string go_result) state" where
  "QueryReplicationRole env boltAddress = do {
     r \<leftarrow> RunQueryWithTimeout env boltAddress ''SHOW REPLICATION ROLE'' 5;
     return (case r of
         Inl e \<Rightarrow> Inl (Wrapped (''failed to query replication role from '' @ boltAddress) e)
       | Inr records \<Rightarrow> role_of_records records) }"

definition QueryReplicas ::
  "environment \<Rightarrow> string \<Rightarrow> ('z pool_state_scheme, ReplicaInfo list go_result) state" where
  "QueryReplicas env boltAddress = do {
     r \<leftarrow> RunQueryWithTimeout env boltAddress ''SHOW REPLICAS'' 5;
     return (case r of
         Inl e \<Rightarrow> Inl (Wrapped (''failed to query replicas from '' @ boltAddress) e)
       | Inr records \<Rightarrow> Inr (map (record_replica env) records)) }"

definition client_Ping ::
  "environment \<Rightarrow> string \<Rightarrow> nat \<Rightarrow> ('z pool_state_scheme, go_error option) state" where
  "client_Ping env boltAddress timeout = do {
     r \<leftarrow> RunQueryWithTimeout env boltAddress ''RETURN 1'' timeout;
     return (case r of Inl e \<Rightarrow> Some (Wrapped (''failed to ping '' @ boltAddress) e) | Inr _ \<Rightarrow> None) }"

definition cmd_main :: string where
  "cmd_main = ''SET REPLICATION ROLE TO MAIN''"

definition cmd_replica :: string where
  "cmd_replica = ''SET REPLICATION ROLE TO REPLICA WITH PORT 10000''"

definition SetReplicationRoleToMain ::
  "environment \<Rightarrow> string \<Rightarrow> ('z pool_state_scheme, go_error option) state" where
  "SetReplicationRoleToMain env boltAddress = do {
     r \<leftarrow> RunQueryWithTimeout env boltAddress cmd_main 5;
     return (case r of
         Inl e \<Rightarrow> Some (Wrapped (''failed to set replication role to MAIN for '' @ boltAddress) e)
       | Inr _ \<Rightarrow> None) }"

definition SetReplicationRoleToReplica ::
  "environment \<Rightarrow> string \<Rightarrow> ('z pool_state_scheme, go_error option) state" where
  "SetReplicationRoleToReplica env boltAddress = do {
     r \<leftarrow> RunQueryWithTimeout env boltAddress cmd_replica 5;
     return (case r of
         Inl e \<Rightarrow> Some (Wrapped (''failed to set replication role to REPLICA for '' @ boltAddress) e)
       | Inr _ \<Rightarrow> None) }"

definition bolt_quote :: string where
  "bolt_quote = [CHR 0x22]"

definition cmd_register :: "string \<Rightarrow> string \<Rightarrow> string \<Rightarrow> string" where
  "cmd_register replicaName syncMode replicaAddress =
     ''REGISTER REPLICA '' @ replicaName @ '' '' @ syncMode @ '' TO '' @ bolt_quote @ replicaAddress
       @ bolt_quote"

definition client_RegisterReplica :: "environment \<Rightarrow> string \<Rightarrow> string \<Rightarrow> string \<Rightarrow> string
    \<Rightarrow> ('z pool_state_scheme, go_error option) state" where
  "client_RegisterReplica env mainBoltAddress replicaName replicaAddress syncMode =
     (if mainBoltAddress = '''' then return (Some (ErrorString ''main bolt address is empty''))
      else if replicaName = '''' then return (Some (ErrorString ''replica name is empty''))
      else if replicaAddress = '''' then return (Some (ErrorString ''replica address is empty''))
      else if syncMode \<noteq> ''STRICT_SYNC'' \<and> syncMode \<noteq> ''ASYNC'' then
        return (Some (ErrorString
          (''invalid sync mode: '' @ syncMode @ '' (must be STRICT_SYNC or ASYNC)'')))
      else do {
        r \<leftarrow> RunQueryWithTimeout env mainBoltAddress (cmd_register replicaName syncMode replicaAddress) 5;
        return (case r of
            Inl e \<Rightarrow> Some (Wrapped (''failed to register replica '' @ replicaName) e)
          | Inr _ \<Rightarrow> None) })"

definition cmd_drop :: "string \<Rightarrow> string" where
  "cmd_drop replicaName = ''DROP REPLICA '' @ replicaName"

definition client_DropReplica ::
  "environment \<Rightarrow> string \<Rightarrow> string \<Rightarrow> ('z pool_state_scheme, go_error option) state" where
  "client_DropReplica env mainBoltAddress replicaName = do {
     r \<leftarrow> RunQueryWithTimeout env mainBoltAddress (cmd_drop replicaName) 5;
     return (case r of
         Inl e \<Rightarrow> Some (Wrapped (''failed to drop replica '' @ replicaName) e)
       | Inr _ \<Rightarrow> None) }"

definition client_QueryStorageInfo ::
  "environment \<Rightarrow> string \<Rightarrow> ('z pool_state_scheme, StorageInfo go_result) state" where
  "client_QueryStorageInfo env boltAddress =
     (if boltAddress = '''' then return (Inl (ErrorString ''bolt address is empty''))
      else do {
        r \<leftarrow> RunQueryWithTimeout env boltAddress ''SHOW STORAGE INFO'' 5;
        return (case r of
            Inl e \<Rightarrow> Inl (Wrapped ''failed to execute SHOW STORAGE INFO'' e)
          | Inr records \<Rightarrow> Inr (records_storage records)) })"

section \<open>Lemmas\<close>

text \<open>Each method is one query to the given address.\<close>

lemma query_then_return:
  "state_io_rel (pool_step (query_event a q))
     (do { r \<leftarrow> RunQueryWithTimeout env a q n; return (f r) })"
  by (intro pool_frame.frame_bind pool_frame.frame_return RunQueryWithTimeout_step)

lemma QueryReplicationRole_step:
  "state_io_rel (pool_step (query_event a ''SHOW REPLICATION ROLE'')) (QueryReplicationRole env a)"
  unfolding QueryReplicationRole_def by (rule query_then_return)

lemma QueryReplicas_step:
  "state_io_rel (pool_step (query_event a ''SHOW REPLICAS'')) (QueryReplicas env a)"
  unfolding QueryReplicas_def by (rule query_then_return)

lemma client_Ping_step: "state_io_rel (pool_step (query_event a ''RETURN 1'')) (client_Ping env a n)"
  unfolding client_Ping_def by (rule query_then_return)

lemma SetReplicationRoleToMain_step:
  "state_io_rel (pool_step (query_event a cmd_main)) (SetReplicationRoleToMain env a)"
  unfolding SetReplicationRoleToMain_def by (rule query_then_return)

lemma SetReplicationRoleToReplica_step:
  "state_io_rel (pool_step (query_event a cmd_replica)) (SetReplicationRoleToReplica env a)"
  unfolding SetReplicationRoleToReplica_def by (rule query_then_return)

lemma client_RegisterReplica_step:
  "state_io_rel (pool_step (query_event a (cmd_register n m addr))) (client_RegisterReplica env a n addr m)"
  unfolding client_RegisterReplica_def
  by (intro pool_frame.frame_if pool_frame.frame_return query_then_return)

lemma client_DropReplica_step:
  "state_io_rel (pool_step (query_event a (cmd_drop n))) (client_DropReplica env a n)"
  unfolding client_DropReplica_def by (rule query_then_return)

lemma client_QueryStorageInfo_step:
  "state_io_rel (pool_step (query_event a ''SHOW STORAGE INFO'')) (client_QueryStorageInfo env a)"
  unfolding client_QueryStorageInfo_def
  by (intro pool_frame.frame_if pool_frame.frame_return query_then_return)

lemma QueryReplicas_wf:
  "eval_result (QueryReplicas env a) s = Inr rs \<Longrightarrow> list_all replica_wf rs"
  by (auto simp: QueryReplicas_def list_all_iff split: sum.splits)

lemma is_command_simps [simp]:
  "is_command cmd_main" "is_command cmd_replica"
  "is_command (cmd_register n m a)" "is_command (cmd_drop n)"
  "\<not> is_command ''SHOW REPLICATION ROLE''" "\<not> is_command ''SHOW REPLICAS''"
  "\<not> is_command ''RETURN 1''" "\<not> is_command ''SHOW STORAGE INFO''"
  by (simp_all add: is_command_def cmd_main_def cmd_replica_def cmd_register_def cmd_drop_def)

text \<open>The four commands are told apart by their text.\<close>

lemma command_text_simps [simp]:
  "cmd_main \<noteq> cmd_replica" "cmd_replica \<noteq> cmd_main"
  "cmd_main \<noteq> cmd_register n m a" "cmd_register n m a \<noteq> cmd_main"
  "cmd_main \<noteq> cmd_drop n" "cmd_drop n \<noteq> cmd_main"
  "cmd_replica \<noteq> cmd_register n m a" "cmd_register n m a \<noteq> cmd_replica"
  "cmd_replica \<noteq> cmd_drop n" "cmd_drop n \<noteq> cmd_replica"
  "cmd_register n m a \<noteq> cmd_drop k" "cmd_drop k \<noteq> cmd_register n m a"
  by (simp_all add: cmd_main_def cmd_replica_def cmd_register_def cmd_drop_def)

lemma query_event_no_command:
  "\<not> is_command q \<Longrightarrow> query_event a q e \<Longrightarrow> command_to A e"
  by (cases e) auto

lemma query_event_command:
  "query_event a q e \<Longrightarrow> (is_command q \<Longrightarrow> A a q) \<Longrightarrow> command_to A e"
  by (cases e) auto

text \<open>A successful method got its answer from the server it was sent to.\<close>

lemma QueryReplicationRole_answered:
  assumes "pool_wf s" and "eval_result (QueryReplicationRole env a) s = Inr role"
  shows "\<exists>rs. answered a ''SHOW REPLICATION ROLE'' rs (new_events s (exec (QueryReplicationRole env a) s)) \<and>
     role_of_records rs = Inr role"
  using assms RunQueryWithTimeout_answered [OF assms(1), of env a "''SHOW REPLICATION ROLE''" 5]
  by (auto simp: QueryReplicationRole_def split: sum.splits)

lemma client_Ping_answered:
  assumes "pool_wf s" and "eval_result (client_Ping env a n) s = None"
  shows "\<exists>rs. answered a ''RETURN 1'' rs (new_events s (exec (client_Ping env a n) s))"
  using assms RunQueryWithTimeout_answered [OF assms(1), of env a "''RETURN 1''" n]
  by (auto simp: client_Ping_def split: sum.splits)

lemma SetReplicationRoleToMain_answered:
  assumes "pool_wf s" and "eval_result (SetReplicationRoleToMain env a) s = None"
  shows "\<exists>rs. answered a cmd_main rs (new_events s (exec (SetReplicationRoleToMain env a) s))"
  using assms RunQueryWithTimeout_answered [OF assms(1), of env a cmd_main 5]
  by (auto simp: SetReplicationRoleToMain_def split: sum.splits)

end
