(* ===== verification/Kubernetes.thy ===== *)
theory Kubernetes
  imports World
begin

text \<open>
  \<open>internal/controller/kubernetes.go\<close>: what the controller reads off a pod. Also the change
  filter \<open>shouldReconcile\<close> of \<open>internal/controller/controller_events.go\<close> and the readiness
  test of the gateway package's own \<open>MemgraphNode\<close>.
\<close>

section \<open>Definitions\<close>

text \<open>The first condition of type Ready decides; a pod with a deletion timestamp is never ready.\<close>

fun ready_condition :: "(string \<times> string) list \<Rightarrow> bool" where
  "ready_condition [] = False"
| "ready_condition ((ty, st) # cs) =
     (if ty = ''Ready'' then st = ''True'' else ready_condition cs)"

definition isPodReady :: "pod \<Rightarrow> bool" where
  "isPodReady p = (if DeletionTimestamp p \<noteq> None then False else ready_condition (Conditions p))"

definition isPodTerminating :: "pod option \<Rightarrow> bool" where
  "isPodTerminating p = (case p of None \<Rightarrow> False | Some q \<Rightarrow> DeletionTimestamp q \<noteq> None)"

definition isPodBecomeUnhealthy :: "pod option \<Rightarrow> pod option \<Rightarrow> bool" where
  "isPodBecomeUnhealthy oldPod newPod = (case (oldPod, newPod) of
      (Some old, Some new) \<Rightarrow>
        (isPodReady old \<and> \<not> isPodReady new) \<or>
        (DeletionTimestamp old = None \<and> DeletionTimestamp new \<noteq> None)
    | _ \<Rightarrow> False)"

definition shouldReconcile :: "pod \<Rightarrow> pod \<Rightarrow> bool" where
  "shouldReconcile old new =
     (if isPodReady old \<noteq> isPodReady new then True
      else if PodIP old \<noteq> PodIP new then True
      else if Phase old \<noteq> Phase new then True
      else if (DeletionTimestamp old \<noteq> None) \<noteq> (DeletionTimestamp new \<noteq> None) then True
      else if NodeName old \<noteq> NodeName new then True
      else False)"

definition gateway_IsReady :: "pod option \<Rightarrow> bool" where
  "gateway_IsReady p = (case p of None \<Rightarrow> False
     | Some q \<Rightarrow> if Phase q \<noteq> ''Running'' then False else ready_condition (Conditions q))"

section \<open>Lemmas\<close>

lemma ready_condition_first:
  "ready_condition cs \<longleftrightarrow> map_of cs ''Ready'' = Some ''True''"
  by (induction cs rule: ready_condition.induct) auto

lemma isPodReady_iff:
  "isPodReady p \<longleftrightarrow> DeletionTimestamp p = None \<and> map_of (Conditions p) ''Ready'' = Some ''True''"
  by (simp add: isPodReady_def ready_condition_first)

lemma terminating_not_ready: "isPodTerminating (Some p) \<Longrightarrow> \<not> isPodReady p"
  by (auto simp: isPodTerminating_def isPodReady_def)

text \<open>A main pod that turns unhealthy always also passes the change filter.\<close>

lemma unhealthy_reconciles:
  "isPodBecomeUnhealthy (Some old) (Some new) \<Longrightarrow> shouldReconcile old new"
  by (auto simp: isPodBecomeUnhealthy_def shouldReconcile_def)

lemma shouldReconcile_iff:
  "shouldReconcile old new \<longleftrightarrow>
     (isPodReady old, PodIP old, Phase old, DeletionTimestamp old = None, NodeName old) \<noteq>
     (isPodReady new, PodIP new, Phase new, DeletionTimestamp new = None, NodeName new)"
  by (auto simp: shouldReconcile_def)

end
