(* ===== verification/Memgraph_Node.thy ===== *)
theory Memgraph_Node
  imports Memgraph_Client Kubernetes
begin

text \<open>
  \<open>internal/controller/memgraph_node.go\<close>: one Memgraph instance as the controller knows it, with
  its cached role, replicas and storage counts. A method takes the node and returns it updated
  beside its result. Where the source returns a cached value together with an error, so does the
  model: \<open>GetReplicationRole\<close> and \<open>GetReplicas\<close> return a pair of value and optional error.
\<close>

section \<open>Definitions\<close>

record memgraph_node =
  nd_name :: string
  nd_timestamp :: int
  nd_memgraphRole :: string
  nd_storageInfo :: "StorageInfo option"
  nd_ipAddress :: string
  nd_replicasInfo :: "ReplicaInfo list"
  nd_hasReplicasInfo :: bool

definition node_Refresh :: "memgraph_node \<Rightarrow> pod \<Rightarrow> memgraph_node" where
  "node_Refresh node p = node\<lparr>nd_name := PodName p,
     nd_timestamp := (case StartTime p of Some t \<Rightarrow> t | None \<Rightarrow> CreationTimestamp p),
     nd_ipAddress := PodIP p\<rparr>"

definition NewMemgraphNode :: "pod \<Rightarrow> memgraph_node" where
  "NewMemgraphNode p = node_Refresh
     \<lparr>nd_name = '''', nd_timestamp = 0, nd_memgraphRole = '''', nd_storageInfo = None,
      nd_ipAddress = '''', nd_replicasInfo = [], nd_hasReplicasInfo = False\<rparr> p"

definition ClearCachedInfo :: "memgraph_node \<Rightarrow> memgraph_node" where
  "ClearCachedInfo node = node\<lparr>nd_memgraphRole := '''', nd_replicasInfo := [],
     nd_hasReplicasInfo := False, nd_storageInfo := None\<rparr>"

definition GetBoltAddress :: "memgraph_node \<Rightarrow> string go_result" where
  "GetBoltAddress node =
     (if nd_ipAddress node = ''''
      then Inl (ErrorString (''cannot get bolt address: pod '' @ nd_name node @ '' has no IP address''))
      else Inr (nd_ipAddress node @ '':7687''))"

text \<open>The package-level function builds the name character by character.\<close>

fun replica_name_loop :: "string \<Rightarrow> string \<Rightarrow> string" where
  "replica_name_loop result [] = result"
| "replica_name_loop result (char # cs) =
     replica_name_loop (if char = CHR ''-'' then result @ ''_'' else result @ [char]) cs"

definition GetReplicaName_pod :: "string \<Rightarrow> string" where
  "GetReplicaName_pod podName = replica_name_loop '''' podName"

definition GetReplicaName :: "memgraph_node \<Rightarrow> string" where
  "GetReplicaName node = ReplaceAll (nd_name node) CHR ''-'' CHR ''_''"

definition GetReplicationFQDN :: "memgraph_node \<Rightarrow> string \<Rightarrow> string \<Rightarrow> string" where
  "GetReplicationFQDN node serviceName namespace =
     nd_name node @ ''.'' @ serviceName @ ''.'' @ namespace @ ''.svc.cluster.local''"

type_synonym ('z, 'r) node_op = "('z pool_state_scheme, 'r \<times> memgraph_node) state"

definition GetReplicationRole ::
  "environment \<Rightarrow> memgraph_node \<Rightarrow> bool \<Rightarrow> ('z, string \<times> go_error option) node_op" where
  "GetReplicationRole env node tryRefresh =
     (if nd_memgraphRole node = '''' \<or> tryRefresh then
        (case GetBoltAddress node of
           Inl e \<Rightarrow> return ((nd_memgraphRole node, Some e), node)
         | Inr boltAddress \<Rightarrow> do {
             r \<leftarrow> QueryReplicationRole env boltAddress;
             return (case r of
                 Inl e \<Rightarrow> ((nd_memgraphRole node, Some (Wrapped
                     (''failed to query replication role for node '' @ nd_name node) e)), node)
               | Inr role \<Rightarrow> ((role, None), node\<lparr>nd_memgraphRole := role\<rparr>)) })
      else return ((nd_memgraphRole node, None), node))"

definition GetReplicas ::
  "environment \<Rightarrow> memgraph_node \<Rightarrow> bool \<Rightarrow> ('z, ReplicaInfo list \<times> go_error option) node_op" where
  "GetReplicas env node0 tryRefresh = do {
     ((role, err), node) \<leftarrow> GetReplicationRole env node0 tryRefresh;
     case err of
       Some e \<Rightarrow> return ((nd_replicasInfo node, Some e), node)
     | None \<Rightarrow>
         if role \<noteq> ''main'' then
           return (([], Some (ErrorString (''cannot get replicas from non-main node '' @ nd_name node))), node)
         else if \<not> nd_hasReplicasInfo node \<or> tryRefresh then
           (case GetBoltAddress node of
              Inl e \<Rightarrow> return ((nd_replicasInfo node, Some e), node)
            | Inr boltAddress \<Rightarrow> do {
                r \<leftarrow> QueryReplicas env boltAddress;
                return (case r of
                    Inl e \<Rightarrow> ((nd_replicasInfo node, Some (Wrapped
                        (''failed to query replicas for node '' @ nd_name node) e)), node)
                  | Inr replicas \<Rightarrow> ((replicas, None),
                      node\<lparr>nd_replicasInfo := replicas, nd_hasReplicasInfo := True\<rparr>)) })
         else return ((nd_replicasInfo node, None), node) }"

definition SetToMainRole :: "environment \<Rightarrow> memgraph_node \<Rightarrow> ('z, go_error option) node_op" where
  "SetToMainRole env node = (case GetBoltAddress node of
      Inl e \<Rightarrow> return (Some e, node)
    | Inr boltAddress \<Rightarrow> do {
        err \<leftarrow> SetReplicationRoleToMain env boltAddress;
        return (case err of
            Some e \<Rightarrow> (Some e, node)
          | None \<Rightarrow> (None, node\<lparr>nd_memgraphRole := '''', nd_hasReplicasInfo := False\<rparr>)) })"

definition RegisterReplica :: "environment \<Rightarrow> memgraph_node \<Rightarrow> string \<Rightarrow> string \<Rightarrow> string
    \<Rightarrow> ('z, go_error option) node_op" where
  "RegisterReplica env node replicaName replicationAddress syncMode = (case GetBoltAddress node of
      Inl e \<Rightarrow> return (Some e, node)
    | Inr boltAddress \<Rightarrow> do {
        err \<leftarrow> client_RegisterReplica env boltAddress replicaName replicationAddress syncMode;
        return (case err of
            Some e \<Rightarrow> (Some e, node)
          | None \<Rightarrow> (None, node\<lparr>nd_hasReplicasInfo := False\<rparr>)) })"

definition SetToReplicaRole :: "environment \<Rightarrow> memgraph_node \<Rightarrow> ('z, go_error option) node_op" where
  "SetToReplicaRole env node = (case GetBoltAddress node of
      Inl e \<Rightarrow> return (Some e, node)
    | Inr boltAddress \<Rightarrow> do {
        err \<leftarrow> SetReplicationRoleToReplica env boltAddress;
        return (case err of
            Some e \<Rightarrow> (Some e, node)
          | None \<Rightarrow> (None, node\<lparr>nd_memgraphRole := '''', nd_hasReplicasInfo := False\<rparr>)) })"

definition node_Ping :: "environment \<Rightarrow> memgraph_node \<Rightarrow> ('z, go_error option) node_op" where
  "node_Ping env node = (case GetBoltAddress node of
      Inl e \<Rightarrow> return (Some e, node)
    | Inr boltAddress \<Rightarrow> do { err \<leftarrow> client_Ping env boltAddress 3; return (err, node) })"

definition node_InvalidateConnection ::
  "environment \<Rightarrow> memgraph_node \<Rightarrow> ('z, unit go_result) node_op" where
  "node_InvalidateConnection env node = (case GetBoltAddress node of
      Inl e \<Rightarrow> return (Inl e, node)
    | Inr boltAddress \<Rightarrow> do { r \<leftarrow> pool_InvalidateConnection env boltAddress; return (r, node) })"

definition QueryStorageInfo :: "environment \<Rightarrow> memgraph_node \<Rightarrow> ('z, go_error option) node_op" where
  "QueryStorageInfo env node = (case GetBoltAddress node of
      Inl e \<Rightarrow> return (Some e, node)
    | Inr boltAddress \<Rightarrow> do {
        r \<leftarrow> client_QueryStorageInfo env boltAddress;
        return (case r of
            Inl e \<Rightarrow> (Some (Wrapped (''failed to query storage info for node '' @ nd_name node) e), node)
          | Inr si \<Rightarrow> (None, node\<lparr>nd_storageInfo := Some si\<rparr>)) })"

text \<open>Drop the first cached entry of that name.\<close>

fun remove_replica :: "string \<Rightarrow> ReplicaInfo list \<Rightarrow> ReplicaInfo list" where
  "remove_replica name [] = []"
| "remove_replica name (r # rs) = (if ri_Name r = name then rs else r # remove_replica name rs)"

definition DropReplica :: "environment \<Rightarrow> memgraph_node \<Rightarrow> string \<Rightarrow> ('z, go_error option) node_op" where
  "DropReplica env node replicaName = (case GetBoltAddress node of
      Inl e \<Rightarrow> return (Some e, node)
    | Inr boltAddress \<Rightarrow> do {
        err \<leftarrow> client_DropReplica env boltAddress replicaName;
        return (case err of
            Some e \<Rightarrow> (Some e, node)
          | None \<Rightarrow> (None, node\<lparr>nd_replicasInfo := remove_replica replicaName (nd_replicasInfo node)\<rparr>)) })"

definition node_wf :: "string \<Rightarrow> memgraph_node \<Rightarrow> bool" where
  "node_wf key node \<longleftrightarrow> nd_name node = key \<and> list_all replica_wf (nd_replicasInfo node)"

text \<open>The events of an operation on a node: queries \<open>Q\<close> to the node's own address.\<close>

definition node_event :: "(string \<Rightarrow> bool) \<Rightarrow> memgraph_node \<Rightarrow> io \<Rightarrow> bool" where
  "node_event Q node e = (case GetBoltAddress node of
      Inl _ \<Rightarrow> False
    | Inr a \<Rightarrow> (\<exists>q. Q q \<and> query_event a q e) \<or> pool_event e)"

text \<open>What a method may do to its receiver: the identity stays, the cache stays well-formed.\<close>

definition node_kept :: "memgraph_node \<Rightarrow> memgraph_node \<Rightarrow> bool" where
  "node_kept node node' \<longleftrightarrow>
     nd_name node' = nd_name node \<and> nd_ipAddress node' = nd_ipAddress node \<and>
     (list_all replica_wf (nd_replicasInfo node) \<longrightarrow> list_all replica_wf (nd_replicasInfo node'))"

section \<open>Lemmas\<close>

subsection \<open>Names\<close>

lemma replica_name_loop_eq: "replica_name_loop r s = r @ ReplaceAll s CHR ''-'' CHR ''_''"
  by (induction s arbitrary: r) (auto simp: ReplaceAll_def)

lemma GetReplicaName_pod_eq: "GetReplicaName_pod s = ReplaceAll s CHR ''-'' CHR ''_''"
  by (simp add: GetReplicaName_pod_def replica_name_loop_eq)

subsection \<open>The contract of a node operation\<close>

lemma node_kept_refl [simp, intro]: "node_kept n n"
  by (simp add: node_kept_def)

lemma node_kept_wf: "node_kept n n' \<Longrightarrow> node_wf k n \<Longrightarrow> node_wf k n'"
  by (simp add: node_kept_def node_wf_def)

lemma node_kept_address: "node_kept n n' \<Longrightarrow> GetBoltAddress n' = GetBoltAddress n"
  by (simp add: node_kept_def GetBoltAddress_def)

lemma node_kept_update [simp]:
  "node_kept n (n\<lparr>nd_memgraphRole := r\<rparr>)"
  "node_kept n (n\<lparr>nd_storageInfo := si\<rparr>)"
  "node_kept n (n\<lparr>nd_hasReplicasInfo := b\<rparr>)"
  "node_kept n (n\<lparr>nd_memgraphRole := r, nd_hasReplicasInfo := b\<rparr>)"
  by (simp_all add: node_kept_def)

lemma node_kept_replicas:
  "list_all replica_wf rs \<Longrightarrow> node_kept n (n\<lparr>nd_replicasInfo := rs, nd_hasReplicasInfo := b\<rparr>)"
  by (simp add: node_kept_def)

lemma node_kept_trans: "node_kept a b \<Longrightarrow> node_kept b c \<Longrightarrow> node_kept a c"
  by (simp add: node_kept_def)

lemma remove_replica_subset: "set (remove_replica n rs) \<subseteq> set rs"
  by (induction rs) auto

lemma node_kept_remove:
  "node_kept n (n\<lparr>nd_replicasInfo := remove_replica k (nd_replicasInfo n)\<rparr>)"
  using remove_replica_subset [of k "nd_replicasInfo n"] by (auto simp: node_kept_def list_all_iff)

text \<open>
  What every method of a node promises to the cluster that calls it: its queries satisfy \<open>Q\<close>
  and go to the node's own address, the pool stays well-formed, and the receiver keeps its name,
  its address and a well-formed replica cache.
\<close>

locale node_operation =
  fixes Q :: "string \<Rightarrow> bool" and f :: "memgraph_node \<Rightarrow> ('z, 'r) node_op"
  assumes op_step: "state_io_rel (pool_step (node_event Q node)) (f node)"
    and op_kept: "node_kept node (snd (eval_result (f node) s))"
begin

lemma op_wf: "node_wf k node \<Longrightarrow> node_wf k (snd (eval_result (f node) s))"
  by (rule node_kept_wf [OF op_kept])

lemma op_no_commands:
  assumes "\<And>q. Q q \<Longrightarrow> \<not> is_command q"
  shows "state_io_rel (pool_step (command_to (\<lambda>a q. False))) (f node)"
  by (rule pool_step_weaken [OF op_step])
    (auto simp: node_event_def pool_event_def query_event_no_command assms split: sum.splits io.splits)

end

lemma node_query_step:
  assumes "state_io_rel (pool_step (query_event a q)) m" and "GetBoltAddress node = Inr a" and "Q q"
  shows "state_io_rel (pool_step (node_event Q node)) m"
  using assms(1) by (rule pool_step_weaken) (use assms(2,3) in \<open>auto simp: node_event_def\<close>)

lemma GetReplicationRole_step:
  assumes "Q ''SHOW REPLICATION ROLE''"
  shows "state_io_rel (pool_step (node_event Q node)) (GetReplicationRole env node b)"
  unfolding GetReplicationRole_def
  by (intro pool_frame.frame_rules node_query_step [OF QueryReplicationRole_step]) (simp_all add: assms)

lemma GetReplicationRole_kept: "node_kept node (snd (eval_result (GetReplicationRole env node b) s))"
  by (simp add: GetReplicationRole_def split: sum.split)

lemma node_event_kept: "node_kept n n' \<Longrightarrow> node_event Q n' = node_event Q n"
  by (rule ext) (simp add: node_event_def node_kept_address)

text \<open>The second half of \<open>GetReplicas\<close>, once the role is known.\<close>

lemma GetReplicas_run:
  obtains (role) role err node' where "eval_result (GetReplicationRole env node b) s = ((role, err), node')"
    and "node_kept node node'"
  using GetReplicationRole_kept [of node env b s]
  by (cases "eval_result (GetReplicationRole env node b) s") (auto simp: split: prod.splits)

lemma GetReplicas_step:
  fixes node :: memgraph_node
  assumes "Q ''SHOW REPLICATION ROLE''" and "Q ''SHOW REPLICAS''"
  shows "state_io_rel (pool_step (node_event Q node)) (GetReplicas env node b)"
proof (rule io_relI)
  fix s :: "'z pool_state_scheme"
  let ?s = "exec (GetReplicationRole env node b) s"
  have 1: "pool_step (node_event Q node) s ?s"
    by (rule io_relD [OF GetReplicationRole_step]) (rule assms)
  obtain role err node' where r: "eval_result (GetReplicationRole env node b) s = ((role, err), node')"
    and k: "node_kept node node'"
    by (rule GetReplicas_run)
  have q: "state_io_rel (pool_step (node_event Q node')) (QueryReplicas env a)"
    if "GetBoltAddress node' = Inr a" for a
    using QueryReplicas_step that assms(2) by (rule node_query_step)
  have "pool_step (node_event Q node') ?s (exec (GetReplicas env node b) s)"
    using io_relD [OF q, of _ ?s]
    by (auto simp: GetReplicas_def r pool_frame.frame_refl split: option.split sum.split)
  then show "pool_step (node_event Q node) s (exec (GetReplicas env node b) s)"
    using 1 k by (auto simp: node_event_kept intro: pool_frame.frame_trans)
qed

lemma GetReplicas_kept: "node_kept node (snd (eval_result (GetReplicas env node b) s))"
proof -
  obtain role err node' where r: "eval_result (GetReplicationRole env node b) s = ((role, err), node')"
    and k: "node_kept node node'"
    by (rule GetReplicas_run)
  then show ?thesis
    by (auto simp: GetReplicas_def split: option.split sum.split
        intro: node_kept_trans node_kept_replicas QueryReplicas_wf)
qed

interpretation role_op: node_operation "\<lambda>q. q = ''SHOW REPLICATION ROLE''"
  "\<lambda>node. GetReplicationRole env node b" for env b
  by unfold_locales (simp_all add: GetReplicationRole_step GetReplicationRole_kept)

interpretation replicas_op: node_operation
  "\<lambda>q. q = ''SHOW REPLICATION ROLE'' \<or> q = ''SHOW REPLICAS''" "\<lambda>node. GetReplicas env node b" for env b
  by unfold_locales (simp_all add: GetReplicas_step GetReplicas_kept)

interpretation main_op: node_operation "\<lambda>q. q = cmd_main" "SetToMainRole env" for env
proof unfold_locales
  show "state_io_rel (pool_step (node_event (\<lambda>q. q = cmd_main) node)) (SetToMainRole env node)" for node
    unfolding SetToMainRole_def
    by (intro pool_frame.frame_rules node_query_step [OF SetReplicationRoleToMain_step]) simp_all
  show "node_kept node (snd (eval_result (SetToMainRole env node) s))" for node s
    by (simp add: SetToMainRole_def split: sum.split option.split)
qed

interpretation demote_op: node_operation "\<lambda>q. q = cmd_replica" "SetToReplicaRole env" for env
proof unfold_locales
  show "state_io_rel (pool_step (node_event (\<lambda>q. q = cmd_replica) node)) (SetToReplicaRole env node)" for node
    unfolding SetToReplicaRole_def
    by (intro pool_frame.frame_rules node_query_step [OF SetReplicationRoleToReplica_step]) simp_all
  show "node_kept node (snd (eval_result (SetToReplicaRole env node) s))" for node s
    by (simp add: SetToReplicaRole_def split: sum.split option.split)
qed

interpretation register_op: node_operation "\<lambda>q. q = cmd_register n m addr"
  "\<lambda>node. RegisterReplica env node n addr m" for env n m addr
proof unfold_locales
  show "state_io_rel (pool_step (node_event (\<lambda>q. q = cmd_register n m addr) node))
      (RegisterReplica env node n addr m)" for node
    unfolding RegisterReplica_def
    by (intro pool_frame.frame_rules node_query_step [OF client_RegisterReplica_step]) simp_all
  show "node_kept node (snd (eval_result (RegisterReplica env node n addr m) s))" for node s
    by (simp add: RegisterReplica_def split: sum.split option.split)
qed

interpretation drop_op: node_operation "\<lambda>q. q = cmd_drop n" "\<lambda>node. DropReplica env node n" for env n
proof unfold_locales
  show "state_io_rel (pool_step (node_event (\<lambda>q. q = cmd_drop n) node)) (DropReplica env node n)" for node
    unfolding DropReplica_def
    by (intro pool_frame.frame_rules node_query_step [OF client_DropReplica_step]) simp_all
  show "node_kept node (snd (eval_result (DropReplica env node n) s))" for node s
    by (simp add: DropReplica_def node_kept_remove split: sum.split option.split)
qed

interpretation ping_op: node_operation "\<lambda>q. q = ''RETURN 1''" "node_Ping env" for env
proof unfold_locales
  show "state_io_rel (pool_step (node_event (\<lambda>q. q = ''RETURN 1'') node)) (node_Ping env node)" for node
    unfolding node_Ping_def
    by (intro pool_frame.frame_rules node_query_step [OF client_Ping_step]) simp_all
  show "node_kept node (snd (eval_result (node_Ping env node) s))" for node s
    by (simp add: node_Ping_def split: sum.split)
qed

interpretation storage_op: node_operation "\<lambda>q. q = ''SHOW STORAGE INFO''" "QueryStorageInfo env" for env
proof unfold_locales
  show "state_io_rel (pool_step (node_event (\<lambda>q. q = ''SHOW STORAGE INFO'') node)) (QueryStorageInfo env node)"
    for node
    unfolding QueryStorageInfo_def
    by (intro pool_frame.frame_rules node_query_step [OF client_QueryStorageInfo_step]) simp_all
  show "node_kept node (snd (eval_result (QueryStorageInfo env node) s))" for node s
    by (simp add: QueryStorageInfo_def split: sum.split)
qed

interpretation invalidate_op: node_operation "\<lambda>q. False" "node_InvalidateConnection env" for env
proof unfold_locales
  show "state_io_rel (pool_step (node_event (\<lambda>q. False) node)) (node_InvalidateConnection env node)" for node
  proof (cases "GetBoltAddress node")
    case (Inr a)
    have "state_io_rel (pool_step (node_event (\<lambda>q. False) node)) (pool_InvalidateConnection env a)"
      by (rule pool_step_weaken [OF pool_InvalidateConnection_step]) (simp add: node_event_def Inr)
    then show ?thesis
      by (auto simp: node_InvalidateConnection_def Inr intro!: pool_frame.frame_rules)
  qed (simp add: node_InvalidateConnection_def pool_frame.frame_return)
  show "node_kept node (snd (eval_result (node_InvalidateConnection env node) s))" for node s
    by (simp add: node_InvalidateConnection_def split: sum.split)
qed

subsection \<open>Answers\<close>

lemma GetBoltAddress_cases:
  obtains "nd_ipAddress n = ''''" and "GetBoltAddress n = Inl (ErrorString
      (''cannot get bolt address: pod '' @ nd_name n @ '' has no IP address''))"
  | "nd_ipAddress n \<noteq> ''''" and "GetBoltAddress n = Inr (nd_ipAddress n @ '':7687'')"
  by (cases "nd_ipAddress n = ''''") (simp_all add: GetBoltAddress_def)

text \<open>A role that was not in the cache is the server's own answer; a cached one is not asked for.\<close>

lemma GetReplicationRole_result:
  assumes "pool_wf s" and "eval_result (GetReplicationRole env n b) s = ((role, None), n')"
  shows "nd_memgraphRole n' = role"
    and "b \<or> nd_memgraphRole n = '''' \<Longrightarrow> \<exists>a rs. GetBoltAddress n = Inr a \<and>
       answered a ''SHOW REPLICATION ROLE'' rs (new_events s (exec (GetReplicationRole env n b) s)) \<and>
       role_of_records rs = Inr role"
    and "\<not> b \<Longrightarrow> nd_memgraphRole n \<noteq> '''' \<Longrightarrow> role = nd_memgraphRole n"
proof -
  show "nd_memgraphRole n' = role"
    using assms(2) by (auto simp: GetReplicationRole_def split: if_splits sum.splits)
  show "role = nd_memgraphRole n" if "\<not> b" and "nd_memgraphRole n \<noteq> ''''"
    using that assms(2) by (auto simp: GetReplicationRole_def)
  assume fresh: "b \<or> nd_memgraphRole n = ''''"
  show "\<exists>a rs. GetBoltAddress n = Inr a \<and>
      answered a ''SHOW REPLICATION ROLE'' rs (new_events s (exec (GetReplicationRole env n b) s)) \<and>
      role_of_records rs = Inr role"
  proof (cases "GetBoltAddress n")
    case (Inl e)
    then show ?thesis using fresh assms(2) by (auto simp: GetReplicationRole_def split: if_splits)
  next
    case (Inr a)
    then have "eval_result (QueryReplicationRole env a) s = Inr role"
      using fresh assms(2) by (auto simp: GetReplicationRole_def split: if_splits sum.splits)
    from QueryReplicationRole_answered [OF assms(1) this] show ?thesis
      using fresh Inr by (auto simp: GetReplicationRole_def)
  qed
qed

lemma GetReplicas_result:
  "eval_result (GetReplicas env n b) s = ((replicas, None), n') \<Longrightarrow> nd_replicasInfo n' = replicas"
  by (cases "eval_result (GetReplicationRole env n b) s")
    (auto simp: GetReplicas_def split: if_splits sum.splits option.splits)

lemma node_Ping_answered:
  assumes "pool_wf s" and "fst (eval_result (node_Ping env n) s) = None"
  shows "\<exists>a rs. GetBoltAddress n = Inr a \<and>
     answered a ''RETURN 1'' rs (new_events s (exec (node_Ping env n) s))"
  using assms client_Ping_answered [OF assms(1), of env _ 3]
  by (auto simp: node_Ping_def split: sum.splits)

lemma SetToMainRole_answered:
  assumes "pool_wf s" and "eval_result (SetToMainRole env n) s = (None, n')"
  shows "nd_memgraphRole n' = ''''"
    and "\<exists>a rs. GetBoltAddress n = Inr a \<and>
       answered a cmd_main rs (new_events s (exec (SetToMainRole env n) s))"
  using assms SetReplicationRoleToMain_answered [OF assms(1), of env]
  by (auto simp: SetToMainRole_def split: sum.splits option.splits)

end
