(* ===== verification/Go_Duration.thy ===== *)
theory Go_Duration
  imports Prelude
begin

text \<open>
  Go's \<open>time.ParseDuration\<close>, through which both configuration loaders read their intervals.
  Durations are nanoseconds. The whole part is exact; a fraction of a unit is truncated to
  nanoseconds exactly, where the library computes it in float64.
\<close>

section \<open>Definitions\<close>

definition Second :: int where "Second = 1000000000"
definition Minute :: int where "Minute = 60 * Second"
definition Hour :: int where "Hour = 60 * Minute"

definition unit_ns :: "string \<Rightarrow> int option" where
  "unit_ns u =
     (if u = ''ns'' then Some 1
      else if u = ''us'' \<or> u = [CHR 0xC2, CHR 0xB5, CHR ''s''] \<or> u = [CHR 0xCE, CHR 0xBC, CHR ''s'']
        then Some 1000
      else if u = ''ms'' then Some 1000000
      else if u = ''s'' then Some Second
      else if u = ''m'' then Some Minute
      else if u = ''h'' then Some Hour
      else None)"

definition unit_char :: "char \<Rightarrow> bool" where
  "unit_char c \<longleftrightarrow> c \<noteq> CHR ''.'' \<and> \<not> is_digit c"

text \<open>The digits after a leading point, and what follows.\<close>

definition split_fraction :: "string \<Rightarrow> string \<times> string" where
  "split_fraction s = (case s of
      c # cs \<Rightarrow> if c = CHR ''.'' then (takeWhile is_digit cs, dropWhile is_digit cs) else ([], s)
    | [] \<Rightarrow> ([], []))"

text \<open>One component \<open>[0-9]*(\.[0-9]*)?[a-z]+\<close>: its nanoseconds and the rest of the input.\<close>

definition duration_part :: "string \<Rightarrow> (int \<times> string) option" where
  "duration_part s =
     (let whole = takeWhile is_digit s; (frac, rest) = split_fraction (dropWhile is_digit s);
          u = takeWhile unit_char rest; v = int (digits_value 0 whole)
      in if whole = [] \<and> frac = [] then None
         else if v > 2 ^ 63 then None
         else if u = [] then None
         else case unit_ns u of
             None \<Rightarrow> None
           | Some unit \<Rightarrow>
               if v > 2 ^ 63 div unit then None
               else let t = v * unit + int (digits_value 0 frac) * unit div 10 ^ length frac
                    in if t > 2 ^ 63 then None else Some (t, dropWhile unit_char rest))"

text \<open>The loop over the components, with the sum so far.\<close>

function duration_sum :: "int \<Rightarrow> string \<Rightarrow> int option" where
  "duration_sum d s =
     (if s = [] then Some d
      else case duration_part s of
          None \<Rightarrow> None
        | Some (t, rest) \<Rightarrow>
            if length rest < length s
            then (if d + t > 2 ^ 63 then None else duration_sum (d + t) rest)
            else None)"
  by pat_completeness auto
termination
  by (relation "measure (\<lambda>(d, s). length s)") auto

definition ParseDuration :: "string \<Rightarrow> int option" where
  "ParseDuration orig =
     (let (neg, s) = split_sign orig in
      if s = ''0'' then Some 0
      else if s = '''' then None
      else case duration_sum 0 s of
          None \<Rightarrow> None
        | Some d \<Rightarrow> if neg then Some (- d) else if d > 2 ^ 63 - 1 then None else Some d)"

text \<open>
  The difference of two instants (nanoseconds since an epoch) saturates at the range of a Duration.
  \<open>int(d.Seconds())\<close> drops the fraction of a second: the float64 in between holds the quotient
  without rounding it up to the next second for any \<open>d\<close> below 2 ^ 23 seconds (97 days).
  64-bit arithmetic wraps around.
\<close>

definition time_sub :: "int \<Rightarrow> int \<Rightarrow> int" where
  "time_sub t u = max (- (2 ^ 63)) (min (2 ^ 63 - 1) (t - u))"

definition whole_seconds :: "int \<Rightarrow> int" where
  "whole_seconds d = sgn d * (\<bar>d\<bar> div Second)"

definition wrap64 :: "int \<Rightarrow> int" where
  "wrap64 x = signed_take_bit 63 x"

section \<open>Lemmas\<close>

lemma wrap64_id: "- (2 ^ 63) \<le> x \<Longrightarrow> x < 2 ^ 63 \<Longrightarrow> wrap64 x = x"
  by (simp add: wrap64_def signed_take_bit_int_eq_self)

lemma whole_seconds_bounds:
  assumes "0 \<le> d"
  shows "0 \<le> whole_seconds d" and "whole_seconds d * Second \<le> d"
  using assms by (auto simp: whole_seconds_def Second_def sgn_if)

lemma time_sub_le: "u \<le> t \<Longrightarrow> 0 \<le> time_sub t u \<and> time_sub t u \<le> t - u \<and> time_sub t u < 2 ^ 63"
  by (auto simp: time_sub_def)

lemma length_dropWhile_le: "length (dropWhile P xs) \<le> length xs"
  by (induction xs) auto

lemma dropWhile_shorter: "takeWhile P xs \<noteq> [] \<Longrightarrow> length (dropWhile P xs) < length xs"
  by (cases xs) (auto simp: less_Suc_eq_le length_dropWhile_le split: if_splits)

lemma split_fraction_length: "length (snd (split_fraction s)) \<le> length s"
  by (auto simp: split_fraction_def length_dropWhile_le le_Suc_eq split: list.split)

text \<open>Each component consumes input, so the guard of the loop never cuts it short.\<close>

lemma duration_part_consumes: "duration_part s = Some (t, rest) \<Longrightarrow> length rest < length s"
proof -
  assume part: "duration_part s = Some (t, rest)"
  define r where "r = snd (split_fraction (dropWhile is_digit s))"
  have "takeWhile unit_char r \<noteq> []" and "rest = dropWhile unit_char r"
    using part by (auto simp: r_def duration_part_def Let_def split: if_splits prod.splits option.splits)
  then have "length rest < length r"
    using dropWhile_shorter by blast
  also have "length r \<le> length (dropWhile is_digit s)"
    unfolding r_def by (rule split_fraction_length)
  also have "\<dots> \<le> length s" by (rule length_dropWhile_le)
  finally show ?thesis .
qed

lemma unit_ns_pos: "unit_ns u = Some n \<Longrightarrow> 0 < n"
  by (auto simp: unit_ns_def Second_def Minute_def Hour_def split: if_splits)

lemma duration_part_nonneg: "duration_part s = Some (t, rest) \<Longrightarrow> 0 \<le> t"
  by (auto simp: duration_part_def Let_def less_imp_le pos_imp_zdiv_nonneg_iff
      dest!: unit_ns_pos split: if_splits prod.splits option.splits)

declare duration_sum.simps [simp del]

lemma duration_sum_nonneg: "0 \<le> d \<Longrightarrow> duration_sum d s = Some r \<Longrightarrow> d \<le> r"
proof (induction d s arbitrary: r rule: duration_sum.induct)
  case (1 d s)
  show ?case
  proof (cases "s = []")
    case True
    with 1 show ?thesis by (simp add: duration_sum.simps)
  next
    case False
    with 1 obtain t rest where part: "duration_part s = Some (t, rest)"
      by (subst (asm) (2) duration_sum.simps) (auto split: option.splits)
    then have "0 \<le> t" by (rule duration_part_nonneg)
    moreover have "duration_sum (d + t) rest = Some r"
      using 1(3) False part by (subst (asm) duration_sum.simps) (auto split: if_splits)
    moreover have "\<not> 2 ^ 63 < d + t"
      using 1(3) False part by (subst (asm) duration_sum.simps) (auto split: if_splits)
    ultimately have "d + t \<le> r"
      using 1(1) [OF False part refl] duration_part_consumes [OF part] 1(2) by simp
    with \<open>0 \<le> t\<close> show ?thesis by simp
  qed
qed

end
