(* ===== verification/Common_Config.thy ===== *)
theory Common_Config
  imports Go_Duration
begin

text \<open>
  \<open>internal/common/config.go\<close>: the application's configuration, its loader (over a function
  standing for \<open>os.Getenv\<close>) and the pod naming scheme of the StatefulSet. Also
  \<open>parseLevel\<close> of \<open>internal/common/logging.go\<close>.
\<close>

section \<open>Definitions\<close>

record Config =
  AppName :: string
  Namespace :: string
  StatefulSetName :: string
  MemgraphUser :: string
  MemgraphPassword :: string
  ReconcileInterval :: int
  HTTPPort :: string
  BoltPort :: string
  ReplicationPort :: string
  GatewayBindAddress :: string
  LogLevel :: string
  LogAddSource :: bool
  LogFormat :: string

definition getEnvOrDefault :: "(string \<Rightarrow> string) \<Rightarrow> string \<Rightarrow> string \<Rightarrow> string" where
  "getEnvOrDefault getenv key defaultValue =
     (if getenv key \<noteq> '''' then getenv key else defaultValue)"

definition getBoolEnvOrDefault :: "(string \<Rightarrow> string) \<Rightarrow> string \<Rightarrow> bool \<Rightarrow> bool" where
  "getBoolEnvOrDefault getenv key defaultValue =
     (if getenv key \<noteq> '''' then
        (if ToLower (getenv key) \<in> {''true'', ''1'', ''yes'', ''on''} then True
         else if ToLower (getenv key) \<in> {''false'', ''0'', ''no'', ''off''} then False
         else defaultValue)
      else defaultValue)"

definition Load :: "(string \<Rightarrow> string) \<Rightarrow> Config go_result" where
  "Load getenv = (let
       reconcileInterval = (case ParseDuration (getEnvOrDefault getenv ''RECONCILE_INTERVAL'' ''30s'') of
           None \<Rightarrow> 30 * Second | Some d \<Rightarrow> d)
     in Inr \<lparr>AppName = getenv ''APP_NAME'',
             Namespace = getenv ''NAMESPACE'',
             StatefulSetName = getenv ''STATEFULSET_NAME'',
             MemgraphUser = getEnvOrDefault getenv ''MEMGRAPH_USER'' ''memgraph'',
             MemgraphPassword = getEnvOrDefault getenv ''MEMGRAPH_PASSWORD'' '''',
             ReconcileInterval = reconcileInterval,
             HTTPPort = getEnvOrDefault getenv ''HTTP_PORT'' ''8080'',
             BoltPort = getEnvOrDefault getenv ''BOLT_PORT'' ''7687'',
             ReplicationPort = getEnvOrDefault getenv ''REPLICATION_PORT'' ''10000'',
             GatewayBindAddress = getEnvOrDefault getenv ''GATEWAY_BIND_ADDRESS'' ''0.0.0.0:7687'',
             LogLevel = getEnvOrDefault getenv ''LOG_LEVEL'' ''info'',
             LogAddSource = getBoolEnvOrDefault getenv ''LOG_ADD_SOURCE'' True,
             LogFormat = getEnvOrDefault getenv ''LOG_FORMAT'' ''text''\<rparr>)"

definition IsMemgraphPod :: "'z Config_scheme \<Rightarrow> string \<Rightarrow> bool" where
  "IsMemgraphPod c podName = HasPrefix podName (StatefulSetName c @ ''-'')"

definition GetPodName :: "'z Config_scheme \<Rightarrow> int32 \<Rightarrow> string" where
  "GetPodName c index = StatefulSetName c @ ''-'' @ itoa (sint index)"

definition GetEligiblePodNames :: "'z Config_scheme \<Rightarrow> string \<times> string" where
  "GetEligiblePodNames c = (GetPodName c 0, GetPodName c 1)"

definition ExtractPodIndex :: "'z Config_scheme \<Rightarrow> string \<Rightarrow> int" where
  "ExtractPodIndex c podName = (case after_last CHR ''-'' podName of
      None \<Rightarrow> - 1
    | Some indexStr \<Rightarrow> (case Atoi indexStr of Some index \<Rightarrow> index | None \<Rightarrow> - 1))"

datatype level = LevelDebug | LevelInfo | LevelWarn | LevelError

definition parseLevel :: "string \<Rightarrow> level" where
  "parseLevel lvl =
     (if lvl = ''debug'' then LevelDebug
      else if lvl = ''info'' then LevelInfo
      else if lvl = ''warn'' \<or> lvl = ''warning'' then LevelWarn
      else if lvl = ''error'' then LevelError
      else LevelInfo)"

section \<open>Lemmas\<close>

lemma GetPodName_inject [simp]: "GetPodName c i = GetPodName c j \<longleftrightarrow> i = j"
  by (auto simp: GetPodName_def intro: signed_word_eqI)

lemma GetPodName_nonempty [simp]: "GetPodName c i \<noteq> ''''"
  by (simp add: GetPodName_def)

lemma GetPodName_is_memgraph_pod: "IsMemgraphPod c (GetPodName c i)"
  by (auto simp: IsMemgraphPod_def GetPodName_def HasPrefix_iff)

lemma ExtractPodIndex_GetPodName:
  assumes "0 \<le> sint i"
  shows "ExtractPodIndex c (GetPodName c i) = sint i"
proof -
  have "itoa (sint i) = nat_to_string (nat (sint i))"
    using assms by (simp add: itoa_def)
  then have "after_last CHR ''-'' (GetPodName c i) = Some (itoa (sint i))"
    by (simp add: GetPodName_def after_last_append)
  moreover have "Atoi (itoa (sint i)) = Some (sint i)"
    unfolding Atoi_def using assms sint_less [of i] by (intro parse_int_itoa) auto
  ultimately show ?thesis by (simp add: ExtractPodIndex_def)
qed

end
