(* ===== verification/Scenario.thy ===== *)
theory Scenario
  imports Memgraph_Client Common_Config
begin

text \<open>
  A concrete environment to evaluate the model on: pods with fixed addresses in the informer's store,
  every driver reachable, and Memgraph servers that answer from what they were told. A server's role
  is the last role it was set to (else the given initial one), \<open>SHOW REPLICAS\<close> returns the given
  rows, the databases are empty, and the state ConfigMap holds the value last written. The witnesses
  of the development run on it.
\<close>

section \<open>Definitions\<close>

record scenario =
  sc_pods :: "pod list"
  sc_roles :: "(string \<times> string) list"
  sc_replicas :: "(string \<times> bolt_record list) list"
  sc_index :: "string option"
  sc_dead :: "string list"

fun sim_role :: "(string \<times> string) list \<Rightarrow> history \<Rightarrow> string \<Rightarrow> string" where
  "sim_role init [] a = (case map_of init a of None \<Rightarrow> ''replica'' | Some r \<Rightarrow> r)"
| "sim_role init (IoQuery (a', n) q (Inr rs) # h) a =
     (if a' = a \<and> q = cmd_main then ''main''
      else if a' = a \<and> q = cmd_replica then ''replica'' else sim_role init h a)"
| "sim_role init (_ # h) a = sim_role init h a"

fun sim_data :: "scenario \<Rightarrow> history \<Rightarrow> cm_data go_result" where
  "sim_data sc [] = (case sc_index sc of
      None \<Rightarrow> Inl (NotFound ''configmaps not found'') | Some v \<Rightarrow> Inr [(''targetMainIndex'', v)])"
| "sim_data sc (IoCMUpdate n d ow None # h) = Inr d"
| "sim_data sc (IoCMCreate n d ow None # h) = Inr d"
| "sim_data sc (_ # h) = sim_data sc h"

definition sim_query :: "scenario \<Rightarrow> history \<Rightarrow> driver \<Rightarrow> string \<Rightarrow> bolt_record list go_result" where
  "sim_query sc h d q =
     (if q = ''SHOW REPLICATION ROLE'' then
        Inr [[(''replication role'', VString (sim_role (sc_roles sc) h (fst d)))]]
      else if q = ''SHOW REPLICAS'' then
        Inr (case map_of (sc_replicas sc) (fst d) of None \<Rightarrow> [] | Some rows \<Rightarrow> rows)
      else if q = ''SHOW STORAGE INFO'' then
        Inr [[(''vertex_count'', VInt64 0), (''edge_count'', VInt64 0)]]
      else Inr [])"

definition sim_env :: "scenario \<Rightarrow> environment" where
  "sim_env sc = \<lparr>
     env_new_driver = (\<lambda>h a. if a \<in> set (sc_dead sc) then Inl (ErrorString ''unreachable'')
                             else Inr (length h)),
     env_verify = (\<lambda>h d. if fst d \<in> set (sc_dead sc) then Some (ErrorString ''unreachable'') else None),
     env_close = (\<lambda>h d. None),
     env_query = sim_query sc,
     env_select = (\<lambda>h a q. ResultReady),
     env_store_list = (\<lambda>h. sc_pods sc),
     env_store_get = (\<lambda>h key. Inr (find (\<lambda>p. PodNamespace p @ ''/'' @ PodName p = key) (sc_pods sc))),
     env_cm_get = (\<lambda>h n. sim_data sc h),
     env_cm_update = (\<lambda>h n d ow. case sim_data sc h of Inl e \<Rightarrow> Some e | Inr _ \<Rightarrow> None),
     env_cm_create = (\<lambda>h n d ow. None),
     env_pod_get = (\<lambda>h n. case find (\<lambda>p. PodName p = n) (sc_pods sc) of
                            None \<Rightarrow> Inl (NotFound ''pods not found'') | Some p \<Rightarrow> Inr p),
     env_rs_get = (\<lambda>h n. Inl (NotFound ''replicasets not found'')),
     env_range = (\<lambda>h ks. ks),
     env_yaml = (\<lambda>s. Inl ''not a mapping''),
     env_json = (\<lambda>m. ''{}''),
     env_print = (\<lambda>v. ''''),
     env_getenv = (\<lambda>k. '''')\<rparr>"

definition sim_pod :: "string \<Rightarrow> string \<Rightarrow> pod" where
  "sim_pod name ip = \<lparr>PodName = name, PodNamespace = ''ns'', PodIP = ip, StartTime = Some 1,
     CreationTimestamp = 0, Conditions = [(''Ready'', ''True'')], DeletionTimestamp = None,
     Phase = ''Running'', NodeName = ''n'', OwnerReferences = []\<rparr>"

definition sim_row :: "string \<Rightarrow> string \<Rightarrow> bolt_record" where
  "sim_row name mode = [(''name'', VString name), (''socket_address'', VString ''addr''),
     (''sync_mode'', VString mode), (''system_info'', VString ''''),
     (''data_info'', VMap [(''memgraph'', VMap [(''behind'', VInt64 0), (''status'', VString ''ready''),
        (''ts'', VInt64 5)])])]"

definition sim_config :: Config where
  "sim_config = \<lparr>AppName = ''mg'', Namespace = ''ns'', StatefulSetName = ''mg'',
     MemgraphUser = '''', MemgraphPassword = '''', ReconcileInterval = 30 * Second, HTTPPort = ''8080'',
     BoltPort = ''7687'', ReplicationPort = ''10000'', GatewayBindAddress = ''0.0.0.0:7687'',
     LogLevel = ''info'', LogAddSource = True, LogFormat = ''text''\<rparr>"

definition two_pods :: "pod list" where
  "two_pods = [sim_pod ''mg-0'' ''10.0.0.1'', sim_pod ''mg-1'' ''10.0.0.2'']"

text \<open>A new cluster: both servers are main and empty.\<close>

definition fresh_scenario :: scenario where
  "fresh_scenario = \<lparr>sc_pods = two_pods,
     sc_roles = [(''10.0.0.1:7687'', ''main''), (''10.0.0.2:7687'', ''main'')],
     sc_replicas = [(''10.0.0.1:7687'', [sim_row ''mg_1'' ''strict_sync''])],
     sc_index = None, sc_dead = []\<rparr>"

text \<open>A running cluster: pod 0 is main and replicates to pod 1.\<close>

definition running_scenario :: scenario where
  "running_scenario = fresh_scenario\<lparr>
     sc_roles := [(''10.0.0.1:7687'', ''main''), (''10.0.0.2:7687'', ''replica'')],
     sc_index := Some ''0''\<rparr>"

end
