(* ===== verification/Memgraph_Cluster.thy ===== *)
theory Memgraph_Cluster
  imports Memgraph_Node Common_Config Scenario
begin

text \<open>
  \<open>internal/controller/memgraph_cluster.go\<close>: the controller's map of nodes and the discovery of
  a cluster's state at bootstrap. A \<open>*MemgraphNode\<close> held in a variable is the node's key in the
  map, as no operation removes an entry or replaces a pointer: \<open>on_node\<close> runs a method on the
  current value and stores the result. Where the source dereferences a map entry without a check
  (\<open>isNewCluster\<close>, \<open>discoverClusterState\<close>) the model returns \<open>None\<close> for the nil pointer
  panic.
\<close>

section \<open>Definitions\<close>

record cluster_state = pool_state +
  MemgraphNodes :: "(string \<times> memgraph_node) list"

definition nil_node :: memgraph_node where
  "nil_node = \<lparr>nd_name = '''', nd_timestamp = 0, nd_memgraphRole = '''', nd_storageInfo = None,
     nd_ipAddress = '''', nd_replicasInfo = [], nd_hasReplicasInfo = False\<rparr>"

definition node_at :: "string \<Rightarrow> 'z cluster_state_scheme \<Rightarrow> memgraph_node" where
  "node_at name s = (case map_of (MemgraphNodes s) name of None \<Rightarrow> nil_node | Some n \<Rightarrow> n)"

definition put_node :: "string \<Rightarrow> memgraph_node \<Rightarrow> ('z cluster_state_scheme, unit) state" where
  "put_node name n = modify (\<lambda>s. s\<lparr>MemgraphNodes := AList.update name n (MemgraphNodes s)\<rparr>)"

definition on_node :: "string \<Rightarrow> (memgraph_node \<Rightarrow> ('z cluster_state_scheme, 'r \<times> memgraph_node) state)
    \<Rightarrow> ('z cluster_state_scheme, 'r) state" where
  "on_node name f = do {
     known \<leftarrow> gets (\<lambda>s. map_of (MemgraphNodes s) name \<noteq> None);
     node \<leftarrow> gets (node_at name);
     (r, node') \<leftarrow> f node;
     if known then do { put_node name node'; return r } else return r }"

definition has_node :: "string \<Rightarrow> 'z cluster_state_scheme \<Rightarrow> bool" where
  "has_node name s \<longleftrightarrow> map_of (MemgraphNodes s) name \<noteq> None"

definition getPodsFromCache :: "environment \<Rightarrow> ('z cluster_state_scheme, pod list) state" where
  "getPodsFromCache env = store_list env"

text \<open>The temporary map from names to pods: of two pods with one name the later one counts.\<close>

definition pod_map :: "pod list \<Rightarrow> (string \<times> pod) list" where
  "pod_map podList = foldl (\<lambda>m p. AList.update (PodName p) p m) [] podList"

definition disconnect_missing ::
  "environment \<Rightarrow> (string \<times> pod) list \<Rightarrow> string \<Rightarrow> ('z cluster_state_scheme, unit) state" where
  "disconnect_missing env podMap podName =
     (if map_of podMap podName = None
      then do { on_node podName (node_InvalidateConnection env); return () }
      else return ())"

definition refresh_pod ::
  "(string \<times> pod) list \<Rightarrow> string \<Rightarrow> ('z cluster_state_scheme, unit) state" where
  "refresh_pod podMap podName = (case map_of podMap podName of
      None \<Rightarrow> return ()
    | Some p \<Rightarrow> do {
        ns \<leftarrow> gets MemgraphNodes;
        case map_of ns podName of
          None \<Rightarrow> put_node podName (NewMemgraphNode p)
        | Some node \<Rightarrow> put_node podName (node_Refresh node p) })"

definition Refresh :: "environment \<Rightarrow> ('z cluster_state_scheme, unit go_result) state" where
  "Refresh env = do {
     podList \<leftarrow> getPodsFromCache env;
     ns \<leftarrow> gets MemgraphNodes;
     old \<leftarrow> range_keys env (map fst ns);
     for_each old (disconnect_missing env (pod_map podList));
     new \<leftarrow> range_keys env (map fst (pod_map podList));
     for_each new (refresh_pod (pod_map podList));
     return (Inr ()) }"

definition GetTargetMainPod :: "Config \<Rightarrow> int32 \<Rightarrow> string" where
  "GetTargetMainPod c targetMainIndex =
     (if targetMainIndex <s 0 then '''' else GetPodName c targetMainIndex)"

text \<open>\<open>None\<close> is the panic on a nil node.\<close>

definition role_of :: "environment \<Rightarrow> string \<Rightarrow> ('z cluster_state_scheme, string go_result option) state" where
  "role_of env podName = do {
     known \<leftarrow> gets (has_node podName);
     if \<not> known then return None
     else do {
       (role, err) \<leftarrow> on_node podName (\<lambda>n. GetReplicationRole env n True);
       return (Some (case err of
           Some e \<Rightarrow> Inl (Wrapped (''failed to get replication role for '' @ podName) e)
         | None \<Rightarrow> Inr role)) } }"

definition storage_empty :: "environment \<Rightarrow> string \<Rightarrow> ('z cluster_state_scheme, bool go_result) state" where
  "storage_empty env podName = do {
     err \<leftarrow> on_node podName (QueryStorageInfo env);
     node \<leftarrow> gets (node_at podName);
     return (case err of
         Some e \<Rightarrow> Inl (Wrapped (''failed to query storage info for '' @ podName) e)
       | None \<Rightarrow> Inr (case nd_storageInfo node of
           Some si \<Rightarrow> \<not> (EdgeCount si \<noteq> 0 \<or> VertexCount si \<noteq> 0)
         | None \<Rightarrow> False)) }"

definition isNewCluster ::
  "environment \<Rightarrow> Config \<Rightarrow> ('z cluster_state_scheme, bool go_result option) state" where
  "isNewCluster env c = do {
     r0 \<leftarrow> role_of env (GetPodName c 0);
     case r0 of
       None \<Rightarrow> return None
     | Some (Inl e) \<Rightarrow> return (Some (Inl e))
     | Some (Inr pod0Role) \<Rightarrow> do {
         r1 \<leftarrow> role_of env (GetPodName c 1);
         case r1 of
           None \<Rightarrow> return None
         | Some (Inl e) \<Rightarrow> return (Some (Inl e))
         | Some (Inr pod1Role) \<Rightarrow>
             if pod0Role \<noteq> ''main'' \<or> pod1Role \<noteq> ''main'' then return (Some (Inr False))
             else do {
               e0 \<leftarrow> storage_empty env (GetPodName c 0);
               case e0 of
                 Inl e \<Rightarrow> return (Some (Inl e))
               | Inr False \<Rightarrow> return (Some (Inr False))
               | Inr True \<Rightarrow> do {
                   e1 \<leftarrow> storage_empty env (GetPodName c 1);
                   return (Some e1) } } } }"

text \<open>The check of step 3: the first strict-sync entry with that name decides.\<close>

fun verify_sync_replica :: "string \<Rightarrow> ReplicaInfo list \<Rightarrow> unit go_result" where
  "verify_sync_replica name [] =
     Inl (ErrorString (''STRICT_SYNC replica '' @ name @ '' not found in SHOW REPLICAS output''))"
| "verify_sync_replica name (r # rs) =
     (if ri_Name r = name \<and> ri_SyncMode r = ''strict_sync'' then
        (case ri_ParsedDataInfo r of
           Some d \<Rightarrow> if di_Status d = ''ready'' \<and> di_Behind d = 0 then Inr ()
             else Inl (ErrorString (''STRICT_SYNC replica '' @ ri_Name r @ '' is not ready: data_info=''
                       @ ri_DataInfo r))
         | None \<Rightarrow> Inl (ErrorString (''STRICT_SYNC replica '' @ ri_Name r @ '' is not ready: data_info=''
                       @ ri_DataInfo r)))
      else verify_sync_replica name rs)"

definition initializeCluster ::
  "environment \<Rightarrow> Config \<Rightarrow> ('z cluster_state_scheme, unit go_result) state" where
  "initializeCluster env c = do {
     known0 \<leftarrow> gets (has_node (GetPodName c 0));
     known1 \<leftarrow> gets (has_node (GetPodName c 1));
     if \<not> known0 \<or> \<not> known1 then
       return (Inl (ErrorString ''pod-0 or pod-1 not found for initialization''))
     else do {
       err \<leftarrow> on_node (GetPodName c 1) (SetToReplicaRole env);
       case err of
         Some e \<Rightarrow> return (Inl (Wrapped ''step 1 failed - demote pod-1 to replica'' e))
       | None \<Rightarrow> do {
           pod1Node \<leftarrow> gets (node_at (GetPodName c 1));
           err2 \<leftarrow> on_node (GetPodName c 0) (\<lambda>n. RegisterReplica env n (GetReplicaName pod1Node)
                    (GetReplicationFQDN pod1Node (StatefulSetName c) (Namespace c)) ''STRICT_SYNC'');
           case err2 of
             Some e \<Rightarrow> return (Inl (Wrapped ''step 2 failed - register STRICT_SYNC replica'' e))
           | None \<Rightarrow> do {
               (replicas, err3) \<leftarrow> on_node (GetPodName c 0) (\<lambda>n. GetReplicas env n True);
               return (case err3 of
                   Some e \<Rightarrow> Inl (Wrapped ''step 3 failed - query replicas'' e)
                 | None \<Rightarrow> verify_sync_replica (GetReplicaName pod1Node) replicas) } } } }"

text \<open>The readiness of one of the two eligible pods, from the informer's store.\<close>

definition pod_key :: "'z Config_scheme \<Rightarrow> string \<Rightarrow> string" where
  "pod_key c podName = Namespace c @ ''/'' @ podName"

definition cached_ready ::
  "environment \<Rightarrow> Config \<Rightarrow> string \<Rightarrow> ('z cluster_state_scheme, bool) state" where
  "cached_ready env c podName = do {
     r \<leftarrow> store_get env (pod_key c podName);
     return (case r of
         Inl e \<Rightarrow> False
       | Inr None \<Rightarrow> False
       | Inr (Some p) \<Rightarrow> isPodReady p) }"

definition unknown_state :: go_error where
  "unknown_state = ErrorString ''cluster is in an unknown state - manual intervention required''"

text \<open>Steps 3 and 4 of the discovery.\<close>

definition discover_roles ::
  "environment \<Rightarrow> Config \<Rightarrow> ('z cluster_state_scheme, int32 go_result option) state" where
  "discover_roles env c = do {
     r0 \<leftarrow> role_of env (GetPodName c 0);
     case r0 of
       None \<Rightarrow> return None
     | Some (Inl e) \<Rightarrow> return (Some (Inl e))
     | Some (Inr pod0Role) \<Rightarrow> do {
         r1 \<leftarrow> role_of env (GetPodName c 1);
         return (case r1 of
             None \<Rightarrow> None
           | Some (Inl e) \<Rightarrow> Some (Inl e)
           | Some (Inr pod1Role) \<Rightarrow>
               if pod0Role = ''main'' \<and> pod1Role = ''replica'' then Some (Inr 0)
               else if pod0Role = ''replica'' \<and> pod1Role = ''main'' then Some (Inr 1)
               else Some (Inl unknown_state)) } }"

definition discoverClusterState ::
  "environment \<Rightarrow> Config \<Rightarrow> ('z cluster_state_scheme, int32 go_result option) state" where
  "discoverClusterState env c = do {
     r \<leftarrow> Refresh env;
     case r of
       Inl e \<Rightarrow> return (Some (Inr (- 1)))
     | Inr _ \<Rightarrow> do {
         ready0 \<leftarrow> cached_ready env c (GetPodName c 0);
         if \<not> ready0 then return (Some (Inr (- 1)))
         else do {
           ready1 \<leftarrow> cached_ready env c (GetPodName c 1);
           if \<not> ready1 then return (Some (Inr (- 1)))
           else do {
             isNew \<leftarrow> isNewCluster env c;
             case isNew of
               None \<Rightarrow> return None
             | Some (Inl e) \<Rightarrow> return (Some (Inl (Wrapped ''failed to check if this is a new cluster'' e)))
             | Some (Inr True) \<Rightarrow> do {
                 i \<leftarrow> initializeCluster env c;
                 return (Some (case i of
                     Inl e \<Rightarrow> Inl (Wrapped ''failed to initialize cluster'' e)
                   | Inr _ \<Rightarrow> Inr 0)) }
             | Some (Inr False) \<Rightarrow> discover_roles env c } } } }"

text \<open>Well-formed cluster state: distinct keys, each node filed under its own name.\<close>

definition cluster_wf :: "'z cluster_state_scheme \<Rightarrow> bool" where
  "cluster_wf s \<longleftrightarrow> pool_wf s \<and> distinct (map fst (MemgraphNodes s)) \<and>
     (\<forall>(k, n) \<in> set (MemgraphNodes s). node_wf k n)"

text \<open>The address book: the IP of every known node.\<close>

definition addresses :: "'z cluster_state_scheme \<Rightarrow> string \<Rightarrow> string option" where
  "addresses s name = map_option nd_ipAddress (map_of (MemgraphNodes s) name)"

text \<open>Every command goes to a node that \<open>P\<close> admits for it.\<close>

definition commands ::
  "(string \<Rightarrow> string \<Rightarrow> bool) \<Rightarrow> (string \<Rightarrow> string option) \<Rightarrow> io \<Rightarrow> bool" where
  "commands P book =
     command_to (\<lambda>a q. \<exists>name ip. P name q \<and> book name = Some ip \<and> a = ip @ '':7687'')"

text \<open>
  A step of the cluster with known nodes: well-formedness is kept, the address book and all fields
  outside the cluster stay, and the commands sent are those that \<open>P\<close> admits.
\<close>

definition cluster_step ::
  "(string \<Rightarrow> string \<Rightarrow> bool) \<Rightarrow> 'z cluster_state_scheme \<Rightarrow> 'z cluster_state_scheme \<Rightarrow> bool" where
  "cluster_step P s t \<longleftrightarrow> (cluster_wf s \<longrightarrow>
     cluster_wf t \<and> emits (commands P (addresses s)) s t \<and> addresses t = addresses s \<and>
     cluster_state.more t = cluster_state.more s)"

text \<open>A step that may also learn new nodes and addresses, but sends no command.\<close>

definition refresh_step :: "'z cluster_state_scheme \<Rightarrow> 'z cluster_state_scheme \<Rightarrow> bool" where
  "refresh_step s t \<longleftrightarrow> (cluster_wf s \<longrightarrow>
     cluster_wf t \<and> emits (command_to (\<lambda>a q. False)) s t \<and>
     cluster_state.more t = cluster_state.more s \<and> dom (addresses s) \<subseteq> dom (addresses t))"

text \<open>The commands of the initialisation: demote pod 1, then register it with pod 0.\<close>

definition init_command :: "Config \<Rightarrow> string \<Rightarrow> string \<Rightarrow> bool" where
  "init_command c name q \<longleftrightarrow>
     name = GetPodName c 1 \<and> q = cmd_replica \<or>
     name = GetPodName c 0 \<and> q = cmd_register (GetReplicaName_pod (GetPodName c 1)) ''STRICT_SYNC''
       (GetPodName c 1 @ ''.'' @ StatefulSetName c @ ''.'' @ Namespace c @ ''.svc.cluster.local'')"

text \<open>Evidence in a trace: the server of a node reported a role; the store had the pod ready.\<close>

definition role_reported ::
  "(string \<Rightarrow> string option) \<Rightarrow> string \<Rightarrow> string \<Rightarrow> io list \<Rightarrow> bool" where
  "role_reported book name role evs \<longleftrightarrow> (\<exists>ip rs. book name = Some ip \<and>
     answered (ip @ '':7687'') ''SHOW REPLICATION ROLE'' rs evs \<and> role_of_records rs = Inr role)"

definition seen_ready :: "Config \<Rightarrow> string \<Rightarrow> io list \<Rightarrow> bool" where
  "seen_ready c name evs \<longleftrightarrow>
     (\<exists>p. IoStoreGet (pod_key c name) (Inr (Some p)) \<in> set evs \<and> isPodReady p)"

definition empty_cluster :: cluster_state where
  "empty_cluster = \<lparr>trace = [], drivers = [], podIPs = [], MemgraphNodes = []\<rparr>"

section \<open>Lemmas\<close>

subsection \<open>Frames\<close>

interpretation cluster_frame: frame_relation "cluster_step P" for P
  by unfold_locales (auto simp: cluster_step_def intro: emits_trans)

interpretation refresh_frame: frame_relation refresh_step
  by unfold_locales (auto simp: refresh_step_def intro: emits_trans)

lemma commands_mono: "commands P b e \<Longrightarrow> (\<And>n q. P n q \<Longrightarrow> P' n q) \<Longrightarrow> commands P' b e"
  by (cases e) (auto simp: commands_def)

lemma cluster_step_weaken:
  assumes "state_io_rel (cluster_step P) m" and "\<And>n q. P n q \<Longrightarrow> P' n q"
  shows "state_io_rel (cluster_step P') m"
proof (rule io_relI)
  fix s
  have "emits (commands P' b) s t" if "emits (commands P b) s t" for b and t :: "'a cluster_state_scheme"
    using that by (rule emits_mono) (erule commands_mono, rule assms(2))
  then show "cluster_step P' s (exec m s)"
    using io_relD [OF assms(1), of s] by (simp add: cluster_step_def)
qed

lemma pool_more_cluster:
  fixes s t :: "'z cluster_state_scheme"
  assumes "pool_state.more t = pool_state.more s"
  shows "MemgraphNodes t = MemgraphNodes s" and "cluster_state.more t = cluster_state.more s"
  using assms by (cases s; cases t; simp)+

text \<open>A pool step whose events are admitted is a cluster step.\<close>

lemma pool_to_cluster:
  fixes s t :: "'z cluster_state_scheme"
  assumes "pool_step A s t" and "\<And>e. A e \<Longrightarrow> commands P (addresses s) e"
  shows "cluster_step P s t"
  using assms pool_more_cluster [of t s]
  by (auto simp: pool_step_def cluster_step_def cluster_wf_def addresses_def elim!: emits_mono)

lemma cluster_step_call:
  fixes f :: "history \<Rightarrow> 'r" and ev :: "'r \<Rightarrow> io"
  assumes "\<And>r a q. command_to (\<lambda>a q. False) (ev r)"
  shows "state_io_rel (cluster_step P) (call f ev :: ('z cluster_state_scheme, 'r) state)"
proof (rule io_relI)
  fix s :: "'z cluster_state_scheme"
  have no: "command_to A (ev r)" for A r
    using assms [of r] by (cases "ev r") auto
  have "pool_step (\<lambda>e. \<exists>r. e = ev r) s (exec (call f ev) s)"
    by (rule io_relD, rule pool_step_call) blast
  then show "cluster_step P s (exec (call f ev) s)"
    by (rule pool_to_cluster) (auto simp: commands_def no)
qed

lemma map_of_wf: "cluster_wf s \<Longrightarrow> map_of (MemgraphNodes s) k = Some n \<Longrightarrow> node_wf k n"
  by (auto simp: cluster_wf_def dest: map_of_SomeD)

lemma cluster_wf_put:
  "cluster_wf s \<Longrightarrow> node_wf k n \<Longrightarrow> cluster_wf (s\<lparr>MemgraphNodes := AList.update k n (MemgraphNodes s)\<rparr>)"
  by (auto simp: cluster_wf_def pool_wf_def dest!: alist_update_mem)

lemma addresses_put:
  "addresses (s\<lparr>MemgraphNodes := AList.update k n (MemgraphNodes s)\<rparr>) =
   (addresses s)(k \<mapsto> nd_ipAddress n)"
  by (rule ext) (simp add: addresses_def)

lemma node_at_known: "map_of (MemgraphNodes s) k = Some n \<Longrightarrow> node_at k s = n"
  by (simp add: node_at_def)

lemma nil_node_address [simp]: "GetBoltAddress nil_node = Inl (ErrorString
    ''cannot get bolt address: pod  has no IP address'')"
  by (simp add: nil_node_def GetBoltAddress_def)

lemma GetBoltAddress_book:
  "GetBoltAddress (node_at k s) = Inr a \<Longrightarrow> \<exists>ip. addresses s k = Some ip \<and> a = ip @ '':7687''"
  by (auto simp: node_at_def addresses_def GetBoltAddress_def nil_node_def split: option.splits if_splits)

subsection \<open>Methods called through the map\<close>

lemma exec_on_node:
  "exec (on_node k f) s =
     (let s' = exec (f (node_at k s)) s; n' = snd (eval_result (f (node_at k s)) s) in
      if map_of (MemgraphNodes s) k = None then s'
      else s'\<lparr>MemgraphNodes := AList.update k n' (MemgraphNodes s')\<rparr>)"
  by (simp add: on_node_def put_node_def Let_def split: prod.split)

lemma eval_on_node:
  "eval_result (on_node k f) s = fst (eval_result (f (node_at k s)) s)"
  by (simp add: on_node_def split: prod.split)

text \<open>The contract of the node methods, lifted to the map once and for all.\<close>

lemma on_node_step:
  fixes f :: "memgraph_node \<Rightarrow> ('z cluster_state_scheme, 'r \<times> memgraph_node) state"
  assumes "node_operation Q f" and "\<And>q. Q q \<Longrightarrow> is_command q \<Longrightarrow> P k q"
  shows "state_io_rel (cluster_step P) (on_node k f)"
proof (rule io_relI)
  fix s :: "'z cluster_state_scheme"
  let ?n = "node_at k s"
  let ?s = "exec (f ?n) s"
  have admitted: "commands P (addresses s) e" if "node_event Q ?n e" for e
  proof (cases "GetBoltAddress ?n")
    case (Inr a)
    then have "\<exists>ip. addresses s k = Some ip \<and> a = ip @ '':7687''"
      by (rule GetBoltAddress_book)
    then show ?thesis
      using that Inr assms(2)
      by (auto simp: node_event_def commands_def pool_event_def split: io.splits
          elim!: query_event_command)
  qed (use that in \<open>simp add: node_event_def\<close>)
  have step: "cluster_step P s ?s"
    using io_relD [OF node_operation.op_step [OF assms(1)]] admitted by (rule pool_to_cluster)
  show "cluster_step P s (exec (on_node k f) s)"
  proof (cases "map_of (MemgraphNodes s) k")
    case None
    then show ?thesis using step by (simp add: exec_on_node Let_def)
  next
    case (Some n)
    let ?n' = "snd (eval_result (f ?n) s)"
    have kept: "node_kept n ?n'"
      using node_operation.op_kept [OF assms(1), of n s] Some by (simp add: node_at_known)
    have "cluster_step P ?s (?s\<lparr>MemgraphNodes := AList.update k ?n' (MemgraphNodes ?s)\<rparr>)"
      if "cluster_wf s"
    proof -
      have "node_wf k ?n'"
        using node_kept_wf [OF kept] map_of_wf [OF that Some] .
      moreover have "addresses ?s k = Some (nd_ipAddress ?n')"
        using step that Some kept by (auto simp: cluster_step_def addresses_def node_kept_def)
      ultimately show ?thesis
        by (auto simp: cluster_step_def addresses_put fun_upd_idem cluster_wf_put emits_def)
    qed
    with step have "cluster_wf s \<Longrightarrow> cluster_step P s (?s\<lparr>MemgraphNodes := AList.update k ?n' (MemgraphNodes ?s)\<rparr>)"
      by (rule cluster_frame.frame_trans)
    then show ?thesis
      using Some by (auto simp: exec_on_node Let_def cluster_step_def)
  qed
qed

subsection \<open>Refresh\<close>

lemma cluster_to_refresh:
  "state_io_rel (cluster_step (\<lambda>n q. False)) m \<Longrightarrow> state_io_rel refresh_step m"
  by (auto simp: state_io_rel_def cluster_step_def refresh_step_def commands_def)

lemma refresh_step_call:
  "(\<And>r. command_to (\<lambda>a q. False) (ev r)) \<Longrightarrow>
   state_io_rel refresh_step (call f ev :: ('z cluster_state_scheme, 'r) state)"
  by (rule cluster_to_refresh, rule cluster_step_call) simp

lemma disconnect_missing_step: "state_io_rel (cluster_step P) (disconnect_missing env m k)"
  unfolding disconnect_missing_def
  by (intro cluster_frame.frame_rules on_node_step [OF invalidate_op.node_operation_axioms]) simp

lemma exec_put_node [simp]:
  "exec (put_node k n) s = s\<lparr>MemgraphNodes := AList.update k n (MemgraphNodes s)\<rparr>"
  by (simp add: put_node_def)

lemma put_node_refresh:
  assumes "cluster_wf s \<Longrightarrow> node_wf k n"
  shows "refresh_step s (s\<lparr>MemgraphNodes := AList.update k n (MemgraphNodes s)\<rparr>)"
  using assms cluster_wf_put [of s k n]
  by (auto simp: refresh_step_def addresses_put emits_def)

lemma pod_map_names_aux:
  assumes "\<forall>(k, p) \<in> set m. PodName p = k"
  shows "\<forall>(k, p) \<in> set (foldl (\<lambda>m p. AList.update (PodName p) p m) m ps). PodName p = k"
  using assms
proof (induction ps arbitrary: m)
  case (Cons q qs)
  have "\<forall>(k, p) \<in> set (AList.update (PodName q) q m). PodName p = k"
    using Cons.prems by (auto dest!: alist_update_mem)
  then show ?case using Cons.IH by simp
qed simp

lemma pod_map_names: "map_of (pod_map ps) k = Some p \<Longrightarrow> PodName p = k"
  using pod_map_names_aux [of "[]" ps] by (auto simp: pod_map_def dest!: map_of_SomeD)

lemma pod_map_distinct [simp]: "distinct (map fst (pod_map ps))"
proof -
  have "distinct (map fst (foldl (\<lambda>m p. AList.update (PodName p) p m) m ps))"
    if "distinct (map fst m)" for m
    using that by (induction ps arbitrary: m) auto
  then show ?thesis by (simp add: pod_map_def)
qed

lemma node_wf_refresh:
  "PodName p = k \<Longrightarrow> node_wf k (NewMemgraphNode p)"
  "PodName p = k \<Longrightarrow> node_wf k n \<Longrightarrow> node_wf k (node_Refresh n p)"
  by (simp_all add: node_wf_def NewMemgraphNode_def node_Refresh_def)

lemma refresh_pod_step: "state_io_rel refresh_step (refresh_pod (pod_map ps) k)"
proof (rule io_relI)
  fix s :: "'z cluster_state_scheme"
  show "refresh_step s (exec (refresh_pod (pod_map ps) k) s)"
  proof (cases "map_of (pod_map ps) k")
    case None
    then show ?thesis by (simp add: refresh_pod_def refresh_frame.frame_refl)
  next
    case (Some p)
    then have "PodName p = k" by (rule pod_map_names)
    then show ?thesis
      using Some map_of_wf [of s k]
      by (cases "map_of (MemgraphNodes s) k")
        (simp_all add: refresh_pod_def put_node_refresh node_wf_refresh)
  qed
qed

lemma Refresh_step: "state_io_rel refresh_step (Refresh env)"
  unfolding Refresh_def getPodsFromCache_def store_list_def range_keys_def
  by (intro refresh_frame.frame_rules refresh_step_call refresh_pod_step
      cluster_to_refresh [OF disconnect_missing_step]) simp_all

text \<open>The new address book: the pods of the store, and what was known of the others.\<close>

lemma refresh_pod_addresses:
  "addresses (exec (refresh_pod m k) s) =
     (case map_of m k of None \<Rightarrow> addresses s | Some p \<Rightarrow> (addresses s)(k \<mapsto> PodIP p))"
  by (simp add: refresh_pod_def addresses_put NewMemgraphNode_def node_Refresh_def split: option.split)

lemma refresh_pods_addresses:
  "addresses (exec (for_each ks (refresh_pod m)) s) k =
     (if k \<in> set ks \<and> map_of m k \<noteq> None then Some (PodIP (the (map_of m k))) else addresses s k)"
  by (induction ks arbitrary: s) (auto simp: refresh_pod_addresses split: option.splits)

lemma addresses_trace [simp]: "addresses (s\<lparr>trace := h\<rparr>) = addresses s"
  by (simp add: addresses_def fun_eq_iff)

lemma cluster_wf_trace: "cluster_wf s \<Longrightarrow> set (trace s) \<subseteq> set h \<Longrightarrow> cluster_wf (s\<lparr>trace := h\<rparr>)"
  using pool_wf_trace [of s h] by (simp add: cluster_wf_def)

lemma Refresh_addresses:
  assumes "cluster_wf s"
  shows "addresses (exec (Refresh env) s) =
     (addresses s) ++ (map_option PodIP \<circ> map_of (pod_map (env_store_list env (trace s))))"
proof -
  let ?pm = "pod_map (env_store_list env (trace s))"
  have loop: "state_io_rel (cluster_step (\<lambda>n q. False)) (for_each xs (disconnect_missing env ?pm))" for xs
    by (intro cluster_frame.frame_for_each disconnect_missing_step)
  have kept: "addresses (exec (for_each xs (disconnect_missing env ?pm)) (s\<lparr>trace := e # e' # trace s\<rparr>)) =
      addresses s" for xs e e'
    using io_relD [OF loop [of xs], of "s\<lparr>trace := e # e' # trace s\<rparr>"] assms
      cluster_wf_trace [OF assms, of "e # e' # trace s"]
    by (auto simp: cluster_step_def)
  show ?thesis
    by (rule ext)
      (auto simp: Refresh_def getPodsFromCache_def store_list_def call_run kept
        refresh_pods_addresses range_keys_def map_add_def dom_map_of_conv_image_fst [symmetric] domIff
        split: option.split)
qed

subsection \<open>Frames of the discovery\<close>

lemma role_of_step: "state_io_rel (cluster_step P) (role_of env k)"
  unfolding role_of_def
  by (intro cluster_frame.frame_rules on_node_step [OF role_op.node_operation_axioms]) simp

lemma storage_empty_step: "state_io_rel (cluster_step P) (storage_empty env k)"
  unfolding storage_empty_def
  by (intro cluster_frame.frame_rules on_node_step [OF storage_op.node_operation_axioms]) simp

lemma cached_ready_step: "state_io_rel (cluster_step P) (cached_ready env c k)"
  unfolding cached_ready_def store_get_def
  by (intro cluster_frame.frame_rules cluster_step_call) simp

lemma isNewCluster_step: "state_io_rel (cluster_step P) (isNewCluster env c)"
  unfolding isNewCluster_def
  by (intro cluster_frame.frame_rules role_of_step storage_empty_step)
    (auto split: option.split sum.split bool.split
      intro!: cluster_frame.frame_rules role_of_step storage_empty_step)

lemma discover_roles_step: "state_io_rel (cluster_step P) (discover_roles env c)"
  unfolding discover_roles_def
  by (intro cluster_frame.frame_rules role_of_step)

lemma known_name: "cluster_wf s \<Longrightarrow> has_node k s \<Longrightarrow> nd_name (node_at k s) = k"
  by (auto simp: has_node_def node_at_def node_wf_def dest: map_of_wf)

lemma has_node_book: "has_node k s \<longleftrightarrow> addresses s k \<noteq> None"
  by (simp add: has_node_def addresses_def)

lemma cluster_step_trans_wf:
  assumes "cluster_step P s t" and "cluster_wf t \<Longrightarrow> addresses t = addresses s \<Longrightarrow> cluster_step P t u"
  shows "cluster_step P s u"
proof (cases "cluster_wf s")
  case True
  then show ?thesis using assms by (auto simp: cluster_step_def intro: emits_trans)
qed (simp add: cluster_step_def)

lemma initializeCluster_step: "state_io_rel (cluster_step (init_command c)) (initializeCluster env c)"
proof (rule io_relI)
  fix s :: "'z cluster_state_scheme"
  let ?p0 = "GetPodName c 0" and ?p1 = "GetPodName c 1"
  let ?s1 = "exec (on_node ?p1 (SetToReplicaRole env)) s"
  let ?n = "node_at ?p1 ?s1"
  let ?reg = "on_node ?p0 (\<lambda>n. RegisterReplica env n (GetReplicaName ?n)
     (GetReplicationFQDN ?n (StatefulSetName c) (Namespace c)) ''STRICT_SYNC'')"
  show "cluster_step (init_command c) s (exec (initializeCluster env c) s)"
  proof (cases "has_node ?p0 s \<and> has_node ?p1 s")
    case False
    then show ?thesis by (auto simp: initializeCluster_def cluster_frame.frame_refl)
  next
    case True
    have 1: "cluster_step (init_command c) s ?s1"
      by (rule io_relD, rule on_node_step [OF demote_op.node_operation_axioms])
        (simp add: init_command_def)
    have 2: "cluster_step (init_command c) ?s1 (exec ?reg ?s1)"
      if "cluster_wf ?s1" and "addresses ?s1 = addresses s"
    proof -
      have "nd_name ?n = ?p1"
        using that True by (simp add: known_name has_node_book)
      then show ?thesis
        by - (rule io_relD, rule on_node_step [OF register_op.node_operation_axioms],
          simp add: init_command_def GetReplicaName_def GetReplicaName_pod_eq GetReplicationFQDN_def)
    qed
    have 3: "cluster_step (init_command c) t (exec (on_node ?p0 (\<lambda>n. GetReplicas env n True)) t)"
      for t :: "'z cluster_state_scheme"
      by (rule io_relD, rule on_node_step [OF replicas_op.node_operation_axioms]) auto
    have "cluster_step (init_command c) ?s1 (exec (initializeCluster env c) s)"
      if "cluster_wf ?s1" and "addresses ?s1 = addresses s"
      using True 2 [OF that] 3 [of "exec ?reg ?s1"]
      by (auto simp: initializeCluster_def cluster_frame.frame_refl split: option.split prod.split
          intro: cluster_frame.frame_trans)
    with 1 show ?thesis by (rule cluster_step_trans_wf)
  qed
qed

subsection \<open>Evidence\<close>

lemma cluster_step_emits:
  "cluster_step P s t \<Longrightarrow> cluster_wf s \<Longrightarrow> cluster_wf t \<and> emits (\<lambda>_. True) s t \<and> addresses t = addresses s"
  by (auto simp: cluster_step_def elim: emits_mono)

lemma answered_mono: "answered a q rs evs \<Longrightarrow> set evs \<subseteq> set evs' \<Longrightarrow> answered a q rs evs'"
  by (auto simp: answered_def)

lemma role_reported_mono:
  "role_reported b k r evs \<Longrightarrow> set evs \<subseteq> set evs' \<Longrightarrow> role_reported b k r evs'"
  by (auto simp: role_reported_def dest: answered_mono)

lemma seen_ready_mono: "seen_ready c k evs \<Longrightarrow> set evs \<subseteq> set evs' \<Longrightarrow> seen_ready c k evs'"
  by (auto simp: seen_ready_def)

lemma new_events_mono:
  assumes "emits A s t" and "emits B t u"
  shows "set (new_events s t) \<subseteq> set (new_events s u)" and "set (new_events t u) \<subseteq> set (new_events s u)"
  using new_events_trans [OF assms] by auto

lemma cached_ready_seen:
  "eval_result (cached_ready env c k) s \<Longrightarrow> seen_ready c k (new_events s (exec (cached_ready env c k) s))"
  by (auto simp: cached_ready_def store_get_def call_run seen_ready_def new_events_def
      split: sum.splits option.splits)

lemma trace_on_node: "trace (exec (on_node k f) s) = trace (exec (f (node_at k s)) s)"
  by (simp add: exec_on_node Let_def)

lemma role_of_reported:
  assumes wf: "cluster_wf s" and res: "eval_result (role_of env k) s = Some (Inr role)"
  shows "role_reported (addresses s) k role (new_events s (exec (role_of env k) s))"
proof -
  let ?n = "node_at k s" and ?op = "\<lambda>n. GetReplicationRole env n True"
  have known: "has_node k s" using res by (auto simp: role_of_def split: if_splits)
  then obtain n' where n': "eval_result (?op ?n) s = ((role, None), n')"
    using res by (cases "eval_result (?op ?n) s")
      (auto simp: role_of_def eval_on_node split: prod.splits option.splits)
  have "pool_wf s" using wf by (simp add: cluster_wf_def)
  from GetReplicationRole_result(2) [OF this n'] obtain a rs where
    "GetBoltAddress ?n = Inr a" and "role_of_records rs = Inr role"
    and "answered a ''SHOW REPLICATION ROLE'' rs (new_events s (exec (?op ?n) s))"
    by auto
  moreover have "trace (exec (role_of env k) s) = trace (exec (?op ?n) s)"
    using known by (simp add: role_of_def trace_on_node split: prod.split)
  ultimately show ?thesis
    using GetBoltAddress_book [of k s a] new_events_cong
    by (force simp: role_reported_def)
qed

text \<open>Two roles asked one after the other, the shape of both discovery steps.\<close>

lemma two_roles_reported:
  fixes s :: "'z cluster_state_scheme" and env :: environment and j :: string
  defines "s1 \<equiv> exec (role_of env j) s"
  assumes wf: "cluster_wf s" and r0: "eval_result (role_of env j) s = Some (Inr ra)"
    and r1: "eval_result (role_of env k) s1 = Some (Inr rb)"
  shows "role_reported (addresses s) j ra (new_events s (exec (role_of env k) s1)) \<and>
    role_reported (addresses s) k rb (new_events s (exec (role_of env k) s1))"
proof -
  have s1: "cluster_wf s1" "emits (\<lambda>_. True) s s1" "addresses s1 = addresses s"
    unfolding s1_def using cluster_step_emits [OF io_relD [OF role_of_step] wf] by auto
  let ?t = "exec (role_of env k) s1"
  have "emits (\<lambda>_. True) s1 ?t"
    using cluster_step_emits [OF io_relD [OF role_of_step] s1(1)] by auto
  note mono = new_events_mono [OF s1(2) this]
  have "role_reported (addresses s) j ra (new_events s s1)"
    unfolding s1_def using wf r0 by (rule role_of_reported)
  moreover have "role_reported (addresses s) k rb (new_events s1 ?t)"
    using role_of_reported [OF s1(1) r1] s1(3) by simp
  ultimately show ?thesis using mono by (blast intro: role_reported_mono)
qed

lemma isNewCluster_reported:
  assumes wf: "cluster_wf s" and res: "eval_result (isNewCluster env c) s = Some (Inr True)"
  shows "role_reported (addresses s) (GetPodName c 0) ''main'' (new_events s (exec (isNewCluster env c) s)) \<and>
    role_reported (addresses s) (GetPodName c 1) ''main'' (new_events s (exec (isNewCluster env c) s))"
proof -
  let ?s1 = "exec (role_of env (GetPodName c 0)) s"
  let ?s2 = "exec (role_of env (GetPodName c 1)) ?s1"
  have r0: "eval_result (role_of env (GetPodName c 0)) s = Some (Inr ''main'')"
    and r1: "eval_result (role_of env (GetPodName c 1)) ?s1 = Some (Inr ''main'')"
    using res by (auto simp: isNewCluster_def split: option.splits sum.splits if_splits)
  have frames: "state_io_rel (cluster_step (\<lambda>_ _. True)) (role_of env k)"
    "state_io_rel (cluster_step (\<lambda>_ _. True)) (storage_empty env k)" for k
    by (rule role_of_step, rule storage_empty_step)
  have w1: "cluster_wf ?s1" and e1: "emits (\<lambda>_. True) s ?s1"
    using cluster_step_emits [OF io_relD [OF frames(1)] wf] by auto
  have w2: "cluster_wf ?s2" and e2: "emits (\<lambda>_. True) ?s1 ?s2"
    using cluster_step_emits [OF io_relD [OF frames(1)] w1] by auto
  have "cluster_step (\<lambda>_ _. True) ?s2 (exec (isNewCluster env c) s)"
    using r0 r1 io_relD [OF frames(2)]
    by (auto simp: isNewCluster_def cluster_frame.frame_refl intro: cluster_frame.frame_trans
        split: sum.split bool.split)
  from cluster_step_emits [OF this w2]
  have "set (new_events s ?s2) \<subseteq> set (new_events s (exec (isNewCluster env c) s))"
    by (intro new_events_mono(1) [OF emits_trans [OF e1 e2]]) auto
  then show ?thesis
    using two_roles_reported [OF wf r0 r1] by (blast intro: role_reported_mono)
qed

subsection \<open>Names\<close>

text \<open>
  C40: the names that the controller derives can be read back: the index of a pod from the
  name it gives the pod, and the pod from the name under which it registers it as a replica, as long
  as the StatefulSet's name has no underscore (no Kubernetes name has).
\<close>

theorem pod_name_roundtrip:
  assumes "0 \<le> sint i" and "CHR ''_'' \<notin> set (StatefulSetName c)"
  shows "ExtractPodIndex c (GetPodName c i) = sint i \<and>
    replica_GetPodName (ri\<lparr>ri_Name := GetReplicaName_pod (GetPodName c i)\<rparr>) = GetPodName c i"
proof -
  have "CHR ''_'' \<notin> set (itoa (sint i))" using assms(1) nat_to_string_digits [of "nat (sint i)"] by (auto simp: itoa_def list_all_iff is_digit_def)
  then have "CHR ''_'' \<notin> set (GetPodName c i)" using assms(2) by (auto simp: GetPodName_def)
  then have "replica_GetPodName (ri\<lparr>ri_Name := GetReplicaName_pod (GetPodName c i)\<rparr>) = GetPodName c i"
    by (auto simp: replica_GetPodName_def GetReplicaName_pod_eq ReplaceAll_def intro!: map_idI)
  then show ?thesis using ExtractPodIndex_GetPodName [OF assms(1)] by simp
qed

theorem pod_name_roundtrip_witness:
  "ExtractPodIndex sim_config (GetPodName sim_config 12) = 12 \<and>
   replica_GetPodName ((record_replica (sim_env running_scenario) [])
     \<lparr>ri_Name := GetReplicaName_pod (GetPodName sim_config 12)\<rparr>) = GetPodName sim_config 12"
proof -
  have "0 \<le> sint (12 :: int32)" "sint (12 :: int32) = 12" by code_simp+
  moreover have "CHR ''_'' \<notin> set (StatefulSetName sim_config)" by code_simp
  ultimately show ?thesis using pod_name_roundtrip [of 12 sim_config] by simp
qed

subsection \<open>Discovery\<close>

text \<open>The run of a discovery up to the decision: the state before it, and what was seen.\<close>

lemma discover_run:
  fixes s :: "'z cluster_state_scheme"
  assumes wf: "cluster_wf s"
  obtains (unready) "eval_result (discoverClusterState env c) s = Some (Inr (- 1))"
    and "emits (command_to (\<lambda>a q. False)) s (exec (discoverClusterState env c) s)"
  | (ready) u where "cluster_wf u" and "emits (command_to (\<lambda>a q. False)) s u"
    and "seen_ready c (GetPodName c 0) (new_events s u)"
    and "seen_ready c (GetPodName c 1) (new_events s u)"
    and "exec (discoverClusterState env c) s = (case eval_result (isNewCluster env c) u of
        Some (Inr True) \<Rightarrow> exec (initializeCluster env c) (exec (isNewCluster env c) u)
      | Some (Inr False) \<Rightarrow> exec (discover_roles env c) (exec (isNewCluster env c) u)
      | _ \<Rightarrow> exec (isNewCluster env c) u)"
    and "eval_result (discoverClusterState env c) s = (case eval_result (isNewCluster env c) u of
        None \<Rightarrow> None
      | Some (Inl e) \<Rightarrow> Some (Inl (Wrapped ''failed to check if this is a new cluster'' e))
      | Some (Inr True) \<Rightarrow>
          Some (case eval_result (initializeCluster env c) (exec (isNewCluster env c) u) of
              Inl e \<Rightarrow> Inl (Wrapped ''failed to initialize cluster'' e) | Inr _ \<Rightarrow> Inr 0)
      | Some (Inr False) \<Rightarrow> eval_result (discover_roles env c) (exec (isNewCluster env c) u))"
proof -
  let ?c0 = "cached_ready env c (GetPodName c 0)" and ?c1 = "cached_ready env c (GetPodName c 1)"
  let ?r = "exec (Refresh env) s"
  let ?s0 = "exec ?c0 ?r"
  let ?s1 = "exec ?c1 ?s0"
  let ?no = "command_to (\<lambda>a q. False)"
  have r: "cluster_wf ?r" "emits ?no s ?r"
    using io_relD [OF Refresh_step [of env], of s] wf by (auto simp: refresh_step_def)
  have cached: "cluster_wf (exec (cached_ready env c k) v) \<and> emits ?no v (exec (cached_ready env c k) v)"
    if "cluster_wf v" for k and v :: "'z cluster_state_scheme"
    using io_relD [OF cached_ready_step [of "\<lambda>_ _. False" env c k], of v] that
    by (simp add: cluster_step_def commands_def)
  note s0 = cached [OF r(1), of "GetPodName c 0"]
  note s1 = cached [OF conjunct1 [OF s0], of "GetPodName c 1"]
  have refreshed: "eval_result (Refresh env) s = Inr ()"
    by (simp add: Refresh_def)
  show thesis
  proof (cases "eval_result ?c0 ?r \<and> eval_result ?c1 ?s0")
    case False
    then show thesis
      using r s0 s1 refreshed
      by (intro unready) (auto simp: discoverClusterState_def intro: emits_trans)
  next
    case True
    have "emits ?no s ?s0" using r s0 by (blast intro: emits_trans)
    then have m: "set (new_events s ?s0) \<subseteq> set (new_events s ?s1)"
      "set (new_events ?s0 ?s1) \<subseteq> set (new_events s ?s1)"
      using s1 new_events_mono by blast+
    have "set (new_events ?r ?s0) \<subseteq> set (new_events s ?s1)"
      using m(1) new_events_mono(2) [OF r(2) conjunct2 [OF s0]] by auto
    then have "seen_ready c (GetPodName c 0) (new_events s ?s1)"
      "seen_ready c (GetPodName c 1) (new_events s ?s1)"
      using True m(2) by (blast intro: seen_ready_mono cached_ready_seen)+
    then show thesis
      using r s0 s1 refreshed True
      by (intro ready [of ?s1])
        (auto simp: discoverClusterState_def intro: emits_trans split: option.split sum.split bool.split)
  qed
qed

lemma emits_no_command: "emits (command_to (\<lambda>a q. False)) s t \<Longrightarrow> emits (commands P b) s t"
  by (erule emits_mono) (auto simp: commands_def elim!: command_to.elims)

lemma emits_admitted:
  "emits (commands P b) s t \<Longrightarrow> (\<And>n q. P n q \<Longrightarrow> P' n q) \<Longrightarrow> emits (commands P' b) s t"
  by (erule emits_mono) (erule commands_mono)

lemma discover_roles_reported:
  assumes wf: "cluster_wf s" and res: "eval_result (discover_roles env c) s = Some (Inr i)"
  shows "i \<in> {0, 1} \<and>
    role_reported (addresses s) (GetPodName c i) ''main'' (new_events s (exec (discover_roles env c) s)) \<and>
    role_reported (addresses s) (GetPodName c (1 - i)) ''replica'' (new_events s (exec (discover_roles env c) s))"
proof -
  let ?s1 = "exec (role_of env (GetPodName c 0)) s"
  obtain ra rb where r0: "eval_result (role_of env (GetPodName c 0)) s = Some (Inr ra)"
    and r1: "eval_result (role_of env (GetPodName c 1)) ?s1 = Some (Inr rb)"
    and i: "ra = ''main'' \<and> rb = ''replica'' \<and> i = 0 \<or> ra = ''replica'' \<and> rb = ''main'' \<and> i = 1"
    using res by (auto simp: discover_roles_def split: option.splits sum.splits if_splits)
  have "exec (discover_roles env c) s = exec (role_of env (GetPodName c 1)) ?s1"
    using r0 by (simp add: discover_roles_def)
  then show ?thesis using two_roles_reported [OF wf r0 r1] i by auto
qed

text \<open>
  C9: a discovery that names a target main index names 0 or 1; during the run both
  eligible pods were seen ready in the store, and the server of the named pod reported the role main.
  The other server reported the role replica, or (the new-cluster case) it was main as well, pod 0 was
  named and the initialisation succeeded.
\<close>

theorem discover_result:
  fixes s :: "'z cluster_state_scheme"
  assumes "cluster_wf s" and "eval_result (discoverClusterState env c) s = Some (Inr i)" and "i \<noteq> - 1"
  defines "t \<equiv> exec (discoverClusterState env c) s"
  shows "i \<in> {0, 1} \<and>
    seen_ready c (GetPodName c 0) (new_events s t) \<and> seen_ready c (GetPodName c 1) (new_events s t) \<and>
    role_reported (addresses t) (GetPodName c i) ''main'' (new_events s t) \<and>
    (role_reported (addresses t) (GetPodName c (1 - i)) ''replica'' (new_events s t) \<or>
     i = 0 \<and> role_reported (addresses t) (GetPodName c 1) ''main'' (new_events s t) \<and>
     (\<exists>u. eval_result (initializeCluster env c) u = Inr () \<and> t = exec (initializeCluster env c) u))"
  using assms(1)
proof (cases rule: discover_run [of s env c])
  case unready
  then show ?thesis using assms by simp
next
  case (ready u)
  let ?n = "exec (isNewCluster env c) u"
  have n: "cluster_wf ?n" "emits (\<lambda>_. True) u ?n" "addresses ?n = addresses u"
    using cluster_step_emits [OF io_relD [OF isNewCluster_step] ready(1)] by auto
  have "cluster_step (init_command c) ?n t"
    unfolding t_def ready(5)
    using io_relD [OF initializeCluster_step [of c env], of ?n]
      io_relD [OF discover_roles_step [of "init_command c" env c], of ?n]
    by (auto split: option.split sum.split bool.split intro: cluster_frame.frame_refl)
  note t = cluster_step_emits [OF this n(1)]
  have s_n: "emits (\<lambda>_. True) s ?n"
    using ready(2) n(2) by (blast intro: emits_trans emits_mono)
  have m: "set (new_events s u) \<subseteq> set (new_events s t)" "set (new_events u ?n) \<subseteq> set (new_events s t)"
    "set (new_events ?n t) \<subseteq> set (new_events s t)"
    using new_events_mono [OF ready(2) n(2)] new_events_mono [OF s_n] t by blast+
  have seen: "seen_ready c (GetPodName c 0) (new_events s t)" "seen_ready c (GetPodName c 1) (new_events s t)"
    using ready(3,4) m(1) by (blast intro: seen_ready_mono)+
  consider (new) "eval_result (isNewCluster env c) u = Some (Inr True)"
      and "eval_result (initializeCluster env c) ?n = Inr ()" and "i = 0"
    | (old) "eval_result (isNewCluster env c) u = Some (Inr False)"
      and "eval_result (discover_roles env c) ?n = Some (Inr i)"
    using assms(2) ready(6) by (auto split: option.splits sum.splits bool.splits)
  then show ?thesis
  proof cases
    case new
    have "t = exec (initializeCluster env c) ?n" using ready(5) new by (simp add: t_def)
    moreover have "role_reported (addresses t) (GetPodName c j) ''main'' (new_events s t)" if "j \<in> {0, 1}" for j
      using isNewCluster_reported [OF ready(1) new(1)] that m(2) t n(3)
      by (auto intro: role_reported_mono)
    ultimately show ?thesis using seen new by auto
  next
    case old
    have "t = exec (discover_roles env c) ?n" using ready(5) old by (simp add: t_def)
    then show ?thesis
      using discover_roles_reported [OF n(1) old(2)] m(3) t seen by (auto intro: role_reported_mono)
  qed
qed

theorem discover_result_witness:
  "cluster_wf empty_cluster \<and>
   eval_result (discoverClusterState (sim_env running_scenario) sim_config) empty_cluster = Some (Inr 0) \<and>
   role_reported (addresses (exec (discoverClusterState (sim_env running_scenario) sim_config) empty_cluster))
     (GetPodName sim_config 0) ''main'' (new_events empty_cluster
       (exec (discoverClusterState (sim_env running_scenario) sim_config) empty_cluster))"
proof -
  have "cluster_wf empty_cluster"
    by (simp add: cluster_wf_def pool_wf_def empty_cluster_def)
  moreover have "eval_result (discoverClusterState (sim_env running_scenario) sim_config) empty_cluster =
      Some (Inr 0)"
    by code_simp
  ultimately show ?thesis using discover_result by force
qed



end
