(* ===== verification/Gateway_Config.thy ===== *)
theory Gateway_Config
  imports Go_Duration
begin

text \<open>
  \<open>internal/gateway/config.go\<close>: the gateway's configuration, its loader over a function that
  stands for \<open>os.Getenv\<close>, and its validation, with the parts of \<open>net\<close> and \<open>strconv\<close> they
  use (\<open>SplitHostPort\<close>, \<open>ParseIP\<close>, \<open>ParseBool\<close>). The messages of \<open>Validate\<close> are
  the constructors of an error type, with the values they print.
\<close>

section \<open>Definitions\<close>

subsection \<open>Addresses\<close>

text \<open>Split at the last occurrence of a character; \<open>None\<close> when there is none.\<close>

definition split_last :: "char \<Rightarrow> string \<Rightarrow> (string \<times> string) option" where
  "split_last c s = (if c \<in> set s
     then Some (rev (drop 1 (dropWhile (\<lambda>x. x \<noteq> c) (rev s))), rev (takeWhile (\<lambda>x. x \<noteq> c) (rev s)))
     else None)"

definition split_first :: "char \<Rightarrow> string \<Rightarrow> (string \<times> string) option" where
  "split_first c s = (if c \<in> set s
     then Some (takeWhile (\<lambda>x. x \<noteq> c) s, drop 1 (dropWhile (\<lambda>x. x \<noteq> c) s)) else None)"

datatype addr_error = MissingPort | MissingBracket | TooManyColons | UnexpectedOpen | UnexpectedClose

definition SplitHostPort :: "string \<Rightarrow> addr_error + (string \<times> string)" where
  "SplitHostPort hostport = (case split_last CHR '':'' hostport of
      None \<Rightarrow> Inl MissingPort
    | Some (before, port) \<Rightarrow>
        if hostport \<noteq> [] \<and> hd hostport = CHR ''['' then
          (case split_first CHR '']'' hostport of
             None \<Rightarrow> Inl MissingBracket
           | Some (br, rest) \<Rightarrow>
               if rest = [] then Inl MissingPort
               else if rest \<noteq> CHR '':'' # port then
                 (if hd rest = CHR '':'' then Inl TooManyColons else Inl MissingPort)
               else if CHR ''['' \<in> set (drop 1 hostport) then Inl UnexpectedOpen
               else if CHR '']'' \<in> set rest then Inl UnexpectedClose
               else Inr (drop 1 br, port))
        else if CHR '':'' \<in> set before then Inl TooManyColons
        else if CHR ''['' \<in> set hostport then Inl UnexpectedOpen
        else if CHR '']'' \<in> set hostport then Inl UnexpectedClose
        else Inr (before, port))"

fun split_on :: "char \<Rightarrow> string \<Rightarrow> string list" where
  "split_on c [] = [[]]"
| "split_on c (x # xs) = (if x = c then [] # split_on c xs
     else (case split_on c xs of [] \<Rightarrow> [[x]] | y # ys \<Rightarrow> (x # y) # ys))"

text \<open>A decimal octet without leading zeros, a dotted quad, a group of an IPv6 address.\<close>

definition is_octet :: "string \<Rightarrow> bool" where
  "is_octet s \<longleftrightarrow> s \<noteq> [] \<and> list_all is_digit s \<and> length s \<le> 3 \<and> digits_value 0 s \<le> 255 \<and>
     (hd s = CHR ''0'' \<longrightarrow> s = ''0'')"

definition is_ipv4 :: "string \<Rightarrow> bool" where
  "is_ipv4 s \<longleftrightarrow> length (split_on CHR ''.'' s) = 4 \<and> list_all is_octet (split_on CHR ''.'' s)"

definition is_hex :: "char \<Rightarrow> bool" where
  "is_hex c \<longleftrightarrow> is_digit c \<or> c \<in> set ''abcdefABCDEF''"

definition is_group :: "string \<Rightarrow> bool" where
  "is_group s \<longleftrightarrow> s \<noteq> [] \<and> length s \<le> 4 \<and> list_all is_hex s"

text \<open>The number of 16-bit groups of a colon-separated part; the last may be a dotted quad.\<close>

fun group_count :: "bool \<Rightarrow> string list \<Rightarrow> nat option" where
  "group_count last4 [] = Some 0"
| "group_count last4 [g] =
     (if is_group g then Some 1 else if last4 \<and> is_ipv4 g then Some 2 else None)"
| "group_count last4 (g # gs) =
     (if is_group g then map_option Suc (group_count last4 gs) else None)"

fun split_double :: "string \<Rightarrow> (string \<times> string) option" where
  "split_double (x # y # s) = (if x = CHR '':'' \<and> y = CHR '':'' then Some ([], s)
     else map_option (\<lambda>(l, r). (x # l, r)) (split_double (y # s)))"
| "split_double s = None"

definition part_count :: "bool \<Rightarrow> string \<Rightarrow> nat option" where
  "part_count last4 s = (if s = [] then Some 0 else group_count last4 (split_on CHR '':'' s))"

definition is_ipv6 :: "string \<Rightarrow> bool" where
  "is_ipv6 s = (case split_double s of
      None \<Rightarrow> group_count True (split_on CHR '':'' s) = Some 8
    | Some (l, r) \<Rightarrow> (case (part_count False l, part_count True r) of
        (Some m, Some n) \<Rightarrow> m + n \<le> 7
      | _ \<Rightarrow> False))"

text \<open>Whether \<open>net.ParseIP\<close> accepts the text: the first separator decides the family.\<close>

definition ParseIP :: "string \<Rightarrow> bool" where
  "ParseIP s = (case find (\<lambda>c. c = CHR ''.'' \<or> c = CHR '':'' \<or> c = CHR ''%'') s of
      None \<Rightarrow> False
    | Some c \<Rightarrow> if c = CHR ''.'' then is_ipv4 s else if c = CHR '':'' then is_ipv6 s else False)"

definition ParseBool :: "string \<Rightarrow> bool option" where
  "ParseBool s =
     (if s \<in> {''1'', ''t'', ''T'', ''TRUE'', ''true'', ''True''} then Some True
      else if s \<in> {''0'', ''f'', ''F'', ''FALSE'', ''false'', ''False''} then Some False
      else None)"

subsection \<open>The configuration\<close>

record gateway_config =
  BindAddress :: string
  MaxConnections :: int
  Timeout :: int
  BufferSize :: int
  HealthCheckInterval :: int
  ConnectionTimeout :: int
  IdleTimeout :: int
  MaxBytesPerConnection :: int
  CleanupInterval :: int
  TLSEnabled :: bool
  TLSCertPath :: string
  TLSKeyPath :: string
  RateLimitEnabled :: bool
  RateLimitRPS :: int
  RateLimitBurst :: int
  RateLimitWindow :: int
  gw_LogLevel :: string
  TraceEnabled :: bool

definition gw_getEnvOrDefault :: "(string \<Rightarrow> string) \<Rightarrow> string \<Rightarrow> string \<Rightarrow> string" where
  "gw_getEnvOrDefault getenv key defaultValue =
     (let value = getenv key in if value \<noteq> '''' then value else defaultValue)"

definition getEnvOrDefaultInt :: "(string \<Rightarrow> string) \<Rightarrow> string \<Rightarrow> int \<Rightarrow> int" where
  "getEnvOrDefaultInt getenv key defaultValue = (let value = getenv key in
     if value \<noteq> '''' then (case Atoi value of Some parsed \<Rightarrow> parsed | None \<Rightarrow> defaultValue)
     else defaultValue)"

definition getEnvOrDefaultBool :: "(string \<Rightarrow> string) \<Rightarrow> string \<Rightarrow> bool \<Rightarrow> bool" where
  "getEnvOrDefaultBool getenv key defaultValue = (let value = getenv key in
     if value \<noteq> '''' then (case ParseBool value of Some parsed \<Rightarrow> parsed | None \<Rightarrow> defaultValue)
     else defaultValue)"

definition getEnvOrDefaultInt64 :: "(string \<Rightarrow> string) \<Rightarrow> string \<Rightarrow> int \<Rightarrow> int" where
  "getEnvOrDefaultInt64 getenv key defaultValue = (let value = getenv key in
     if value \<noteq> '''' then (case parse_int 64 value of Some parsed \<Rightarrow> parsed | None \<Rightarrow> defaultValue)
     else defaultValue)"

text \<open>A duration setting: the parsed value, or the default when it does not parse.\<close>

definition duration_setting :: "(string \<Rightarrow> string) \<Rightarrow> string \<Rightarrow> string \<Rightarrow> int \<Rightarrow> int" where
  "duration_setting getenv key text_default fallback =
     (case ParseDuration (gw_getEnvOrDefault getenv key text_default) of
        Some d \<Rightarrow> d | None \<Rightarrow> fallback)"

definition LoadGatewayConfig :: "(string \<Rightarrow> string) \<Rightarrow> gateway_config" where
  "LoadGatewayConfig getenv =
     \<lparr>BindAddress = gw_getEnvOrDefault getenv ''GATEWAY_BIND_ADDRESS'' ''0.0.0.0:7687'',
      MaxConnections = getEnvOrDefaultInt getenv ''GATEWAY_MAX_CONNECTIONS'' 1000,
      Timeout = duration_setting getenv ''GATEWAY_TIMEOUT'' ''30s'' (30 * Second),
      BufferSize = getEnvOrDefaultInt getenv ''GATEWAY_BUFFER_SIZE'' 32768,
      HealthCheckInterval =
        duration_setting getenv ''GATEWAY_HEALTH_CHECK_INTERVAL'' ''30s'' (30 * Second),
      ConnectionTimeout = duration_setting getenv ''GATEWAY_CONNECTION_TIMEOUT'' ''10s'' (10 * Second),
      IdleTimeout = duration_setting getenv ''GATEWAY_IDLE_TIMEOUT'' ''5m'' (5 * Minute),
      MaxBytesPerConnection =
        getEnvOrDefaultInt64 getenv ''GATEWAY_MAX_BYTES_PER_CONNECTION'' 1048576000,
      CleanupInterval = duration_setting getenv ''GATEWAY_CLEANUP_INTERVAL'' ''1m'' (1 * Minute),
      TLSEnabled = getEnvOrDefaultBool getenv ''GATEWAY_TLS_ENABLED'' False,
      TLSCertPath = gw_getEnvOrDefault getenv ''GATEWAY_TLS_CERT_PATH'' ''/etc/certs/tls.crt'',
      TLSKeyPath = gw_getEnvOrDefault getenv ''GATEWAY_TLS_KEY_PATH'' ''/etc/certs/tls.key'',
      RateLimitEnabled = getEnvOrDefaultBool getenv ''GATEWAY_RATE_LIMIT_ENABLED'' False,
      RateLimitRPS = getEnvOrDefaultInt getenv ''GATEWAY_RATE_LIMIT_RPS'' 100,
      RateLimitBurst = getEnvOrDefaultInt getenv ''GATEWAY_RATE_LIMIT_BURST'' 200,
      RateLimitWindow = duration_setting getenv ''GATEWAY_RATE_LIMIT_WINDOW'' ''1m'' (1 * Minute),
      gw_LogLevel = gw_getEnvOrDefault getenv ''GATEWAY_LOG_LEVEL'' ''info'',
      TraceEnabled = getEnvOrDefaultBool getenv ''GATEWAY_TRACE_ENABLED'' False\<rparr>"

datatype config_error =
    InvalidBindAddress string addr_error
  | InvalidPort string
  | PortOutOfRange int
  | InvalidIPAddress string
  | MaxConnectionsTooLow int
  | MaxConnectionsTooHigh int
  | TimeoutTooShort int
  | TimeoutTooLong int
  | BufferTooSmall int
  | BufferTooLarge int
  | HealthCheckTooShort int
  | HealthCheckTooLong int
  | ConnectionTimeoutTooShort int
  | ConnectionTimeoutTooLong int int
  | IdleTimeoutTooShort int
  | IdleTimeoutTooLong int
  | CleanupTooShort int
  | CleanupTooLong int
  | MaxBytesTooSmall int
  | MaxBytesTooLarge int
  | TLSPathEmpty string string
  | RateLimitRPSNotPositive int
  | RateLimitBurstNotPositive int
  | RateLimitWindowNotPositive int
  | InvalidLogLevel string

definition validate_bind :: "string \<Rightarrow> config_error option" where
  "validate_bind addr = (case SplitHostPort addr of
      Inl e \<Rightarrow> Some (InvalidBindAddress addr e)
    | Inr (host, port) \<Rightarrow> (case Atoi port of
        None \<Rightarrow> Some (InvalidPort addr)
      | Some portNum \<Rightarrow>
          if portNum < 1 \<or> portNum > 65535 then Some (PortOutOfRange portNum)
          else if host \<noteq> ''0.0.0.0'' \<and> host \<noteq> '''' \<and> \<not> ParseIP host then Some (InvalidIPAddress host)
          else None))"

definition validate_limits :: "gateway_config \<Rightarrow> config_error option" where
  "validate_limits c =
     (if MaxConnections c < 1 then Some (MaxConnectionsTooLow (MaxConnections c))
      else if MaxConnections c > 100000 then Some (MaxConnectionsTooHigh (MaxConnections c))
      else if Timeout c < Second then Some (TimeoutTooShort (Timeout c))
      else if Timeout c > 5 * Minute then Some (TimeoutTooLong (Timeout c))
      else if BufferSize c < 1024 then Some (BufferTooSmall (BufferSize c))
      else if BufferSize c > 1048576 then Some (BufferTooLarge (BufferSize c))
      else if HealthCheckInterval c < 5 * Second then Some (HealthCheckTooShort (HealthCheckInterval c))
      else if HealthCheckInterval c > 10 * Minute then Some (HealthCheckTooLong (HealthCheckInterval c))
      else if ConnectionTimeout c < Second then Some (ConnectionTimeoutTooShort (ConnectionTimeout c))
      else if ConnectionTimeout c > Timeout c
        then Some (ConnectionTimeoutTooLong (ConnectionTimeout c) (Timeout c))
      else if IdleTimeout c < Minute then Some (IdleTimeoutTooShort (IdleTimeout c))
      else if IdleTimeout c > 24 * Hour then Some (IdleTimeoutTooLong (IdleTimeout c))
      else if CleanupInterval c < 10 * Second then Some (CleanupTooShort (CleanupInterval c))
      else if CleanupInterval c > Hour then Some (CleanupTooLong (CleanupInterval c))
      else if MaxBytesPerConnection c < 1048576 then Some (MaxBytesTooSmall (MaxBytesPerConnection c))
      else if MaxBytesPerConnection c > 107374182400 then Some (MaxBytesTooLarge (MaxBytesPerConnection c))
      else None)"

definition validate_features :: "gateway_config \<Rightarrow> config_error option" where
  "validate_features c =
     (if TLSEnabled c \<and> (TLSCertPath c = '''' \<or> TLSKeyPath c = '''')
        then Some (TLSPathEmpty (TLSCertPath c) (TLSKeyPath c))
      else if RateLimitEnabled c \<and> RateLimitRPS c \<le> 0 then Some (RateLimitRPSNotPositive (RateLimitRPS c))
      else if RateLimitEnabled c \<and> RateLimitBurst c \<le> 0
        then Some (RateLimitBurstNotPositive (RateLimitBurst c))
      else if RateLimitEnabled c \<and> RateLimitWindow c \<le> 0
        then Some (RateLimitWindowNotPositive (RateLimitWindow c))
      else if gw_LogLevel c \<notin> {''debug'', ''info'', ''warn'', ''error''}
        then Some (InvalidLogLevel (gw_LogLevel c))
      else None)"

definition Validate :: "gateway_config \<Rightarrow> config_error option" where
  "Validate c = (case validate_bind (BindAddress c) of
      Some e \<Rightarrow> Some e
    | None \<Rightarrow> (case validate_limits c of Some e \<Rightarrow> Some e | None \<Rightarrow> validate_features c))"

section \<open>Lemmas\<close>

text \<open>A host part without colons and brackets comes back unchanged from \<open>host:port\<close>.\<close>

lemma split_last_append:
  "c \<notin> set t \<Longrightarrow> split_last c (s @ c # t) = Some (s, t)"
proof -
  assume "c \<notin> set t"
  then have "takeWhile (\<lambda>x. x \<noteq> c) (rev t @ c # rev s) = rev t"
    and "dropWhile (\<lambda>x. x \<noteq> c) (rev t @ c # rev s) = c # rev s"
    by (subst takeWhile_append2 dropWhile_append2, auto)+
  then show ?thesis by (simp add: split_last_def)
qed

lemma SplitHostPort_plain:
  assumes "CHR '':'' \<notin> set h" "CHR ''['' \<notin> set h" "CHR '']'' \<notin> set h"
    and "CHR '':'' \<notin> set p" "CHR ''['' \<notin> set p" "CHR '']'' \<notin> set p"
  shows "SplitHostPort (h @ CHR '':'' # p) = Inr (h, p)"
  using assms split_last_append [of "CHR '':''" p h]
  by (cases h) (auto simp: SplitHostPort_def)

text \<open>
  C33: a configuration that passes validation is within every documented bound: the
  connection limit, the timeouts and their order, the buffer and byte limits, and positive rate-limit
  parameters when rate limiting is on.
\<close>

theorem Validate_bounds:
  assumes "Validate c = None"
  shows "1 \<le> MaxConnections c \<and> MaxConnections c \<le> 100000 \<and>
    Second \<le> ConnectionTimeout c \<and> ConnectionTimeout c \<le> Timeout c \<and> Timeout c \<le> 5 * Minute \<and>
    1024 \<le> BufferSize c \<and> BufferSize c \<le> 1048576 \<and>
    5 * Second \<le> HealthCheckInterval c \<and> HealthCheckInterval c \<le> 10 * Minute \<and>
    Minute \<le> IdleTimeout c \<and> IdleTimeout c \<le> 24 * Hour \<and>
    10 * Second \<le> CleanupInterval c \<and> CleanupInterval c \<le> Hour \<and>
    1048576 \<le> MaxBytesPerConnection c \<and> MaxBytesPerConnection c \<le> 107374182400 \<and>
    (if RateLimitEnabled c then 0 < RateLimitRPS c \<and> 0 < RateLimitBurst c \<and> 0 < RateLimitWindow c else True) \<and>
    (if TLSEnabled c then TLSCertPath c \<noteq> '''' \<and> TLSKeyPath c \<noteq> '''' else True) \<and>
    (\<exists>host port n. SplitHostPort (BindAddress c) = Inr (host, port) \<and> Atoi port = Some n \<and>
       1 \<le> n \<and> n \<le> 65535 \<and> (host = ''0.0.0.0'' \<or> host = '''' \<or> ParseIP host))"
proof -
  have "validate_bind (BindAddress c) = None" and l: "validate_limits c = None"
    and f: "validate_features c = None"
    using assms by (auto simp: Validate_def split: option.splits)
  then have b: "\<exists>host port n. SplitHostPort (BindAddress c) = Inr (host, port) \<and> Atoi port = Some n \<and>
       1 \<le> n \<and> n \<le> 65535 \<and> (host = ''0.0.0.0'' \<or> host = '''' \<or> ParseIP host)"
    by (auto simp: validate_bind_def split: sum.splits option.splits if_splits)
  have "(if RateLimitEnabled c then 0 < RateLimitRPS c \<and> 0 < RateLimitBurst c \<and> 0 < RateLimitWindow c else True) \<and>
    (if TLSEnabled c then TLSCertPath c \<noteq> '''' \<and> TLSKeyPath c \<noteq> '''' else True)"
    using f by (auto simp: validate_features_def split: if_splits)
  then show ?thesis
    using b l unfolding validate_limits_def by (simp split: if_splits)
qed

theorem Validate_bounds_witness:
  "Validate (LoadGatewayConfig (\<lambda>k. '''')) = None \<and> MaxConnections (LoadGatewayConfig (\<lambda>k. '''')) \<le> 100000"
proof -
  have "Validate (LoadGatewayConfig (\<lambda>k. '''')) = None" by code_simp
  then show ?thesis using Validate_bounds by blast
qed

end
