(* ===== verification/Rate_Limiter.thy ===== *)
theory Rate_Limiter
  imports Go_Duration Gateway_Config
begin

text \<open>
  \<open>internal/gateway/rate_limiter.go\<close>: a token bucket per client address. The current time is an
  argument of the operations that read the clock. The two locks of \<open>Allow\<close> are taken one after
  the other; each operation is atomic in the model.
\<close>

section \<open>Definitions\<close>

record client_limiter =
  cl_tokens :: int
  cl_lastRefill :: int
  cl_connections :: int

record rate_limiter =
  rl_enabled :: bool
  rl_rps :: int
  rl_burst :: int
  rl_window :: int
  rl_clients :: "(string \<times> client_limiter) list"
  rl_stopped :: bool

definition NewRateLimiter :: "bool \<Rightarrow> int \<Rightarrow> int \<Rightarrow> int \<Rightarrow> rate_limiter" where
  "NewRateLimiter enabled rps burst window =
     \<lparr>rl_enabled = enabled, rl_rps = rps, rl_burst = burst, rl_window = window, rl_clients = [],
      rl_stopped = False\<rparr>"

text \<open>The refill of a bucket, and the decision on a connection.\<close>

definition refill :: "int \<Rightarrow> int \<Rightarrow> int \<Rightarrow> client_limiter \<Rightarrow> client_limiter" where
  "refill rps burst now client =
     (let timePassed = time_sub now (cl_lastRefill client);
          tokensToAdd = wrap64 (whole_seconds timePassed * rps)
      in if tokensToAdd > 0
         then let tokens = wrap64 (cl_tokens client + tokensToAdd)
              in client\<lparr>cl_tokens := (if tokens > burst then burst else tokens), cl_lastRefill := now\<rparr>
         else client)"

definition take_token :: "client_limiter \<Rightarrow> bool \<times> client_limiter" where
  "take_token client =
     (if cl_tokens client > 0
      then (True, client\<lparr>cl_tokens := cl_tokens client - 1,
                         cl_connections := wrap64 (cl_connections client + 1)\<rparr>)
      else (False, client))"

definition Allow :: "int \<Rightarrow> string \<Rightarrow> rate_limiter \<Rightarrow> bool \<times> rate_limiter" where
  "Allow now clientIP rl =
     (if \<not> rl_enabled rl then (True, rl)
      else let client = (case map_of (rl_clients rl) clientIP of
                  Some c \<Rightarrow> c
                | None \<Rightarrow> \<lparr>cl_tokens = rl_burst rl, cl_lastRefill = now, cl_connections = 0\<rparr>);
               (ok, client') = take_token (refill (rl_rps rl) (rl_burst rl) now client)
           in (ok, rl\<lparr>rl_clients := AList.update clientIP client' (rl_clients rl)\<rparr>))"

definition Release :: "string \<Rightarrow> rate_limiter \<Rightarrow> rate_limiter" where
  "Release clientIP rl =
     (if \<not> rl_enabled rl then rl
      else case map_of (rl_clients rl) clientIP of
          None \<Rightarrow> rl
        | Some client \<Rightarrow>
            if cl_connections client > 0
            then rl\<lparr>rl_clients := AList.update clientIP
                     (client\<lparr>cl_connections := cl_connections client - 1\<rparr>) (rl_clients rl)\<rparr>
            else rl)"

record rate_limiter_stats =
  rs_Enabled :: bool
  rs_RPS :: int
  rs_Burst :: int
  rs_Window :: int
  rs_TrackedClients :: int
  rs_ActiveClients :: int
  rs_TotalConnections :: int

definition rl_GetStats :: "rate_limiter \<Rightarrow> rate_limiter_stats" where
  "rl_GetStats rl =
     (if \<not> rl_enabled rl
      then \<lparr>rs_Enabled = False, rs_RPS = 0, rs_Burst = 0, rs_Window = 0, rs_TrackedClients = 0,
            rs_ActiveClients = 0, rs_TotalConnections = 0\<rparr>
      else let conns = map (cl_connections \<circ> snd) (rl_clients rl)
           in \<lparr>rs_Enabled = True, rs_RPS = rl_rps rl, rs_Burst = rl_burst rl, rs_Window = rl_window rl,
               rs_TrackedClients = int (length (rl_clients rl)),
               rs_ActiveClients = int (length (filter (\<lambda>n. n > 0) conns)),
               rs_TotalConnections = foldl (\<lambda>t n. wrap64 (t + n)) 0 conns\<rparr>)"

text \<open>\<open>Close\<close>; a second call closes a closed channel and panics (\<open>None\<close>).\<close>

definition rl_Close :: "rate_limiter \<Rightarrow> rate_limiter option" where
  "rl_Close rl =
     (if rl_enabled rl then (if rl_stopped rl then None else Some (rl\<lparr>rl_stopped := True\<rparr>)) else Some rl)"

definition inactive_client :: "rate_limiter \<Rightarrow> int \<Rightarrow> client_limiter \<Rightarrow> bool" where
  "inactive_client rl now client \<longleftrightarrow>
     cl_connections client = 0 \<and> time_sub now (cl_lastRefill client) > wrap64 (rl_window rl * 2)"

definition cleanupInactiveClients :: "int \<Rightarrow> rate_limiter \<Rightarrow> rate_limiter" where
  "cleanupInactiveClients now rl =
     rl\<lparr>rl_clients := filter (\<lambda>(ip, client). \<not> inactive_client rl now client) (rl_clients rl)\<rparr>"

text \<open>The goroutine \<open>cleanupRoutine\<close>: one wake-up, by the ticker or by the stop channel.\<close>

definition cleanupRoutine_tick :: "int \<Rightarrow> rate_limiter \<Rightarrow> rate_limiter option" where
  "cleanupRoutine_tick now rl = (if rl_stopped rl then None else Some (cleanupInactiveClients now rl))"

text \<open>
  The peer of a connection: \<open>None\<close> for a nil connection, \<open>Some None\<close> for one without a remote
  address.
\<close>

definition extractClientIP :: "string option option \<Rightarrow> string" where
  "extractClientIP conn = (case conn of
      None \<Rightarrow> ''unknown''
    | Some None \<Rightarrow> ''unknown''
    | Some (Some addr) \<Rightarrow> (case SplitHostPort addr of Inl e \<Rightarrow> addr | Inr (host, _) \<Rightarrow> host))"

text \<open>The operations as events with their time, and a run over a schedule of them.\<close>

datatype rl_event = EvAllow int string | EvRelease int string | EvCleanup int

fun ev_time :: "rl_event \<Rightarrow> int" where
  "ev_time (EvAllow t ip) = t" | "ev_time (EvRelease t ip) = t" | "ev_time (EvCleanup t) = t"

fun rl_apply :: "rl_event \<Rightarrow> rate_limiter \<Rightarrow> bool \<times> rate_limiter" where
  "rl_apply (EvAllow t ip) rl = Allow t ip rl"
| "rl_apply (EvRelease t ip) rl = (False, Release ip rl)"
| "rl_apply (EvCleanup t) rl = (False, cleanupInactiveClients t rl)"

definition granted :: "string \<Rightarrow> rl_event \<Rightarrow> rate_limiter \<Rightarrow> int" where
  "granted ip e rl = (case e of EvAllow t ip' \<Rightarrow> if fst (rl_apply e rl) \<and> ip' = ip then 1 else 0 | _ \<Rightarrow> 0)"

text \<open>How many connections of one client a schedule admits, and the limiter after it.\<close>

fun rl_run :: "string \<Rightarrow> rl_event list \<Rightarrow> rate_limiter \<Rightarrow> int \<times> rate_limiter" where
  "rl_run ip [] rl = (0, rl)"
| "rl_run ip (e # es) rl =
     (let (n, rl') = rl_run ip es (snd (rl_apply e rl)) in (granted ip e rl + n, rl'))"

fun increasing_from :: "int \<Rightarrow> rl_event list \<Rightarrow> bool" where
  "increasing_from t [] = True"
| "increasing_from t (e # es) = (t \<le> ev_time e \<and> increasing_from (ev_time e) es)"

text \<open>
  A well-formed limiter at an instant: parameters for which no 64-bit operation overflows, every
  bucket between empty and full, and no refill in the future.
\<close>

definition limiter_wf :: "int \<Rightarrow> rate_limiter \<Rightarrow> bool" where
  "limiter_wf t rl \<longleftrightarrow> rl_enabled rl \<and> 0 < rl_rps rl \<and> rl_rps rl \<le> 100000000 \<and>
     0 < rl_burst rl \<and> rl_burst rl \<le> 2 ^ 62 \<and> 0 < rl_window rl \<and> rl_window rl < 2 ^ 62 \<and>
     distinct (map fst (rl_clients rl)) \<and>
     (\<forall>(ip, c) \<in> set (rl_clients rl).
        0 \<le> cl_tokens c \<and> cl_tokens c \<le> rl_burst rl \<and> cl_lastRefill c \<le> t)"

text \<open>
  The credit of a client at an instant, in tokens times 10 ^ 9: what it could still be granted before
  any time passes, plus the time not yet turned into tokens.
\<close>

definition credit :: "string \<Rightarrow> int \<Rightarrow> rate_limiter \<Rightarrow> int" where
  "credit ip now rl = (case map_of (rl_clients rl) ip of
      None \<Rightarrow> rl_burst rl * Second
    | Some c \<Rightarrow> cl_tokens c * Second + rl_rps rl * (now - cl_lastRefill c))"

section \<open>Lemmas\<close>

lemma refill_tokens:
  assumes "0 < rps" "rps \<le> 100000000" "0 \<le> cl_tokens c" "cl_tokens c \<le> burst" "burst \<le> 2 ^ 62"
    and "cl_lastRefill c \<le> now"
  shows "0 \<le> cl_tokens (refill rps burst now c)" and "cl_tokens (refill rps burst now c) \<le> burst"
    and "cl_tokens (refill rps burst now c) * Second + rps * (now - cl_lastRefill (refill rps burst now c))
      \<le> cl_tokens c * Second + rps * (now - cl_lastRefill c)"
    and "cl_lastRefill (refill rps burst now c) \<le> now"
    and "cl_connections (refill rps burst now c) = cl_connections c"
proof -
  let ?d = "time_sub now (cl_lastRefill c)"
  let ?n = "whole_seconds ?d"
  have d: "0 \<le> ?d" "?d \<le> now - cl_lastRefill c" "?d < 2 ^ 63"
    using time_sub_le assms(6) by auto
  have n: "0 \<le> ?n" "?n * Second \<le> ?d" by (rule whole_seconds_bounds [OF d(1)])+
  have "?n * Second < 2 ^ 63" using n(2) d(3) by linarith
  then have n': "?n \<le> 9223372036" by (simp add: Second_def)
  have "?n * rps \<le> 9223372036 * 100000000"
    using n(1) n' assms(1,2) by (intro mult_mono) auto
  moreover have "0 \<le> ?n * rps" using n(1) assms(1) by simp
  ultimately have add: "wrap64 (?n * rps) = ?n * rps"
    and sum: "wrap64 (cl_tokens c + ?n * rps) = cl_tokens c + ?n * rps"
    using assms(3-5) by (auto intro!: wrap64_id)
  have R: "refill rps burst now c = (if ?n * rps > 0
      then c\<lparr>cl_tokens := min (cl_tokens c + ?n * rps) burst, cl_lastRefill := now\<rparr> else c)"
    by (simp add: refill_def Let_def add sum min_def)
  have "?n * rps * Second \<le> rps * (now - cl_lastRefill c)"
    using mult_left_mono [of "?n * Second" "now - cl_lastRefill c" rps] n(2) d(2) assms(1)
    by (simp add: algebra_simps)
  moreover have "min (cl_tokens c + ?n * rps) burst * Second \<le> (cl_tokens c + ?n * rps) * Second"
    by (rule mult_right_mono) (auto simp: Second_def)
  ultimately show "cl_tokens (refill rps burst now c) * Second + rps * (now - cl_lastRefill (refill rps burst now c))
      \<le> cl_tokens c * Second + rps * (now - cl_lastRefill c)"
    by (simp add: R algebra_simps)
  show "0 \<le> cl_tokens (refill rps burst now c)" "cl_tokens (refill rps burst now c) \<le> burst"
    "cl_lastRefill (refill rps burst now c) \<le> now"
    "cl_connections (refill rps burst now c) = cl_connections c"
    using assms(3-6) by (auto simp: R)
qed

lemma limiter_wf_client:
  assumes "limiter_wf t rl" and "map_of (rl_clients rl) ip = Some c"
  shows "0 \<le> cl_tokens c" and "cl_tokens c \<le> rl_burst rl" and "cl_lastRefill c \<le> t"
  using assms by (auto simp: limiter_wf_def dest!: map_of_SomeD)

lemma limiter_wf_update:
  assumes "limiter_wf t rl" and "t \<le> t'"
    and "0 \<le> cl_tokens c" "cl_tokens c \<le> rl_burst rl" "cl_lastRefill c \<le> t'"
  shows "limiter_wf t' (rl\<lparr>rl_clients := AList.update ip c (rl_clients rl)\<rparr>)"
  using assms by (fastforce simp: limiter_wf_def dest!: alist_update_mem)

lemma limiter_wf_later: "limiter_wf t rl \<Longrightarrow> t \<le> t' \<Longrightarrow> limiter_wf t' rl"
  by (fastforce simp: limiter_wf_def)

text \<open>The bucket that \<open>Allow\<close> works on: the client's own, or a full one.\<close>

lemma Allow_cases:
  assumes wf: "limiter_wf t rl" and t: "t \<le> now"
  obtains c :: client_limiter and ok and c' :: client_limiter where "ok = (cl_tokens c > 0)" and "0 \<le> cl_tokens c" and "cl_tokens c \<le> rl_burst rl"
    and "cl_lastRefill c \<le> now"
    and "cl_tokens c * Second + rl_rps rl * (now - cl_lastRefill c) \<le> credit ip t rl + rl_rps rl * (now - t)"
    and "cl_tokens c' = (if ok then cl_tokens c - 1 else cl_tokens c)" and "cl_lastRefill c' = cl_lastRefill c"
    and "Allow now ip rl = (ok, rl\<lparr>rl_clients := AList.update ip c' (rl_clients rl)\<rparr>)"
proof -
  define b where "b = (case map_of (rl_clients rl) ip of Some c \<Rightarrow> c
      | None \<Rightarrow> \<lparr>cl_tokens = rl_burst rl, cl_lastRefill = now, cl_connections = 0\<rparr>)"
  let ?r = "refill (rl_rps rl) (rl_burst rl) now b"
  have p: "rl_enabled rl" "0 < rl_rps rl" "rl_rps rl \<le> 100000000" "0 < rl_burst rl" "rl_burst rl \<le> 2 ^ 62"
    using wf by (auto simp: limiter_wf_def)
  have b: "0 \<le> cl_tokens b" "cl_tokens b \<le> rl_burst rl" "cl_lastRefill b \<le> now"
    using limiter_wf_client [OF wf, of ip] p t by (auto simp: b_def split: option.splits)
  note r = refill_tokens [OF p(2,3) b(1,2) p(5) b(3)]
  have "cl_tokens b * Second + rl_rps rl * (now - cl_lastRefill b) \<le> credit ip t rl + rl_rps rl * (now - t)"
    using t p(2) by (auto simp: b_def credit_def algebra_simps split: option.split)
  moreover have "Allow now ip rl = (cl_tokens ?r > 0,
      rl\<lparr>rl_clients := AList.update ip (snd (take_token ?r)) (rl_clients rl)\<rparr>)"
    using p(1) by (simp add: Allow_def Let_def b_def take_token_def)
  ultimately show thesis
    using r by (intro that [of _ ?r "snd (take_token ?r)"]) (auto simp: take_token_def)
qed

lemma Allow_wf: "limiter_wf t rl \<Longrightarrow> t \<le> now \<Longrightarrow> limiter_wf now (snd (Allow now ip rl))"
  by (rule Allow_cases [of t rl now ip]) (auto intro!: limiter_wf_update [of t])

lemma Release_wf: "limiter_wf t rl \<Longrightarrow> limiter_wf t (Release ip rl)"
  by (auto simp: Release_def intro!: limiter_wf_update dest: limiter_wf_client split: option.split)

lemma cleanup_wf: "limiter_wf t rl \<Longrightarrow> limiter_wf t (cleanupInactiveClients now rl)"
  by (auto simp: limiter_wf_def cleanupInactiveClients_def distinct_map_filter)

lemma rl_apply_params:
  "rl_enabled (snd (rl_apply e rl)) = rl_enabled rl" "rl_rps (snd (rl_apply e rl)) = rl_rps rl"
  "rl_burst (snd (rl_apply e rl)) = rl_burst rl" "rl_window (snd (rl_apply e rl)) = rl_window rl"
  by (cases e; simp add: Allow_def Release_def cleanupInactiveClients_def Let_def
      split: prod.split option.split)+

lemma rl_apply_wf: "limiter_wf t rl \<Longrightarrow> t \<le> ev_time e \<Longrightarrow> limiter_wf (ev_time e) (snd (rl_apply e rl))"
  by (cases e) (auto intro: Allow_wf Release_wf cleanup_wf limiter_wf_later)

lemma credit_later:
  "limiter_wf t rl \<Longrightarrow> t \<le> t' \<Longrightarrow> credit ip t' rl \<le> credit ip t rl + rl_rps rl * (t' - t)"
  by (auto simp: credit_def limiter_wf_def algebra_simps split: option.split)

lemma credit_nonneg:
  assumes "limiter_wf t rl"
  shows "0 \<le> credit ip t rl"
proof -
  have "0 < rl_burst rl" and "0 < rl_rps rl" using assms by (auto simp: limiter_wf_def)
  then show ?thesis
    using limiter_wf_client [OF assms, of ip]
    by (cases "map_of (rl_clients rl) ip") (simp_all add: credit_def Second_def)
qed

lemma Release_credit: "credit ip t (Release ip' rl) = credit ip t rl"
  by (auto simp: credit_def Release_def split: option.split)

lemma map_of_filter_snd:
  "distinct (map fst xs) \<Longrightarrow> map_of (filter (\<lambda>(k, v). P v) xs) k =
     (case map_of xs k of None \<Rightarrow> None | Some v \<Rightarrow> if P v then Some v else None)"
  by (induction xs) (auto split: option.splits dest: map_of_SomeD simp: rev_image_eqI)

text \<open>Forgetting an idle client grants it nothing it had not already earned.\<close>

lemma cleanup_credit:
  assumes wf: "limiter_wf t rl" and slow: "rl_burst rl * Second \<le> rl_rps rl * (rl_window rl * 2)"
  shows "credit ip t (cleanupInactiveClients t rl) \<le> credit ip t rl"
proof (cases "map_of (rl_clients rl) ip")
  case None
  then show ?thesis
    using wf by (simp add: credit_def cleanupInactiveClients_def map_of_filter_snd limiter_wf_def)
next
  case (Some c)
  have d: "distinct (map fst (rl_clients rl))" and w: "0 < rl_window rl" "rl_window rl < 2 ^ 62"
    and r: "0 < rl_rps rl"
    using wf by (auto simp: limiter_wf_def)
  note c = limiter_wf_client [OF wf Some]
  show ?thesis
  proof (cases "inactive_client rl t c")
    case True
    have "wrap64 (rl_window rl * 2) = rl_window rl * 2"
      using w by (intro wrap64_id) auto
    then have "rl_window rl * 2 \<le> t - cl_lastRefill c"
      using True time_sub_le [OF c(3)] by (simp add: inactive_client_def)
    then have "rl_rps rl * (rl_window rl * 2) \<le> rl_rps rl * (t - cl_lastRefill c)"
      using r by (intro mult_left_mono) auto
    moreover have "0 \<le> cl_tokens c * Second" using c(1) by (simp add: Second_def)
    ultimately show ?thesis
      using Some True d slow by (simp add: credit_def cleanupInactiveClients_def map_of_filter_snd)
  qed (use Some d in \<open>simp add: credit_def cleanupInactiveClients_def map_of_filter_snd\<close>)
qed

lemma credit_update_other:
  "ip' \<noteq> ip \<Longrightarrow> credit ip t (rl\<lparr>rl_clients := AList.update ip' c (rl_clients rl)\<rparr>) = credit ip t rl"
  by (simp add: credit_def split: option.split)

lemma Allow_credit:
  assumes "limiter_wf t rl" and "t \<le> now"
  shows "(if fst (Allow now ip' rl) \<and> ip' = ip then 1 else 0) * Second + credit ip now (snd (Allow now ip' rl))
    \<le> credit ip t rl + rl_rps rl * (now - t)"
proof (cases "ip' = ip")
  case True
  show ?thesis
    by (rule Allow_cases [OF assms, of ip])
      (auto simp: True credit_def [of ip now] algebra_simps)
next
  case False
  have later: "credit ip now rl \<le> credit ip t rl + rl_rps rl * (now - t)"
    using assms by (rule credit_later)
  show ?thesis
    by (rule Allow_cases [OF assms, of ip']) (use False later in \<open>simp add: credit_update_other\<close>)
qed

lemma rl_apply_credit:
  assumes "limiter_wf t rl" and "t \<le> ev_time e"
    and "rl_burst rl * Second \<le> rl_rps rl * (rl_window rl * 2)"
  shows "granted ip e rl * Second + credit ip (ev_time e) (snd (rl_apply e rl))
    \<le> credit ip t rl + rl_rps rl * (ev_time e - t)"
proof (cases e)
  case (EvAllow now ip')
  then show ?thesis using Allow_credit [of t rl now ip' ip] assms by (simp add: granted_def)
next
  case (EvRelease now ip')
  then show ?thesis using credit_later assms by (simp add: granted_def Release_credit)
next
  case (EvCleanup now)
  have "credit ip now (cleanupInactiveClients now rl) \<le> credit ip now rl"
    using assms EvCleanup by (intro cleanup_credit) (auto intro: limiter_wf_later)
  then show ?thesis using credit_later [OF assms(1), of now ip] assms EvCleanup by (simp add: granted_def)
qed

lemma rl_run_credit:
  assumes "limiter_wf t rl" and "increasing_from t es" and "\<forall>e \<in> set es. ev_time e \<le> t'" and "t \<le> t'"
    and "rl_burst rl * Second \<le> rl_rps rl * (rl_window rl * 2)"
  shows "fst (rl_run ip es rl) * Second \<le> credit ip t rl + rl_rps rl * (t' - t)"
  using assms
proof (induction es arbitrary: t rl)
  case Nil
  then show ?case using credit_nonneg [of t rl ip] by (simp add: limiter_wf_def)
next
  case (Cons e es)
  let ?rl = "snd (rl_apply e rl)"
  have "limiter_wf (ev_time e) ?rl" using Cons.prems by (auto intro: rl_apply_wf)
  then have "fst (rl_run ip es ?rl) * Second \<le> credit ip (ev_time e) ?rl + rl_rps rl * (t' - ev_time e)"
    using Cons.IH [of "ev_time e" ?rl] Cons.prems by (simp add: rl_apply_params)
  moreover have "granted ip e rl * Second + credit ip (ev_time e) ?rl
      \<le> credit ip t rl + rl_rps rl * (ev_time e - t)"
    using Cons.prems by (intro rl_apply_credit) auto
  moreover have "fst (rl_run ip (e # es) rl) = granted ip e rl + fst (rl_run ip es ?rl)"
    by (simp split: prod.split)
  ultimately show ?case by (simp add: algebra_simps)
qed



end
