(* ===== verification/Connection_Tracker.thy ===== *)
theory Connection_Tracker
  imports Go_Duration
begin

text \<open>
  \<open>internal/gateway/connection_tracker.go\<close>: the sessions of a gateway. A session's connections are
  modelled by what the gateway needs of them: whether the client side is open, and the address the
  backend side was dialled to with whether it is open. Sessions are pointers shared with the
  goroutine that serves them: the field \<open>ct_detached\<close>, which the source does not have, holds those
  that have left the map while their goroutine may still use them. Byte counters are 64-bit words.
  The clock is an argument.
\<close>

section \<open>Definitions\<close>

record proxy_session =
  ps_ID :: string
  ps_ClientAddr :: string
  ps_clientOpen :: bool
  ps_BackendConn :: "(string \<times> bool) option"
  ps_StartTime :: int
  ps_LastActivity :: int
  ps_BytesSent :: int64
  ps_BytesReceived :: int64
  ps_isActive :: bool
  ps_MaxBytesLimit :: int64
  ps_ConnectionErrors :: int64

record connection_tracker =
  ct_maxConnections :: int
  ct_sessions :: "(string \<times> proxy_session) list"
  ct_nextID :: uint64
  ct_detached :: "(string \<times> proxy_session) list"

definition NewConnectionTracker :: "int \<Rightarrow> connection_tracker" where
  "NewConnectionTracker maxConnections =
     \<lparr>ct_maxConnections = maxConnections, ct_sessions = [], ct_nextID = 0,
      ct_detached = []\<rparr>"

definition CanAccept :: "connection_tracker \<Rightarrow> bool" where
  "CanAccept ct \<longleftrightarrow> int (length (ct_sessions ct)) < ct_maxConnections ct"

definition session_id :: "uint64 \<Rightarrow> string" where
  "session_id n = ''session-'' @ nat_to_string (unat n)"

definition generateSessionID :: "connection_tracker \<Rightarrow> string \<times> connection_tracker" where
  "generateSessionID ct = (let n = ct_nextID ct + 1 in (session_id n, ct\<lparr>ct_nextID := n\<rparr>))"

definition Track :: "int \<Rightarrow> string \<Rightarrow> connection_tracker \<Rightarrow> string \<times> connection_tracker" where
  "Track now clientAddr ct = (let (sessionID, ct') = generateSessionID ct;
       session = \<lparr>ps_ID = sessionID, ps_ClientAddr = clientAddr, ps_clientOpen = True,
         ps_BackendConn = None, ps_StartTime = now, ps_LastActivity = now, ps_BytesSent = 0,
         ps_BytesReceived = 0, ps_isActive = True, ps_MaxBytesLimit = 1048576000,
         ps_ConnectionErrors = 0\<rparr>
     in (sessionID, ct'\<lparr>ct_sessions := AList.update sessionID session (ct_sessions ct')\<rparr>))"

subsection \<open>Sessions\<close>

definition session_Close :: "proxy_session \<Rightarrow> proxy_session" where
  "session_Close ps = (if \<not> ps_isActive ps then ps
     else ps\<lparr>ps_isActive := False, ps_clientOpen := False,
             ps_BackendConn := map_option (\<lambda>(a, _). (a, False)) (ps_BackendConn ps)\<rparr>)"

definition SetBackendConnection :: "string \<Rightarrow> proxy_session \<Rightarrow> proxy_session" where
  "SetBackendConnection addr ps = ps\<lparr>ps_BackendConn := Some (addr, True)\<rparr>"

definition AddBytesSent :: "int \<Rightarrow> int64 \<Rightarrow> proxy_session \<Rightarrow> proxy_session" where
  "AddBytesSent now bytes ps = ps\<lparr>ps_BytesSent := ps_BytesSent ps + bytes, ps_LastActivity := now\<rparr>"

definition AddBytesReceived :: "int \<Rightarrow> int64 \<Rightarrow> proxy_session \<Rightarrow> proxy_session" where
  "AddBytesReceived now bytes ps =
     ps\<lparr>ps_BytesReceived := ps_BytesReceived ps + bytes, ps_LastActivity := now\<rparr>"

definition SetMaxBytesLimit :: "int64 \<Rightarrow> proxy_session \<Rightarrow> proxy_session" where
  "SetMaxBytesLimit limit ps = ps\<lparr>ps_MaxBytesLimit := limit\<rparr>"

definition CheckBytesLimit :: "proxy_session \<Rightarrow> bool" where
  "CheckBytesLimit ps \<longleftrightarrow> ps_MaxBytesLimit ps <s ps_BytesSent ps + ps_BytesReceived ps"

definition AddConnectionError :: "proxy_session \<Rightarrow> proxy_session" where
  "AddConnectionError ps = ps\<lparr>ps_ConnectionErrors := ps_ConnectionErrors ps + 1\<rparr>"

definition GetDuration :: "int \<Rightarrow> proxy_session \<Rightarrow> int" where
  "GetDuration now ps = time_sub now (ps_StartTime ps)"

record session_stats =
  ss_ID :: string
  ss_ClientAddr :: string
  ss_StartTime :: int
  ss_LastActivity :: int
  ss_Duration :: int
  ss_BytesSent :: int64
  ss_BytesReceived :: int64
  ss_TotalBytes :: int64
  ss_ConnectionErrors :: int64
  ss_IsActive :: bool

definition session_GetStats :: "int \<Rightarrow> proxy_session \<Rightarrow> session_stats" where
  "session_GetStats now ps =
     \<lparr>ss_ID = ps_ID ps, ss_ClientAddr = ps_ClientAddr ps, ss_StartTime = ps_StartTime ps,
      ss_LastActivity = ps_LastActivity ps, ss_Duration = GetDuration now ps,
      ss_BytesSent = ps_BytesSent ps, ss_BytesReceived = ps_BytesReceived ps,
      ss_TotalBytes = ps_BytesSent ps + ps_BytesReceived ps,
      ss_ConnectionErrors = ps_ConnectionErrors ps, ss_IsActive = ps_isActive ps\<rparr>"

subsection \<open>The tracker\<close>

text \<open>A method call on a session, tracked or not.\<close>

definition on_session ::
  "string \<Rightarrow> (proxy_session \<Rightarrow> proxy_session) \<Rightarrow> connection_tracker \<Rightarrow> connection_tracker" where
  "on_session sid f ct =
     ct\<lparr>ct_sessions := AList.map_entry sid f (ct_sessions ct),
        ct_detached := AList.map_entry sid f (ct_detached ct)\<rparr>"

text \<open>Close and remove the sessions that satisfy a predicate.\<close>

definition close_where :: "(string \<Rightarrow> proxy_session \<Rightarrow> bool) \<Rightarrow> connection_tracker \<Rightarrow> connection_tracker" where
  "close_where P ct =
     ct\<lparr>ct_sessions := filter (\<lambda>(k, ps). \<not> P k ps) (ct_sessions ct),
        ct_detached := map (\<lambda>(k, ps). (k, session_Close ps))
          (filter (\<lambda>(k, ps). P k ps) (ct_sessions ct)) @ ct_detached ct\<rparr>"

definition GetSession :: "string \<Rightarrow> connection_tracker \<Rightarrow> proxy_session option" where
  "GetSession sid ct = map_of (ct_sessions ct) sid"

definition GetAllSessions :: "connection_tracker \<Rightarrow> proxy_session list" where
  "GetAllSessions ct = map snd (ct_sessions ct)"

definition GetCount :: "connection_tracker \<Rightarrow> int" where
  "GetCount ct = int (length (ct_sessions ct))"

definition Untrack :: "string \<Rightarrow> connection_tracker \<Rightarrow> connection_tracker" where
  "Untrack sid ct = close_where (\<lambda>k ps. k = sid) ct"

definition CloseAll :: "connection_tracker \<Rightarrow> connection_tracker" where
  "CloseAll ct = close_where (\<lambda>k ps. True) ct"

text \<open>The two sweeps return how many sessions they removed.\<close>

definition sweep :: "(proxy_session \<Rightarrow> bool) \<Rightarrow> connection_tracker \<Rightarrow> int \<times> connection_tracker" where
  "sweep P ct = (int (length (filter (\<lambda>(k, ps). P ps) (ct_sessions ct))), close_where (\<lambda>k ps. P ps) ct)"

definition is_stale :: "int \<Rightarrow> int \<Rightarrow> proxy_session \<Rightarrow> bool" where
  "is_stale now maxAge ps \<longleftrightarrow> \<not> ps_isActive ps \<and> time_sub now (ps_StartTime ps) > maxAge"

definition CleanupStale :: "int \<Rightarrow> int \<Rightarrow> connection_tracker \<Rightarrow> int \<times> connection_tracker" where
  "CleanupStale now maxAge ct = sweep (is_stale now maxAge) ct"

definition is_idle :: "int \<Rightarrow> int \<Rightarrow> proxy_session \<Rightarrow> bool" where
  "is_idle now idleTimeout ps \<longleftrightarrow> ps_isActive ps \<and> time_sub now (ps_LastActivity ps) > idleTimeout"

definition CleanupIdle :: "int \<Rightarrow> int \<Rightarrow> connection_tracker \<Rightarrow> int \<times> connection_tracker" where
  "CleanupIdle now idleTimeout ct = sweep (is_idle now idleTimeout) ct"

definition GetTotalBytes :: "connection_tracker \<Rightarrow> int64 \<times> int64" where
  "GetTotalBytes ct = foldl (\<lambda>(s, r) ps. (s + ps_BytesSent ps, r + ps_BytesReceived ps)) (0, 0)
     (map snd (ct_sessions ct))"

text \<open>
  Well-formedness: distinct ids, each generated by the counter; a session is active exactly while its
  client connection is open, and one that has left the map is not.
\<close>

definition entry_wf :: "uint64 \<Rightarrow> string \<times> proxy_session \<Rightarrow> bool" where
  "entry_wf n x \<longleftrightarrow> ps_ID (snd x) = fst x \<and> (\<exists>m. fst x = session_id m \<and> unat m \<le> unat n) \<and>
     ps_isActive (snd x) = ps_clientOpen (snd x)"

definition tracker_wf :: "connection_tracker \<Rightarrow> bool" where
  "tracker_wf ct \<longleftrightarrow> distinct (map fst (ct_sessions ct)) \<and>
     (\<forall>x \<in> set (ct_sessions ct) \<union> set (ct_detached ct). entry_wf (ct_nextID ct) x) \<and>
     (\<forall>x \<in> set (ct_detached ct). \<not> ps_isActive (snd x))"

text \<open>What the methods of a session never change, and what they may only switch off.\<close>

definition session_kept :: "proxy_session \<Rightarrow> proxy_session \<Rightarrow> bool" where
  "session_kept ps ps' \<longleftrightarrow> ps_ID ps' = ps_ID ps \<and>
     (ps_isActive ps = ps_clientOpen ps \<longrightarrow> ps_isActive ps' = ps_clientOpen ps') \<and>
     (ps_isActive ps' \<longrightarrow> ps_isActive ps)"

datatype tracker_op =
    OpTrack int string
  | OpUntrack string
  | OpUpdate string "proxy_session \<Rightarrow> proxy_session"
  | OpCloseAll
  | OpStale int int
  | OpIdle int int

fun tracker_apply :: "tracker_op \<Rightarrow> connection_tracker \<Rightarrow> connection_tracker" where
  "tracker_apply (OpTrack now a) ct = snd (Track now a ct)"
| "tracker_apply (OpUntrack sid) ct = Untrack sid ct"
| "tracker_apply (OpUpdate sid f) ct = on_session sid f ct"
| "tracker_apply OpCloseAll ct = CloseAll ct"
| "tracker_apply (OpStale now d) ct = snd (CleanupStale now d ct)"
| "tracker_apply (OpIdle now d) ct = snd (CleanupIdle now d ct)"

fun op_ok :: "tracker_op \<Rightarrow> bool" where
  "op_ok (OpUpdate sid f) = (\<forall>ps. session_kept ps (f ps))"
| "op_ok _ = True"

definition is_track :: "tracker_op \<Rightarrow> bool" where
  "is_track p = (case p of OpTrack now a \<Rightarrow> True | _ \<Rightarrow> False)"

section \<open>Lemmas\<close>

lemma session_id_inject [simp]: "session_id m = session_id n \<longleftrightarrow> m = n"
  by (simp add: session_id_def word_unat_eq_iff)

lemma session_Close_inactive [simp]: "\<not> ps_isActive (session_Close ps)"
  by (simp add: session_Close_def)

lemma session_Close_idem [simp]: "session_Close (session_Close ps) = session_Close ps"
  by (simp add: session_Close_def)

lemma session_ops_kept [simp]:
  "session_kept ps (session_Close ps)" "session_kept ps (SetBackendConnection a ps)"
  "session_kept ps (AddBytesSent t b ps)" "session_kept ps (AddBytesReceived t b ps)"
  "session_kept ps (SetMaxBytesLimit l ps)" "session_kept ps (AddConnectionError ps)"
  by (auto simp: session_kept_def session_Close_def SetBackendConnection_def AddBytesSent_def
      AddBytesReceived_def SetMaxBytesLimit_def AddConnectionError_def)

lemma map_entry_mem:
  "x \<in> set (AList.map_entry k f xs) \<Longrightarrow> \<exists>v. (fst x, v) \<in> set xs \<and> (snd x = v \<or> snd x = f v)"
  by (induction xs) (auto split: if_splits, metis prod.collapse)

lemma map_fst_map_entry [simp]: "map fst (AList.map_entry k f xs) = map fst xs"
  by (induction xs) auto

lemma map_of_map_entry':
  "map_of (AList.map_entry k f xs) j = (if j = k then map_option f (map_of xs j) else map_of xs j)"
  by (induction xs) auto

lemma unat_max: "unat (- 1 :: uint64) = 2 ^ 64 - 1"
  by (simp add: unsigned_minus_1_eq_mask mask_eq_exp_minus_1)

lemma unat_suc: "(n :: uint64) \<noteq> - 1 \<Longrightarrow> unat (n + 1) = Suc (unat n)"
  using unatSuc [of n] by (metis add.commute add_eq_0_iff add.inverse_inverse)

lemma entry_wf_kept: "entry_wf n (k, ps) \<Longrightarrow> session_kept ps ps' \<Longrightarrow> entry_wf n (k, ps')"
  by (simp add: entry_wf_def session_kept_def)

text \<open>A fresh id: the counter has not wrapped around, so no session ever had it.\<close>

lemma Track_fresh:
  assumes "tracker_wf ct" and "ct_nextID ct \<noteq> - 1"
  shows "fst (Track now a ct) \<notin> fst ` (set (ct_sessions ct) \<union> set (ct_detached ct))"
proof
  assume "fst (Track now a ct) \<in> fst ` (set (ct_sessions ct) \<union> set (ct_detached ct))"
  then obtain x where "x \<in> set (ct_sessions ct) \<union> set (ct_detached ct)" and x: "fst x = fst (Track now a ct)"
    by (metis imageE)
  then have "entry_wf (ct_nextID ct) x" using assms(1) by (auto simp: tracker_wf_def)
  then show False
    using x unat_suc [OF assms(2)]
    by (auto simp: entry_wf_def Track_def generateSessionID_def Let_def)
qed

lemma Track_wf:
  assumes "tracker_wf ct" and "ct_nextID ct \<noteq> - 1"
  shows "tracker_wf (snd (Track now a ct))"
proof -
  have later: "entry_wf (ct_nextID ct + 1) x" if "entry_wf (ct_nextID ct) x" for x
    using that unat_suc [OF assms(2)] le_SucI unfolding entry_wf_def by metis
  have new: "entry_wf (ct_nextID ct + 1) (session_id (ct_nextID ct + 1), ps)"
    if "ps_ID ps = session_id (ct_nextID ct + 1)" "ps_isActive ps = ps_clientOpen ps" for ps
    using that by (auto simp: entry_wf_def)
  show ?thesis
    using assms(1)
    by (auto simp: tracker_wf_def Track_def generateSessionID_def Let_def later new dest!: alist_update_mem)
qed

lemma on_session_wf:
  assumes "tracker_wf ct" and kept: "\<And>ps. session_kept ps (f ps)"
  shows "tracker_wf (on_session sid f ct)"
proof -
  have "entry_wf n x" if "x \<in> set (AList.map_entry sid f xs)" "\<forall>y \<in> set xs. entry_wf n y" for n x xs
    using map_entry_mem [OF that(1)] that(2) entry_wf_kept [OF _ kept] by (metis prod.collapse)
  moreover have "\<not> ps_isActive (snd x)" if "x \<in> set (AList.map_entry sid f xs)" "\<forall>y \<in> set xs. \<not> ps_isActive (snd y)" for x xs
    using map_entry_mem [OF that(1)] that(2) kept unfolding session_kept_def by (metis snd_conv)
  ultimately show ?thesis
    using assms(1) by (auto simp: tracker_wf_def on_session_def)
qed

lemma close_where_wf:
  assumes "tracker_wf ct"
  shows "tracker_wf (close_where P ct)"
proof -
  have "entry_wf n (k, session_Close ps)" if "entry_wf n (k, ps)" for n k ps
    using that by (rule entry_wf_kept) simp
  then show ?thesis
    using assms by (auto simp: tracker_wf_def close_where_def distinct_map_filter)
qed

text \<open>The sweeps remove exactly the sessions they count, and none of those is left.\<close>

lemma sweep_count:
  "fst (sweep P ct) = GetCount ct - GetCount (snd (sweep P ct))"
  "\<forall>ps \<in> set (GetAllSessions (snd (sweep P ct))). \<not> P ps"
  using sum_length_filter_compl [of "\<lambda>(k, ps). P ps" "ct_sessions ct"]
  by (auto simp: sweep_def close_where_def GetCount_def GetAllSessions_def case_prod_unfold)

lemma foldl_bytes:
  "foldl (\<lambda>(s, r) ps. (s + ps_BytesSent ps, r + ps_BytesReceived ps)) (a, b) pss =
     (a + sum_list (map ps_BytesSent pss), b + sum_list (map ps_BytesReceived pss))"
  by (induction pss arbitrary: a b) (auto simp: add.assoc)

lemma GetTotalBytes_sum:
  "GetTotalBytes ct = (sum_list (map ps_BytesSent (GetAllSessions ct)),
     sum_list (map ps_BytesReceived (GetAllSessions ct)))"
  by (simp add: GetTotalBytes_def GetAllSessions_def foldl_bytes)

lemma tracker_apply_next:
  "ct_nextID (tracker_apply p ct) = (if is_track p then ct_nextID ct + 1 else ct_nextID ct)"
  by (cases p) (simp_all add: is_track_def Track_def generateSessionID_def Untrack_def on_session_def
      CloseAll_def CleanupStale_def CleanupIdle_def sweep_def close_where_def Let_def)

lemma tracker_apply_wf:
  assumes "tracker_wf ct" and "op_ok p" and "ct_nextID ct \<noteq> - 1"
  shows "tracker_wf (tracker_apply p ct)"
  using assms
  by (cases p) (simp_all add: Track_wf on_session_wf close_where_wf Untrack_def CloseAll_def
      CleanupStale_def CleanupIdle_def sweep_def)

lemma tracker_run_wf:
  assumes "tracker_wf ct" and "\<forall>p \<in> set ops. op_ok p"
    and "unat (ct_nextID ct) + length (filter is_track ops) < 2 ^ 64 - 1"
  shows "tracker_wf (fold tracker_apply ops ct) \<and>
    unat (ct_nextID (fold tracker_apply ops ct)) = unat (ct_nextID ct) + length (filter is_track ops)"
  using assms
proof (induction ops arbitrary: ct)
  case (Cons p ops)
  have "ct_nextID ct \<noteq> - 1"
    using Cons.prems(3) unat_max by force
  then have "tracker_wf (tracker_apply p ct)"
    and "unat (ct_nextID (tracker_apply p ct)) = unat (ct_nextID ct) + (if is_track p then 1 else 0)"
    using Cons.prems by (auto simp: tracker_apply_wf tracker_apply_next unat_suc)
  then show ?case using Cons.IH [of "tracker_apply p ct"] Cons.prems by (cases "is_track p") auto
qed simp

text \<open>
  C34: whatever operations a tracker has seen (fewer than 2 ^ 64 - 2 of them opening
  a session), the id it gives to the next session was never given before: no session in the map and
  none that left it has it. The map holds one more session afterwards, active and under its own id.
\<close>

theorem session_ids_unique:
  fixes ops :: "tracker_op list" and limit :: int
  assumes "\<forall>p \<in> set ops. op_ok p" and "length (filter is_track ops) < 2 ^ 64 - 2"
  defines "ct \<equiv> fold tracker_apply ops (NewConnectionTracker limit)"
  shows "fst (Track now a ct) \<notin> fst ` (set (ct_sessions ct) \<union> set (ct_detached ct)) \<and>
    GetCount (snd (Track now a ct)) = GetCount ct + 1 \<and>
    (\<exists>ps. GetSession (fst (Track now a ct)) (snd (Track now a ct)) = Some ps \<and> ps_isActive ps \<and>
       ps_ID ps = fst (Track now a ct) \<and> ps_ClientAddr ps = a)"
proof -
  have "tracker_wf (NewConnectionTracker limit)"
    by (simp add: tracker_wf_def NewConnectionTracker_def)
  then have "tracker_wf ct" and n: "unat (ct_nextID ct) = length (filter is_track ops)"
    using tracker_run_wf [of "NewConnectionTracker limit" ops] assms(1,2)
    by (auto simp: ct_def NewConnectionTracker_def)
  moreover have "ct_nextID ct \<noteq> - 1"
    using n assms(2) unat_max by force
  ultimately have fresh: "fst (Track now a ct) \<notin> fst ` (set (ct_sessions ct) \<union> set (ct_detached ct))"
    by (intro Track_fresh)
  then have "session_id (ct_nextID ct + 1) \<notin> fst ` set (ct_sessions ct)"
    by (simp add: Track_def generateSessionID_def Let_def image_Un)
  then show ?thesis
    using fresh
    by (simp add: Track_def generateSessionID_def Let_def GetSession_def GetCount_def length_alist_update)
qed

theorem session_ids_unique_witness:
  "fst (Track 7 ''c'' (fold tracker_apply [OpTrack 1 ''a'', OpTrack 2 ''b'', OpUntrack ''session-1'']
     (NewConnectionTracker 10))) = ''session-3'' \<and>
   GetCount (snd (Track 7 ''c'' (fold tracker_apply [OpTrack 1 ''a'', OpTrack 2 ''b'', OpUntrack ''session-1'']
     (NewConnectionTracker 10)))) = 2"
proof
  let ?ct = "fold tracker_apply [OpTrack 1 ''a'', OpTrack 2 ''b'', OpUntrack ''session-1''] (NewConnectionTracker 10)"
  show "fst (Track 7 ''c'' ?ct) = ''session-3''" by code_simp
  have "GetCount ?ct = 1" by code_simp
  then show "GetCount (snd (Track 7 ''c'' ?ct)) = 2"
    using session_ids_unique [of "[OpTrack 1 ''a'', OpTrack 2 ''b'', OpUntrack ''session-1'']" 7 "''c''" 10]
    by (simp add: is_track_def)
qed

end
