(* ===== verification/Metrics.thy ===== *)
theory Metrics
  imports Prelude
begin

text \<open>
  \<open>internal/metrics/metrics.go\<close>: the values that the Prometheus collectors export. A collector is
  modelled by its value: a counter by a number that \<open>Inc\<close> and \<open>Add\<close> increase, a gauge by the
  last value set, the histogram by its observations, a vector by a map from label to value.
\<close>

section \<open>Definitions\<close>

record metrics =
  ReconciliationsTotal :: nat
  ReconciliationsSuccessful :: nat
  ReconciliationsFailed :: nat
  ReconciliationDuration :: "int list"
  mt_LastReconciliationTime :: int
  ClusterState :: int
  ClusterMainChanges :: nat
  ClusterSyncReplicaHealthy :: int
  ClusterPodsTotal :: int
  ClusterPodsHealthy :: int
  GatewayConnectionsActive :: int
  GatewayConnectionsTotal :: nat
  GatewayBytesTransferred :: "(string \<times> int) list"
  GatewayConnectionErrors :: nat
  ControllerIsLeader :: int
  ControllerLeadershipChanges :: nat
  ControllerElections :: nat
  ErrorsTotal :: "(string \<times> int) list"
  LastErrorTimestamp :: "(string \<times> int) list"

definition NewWithRegistry :: metrics where
  "NewWithRegistry = \<lparr>ReconciliationsTotal = 0, ReconciliationsSuccessful = 0, ReconciliationsFailed = 0,
     ReconciliationDuration = [], mt_LastReconciliationTime = 0, ClusterState = 0, ClusterMainChanges = 0,
     ClusterSyncReplicaHealthy = 0, ClusterPodsTotal = 0, ClusterPodsHealthy = 0,
     GatewayConnectionsActive = 0, GatewayConnectionsTotal = 0, GatewayBytesTransferred = [],
     GatewayConnectionErrors = 0, ControllerIsLeader = 0, ControllerLeadershipChanges = 0,
     ControllerElections = 0, ErrorsTotal = [], LastErrorTimestamp = []\<rparr>"

definition label_value :: "(string \<times> int) list \<Rightarrow> string \<Rightarrow> int" where
  "label_value v l = (case map_of v l of None \<Rightarrow> 0 | Some n \<Rightarrow> n)"

definition add_label :: "string \<Rightarrow> int \<Rightarrow> (string \<times> int) list \<Rightarrow> (string \<times> int) list" where
  "add_label l n v = AList.update l (label_value v l + n) v"

definition RecordReconciliation :: "int \<Rightarrow> bool \<Rightarrow> int \<Rightarrow> metrics \<Rightarrow> metrics" where
  "RecordReconciliation now success duration m = (let
       m1 = m\<lparr>ReconciliationsTotal := ReconciliationsTotal m + 1\<rparr>;
       m2 = (if success then m1\<lparr>ReconciliationsSuccessful := ReconciliationsSuccessful m1 + 1\<rparr>
             else m1\<lparr>ReconciliationsFailed := ReconciliationsFailed m1 + 1\<rparr>)
     in m2\<lparr>ReconciliationDuration := duration # ReconciliationDuration m2,
           mt_LastReconciliationTime := now\<rparr>)"

definition UpdateClusterState :: "bool \<Rightarrow> int \<Rightarrow> int \<Rightarrow> bool \<Rightarrow> metrics \<Rightarrow> metrics" where
  "UpdateClusterState healthy totalPods healthyPods syncReplicaHealthy m =
     m\<lparr>ClusterState := (if healthy then 1 else 0), ClusterPodsTotal := totalPods,
       ClusterPodsHealthy := healthyPods,
       ClusterSyncReplicaHealthy := (if syncReplicaHealthy then 1 else 0)\<rparr>"

definition RecordMainChange :: "metrics \<Rightarrow> metrics" where
  "RecordMainChange m = m\<lparr>ClusterMainChanges := ClusterMainChanges m + 1\<rparr>"

definition UpdateGatewayConnections :: "int \<Rightarrow> metrics \<Rightarrow> metrics" where
  "UpdateGatewayConnections active m = m\<lparr>GatewayConnectionsActive := active\<rparr>"

definition RecordGatewayConnection :: "metrics \<Rightarrow> metrics" where
  "RecordGatewayConnection m = m\<lparr>GatewayConnectionsTotal := GatewayConnectionsTotal m + 1\<rparr>"

definition RecordGatewayBytes :: "int \<Rightarrow> int \<Rightarrow> metrics \<Rightarrow> metrics" where
  "RecordGatewayBytes sent received m =
     m\<lparr>GatewayBytesTransferred :=
         add_label ''received'' received (add_label ''sent'' sent (GatewayBytesTransferred m))\<rparr>"

definition RecordGatewayError :: "metrics \<Rightarrow> metrics" where
  "RecordGatewayError m = m\<lparr>GatewayConnectionErrors := GatewayConnectionErrors m + 1\<rparr>"

definition UpdateLeadershipStatus :: "bool \<Rightarrow> metrics \<Rightarrow> metrics" where
  "UpdateLeadershipStatus isLeader m = m\<lparr>ControllerIsLeader := (if isLeader then 1 else 0)\<rparr>"

definition RecordLeadershipChange :: "metrics \<Rightarrow> metrics" where
  "RecordLeadershipChange m = m\<lparr>ControllerLeadershipChanges := ControllerLeadershipChanges m + 1\<rparr>"

definition RecordElection :: "metrics \<Rightarrow> metrics" where
  "RecordElection m = m\<lparr>ControllerElections := ControllerElections m + 1\<rparr>"

definition RecordError :: "int \<Rightarrow> string \<Rightarrow> metrics \<Rightarrow> metrics" where
  "RecordError now errorType m =
     m\<lparr>ErrorsTotal := add_label errorType 1 (ErrorsTotal m),
       LastErrorTimestamp := AList.update errorType now (LastErrorTimestamp m)\<rparr>"

text \<open>The reconciliation counters add up, whatever is recorded.\<close>

definition metrics_wf :: "metrics \<Rightarrow> bool" where
  "metrics_wf m \<longleftrightarrow> ReconciliationsTotal m = ReconciliationsSuccessful m + ReconciliationsFailed m \<and>
     length (ReconciliationDuration m) = ReconciliationsTotal m"

section \<open>Lemmas\<close>

lemma RecordReconciliation_wf: "metrics_wf m \<Longrightarrow> metrics_wf (RecordReconciliation now ok d m)"
  by (simp add: metrics_wf_def RecordReconciliation_def Let_def)

lemma add_label_value [simp]:
  "label_value (add_label l n v) k = label_value v k + (if k = l then n else 0)"
  by (simp add: add_label_def label_value_def)

end
