(* ===== verification/Gateway_Server.thy ===== *)
theory Gateway_Server
  imports Gateway_Config Rate_Limiter Connection_Tracker Metrics
begin

text \<open>
  \<open>internal/gateway/server.go\<close>: the Bolt proxy. First the operations as functions on the server's
  record, then the server with its goroutines as a step relation: the accept loop, one handler per
  connection, and a writer that changes the upstream. The relation interleaves them at the points
  where the source takes and releases \<open>upstreamAddressMu\<close> and the tracker's lock, which is where
  the order matters: \<open>SetUpstreamAddress\<close> holds the write lock while it disconnects the sessions,
  and \<open>GetUpstreamAddress\<close> waits for it.
\<close>

section \<open>Definitions\<close>

subsection \<open>The server\<close>

record server =
  sv_name :: string
  sv_config :: gateway_config
  sv_connections :: connection_tracker
  sv_isRunning :: bool
  sv_upstreamAddress :: string
  sv_totalConnections :: int64
  sv_activeConnections :: int64
  sv_rejectedConnections :: int64
  sv_errors :: int64
  sv_failovers :: int64
  sv_lastHealthCheck :: int
  sv_healthStatus :: string
  sv_rateLimiter :: rate_limiter
  sv_rateLimitRejections :: int64

definition NewServer :: "string \<Rightarrow> gateway_config \<Rightarrow> server" where
  "NewServer name c =
     \<lparr>sv_name = name, sv_config = c, sv_connections = NewConnectionTracker (MaxConnections c),
      sv_isRunning = False, sv_upstreamAddress = '''', sv_totalConnections = 0,
      sv_activeConnections = 0, sv_rejectedConnections = 0, sv_errors = 0, sv_failovers = 0,
      sv_lastHealthCheck = 0, sv_healthStatus = ''unknown'',
      sv_rateLimiter =
        NewRateLimiter (RateLimitEnabled c) (RateLimitRPS c) (RateLimitBurst c) (RateLimitWindow c),
      sv_rateLimitRejections = 0\<rparr>"

datatype start_error =
    ConfigInvalid config_error
  | AlreadyRunning
  | TLSLoadFailed go_error
  | TLSListenFailed string go_error
  | ListenFailed string go_error

text \<open>The results of loading the certificates and of listening are arguments.\<close>

definition server_Start ::
  "go_error option \<Rightarrow> go_error option \<Rightarrow> server \<Rightarrow> start_error option \<times> server" where
  "server_Start load_err listen_err s = (case Validate (sv_config s) of
      Some e \<Rightarrow> (Some (ConfigInvalid e), s)
    | None \<Rightarrow>
        if sv_isRunning s then (Some AlreadyRunning, s)
        else if TLSEnabled (sv_config s) then
          (case load_err of
             Some e \<Rightarrow> (Some (TLSLoadFailed e), s\<lparr>sv_isRunning := False\<rparr>)
           | None \<Rightarrow> (case listen_err of
               Some e \<Rightarrow> (Some (TLSListenFailed (BindAddress (sv_config s)) e), s\<lparr>sv_isRunning := False\<rparr>)
             | None \<Rightarrow> (None, s\<lparr>sv_isRunning := True\<rparr>)))
        else (case listen_err of
            Some e \<Rightarrow> (Some (ListenFailed (BindAddress (sv_config s)) e), s\<lparr>sv_isRunning := False\<rparr>)
          | None \<Rightarrow> (None, s\<lparr>sv_isRunning := True\<rparr>)))"

definition GetUpstreamAddress :: "server \<Rightarrow> string" where
  "GetUpstreamAddress s = sv_upstreamAddress s"

definition with_connections ::
  "(connection_tracker \<Rightarrow> connection_tracker) \<Rightarrow> server \<Rightarrow> server" where
  "with_connections f s = s\<lparr>sv_connections := f (sv_connections s)\<rparr>"

definition close_sessions :: "string list \<Rightarrow> connection_tracker \<Rightarrow> connection_tracker" where
  "close_sessions ids ct = fold (\<lambda>sid. on_session sid session_Close) ids ct"

definition DisconnectAll :: "server \<Rightarrow> server" where
  "DisconnectAll s =
     (if GetCount (sv_connections s) = 0 then s
      else with_connections (close_sessions (map ps_ID (GetAllSessions (sv_connections s)))) s)"

definition SetUpstreamAddress :: "string \<Rightarrow> server \<Rightarrow> server" where
  "SetUpstreamAddress address s =
     (if sv_upstreamAddress s = address then s
      else (DisconnectAll s)\<lparr>sv_upstreamAddress := address\<rparr>)"

subsection \<open>Accepting a connection\<close>

datatype accept_result = NoUpstream | RateLimited | TooManyConnections | Accepted

text \<open>The checks after the one of the upstream address; an accepted connection gets a handler.\<close>

definition admit ::
  "int \<Rightarrow> string \<Rightarrow> metrics option \<Rightarrow> server \<Rightarrow> accept_result \<times> metrics option \<times> server" where
  "admit now clientIP pm s = (let (ok, rl) = Allow now clientIP (sv_rateLimiter s) in
     if \<not> ok then (RateLimited, pm,
       s\<lparr>sv_rateLimiter := rl, sv_rateLimitRejections := sv_rateLimitRejections s + 1\<rparr>)
     else if \<not> CanAccept (sv_connections s) then (TooManyConnections, pm,
       s\<lparr>sv_rateLimiter := Release clientIP rl, sv_rejectedConnections := sv_rejectedConnections s + 1\<rparr>)
     else (Accepted, map_option RecordGatewayConnection pm,
       s\<lparr>sv_rateLimiter := rl, sv_totalConnections := sv_totalConnections s + 1\<rparr>))"

definition accept_one :: "int \<Rightarrow> string option option \<Rightarrow> metrics option \<Rightarrow> server
    \<Rightarrow> accept_result \<times> metrics option \<times> server" where
  "accept_one now conn pm s = (let clientIP = extractClientIP conn in
     if GetUpstreamAddress s = '''' then
       (NoUpstream, pm, s\<lparr>sv_rejectedConnections := sv_rejectedConnections s + 1\<rparr>)
     else admit now clientIP pm s)"

text \<open>An error of \<open>Accept\<close> itself: a timeout is silent, any other is counted.\<close>

definition accept_error :: "bool \<Rightarrow> server \<Rightarrow> server" where
  "accept_error is_timeout s = (if is_timeout then s else s\<lparr>sv_errors := sv_errors s + 1\<rparr>)"

subsection \<open>Handling a connection\<close>

definition handle_begin :: "metrics option \<Rightarrow> server \<Rightarrow> metrics option \<times> server" where
  "handle_begin pm s = (let s' = s\<lparr>sv_activeConnections := sv_activeConnections s + 1\<rparr> in
     (map_option (UpdateGatewayConnections (sint (sv_activeConnections s'))) pm, s'))"

definition handle_track :: "int \<Rightarrow> string \<Rightarrow> server \<Rightarrow> string \<times> server" where
  "handle_track now clientAddr s = (let (sid, ct) = Track now clientAddr (sv_connections s) in
     (sid, s\<lparr>sv_connections := on_session sid
        (SetMaxBytesLimit (word_of_int (MaxBytesPerConnection (sv_config s)))) ct\<rparr>))"

definition handle_dial_failed :: "int \<Rightarrow> string \<Rightarrow> go_error \<Rightarrow> server \<Rightarrow> server" where
  "handle_dial_failed now sid err s =
     s\<lparr>sv_errors := sv_errors s + 1,
       sv_connections := on_session sid AddConnectionError (sv_connections s),
       sv_healthStatus := ''upstream-connection-failed: '' @ Error err, sv_lastHealthCheck := now\<rparr>"

definition handle_connected :: "string \<Rightarrow> string \<Rightarrow> server \<Rightarrow> server" where
  "handle_connected sid addr s = with_connections (on_session sid (SetBackendConnection addr)) s"

text \<open>
  One direction of the proxy finished after copying some bytes; then, as soon as either direction
  has finished, the errors known by then are counted (an end of file is none).
\<close>

definition proxy_copied :: "int \<Rightarrow> bool \<Rightarrow> string \<Rightarrow> int64 \<Rightarrow> server \<Rightarrow> server" where
  "proxy_copied now to_backend sid written s =
     with_connections (on_session sid
       (if to_backend then AddBytesSent now written else AddBytesReceived now written)) s"

definition count_error :: "bool \<Rightarrow> metrics option \<times> server \<Rightarrow> metrics option \<times> server" where
  "count_error failed ms = (if failed
     then (map_option RecordGatewayError (fst ms), (snd ms)\<lparr>sv_errors := sv_errors (snd ms) + 1\<rparr>)
     else ms)"

definition proxy_summary :: "string \<Rightarrow> bool \<Rightarrow> bool \<Rightarrow> metrics option \<Rightarrow> server \<Rightarrow> metrics option \<times> server" where
  "proxy_summary sid c2b_failed b2c_failed pm s =
     (let pm1 = (case map_of (ct_sessions (sv_connections s) @ ct_detached (sv_connections s)) sid of
          None \<Rightarrow> pm
        | Some ps \<Rightarrow> map_option (RecordGatewayBytes (sint (ps_BytesSent ps)) (sint (ps_BytesReceived ps))) pm)
      in count_error b2c_failed (count_error c2b_failed (pm1, s)))"

text \<open>The deferred calls at the end of a handler.\<close>

definition handle_end :: "string \<Rightarrow> string \<Rightarrow> metrics option \<Rightarrow> server \<Rightarrow> metrics option \<times> server" where
  "handle_end sid clientIP pm s =
     (let s1 = with_connections (Untrack sid) s;
          s2 = s1\<lparr>sv_activeConnections := sv_activeConnections s1 - 1\<rparr>
      in (map_option (UpdateGatewayConnections (sint (sv_activeConnections s2))) pm,
          s2\<lparr>sv_rateLimiter := Release clientIP (sv_rateLimiter s2)\<rparr>))"

definition cleanup_tick :: "int \<Rightarrow> server \<Rightarrow> server" where
  "cleanup_tick now s =
     (let d = IdleTimeout (sv_config s);
          ct1 = snd (CleanupIdle now d (sv_connections s));
          ct2 = snd (CleanupStale now (wrap64 (d * 2)) ct1)
      in s\<lparr>sv_connections := ct2\<rparr>)"

record gateway_stats =
  gs_IsRunning :: bool
  gs_ActiveConnections :: int64
  gs_TotalConnections :: int64
  gs_RejectedConnections :: int64
  gs_RateLimitRejections :: int64
  gs_Errors :: int64
  gs_Failovers :: int64
  gs_HealthStatus :: string
  gs_LastHealthCheck :: int
  gs_TotalBytesSent :: int64
  gs_TotalBytesReceived :: int64
  gs_TotalBytes :: int64
  gs_TLSEnabled :: bool
  gs_RateLimiter :: rate_limiter_stats

definition server_GetStats :: "server \<Rightarrow> gateway_stats" where
  "server_GetStats s = (let (sent, received) = GetTotalBytes (sv_connections s) in
     \<lparr>gs_IsRunning = sv_isRunning s,
      gs_ActiveConnections = word_of_int (GetCount (sv_connections s)),
      gs_TotalConnections = sv_totalConnections s,
      gs_RejectedConnections = sv_rejectedConnections s,
      gs_RateLimitRejections = sv_rateLimitRejections s,
      gs_Errors = sv_errors s, gs_Failovers = sv_failovers s,
      gs_HealthStatus = sv_healthStatus s, gs_LastHealthCheck = sv_lastHealthCheck s,
      gs_TotalBytesSent = sent, gs_TotalBytesReceived = received, gs_TotalBytes = sent + received,
      gs_TLSEnabled = TLSEnabled (sv_config s), gs_RateLimiter = rl_GetStats (sv_rateLimiter s)\<rparr>)"

subsection \<open>The server and its goroutines\<close>

text \<open>Where a handler is: before and after \<open>Track\<close>, after reading the upstream, proxying.\<close>

datatype handler =
    Spawned string string
  | Tracked string string
  | Dialling string string string
  | Proxying string string string

text \<open>A writer inside \<open>SetUpstreamAddress\<close>: before the snapshot, and with sessions left to close.\<close>

datatype writer = Locked string | Closing string "string list"

record gateway =
  gw_server :: server
  gw_metrics :: "metrics option"
  gw_handlers :: "(nat \<times> handler) list"
  gw_acceptor :: "string option"
  gw_writer :: "writer option"

fun handler_session :: "handler \<Rightarrow> string option" where
  "handler_session (Spawned ip a) = None"
| "handler_session (Tracked sid ip) = Some sid"
| "handler_session (Dialling sid ip a) = Some sid"
| "handler_session (Proxying sid ip a) = Some sid"

definition put_handler :: "nat \<Rightarrow> handler \<Rightarrow> gateway \<Rightarrow> gateway" where
  "put_handler h v g = g\<lparr>gw_handlers := AList.update h v (gw_handlers g)\<rparr>"

inductive gw_step :: "gateway \<Rightarrow> gateway \<Rightarrow> bool" where
  accept_no_upstream:
    "\<lbrakk>gw_acceptor g = None; gw_writer g = None; GetUpstreamAddress (gw_server g) = ''''\<rbrakk> \<Longrightarrow>
     gw_step g (g\<lparr>gw_server := snd (snd (accept_one now conn (gw_metrics g) (gw_server g)))\<rparr>)"
| accept_checked:
    "\<lbrakk>gw_acceptor g = None; gw_writer g = None; GetUpstreamAddress (gw_server g) \<noteq> ''''\<rbrakk> \<Longrightarrow>
     gw_step g (g\<lparr>gw_acceptor := Some (extractClientIP conn)\<rparr>)"
| accept_refused:
    "\<lbrakk>gw_acceptor g = Some ip; admit now ip (gw_metrics g) (gw_server g) = (r, pm, s); r \<noteq> Accepted\<rbrakk> \<Longrightarrow>
     gw_step g (g\<lparr>gw_server := s, gw_metrics := pm, gw_acceptor := None\<rparr>)"
| accept_spawned:
    "\<lbrakk>gw_acceptor g = Some ip; admit now ip (gw_metrics g) (gw_server g) = (Accepted, pm, s);
      h \<notin> fst ` set (gw_handlers g)\<rbrakk> \<Longrightarrow>
     gw_step g (put_handler h (Spawned ip a) (g\<lparr>gw_server := s, gw_metrics := pm, gw_acceptor := None\<rparr>))"
| handler_tracks:
    "\<lbrakk>map_of (gw_handlers g) h = Some (Spawned ip a); handle_begin (gw_metrics g) (gw_server g) = (pm, s1);
      handle_track now a s1 = (sid, s2); ct_nextID (sv_connections s1) \<noteq> - 1\<rbrakk> \<Longrightarrow>
     gw_step g (put_handler h (Tracked sid ip) (g\<lparr>gw_server := s2, gw_metrics := pm\<rparr>))"
| handler_reads_upstream:
    "\<lbrakk>map_of (gw_handlers g) h = Some (Tracked sid ip); gw_writer g = None\<rbrakk> \<Longrightarrow>
     gw_step g (put_handler h (Dialling sid ip (GetUpstreamAddress (gw_server g))) g)"
| handler_dial_fails:
    "\<lbrakk>map_of (gw_handlers g) h = Some (Dialling sid ip a);
      handle_end sid ip (gw_metrics g) (handle_dial_failed now sid err (gw_server g)) = (pm, s)\<rbrakk> \<Longrightarrow>
     gw_step g (g\<lparr>gw_server := s, gw_metrics := pm, gw_handlers := AList.delete h (gw_handlers g)\<rparr>)"
| handler_connects:
    "\<lbrakk>map_of (gw_handlers g) h = Some (Dialling sid ip a); a \<noteq> ''''\<rbrakk> \<Longrightarrow>
     gw_step g (put_handler h (Proxying sid ip a) (g\<lparr>gw_server := handle_connected sid a (gw_server g)\<rparr>))"
| handler_copies:
    "\<lbrakk>map_of (gw_handlers g) h = Some (Proxying sid ip a)\<rbrakk> \<Longrightarrow>
     gw_step g (g\<lparr>gw_server := proxy_copied now d sid n (gw_server g)\<rparr>)"
| handler_ends:
    "\<lbrakk>map_of (gw_handlers g) h = Some (Proxying sid ip a);
      proxy_summary sid e1 e2 (gw_metrics g) (gw_server g) = (pm1, s1);
      handle_end sid ip pm1 s1 = (pm, s)\<rbrakk> \<Longrightarrow>
     gw_step g (g\<lparr>gw_server := s, gw_metrics := pm, gw_handlers := AList.delete h (gw_handlers g)\<rparr>)"
| writer_locks:
    "\<lbrakk>gw_writer g = None; sv_upstreamAddress (gw_server g) \<noteq> a\<rbrakk> \<Longrightarrow>
     gw_step g (g\<lparr>gw_writer := Some (Locked a)\<rparr>)"
| writer_snapshot:
    "\<lbrakk>gw_writer g = Some (Locked a)\<rbrakk> \<Longrightarrow>
     gw_step g (g\<lparr>gw_writer := Some (Closing a (if GetCount (sv_connections (gw_server g)) = 0 then []
        else map ps_ID (GetAllSessions (sv_connections (gw_server g)))))\<rparr>)"
| writer_closes:
    "\<lbrakk>gw_writer g = Some (Closing a ids); sid \<in> set ids\<rbrakk> \<Longrightarrow>
     gw_step g (g\<lparr>gw_writer := Some (Closing a (remove1 sid ids)),
                  gw_server := with_connections (on_session sid session_Close) (gw_server g)\<rparr>)"
| writer_done:
    "\<lbrakk>gw_writer g = Some (Closing a [])\<rbrakk> \<Longrightarrow>
     gw_step g (g\<lparr>gw_writer := None, gw_server := (gw_server g)\<lparr>sv_upstreamAddress := a\<rparr>\<rparr>)"
| disconnects:
    "gw_step g (g\<lparr>gw_server := with_connections (on_session sid session_Close) (gw_server g)\<rparr>)"
| cleans_up: "gw_step g (g\<lparr>gw_server := cleanup_tick now (gw_server g)\<rparr>)"

definition gw_init :: "gateway \<Rightarrow> bool" where
  "gw_init g \<longleftrightarrow> (\<exists>name c pm. g = \<lparr>gw_server = NewServer name c, gw_metrics = pm, gw_handlers = [],
     gw_acceptor = None, gw_writer = None\<rparr>)"

text \<open>
  What matters of a session: \<open>None\<close> when it is not active, else the address of its backend
  connection, if it has one.
\<close>

definition ct_live :: "connection_tracker \<Rightarrow> string \<Rightarrow> string option option" where
  "ct_live ct sid = (case map_of (ct_sessions ct) sid of
      None \<Rightarrow> None
    | Some ps \<Rightarrow> if ps_isActive ps then Some (map_option fst (ps_BackendConn ps)) else None)"

abbreviation live :: "gateway \<Rightarrow> string \<Rightarrow> string option option" where
  "live g \<equiv> ct_live (sv_connections (gw_server g))"

abbreviation upstream :: "gateway \<Rightarrow> string" where
  "upstream g \<equiv> sv_upstreamAddress (gw_server g)"

text \<open>The address a handler has read and works with.\<close>

definition works_with :: "gateway \<Rightarrow> string \<Rightarrow> string \<Rightarrow> bool" where
  "works_with g sid a \<longleftrightarrow> (\<exists>h ip. (h, Dialling sid ip a) \<in> set (gw_handlers g) \<or>
     (h, Proxying sid ip a) \<in> set (gw_handlers g))"

definition still_to_close :: "gateway \<Rightarrow> string \<Rightarrow> bool" where
  "still_to_close g sid = (case gw_writer g of Some (Closing a ids) \<Rightarrow> sid \<in> set ids | _ \<Rightarrow> True)"

text \<open>
  The invariant: while a session is active, the address its handler works with and the address of its
  backend connection are the current upstream, and if a writer is closing sessions, this session is
  one of those still to be closed.
\<close>

definition handlers_known :: "gateway \<Rightarrow> bool" where
  "handlers_known g \<longleftrightarrow> (\<forall>(h, v) \<in> set (gw_handlers g). \<forall>sid. handler_session v = Some sid \<longrightarrow>
     (\<exists>n. sid = session_id n \<and> unat n \<le> unat (ct_nextID (sv_connections (gw_server g)))))"

definition gw_inv :: "gateway \<Rightarrow> bool" where
  "gw_inv g \<longleftrightarrow> tracker_wf (sv_connections (gw_server g)) \<and> handlers_known g \<and>
     (\<forall>sid a. live g sid \<noteq> None \<and> works_with g sid a \<longrightarrow> a = upstream g \<and> still_to_close g sid) \<and>
     (\<forall>sid a. live g sid = Some (Some a) \<longrightarrow> a = upstream g \<and> a \<noteq> '''' \<and> still_to_close g sid)"

text \<open>An idle gateway with the default configuration, and the same gateway serving one client.\<close>

definition demo_gateway_config :: gateway_config where
  "demo_gateway_config =
     \<lparr>BindAddress = ''0.0.0.0:7687'', MaxConnections = 1000, Timeout = 30 * Second, BufferSize = 32768,
      HealthCheckInterval = 30 * Second, ConnectionTimeout = 10 * Second, IdleTimeout = 5 * Minute,
      MaxBytesPerConnection = 1048576000, CleanupInterval = Minute, TLSEnabled = False,
      TLSCertPath = ''/etc/certs/tls.crt'', TLSKeyPath = ''/etc/certs/tls.key'', RateLimitEnabled = False,
      RateLimitRPS = 100, RateLimitBurst = 200, RateLimitWindow = Minute, gw_LogLevel = ''info'',
      TraceEnabled = False\<rparr>"

definition demo_idle :: gateway where
  "demo_idle = \<lparr>gw_server = NewServer ''main-gw'' demo_gateway_config, gw_metrics = None,
     gw_handlers = [], gw_acceptor = None, gw_writer = None\<rparr>"

definition demo_checked :: gateway where
  "demo_checked = demo_idle\<lparr>gw_server := SetUpstreamAddress ''10.0.0.1:7687'' (gw_server demo_idle),
     gw_acceptor := Some (extractClientIP (Some (Some ''10.0.0.9:5000'')))\<rparr>"

definition demo_spawned :: gateway where
  "demo_spawned = (let (r, pm, s) = admit 0 ''10.0.0.9'' None (gw_server demo_checked) in
     put_handler 0 (Spawned ''10.0.0.9'' ''10.0.0.9:5000'')
       (demo_checked\<lparr>gw_server := s, gw_metrics := pm, gw_acceptor := None\<rparr>))"

definition demo_tracked :: gateway where
  "demo_tracked = (let (pm, s1) = handle_begin None (gw_server demo_spawned);
       (sid, s2) = handle_track 0 ''10.0.0.9:5000'' s1 in
     put_handler 0 (Tracked sid ''10.0.0.9'') (demo_spawned\<lparr>gw_server := s2, gw_metrics := pm\<rparr>))"

definition demo_serving :: gateway where
  "demo_serving = (let g = put_handler 0 (Dialling ''session-1'' ''10.0.0.9'' ''10.0.0.1:7687'') demo_tracked in
     put_handler 0 (Proxying ''session-1'' ''10.0.0.9'' ''10.0.0.1:7687'')
       (g\<lparr>gw_server := handle_connected ''session-1'' ''10.0.0.1:7687'' (gw_server g)\<rparr>))"

section \<open>Lemmas\<close>

subsection \<open>Sessions under the tracker's operations\<close>

lemma ct_live_on_session:
  "ct_live (on_session k f ct) sid =
     (if sid = k then ct_live (on_session k f ct) k else ct_live ct sid)"
  by (simp add: ct_live_def on_session_def map_of_map_entry')

lemma ct_live_unchanged:
  assumes "\<And>ps. ps_isActive (f ps) = ps_isActive ps" and "\<And>ps. ps_BackendConn (f ps) = ps_BackendConn ps"
  shows "ct_live (on_session k f ct) = ct_live ct"
  by (rule ext) (simp add: ct_live_def on_session_def map_of_map_entry' assms split: option.split)

lemma ct_live_neutral [simp]:
  "ct_live (on_session k (AddBytesSent t n) ct) = ct_live ct"
  "ct_live (on_session k (AddBytesReceived t n) ct) = ct_live ct"
  "ct_live (on_session k (SetMaxBytesLimit l) ct) = ct_live ct"
  "ct_live (on_session k AddConnectionError ct) = ct_live ct"
  by (rule ct_live_unchanged; simp add: AddBytesSent_def AddBytesReceived_def SetMaxBytesLimit_def
      AddConnectionError_def)+

lemma ct_live_close [simp]: "ct_live (on_session k session_Close ct) = (ct_live ct)(k := None)"
  by (rule ext) (simp add: ct_live_def on_session_def map_of_map_entry' split: option.split)

lemma ct_live_connect [simp]:
  "ct_live (on_session k (SetBackendConnection a) ct) sid =
     (if sid = k \<and> ct_live ct k \<noteq> None then Some (Some a) else ct_live ct sid)"
  by (simp add: ct_live_def on_session_def map_of_map_entry' SetBackendConnection_def split: option.split)

lemma map_of_filter_le:
  "distinct (map fst xs) \<Longrightarrow> map_of (filter P xs) k = None \<or> map_of (filter P xs) k = map_of xs k"
  by (induction xs) (auto simp: map_of_eq_None_iff)

lemma ct_live_close_where:
  "tracker_wf ct \<Longrightarrow> ct_live (close_where P ct) sid = None \<or> ct_live (close_where P ct) sid = ct_live ct sid"
  using map_of_filter_le [of "ct_sessions ct" "\<lambda>(k, ps). \<not> P k ps" sid]
  by (auto simp: ct_live_def close_where_def tracker_wf_def)

lemma ct_live_Track:
  "ct_live (snd (Track now a ct)) = (ct_live ct)(fst (Track now a ct) := Some None)"
  by (rule ext) (simp add: ct_live_def Track_def generateSessionID_def Let_def)

lemma nextID_neutral [simp]:
  "ct_nextID (on_session k f ct) = ct_nextID ct" "ct_nextID (close_where P ct) = ct_nextID ct"
  by (simp_all add: on_session_def close_where_def)

subsection \<open>The atomic operations\<close>

lemma ct_live_close_sessions:
  "ct_live (close_sessions ids ct) sid = (if sid \<in> set ids then None else ct_live ct sid)"
  by (induction ids arbitrary: ct) (auto simp: close_sessions_def)

lemma tracked_ids: "tracker_wf ct \<Longrightarrow> map ps_ID (GetAllSessions ct) = map fst (ct_sessions ct)"
  by (auto simp: tracker_wf_def entry_wf_def GetAllSessions_def)

lemma untracked_not_live: "sid \<notin> fst ` set (ct_sessions ct) \<Longrightarrow> ct_live ct sid = None"
  by (simp add: ct_live_def map_of_eq_None_iff [THEN iffD2])

lemma DisconnectAll_live:
  assumes "tracker_wf (sv_connections s)"
  shows "ct_live (sv_connections (DisconnectAll s)) sid = None"
proof (cases "GetCount (sv_connections s) = 0")
  case True
  then show ?thesis by (simp add: DisconnectAll_def GetCount_def ct_live_def)
next
  case False
  then show ?thesis
    using assms untracked_not_live [of sid "sv_connections s"]
    by (auto simp: DisconnectAll_def with_connections_def ct_live_close_sessions tracked_ids)
qed

lemma SetUpstreamAddress_upstream [simp]: "sv_upstreamAddress (SetUpstreamAddress a s) = a"
  by (simp add: SetUpstreamAddress_def)

lemma SetUpstreamAddress_name [simp]: "sv_name (SetUpstreamAddress a s) = sv_name s"
  by (simp add: SetUpstreamAddress_def DisconnectAll_def with_connections_def)

lemma SetUpstreamAddress_same [simp]: "sv_upstreamAddress s = a \<Longrightarrow> SetUpstreamAddress a s = s"
  by (simp add: SetUpstreamAddress_def)

subsection \<open>The invariant\<close>

lemma gw_invI:
  assumes "tracker_wf (sv_connections (gw_server g))" and "handlers_known g"
    and "\<And>sid a y. live g sid = Some y \<Longrightarrow> works_with g sid a \<Longrightarrow> a = upstream g \<and> still_to_close g sid"
    and "\<And>sid a. live g sid = Some (Some a) \<Longrightarrow> a = upstream g \<and> a \<noteq> '''' \<and> still_to_close g sid"
  shows "gw_inv g"
  using assms unfolding gw_inv_def by blast

lemma gw_invD:
  assumes "gw_inv g"
  shows "tracker_wf (sv_connections (gw_server g))" and "handlers_known g"
    and "\<And>sid a y. live g sid = Some y \<Longrightarrow> works_with g sid a \<Longrightarrow> a = upstream g \<and> still_to_close g sid"
    and "\<And>sid a. live g sid = Some (Some a) \<Longrightarrow> a = upstream g \<and> a \<noteq> '''' \<and> still_to_close g sid"
  using assms unfolding gw_inv_def by blast+

lemma handlers_known_mono:
  assumes "handlers_known g" and "set (gw_handlers g') \<subseteq> set (gw_handlers g)"
    and "unat (ct_nextID (sv_connections (gw_server g))) \<le> unat (ct_nextID (sv_connections (gw_server g')))"
  shows "handlers_known g'"
  unfolding handlers_known_def
proof (clarify)
  fix h v sid
  assume "(h, v) \<in> set (gw_handlers g')" and "handler_session v = Some sid"
  then obtain n where "sid = session_id n" "unat n \<le> unat (ct_nextID (sv_connections (gw_server g)))"
    using assms(1,2) unfolding handlers_known_def by blast
  then show "\<exists>n. sid = session_id n \<and> unat n \<le> unat (ct_nextID (sv_connections (gw_server g')))"
    using assms(3) le_trans by blast
qed

text \<open>A step that opens nothing: sessions only end, and no handler gets a new address.\<close>

lemma gw_inv_weaken:
  assumes inv: "gw_inv g" and wf: "tracker_wf (sv_connections (gw_server g'))" and known: "handlers_known g'"
    and live: "\<And>sid. live g' sid = None \<or> live g' sid = live g sid"
    and works: "\<And>sid a. works_with g' sid a \<Longrightarrow> works_with g sid a"
    and up: "upstream g' = upstream g"
    and stc: "\<And>sid. live g' sid \<noteq> None \<Longrightarrow> still_to_close g sid \<Longrightarrow> still_to_close g' sid"
  shows "gw_inv g'"
proof -
  have "a = upstream g' \<and> still_to_close g' sid" if "live g' sid \<noteq> None" "works_with g' sid a" for sid a
  proof -
    have "live g sid \<noteq> None" using live [of sid] that(1) by metis
    then show ?thesis using inv works [OF that(2)] stc [OF that(1)] up unfolding gw_inv_def by metis
  qed
  moreover have "a = upstream g' \<and> a \<noteq> '''' \<and> still_to_close g' sid" if "live g' sid = Some (Some a)" for sid a
  proof -
    have "live g sid = Some (Some a)" using live [of sid] that by simp
    then show ?thesis using inv stc [of sid] that up unfolding gw_inv_def by (metis option.distinct(1))
  qed
  ultimately show ?thesis using wf known unfolding gw_inv_def by blast
qed

lemma works_with_put:
  "works_with (put_handler h v g) sid a \<Longrightarrow>
     works_with g sid a \<or> (\<exists>ip. v = Dialling sid ip a \<or> v = Proxying sid ip a)"
  by (auto simp: works_with_def put_handler_def dest!: alist_update_mem)

lemma gw_fields_put [simp]:
  "gw_server (put_handler h v g) = gw_server g" "gw_writer (put_handler h v g) = gw_writer g"
  "still_to_close (put_handler h v g) = still_to_close g"
  by (simp_all add: put_handler_def still_to_close_def fun_eq_iff)

lemma handlers_known_put:
  assumes "handlers_known g"
    and "\<And>sid. handler_session v = Some sid \<Longrightarrow>
      \<exists>n. sid = session_id n \<and> unat n \<le> unat (ct_nextID (sv_connections (gw_server g)))"
  shows "handlers_known (put_handler h v g)"
  using assms unfolding handlers_known_def gw_fields_put
  by (auto simp: put_handler_def dest!: alist_update_mem)

lemma works_with_cong: "gw_handlers g' = gw_handlers g \<Longrightarrow> works_with g' sid a = works_with g sid a"
  by (simp add: works_with_def)

lemma still_to_close_cong: "gw_writer g' = gw_writer g \<Longrightarrow> still_to_close g' sid = still_to_close g sid"
  by (simp add: still_to_close_def)

text \<open>A change of the server alone that ends sessions at most.\<close>

lemma gw_inv_server:
  assumes "gw_inv g" and "tracker_wf (sv_connections s)"
    and "\<And>sid. ct_live (sv_connections s) sid = None \<or> ct_live (sv_connections s) sid = live g sid"
    and "sv_upstreamAddress s = upstream g"
    and "ct_nextID (sv_connections s) = ct_nextID (sv_connections (gw_server g))"
    and "set hs \<subseteq> set (gw_handlers g)"
  shows "gw_inv (g\<lparr>gw_server := s, gw_metrics := pm, gw_acceptor := ac, gw_handlers := hs\<rparr>)"
  using assms(1)
proof (rule gw_inv_weaken)
  show "handlers_known (g\<lparr>gw_server := s, gw_metrics := pm, gw_acceptor := ac, gw_handlers := hs\<rparr>)"
    by (rule handlers_known_mono [of g]) (use assms(1,5,6) in \<open>auto simp: gw_inv_def\<close>)
qed (use assms in \<open>auto simp: works_with_def still_to_close_def\<close>)

lemma gw_inv_wf: "gw_inv g \<Longrightarrow> tracker_wf (sv_connections (gw_server g))"
  by (simp add: gw_inv_def)

lemma gw_inv_server_only:
  assumes "gw_inv g" and "tracker_wf (sv_connections s)"
    and "\<And>sid. ct_live (sv_connections s) sid = None \<or> ct_live (sv_connections s) sid = live g sid"
    and "sv_upstreamAddress s = upstream g"
    and "ct_nextID (sv_connections s) = ct_nextID (sv_connections (gw_server g))"
  shows "gw_inv (g\<lparr>gw_server := s\<rparr>)"
  using gw_inv_server [OF assms, where hs = "gw_handlers g" and pm = "gw_metrics g" and ac = "gw_acceptor g"]
  by simp

lemma admit_server:
  "admit now ip pm0 s0 = (r, pm, s) \<Longrightarrow>
     sv_connections s = sv_connections s0 \<and> sv_upstreamAddress s = sv_upstreamAddress s0"
  by (auto simp: admit_def Let_def split: prod.splits if_splits)

lemma handle_end_server:
  "handle_end sid ip pm0 s0 = (pm, s) \<Longrightarrow>
     sv_connections s = Untrack sid (sv_connections s0) \<and> sv_upstreamAddress s = sv_upstreamAddress s0"
  by (auto simp: handle_end_def Let_def with_connections_def)

lemma proxy_summary_server:
  "proxy_summary sid e1 e2 pm0 s0 = (pm, s) \<Longrightarrow>
     sv_connections s = sv_connections s0 \<and> sv_upstreamAddress s = sv_upstreamAddress s0"
  by (auto simp: proxy_summary_def Let_def count_error_def split: option.splits if_splits)

lemma gw_inv_ends:
  assumes "gw_inv g" and "sv_connections s0 = sv_connections (gw_server g) \<or>
      (\<exists>k f. sv_connections s0 = on_session k AddConnectionError (sv_connections (gw_server g)))"
    and "sv_upstreamAddress s0 = upstream g" and "handle_end sid ip pm0 s0 = (pm, s)"
  shows "gw_inv (g\<lparr>gw_server := s, gw_metrics := pm, gw_handlers := AList.delete h (gw_handlers g)\<rparr>)"
proof -
  let ?ct = "sv_connections s0"
  have wf: "tracker_wf ?ct" using assms(1,2) by (auto simp: gw_inv_def on_session_wf)
  have s: "sv_connections s = Untrack sid ?ct" "sv_upstreamAddress s = upstream g"
    using handle_end_server [OF assms(4)] assms(3) by auto
  have "ct_live ?ct = live g" and "ct_nextID ?ct = ct_nextID (sv_connections (gw_server g))"
    using assms(2) by auto
  then show ?thesis
    using gw_inv_server [OF assms(1), where s = s and hs = "AList.delete h (gw_handlers g)"
        and pm = pm and ac = "gw_acceptor g"]
      ct_live_close_where [OF wf, of "\<lambda>k ps. k = sid"] close_where_wf [OF wf] s
    by (auto simp: Untrack_def dest: alist_delete_mem)
qed

lemma gw_inv_track:
  assumes inv: "gw_inv g" and h: "map_of (gw_handlers g) h = Some (Spawned ip a)"
    and b: "handle_begin (gw_metrics g) (gw_server g) = (pm, s1)" and t: "handle_track now a s1 = (sid, s2)"
    and n: "ct_nextID (sv_connections s1) \<noteq> - 1"
  shows "gw_inv (put_handler h (Tracked sid ip) (g\<lparr>gw_server := s2, gw_metrics := pm\<rparr>))"
proof -
  let ?ct = "sv_connections (gw_server g)" and ?g = "g\<lparr>gw_server := s2, gw_metrics := pm\<rparr>"
  have s1: "sv_connections s1 = ?ct" "sv_upstreamAddress s1 = upstream g"
    using b by (auto simp: handle_begin_def Let_def)
  define l :: int64 where "l = word_of_int (MaxBytesPerConnection (sv_config s1))"
  have s2: "sv_connections s2 = on_session sid (SetMaxBytesLimit l) (snd (Track now a ?ct))"
    and sid: "sid = fst (Track now a ?ct)" and up: "sv_upstreamAddress s2 = upstream g"
    using t s1 by (auto simp: handle_track_def l_def split: prod.splits)
  have wf: "tracker_wf ?ct" and known: "handlers_known g"
    using inv by (auto simp: gw_inv_def)
  have nx: "ct_nextID (sv_connections s2) = ct_nextID ?ct + 1"
    and sid': "sid = session_id (ct_nextID ?ct + 1)"
    using s2 sid by (auto simp: Track_def generateSessionID_def Let_def)
  have live: "ct_live (sv_connections s2) = (ct_live ?ct)(sid := Some None)"
    using s2 sid by (simp add: ct_live_Track)
  have fresh: "\<not> works_with g sid a'" for a'
  proof
    assume "works_with g sid a'"
    then have "\<exists>n. sid = session_id n \<and> unat n \<le> unat (ct_nextID ?ct)"
      using known unfolding works_with_def handlers_known_def by fastforce
    then show False using sid' unat_suc [OF n] s1 by auto
  qed
  have "handlers_known ?g"
    using known unat_suc [of "ct_nextID ?ct"] n s1 nx by - (rule handlers_known_mono [of g], auto)
  then have known': "handlers_known (put_handler h (Tracked sid ip) ?g)"
    using sid' nx by - (rule handlers_known_put, auto)
  have works: "works_with (put_handler h (Tracked sid ip) ?g) k a' \<Longrightarrow> works_with g k a'" for k a'
    by (drule works_with_put) (auto simp: works_with_def)
  have "tracker_wf (sv_connections s2)"
    unfolding s2 using Track_wf [OF wf] n s1 by (auto intro: on_session_wf)
  moreover have "still_to_close ?g k = still_to_close g k" for k
    by (simp add: still_to_close_def)
  ultimately show ?thesis
    using known' fresh live up
    by (intro gw_invI) (auto split: if_splits dest!: works dest: gw_invD(3,4) [OF inv])
qed

lemma gw_inv_accepts: "gw_inv g \<Longrightarrow> gw_inv (g\<lparr>gw_acceptor := ac\<rparr>)"
  using gw_inv_server [where s = "gw_server g" and hs = "gw_handlers g" and pm = "gw_metrics g" and ac = ac, of g]
    gw_inv_wf [of g] by simp

lemma gw_inv_spawn:
  assumes "gw_inv g"
  shows "gw_inv (put_handler h (Spawned ip a) g)"
proof -
  have "handlers_known (put_handler h (Spawned ip a) g)"
    using assms by (intro handlers_known_put) (auto simp: gw_inv_def)
  then show ?thesis
    using gw_invD(1) [OF assms]
    by (intro gw_invI) (auto dest!: works_with_put dest: gw_invD(3,4) [OF assms])
qed

lemma gw_inv_admit:
  assumes "gw_inv g" and "admit now ip (gw_metrics g) (gw_server g) = (r, pm, s)"
  shows "gw_inv (g\<lparr>gw_server := s, gw_metrics := pm, gw_acceptor := None\<rparr>)"
  using gw_inv_server [OF assms(1), where s = s and hs = "gw_handlers g" and pm = pm and ac = None]
    admit_server [OF assms(2)] gw_inv_wf [OF assms(1)] by simp

lemma gw_inv_reads:
  assumes inv: "gw_inv g" and h: "map_of (gw_handlers g) h = Some (Tracked sid ip)" and w: "gw_writer g = None"
  shows "gw_inv (put_handler h (Dialling sid ip (upstream g)) g)"
proof -
  let ?v = "Dialling sid ip (upstream g)"
  have "handlers_known (put_handler h ?v g)"
    using inv map_of_SomeD [OF h]
    by (intro handlers_known_put) (auto simp: gw_inv_def handlers_known_def)
  moreover have "still_to_close g k" for k using w by (simp add: still_to_close_def)
  ultimately show ?thesis
    using gw_invD(1) [OF inv]
    by (intro gw_invI) (auto dest!: works_with_put dest: gw_invD(3,4) [OF inv])
qed

lemma gw_inv_connects:
  assumes inv: "gw_inv g" and h: "map_of (gw_handlers g) h = Some (Dialling sid ip a)" and a: "a \<noteq> ''''"
  shows "gw_inv (put_handler h (Proxying sid ip a) (g\<lparr>gw_server := handle_connected sid a (gw_server g)\<rparr>))"
proof -
  let ?s = "handle_connected sid a (gw_server g)" and ?g = "g\<lparr>gw_server := handle_connected sid a (gw_server g)\<rparr>"
  have ct: "sv_connections ?s = on_session sid (SetBackendConnection a) (sv_connections (gw_server g))"
    and up: "sv_upstreamAddress ?s = upstream g"
    by (simp_all add: handle_connected_def with_connections_def)
  have mine: "works_with g sid a"
    using map_of_SomeD [OF h] by (auto simp: works_with_def)
  have wf: "tracker_wf (sv_connections ?s)"
    unfolding ct using gw_inv_wf [OF inv] by (rule on_session_wf) simp
  have "handlers_known ?g"
    by (rule handlers_known_mono [of g]) (use inv ct in \<open>auto simp: gw_inv_def\<close>)
  then have known: "handlers_known (put_handler h (Proxying sid ip a) ?g)"
    by (rule handlers_known_put)
      (use inv map_of_SomeD [OF h] ct in \<open>auto simp: gw_inv_def handlers_known_def\<close>)
  have works: "works_with g k b" if "works_with (put_handler h (Proxying sid ip a) ?g) k b" for k b
    using works_with_put [OF that] mine by (auto simp: works_with_def)
  have stc: "still_to_close ?g = still_to_close g" by (simp add: still_to_close_def fun_eq_iff)
  show ?thesis
    using wf known mine a
    by (intro gw_invI) (auto simp: ct up stc split: if_splits dest!: works dest: gw_invD(3,4) [OF inv])
qed

lemma gw_inv_close:
  assumes "gw_inv g"
  shows "gw_inv (g\<lparr>gw_server := with_connections (on_session sid session_Close) (gw_server g)\<rparr>)"
  using gw_inv_server_only [OF assms, where s = "with_connections (on_session sid session_Close) (gw_server g)"]
    on_session_wf [OF gw_inv_wf [OF assms], of session_Close]
  by (simp add: with_connections_def)

lemma gw_inv_cleanup:
  assumes "gw_inv g"
  shows "gw_inv (g\<lparr>gw_server := cleanup_tick now (gw_server g)\<rparr>)"
proof -
  let ?ct = "sv_connections (gw_server g)"
  define ct1 where "ct1 = snd (CleanupIdle now (IdleTimeout (sv_config (gw_server g))) ?ct)"
  define ct2 where "ct2 = snd (CleanupStale now (wrap64 (IdleTimeout (sv_config (gw_server g)) * 2)) ct1)"
  have wf1: "tracker_wf ct1"
    using gw_inv_wf [OF assms] by (simp add: ct1_def CleanupIdle_def sweep_def close_where_wf)
  have wf2: "tracker_wf ct2" using wf1 by (simp add: ct2_def CleanupStale_def sweep_def close_where_wf)
  have l1: "ct_live ct1 sid = None \<or> ct_live ct1 sid = live g sid" for sid
    using ct_live_close_where [OF gw_inv_wf [OF assms]] by (simp add: ct1_def CleanupIdle_def sweep_def)
  have l2: "ct_live ct2 sid = None \<or> ct_live ct2 sid = ct_live ct1 sid" for sid
    using ct_live_close_where [OF wf1] by (simp add: ct2_def CleanupStale_def sweep_def)
  have live: "ct_live ct2 sid = None \<or> ct_live ct2 sid = live g sid" for sid
    using l1 [of sid] l2 [of sid] by metis
  have nx: "ct_nextID ct2 = ct_nextID ?ct"
    by (simp add: ct2_def ct1_def CleanupIdle_def CleanupStale_def sweep_def)
  have s: "cleanup_tick now (gw_server g) = (gw_server g)\<lparr>sv_connections := ct2\<rparr>"
    by (simp add: cleanup_tick_def ct2_def ct1_def Let_def)
  show ?thesis
    using gw_inv_server_only [OF assms, where s = "(gw_server g)\<lparr>sv_connections := ct2\<rparr>"] wf2 live nx
    by (simp add: s)
qed

text \<open>The writer: after the snapshot every active session is still to be closed, at the end none is left.\<close>

lemma gw_inv_snapshot:
  assumes inv: "gw_inv g" and w: "gw_writer g = Some (Locked a)"
  shows "gw_inv (g\<lparr>gw_writer := Some (Closing a (if GetCount (sv_connections (gw_server g)) = 0 then []
      else map ps_ID (GetAllSessions (sv_connections (gw_server g)))))\<rparr>)"
  using inv
proof (rule gw_inv_weaken)
  fix sid
  let ?ct = "sv_connections (gw_server g)"
  let ?g = "g\<lparr>gw_writer := Some (Closing a (if GetCount ?ct = 0 then [] else map ps_ID (GetAllSessions ?ct)))\<rparr>"
  assume "live ?g sid \<noteq> None"
  then have "sid \<in> fst ` set (ct_sessions ?ct)" using untracked_not_live [of sid ?ct] by force
  then show "still_to_close ?g sid"
    using tracked_ids [OF gw_inv_wf [OF inv]] by (auto simp: still_to_close_def GetCount_def)
qed (use inv in \<open>auto simp: gw_inv_def handlers_known_def works_with_def\<close>)

lemma gw_inv_writer_close:
  assumes inv: "gw_inv g" and w: "gw_writer g = Some (Closing a ids)"
  shows "gw_inv (g\<lparr>gw_writer := Some (Closing a (remove1 sid ids)),
      gw_server := with_connections (on_session sid session_Close) (gw_server g)\<rparr>)"
  using gw_inv_close [OF inv, of sid]
proof (rule gw_inv_weaken)
  fix k
  let ?g = "g\<lparr>gw_writer := Some (Closing a (remove1 sid ids)),
      gw_server := with_connections (on_session sid session_Close) (gw_server g)\<rparr>"
  assume "live ?g k \<noteq> None"
    and "still_to_close (g\<lparr>gw_server := with_connections (on_session sid session_Close) (gw_server g)\<rparr>) k"
  then show "still_to_close ?g k"
    using w by (auto simp: still_to_close_def with_connections_def split: if_splits)
qed (use gw_inv_close [OF inv, of sid] in \<open>auto simp: gw_inv_def handlers_known_def works_with_def\<close>)

lemma gw_inv_done:
  assumes inv: "gw_inv g" and w: "gw_writer g = Some (Closing a [])"
  shows "gw_inv (g\<lparr>gw_writer := None, gw_server := (gw_server g)\<lparr>sv_upstreamAddress := a\<rparr>\<rparr>)"
proof (rule gw_invI)
  let ?g = "g\<lparr>gw_writer := None, gw_server := (gw_server g)\<lparr>sv_upstreamAddress := a\<rparr>\<rparr>"
  have none: "\<not> still_to_close g sid" for sid using w by (simp add: still_to_close_def)
  show "tracker_wf (sv_connections (gw_server ?g))" using gw_invD(1) [OF inv] by simp
  show "handlers_known ?g" using gw_invD(2) [OF inv] by (simp add: handlers_known_def)
  show "b = upstream ?g \<and> still_to_close ?g sid" if "live ?g sid = Some y" "works_with ?g sid b" for sid b y
    using that none gw_invD(3) [OF inv, of sid y b] by (auto simp: works_with_def)
  show "b = upstream ?g \<and> b \<noteq> '''' \<and> still_to_close ?g sid" if "live ?g sid = Some (Some b)" for sid b
    using that none gw_invD(4) [OF inv, of sid b] by auto
qed

lemma gw_inv_step:
  assumes "gw_step g g'" and "gw_inv g"
  shows "gw_inv g'"
  using assms
proof (cases rule: gw_step.cases)
  case (accept_no_upstream now conn)
  then show ?thesis
    using gw_inv_server_only [OF assms(2), where s = "gw_server g'"] gw_inv_wf [OF assms(2)]
    by (simp add: accept_one_def Let_def)
next
  case accept_checked
  then show ?thesis using gw_inv_accepts [OF assms(2)] by simp
next
  case accept_refused
  then show ?thesis using gw_inv_admit [OF assms(2)] by simp
next
  case (accept_spawned ip now pm s h a)
  then show ?thesis
    using gw_inv_spawn [OF gw_inv_admit [OF assms(2) accept_spawned(3)], of h ip a] by simp
next
  case handler_tracks
  then show ?thesis using gw_inv_track [OF assms(2)] by simp
next
  case handler_reads_upstream
  then show ?thesis using gw_inv_reads [OF assms(2)] by (simp add: GetUpstreamAddress_def)
next
  case (handler_dial_fails h sid ip a now err pm s)
  then show ?thesis
    using gw_inv_ends [OF assms(2) _ _ handler_dial_fails(3), of h]
    by (auto simp: handle_dial_failed_def)
next
  case handler_connects
  then show ?thesis using gw_inv_connects [OF assms(2)] by simp
next
  case (handler_copies h sid ip a now d n)
  let ?s = "proxy_copied now d sid n (gw_server g)"
  have "tracker_wf (sv_connections ?s)"
    using gw_inv_wf [OF assms(2)] by (simp add: proxy_copied_def with_connections_def on_session_wf)
  then show ?thesis
    using gw_inv_server_only [OF assms(2), where s = ?s] handler_copies
    by (simp add: proxy_copied_def with_connections_def)
next
  case (handler_ends h sid ip a e1 e2 pm1 s1 pm s)
  then show ?thesis
    using gw_inv_ends [OF assms(2) _ _ handler_ends(4), of h] proxy_summary_server [OF handler_ends(3)] by simp
next
  case (writer_locks a)
  then show ?thesis
    using assms(2) by (auto intro!: gw_inv_weaken [OF assms(2)]
        simp: gw_inv_def handlers_known_def works_with_def still_to_close_def)
next
  case writer_snapshot
  then show ?thesis using gw_inv_snapshot [OF assms(2)] by simp
next
  case writer_closes
  then show ?thesis using gw_inv_writer_close [OF assms(2)] by simp
next
  case writer_done
  then show ?thesis using gw_inv_done [OF assms(2)] by simp
next
  case disconnects
  then show ?thesis using gw_inv_close [OF assms(2)] by simp
next
  case cleans_up
  then show ?thesis using gw_inv_cleanup [OF assms(2)] by simp
qed

lemma gw_inv_initial: "gw_init g \<Longrightarrow> gw_inv g"
  by (auto simp: gw_init_def gw_inv_def NewServer_def NewConnectionTracker_def tracker_wf_def
      handlers_known_def works_with_def ct_live_def)

interpretation gateway_system: inductive_invariant gw_init gw_step gw_inv
  by unfold_locales (auto intro: gw_inv_initial gw_inv_step)

text \<open>
  C12: in every reachable state of the gateway, whatever the interleaving of the
  accept loop, the handlers, the cleanup and changes of the upstream, an active session's backend
  connection leads to the current upstream address; and while the upstream is cleared no active
  session has a backend connection at all.
\<close>

theorem no_stale_upstream:
  assumes "reach gw_init gw_step g"
    and "(k, ps) \<in> set (ct_sessions (sv_connections (gw_server g)))"
    and "ps_isActive ps" and "ps_BackendConn ps = Some (a, opened)"
  shows "a = GetUpstreamAddress (gw_server g) \<and> GetUpstreamAddress (gw_server g) \<noteq> ''''"
proof -
  have inv: "gw_inv g" using assms(1) by (rule gateway_system.inv_reach)
  have "map_of (ct_sessions (sv_connections (gw_server g))) k = Some ps"
    using gw_invD(1) [OF inv] assms(2) by (simp add: tracker_wf_def)
  then have "live g k = Some (Some a)" using assms(3,4) by (simp add: ct_live_def)
  from gw_invD(4) [OF inv this] show ?thesis by (auto simp: GetUpstreamAddress_def)
qed

lemma writer_closes_all:
  "gw_step\<^sup>*\<^sup>* (g\<lparr>gw_writer := Some (Closing a ids)\<rparr>)
     (g\<lparr>gw_writer := Some (Closing a []), gw_server := with_connections (close_sessions ids) (gw_server g)\<rparr>)"
proof (induction ids arbitrary: g)
  case Nil
  then show ?case by (simp add: with_connections_def close_sessions_def)
next
  case (Cons sid ids)
  let ?g = "g\<lparr>gw_server := with_connections (on_session sid session_Close) (gw_server g)\<rparr>"
  have "gw_step (g\<lparr>gw_writer := Some (Closing a (sid # ids))\<rparr>) (?g\<lparr>gw_writer := Some (Closing a ids)\<rparr>)"
    using gw_step.writer_closes [of "g\<lparr>gw_writer := Some (Closing a (sid # ids))\<rparr>" a "sid # ids" sid]
    by (cases g) simp
  from converse_rtranclp_into_rtranclp [OF this Cons.IH [of ?g]] show ?case
    by (cases g) (simp add: with_connections_def close_sessions_def)
qed

lemma set_upstream_steps:
  assumes "gw_writer g = None"
  shows "gw_step\<^sup>*\<^sup>* g (g\<lparr>gw_server := SetUpstreamAddress a (gw_server g)\<rparr>)"
proof (cases "sv_upstreamAddress (gw_server g) = a")
  case True
  then show ?thesis by simp
next
  case False
  let ?ct = "sv_connections (gw_server g)"
  let ?ids = "if GetCount ?ct = 0 then [] else map ps_ID (GetAllSessions ?ct)"
  let ?s = "with_connections (close_sessions ?ids) (gw_server g)"
  have 1: "gw_step g (g\<lparr>gw_writer := Some (Locked a)\<rparr>)"
    using assms False by (rule gw_step.writer_locks)
  have 2: "gw_step (g\<lparr>gw_writer := Some (Locked a)\<rparr>) (g\<lparr>gw_writer := Some (Closing a ?ids)\<rparr>)"
    using gw_step.writer_snapshot [of "g\<lparr>gw_writer := Some (Locked a)\<rparr>" a]
    by (simp cong: if_cong)
  have 3: "gw_step\<^sup>*\<^sup>* (g\<lparr>gw_writer := Some (Closing a ?ids)\<rparr>)
      (g\<lparr>gw_writer := Some (Closing a []), gw_server := ?s\<rparr>)"
    by (rule writer_closes_all)
  have 4: "gw_step (g\<lparr>gw_writer := Some (Closing a []), gw_server := ?s\<rparr>)
      (g\<lparr>gw_writer := None, gw_server := ?s\<lparr>sv_upstreamAddress := a\<rparr>\<rparr>)"
    using gw_step.writer_done [of "g\<lparr>gw_writer := Some (Closing a []), gw_server := ?s\<rparr>" a]
    by (cases g) simp
  have "g\<lparr>gw_writer := None, gw_server := ?s\<lparr>sv_upstreamAddress := a\<rparr>\<rparr> =
      g\<lparr>gw_server := SetUpstreamAddress a (gw_server g)\<rparr>"
    using assms False
    by (cases g)
      (simp add: SetUpstreamAddress_def DisconnectAll_def with_connections_def close_sessions_def)
  then show ?thesis
    using converse_rtranclp_into_rtranclp [OF 1 converse_rtranclp_into_rtranclp [OF 2
        rtranclp.rtrancl_into_rtrancl [OF 3 4]]] by simp
qed

lemma reach_steps: "step\<^sup>*\<^sup>* s t \<Longrightarrow> reach init step s \<Longrightarrow> reach init step t"
  by (induction rule: rtranclp_induct) (auto intro: reach_step)



text \<open>A run that serves one client: set the upstream, accept, track, read the upstream, connect.\<close>

lemma demo_idle_fields:
  "gw_writer demo_idle = None" "gw_acceptor demo_idle = None" "gw_handlers demo_idle = []"
  "gw_metrics demo_idle = None"
  by (simp_all add: demo_idle_def)

lemma demo_checked_reach: "reach gw_init gw_step demo_checked"
proof -
  let ?g = "demo_idle\<lparr>gw_server := SetUpstreamAddress ''10.0.0.1:7687'' (gw_server demo_idle)\<rparr>"
  have "gw_init demo_idle" by (auto simp: gw_init_def demo_idle_def)
  then have "reach gw_init gw_step demo_idle" by (rule reach_init)
  then have "reach gw_init gw_step ?g"
    by (rule reach_steps [rotated]) (rule set_upstream_steps, rule demo_idle_fields)
  moreover have "gw_step ?g demo_checked"
    using gw_step.accept_checked [of ?g "Some (Some ''10.0.0.9:5000'')"]
    by (simp add: demo_checked_def demo_idle_fields GetUpstreamAddress_def)
  ultimately show ?thesis by (rule reach_step)
qed

lemma demo_spawned_step: "gw_step demo_checked demo_spawned"
proof -
  obtain pm s where a: "admit 0 ''10.0.0.9'' None (gw_server demo_checked) = (Accepted, pm, s)"
  proof -
    have "fst (admit 0 ''10.0.0.9'' None (gw_server demo_checked)) = Accepted" by code_simp
    then show thesis using that by (metis prod.collapse)
  qed
  have "extractClientIP (Some (Some ''10.0.0.9:5000'')) = ''10.0.0.9''" by code_simp
  then have "gw_acceptor demo_checked = Some ''10.0.0.9''" "gw_metrics demo_checked = None"
    "gw_handlers demo_checked = []"
    by (simp_all add: demo_checked_def demo_idle_fields)
  then show ?thesis
    using gw_step.accept_spawned [of demo_checked "''10.0.0.9''" 0 pm s 0 "''10.0.0.9:5000''"] a
    by (simp add: demo_spawned_def)
qed

lemma demo_tracked_step: "gw_step demo_spawned demo_tracked"
proof -
  obtain pm s1 where b: "handle_begin None (gw_server demo_spawned) = (pm, s1)" by fastforce
  obtain sid s2 where t: "handle_track 0 ''10.0.0.9:5000'' s1 = (sid, s2)" by fastforce
  have "ct_nextID (sv_connections (snd (handle_begin None (gw_server demo_spawned)))) \<noteq> - 1" by code_simp
  moreover have "map_of (gw_handlers demo_spawned) 0 = Some (Spawned ''10.0.0.9'' ''10.0.0.9:5000'')"
    and "gw_metrics demo_spawned = None"
    by code_simp+
  ultimately show ?thesis
    using gw_step.handler_tracks [of demo_spawned 0 "''10.0.0.9''" "''10.0.0.9:5000''" pm s1 0 sid s2] b t
    by (simp add: demo_tracked_def)
qed

lemma demo_serving_reach: "reach gw_init gw_step demo_serving"
proof -
  let ?g = "put_handler 0 (Dialling ''session-1'' ''10.0.0.9'' ''10.0.0.1:7687'') demo_tracked"
  have "map_of (gw_handlers demo_tracked) 0 = Some (Tracked ''session-1'' ''10.0.0.9'')"
    and "GetUpstreamAddress (gw_server demo_tracked) = ''10.0.0.1:7687''" and "gw_writer demo_tracked = None"
    by code_simp+
  then have "gw_step demo_tracked ?g"
    using gw_step.handler_reads_upstream [of demo_tracked 0 "''session-1''" "''10.0.0.9''"] by simp
  moreover have "gw_step ?g demo_serving"
    using gw_step.handler_connects [of ?g 0 "''session-1''" "''10.0.0.9''" "''10.0.0.1:7687''"]
    by (simp add: demo_serving_def put_handler_def)
  ultimately show ?thesis
    using demo_checked_reach demo_spawned_step demo_tracked_step by (blast intro: reach_step)
qed

theorem no_stale_upstream_witness:
  "ps_BackendConn (snd (hd (ct_sessions (sv_connections (gw_server demo_serving))))) =
     Some (''10.0.0.1:7687'', True) \<and>
   GetUpstreamAddress (gw_server demo_serving) = ''10.0.0.1:7687''"
proof -
  let ?x = "hd (ct_sessions (sv_connections (gw_server demo_serving)))"
  have 1: "ps_BackendConn (snd ?x) = Some (''10.0.0.1:7687'', True)" by code_simp
  have 2: "ps_isActive (snd ?x)" by code_simp
  have "ct_sessions (sv_connections (gw_server demo_serving)) \<noteq> []" by code_simp
  then have "(fst ?x, snd ?x) \<in> set (ct_sessions (sv_connections (gw_server demo_serving)))" by simp
  from no_stale_upstream [OF demo_serving_reach this 2 1] 1 show ?thesis by simp
qed

end
