(* ===== verification/Event_Queue.thy ===== *)
theory Event_Queue
  imports Go_Duration
begin

text \<open>
  The two event queues of the controller (\<open>queue_reconcile.go\<close>, \<open>queue_failover.go\<close>): a
  buffered channel that drops events when it is full, and a table of the last event per key that
  suppresses repetitions within two seconds. The operations are the same for both; the capacity, the
  key and the timestamp of an event differ, and are the parameters of the locale \<open>event_queue\<close>.
\<close>

section \<open>Definitions\<close>

record reconcile_event =
  re_Type :: string
  re_Reason :: string
  re_PodName :: string
  re_Timestamp :: int

text \<open>A completion channel is known by the number of free places in its buffer.\<close>

record failover_event =
  fe_Type :: string
  fe_Reason :: string
  fe_PodName :: string
  fe_Timestamp :: int
  fe_CompletionChan :: "nat option"

record 'e queue =
  q_events :: "'e list"
  q_dedup :: "(string \<times> int) list"
  q_cancelled :: bool

definition new_queue :: "'e queue" where
  "new_queue = \<lparr>q_events = [], q_dedup = [], q_cancelled = False\<rparr>"

text \<open>The non-blocking send: the event is queued, or dropped when the buffer is full.\<close>

definition try_send :: "nat \<Rightarrow> 'e \<Rightarrow> 'e queue \<Rightarrow> 'e queue" where
  "try_send cap e q = (if length (q_events q) < cap then q\<lparr>q_events := q_events q @ [e]\<rparr> else q)"

definition receive :: "'e queue \<Rightarrow> ('e \<times> 'e queue) option" where
  "receive q = (case q_events q of [] \<Rightarrow> None | e # es \<Rightarrow> Some (e, q\<lparr>q_events := es\<rparr>))"

text \<open>
  The deduplication of a handler running at time \<open>now\<close>: whether to go on, and the table after it.
  The table holds the event's own timestamp, not the time it was handled.
\<close>

definition dedup :: "int \<Rightarrow> string \<Rightarrow> int \<Rightarrow> 'e queue \<Rightarrow> bool \<times> 'e queue" where
  "dedup now key ts q = (case map_of (q_dedup q) key of
      Some lastEventTime \<Rightarrow>
        if time_sub now lastEventTime < 2 * Second then (False, q)
        else (True, q\<lparr>q_dedup := AList.update key ts (q_dedup q)\<rparr>)
    | None \<Rightarrow> (True, q\<lparr>q_dedup := AList.update key ts (q_dedup q)\<rparr>))"

definition cancel_queue :: "'e queue \<Rightarrow> 'e queue" where
  "cancel_queue q = q\<lparr>q_cancelled := True\<rparr>"

definition reconcile_key :: "reconcile_event \<Rightarrow> string" where
  "reconcile_key e = re_Type e @ '':'' @ re_PodName e"

definition failover_key :: "failover_event \<Rightarrow> string" where
  "failover_key e = ''failover:'' @ fe_PodName e"

text \<open>A run of a queue: sends, and handled events with the time of handling.\<close>

datatype 'e queue_op = Send 'e | Handle int

fun queue_step :: "nat \<Rightarrow> ('e \<Rightarrow> string) \<Rightarrow> ('e \<Rightarrow> int) \<Rightarrow> 'e queue_op \<Rightarrow> 'e queue \<times> (int \<times> 'e) list
    \<Rightarrow> 'e queue \<times> (int \<times> 'e) list" where
  "queue_step cap key ts (Send e) (q, hs) = (try_send cap e q, hs)"
| "queue_step cap key ts (Handle now) (q, hs) = (case receive q of
      None \<Rightarrow> (q, hs)
    | Some (e, q1) \<Rightarrow> (case dedup now (key e) (ts e) q1 of
        (True, q2) \<Rightarrow> (q2, (now, e) # hs)
      | (False, q2) \<Rightarrow> (q2, hs)))"

text \<open>
  Of the handled events (newest first), each came at least two seconds after the timestamp of the last
  one before it with the same key.
\<close>

definition last_handled :: "('e \<Rightarrow> string) \<Rightarrow> string \<Rightarrow> (int \<times> 'e) list \<Rightarrow> (int \<times> 'e) option" where
  "last_handled key k hs = find (\<lambda>(t, e). key e = k) hs"

fun spaced :: "('e \<Rightarrow> string) \<Rightarrow> ('e \<Rightarrow> int) \<Rightarrow> (int \<times> 'e) list \<Rightarrow> bool" where
  "spaced key ts [] = True"
| "spaced key ts ((t, e) # hs) = (spaced key ts hs \<and>
     (case last_handled key (key e) hs of
        None \<Rightarrow> True
      | Some (t', e') \<Rightarrow> 2 * Second \<le> time_sub t (ts e')))"

definition queue_run :: "nat \<Rightarrow> ('e \<Rightarrow> string) \<Rightarrow> ('e \<Rightarrow> int) \<Rightarrow> 'e queue_op list
    \<Rightarrow> 'e queue \<times> (int \<times> 'e) list" where
  "queue_run cap key ts ops = fold (queue_step cap key ts) ops (new_queue, [])"

section \<open>Lemmas\<close>

lemma try_send_bound: "length (q_events q) \<le> cap \<Longrightarrow> length (q_events (try_send cap e q)) \<le> cap"
  by (simp add: try_send_def)

text \<open>
  The contract of a queue with its handler: at most \<open>cap\<close> events wait, and of two handled events
  with one key the later was handled at least two seconds after the timestamp of the earlier.
\<close>

locale event_queue =
  fixes cap :: nat and key :: "'e \<Rightarrow> string" and ts :: "'e \<Rightarrow> int"
  assumes cap_pos: "0 < cap"
begin

definition queue_inv :: "'e queue \<times> (int \<times> 'e) list \<Rightarrow> bool" where
  "queue_inv qd \<longleftrightarrow> length (q_events (fst qd)) \<le> cap \<and> spaced key ts (snd qd) \<and>
     (\<forall>k. map_of (q_dedup (fst qd)) k = map_option (ts \<circ> snd) (last_handled key k (snd qd)))"

lemma dedup_inv:
  assumes "queue_inv (q, hs)" and "length es \<le> cap"
  shows "queue_inv (case dedup now (key e) (ts e) (q\<lparr>q_events := es\<rparr>) of
      (True, q2) \<Rightarrow> (q2, (now, e) # hs) | (False, q2) \<Rightarrow> (q2, hs))"
  using assms
  by (auto simp: queue_inv_def dedup_def last_handled_def not_less split: option.split)

lemma queue_inv_step: "queue_inv qd \<Longrightarrow> queue_inv (queue_step cap key ts p qd)"
proof (cases p)
  case (Send e)
  assume "queue_inv qd"
  then show ?thesis
    using Send by (cases qd) (auto simp: queue_inv_def try_send_def)
next
  case (Handle now)
  assume inv: "queue_inv qd"
  obtain q hs where qd: "qd = (q, hs)" by (cases qd)
  show ?thesis
  proof (cases "q_events q")
    case Nil
    then show ?thesis using inv qd Handle by (simp add: receive_def)
  next
    case (Cons e es)
    then have "length es \<le> cap" using inv qd by (simp add: queue_inv_def)
    from dedup_inv [OF inv [unfolded qd] this] show ?thesis
      using qd Handle Cons by (simp add: receive_def)
  qed
qed

lemma queue_run_inv: "queue_inv (queue_run cap key ts ops)"
proof -
  have "queue_inv (fold (queue_step cap key ts) ops qd)" if "queue_inv qd" for qd
    using that by (induction ops arbitrary: qd) (simp_all del: split_paired_All add: queue_inv_step)
  moreover have "queue_inv (new_queue, [])"
    by (simp add: queue_inv_def new_queue_def last_handled_def)
  ultimately show ?thesis by (simp add: queue_run_def)
qed

text \<open>An event sent to an empty queue is the next one received.\<close>

lemma send_receive: "q_events q = [] \<Longrightarrow> receive (try_send cap (e :: 'e) q) = Some (e, q)"
  using cap_pos by (cases q) (simp add: try_send_def receive_def)

lemma run_bounded: "length (q_events (fst (queue_run cap key ts ops))) \<le> cap"
  using queue_run_inv by (simp add: queue_inv_def)

lemma run_spaced: "spaced key ts (snd (queue_run cap key ts ops))"
  using queue_run_inv by (simp add: queue_inv_def)

end

interpretation reconcile_queue: event_queue 100 reconcile_key re_Timestamp
  by unfold_locales simp

interpretation failover_queue: event_queue 50 failover_key fe_Timestamp
  by unfold_locales simp


text \<open>
  The reconcile queue never holds more than 100 events, and an event of one
  type for one pod is handled at the earliest two seconds after the timestamp of the last such event.
\<close>

theorem reconcile_queue_contract:
  "length (q_events (fst (queue_run 100 reconcile_key re_Timestamp ops))) \<le> 100 \<and>
   spaced reconcile_key re_Timestamp (snd (queue_run 100 reconcile_key re_Timestamp ops))"
  by (simp add: reconcile_queue.run_bounded reconcile_queue.run_spaced)

end
