(* ===== verification/Leader_Election.thy ===== *)
theory Leader_Election
  imports World Metrics
begin

text \<open>
  \<open>internal/controller/leader_election.go\<close>: the state of the leader election as the callbacks of
  the Kubernetes library leave it. The library itself (\<open>RunOrDie\<close> on a lease) is a parameter: any
  sequence of callbacks.
\<close>

section \<open>Definitions\<close>

record leader_election =
  le_identity :: string
  le_currentLeader :: string

text \<open>\<open>hostname\<close> is the result of \<open>os.Hostname\<close>.\<close>

definition getPodIdentity :: "(string \<Rightarrow> string) \<Rightarrow> string go_result \<Rightarrow> string go_result" where
  "getPodIdentity getenv hostname =
     (if getenv ''POD_NAME'' \<noteq> '''' then Inr (getenv ''POD_NAME'')
      else case hostname of
          Inl e \<Rightarrow> Inl (Wrapped ''failed to get hostname'' e)
        | Inr h \<Rightarrow> Inr h)"

definition NewLeaderElection ::
  "(string \<Rightarrow> string) \<Rightarrow> string go_result \<Rightarrow> leader_election go_result" where
  "NewLeaderElection getenv hostname = (case getPodIdentity getenv hostname of
      Inl e \<Rightarrow> Inl (Wrapped ''failed to get pod identity'' e)
    | Inr identity \<Rightarrow> Inr \<lparr>le_identity = identity, le_currentLeader = ''''\<rparr>)"

definition le_IsLeader :: "leader_election \<Rightarrow> bool" where
  "le_IsLeader le \<longleftrightarrow> le_currentLeader le = le_identity le"

definition onStartLeading ::
  "metrics option \<Rightarrow> leader_election \<Rightarrow> metrics option \<times> leader_election" where
  "onStartLeading pm le = (let newLeader = le_currentLeader le \<noteq> le_identity le in
     (map_option (\<lambda>m. RecordElection (if newLeader then RecordLeadershipChange (UpdateLeadershipStatus True m)
                                      else UpdateLeadershipStatus True m)) pm,
      le\<lparr>le_currentLeader := le_identity le\<rparr>))"

definition onStopLeading :: "leader_election \<Rightarrow> leader_election" where
  "onStopLeading le = le\<lparr>le_currentLeader := ''''\<rparr>"

definition onNewLeader :: "string \<Rightarrow> leader_election \<Rightarrow> leader_election" where
  "onNewLeader currentLeader le =
     (if currentLeader \<noteq> le_currentLeader le then le\<lparr>le_currentLeader := currentLeader\<rparr> else le)"

text \<open>\<open>GetCurrentLeader\<close> over the answer of the API server: the holder of the lease, if it has one.\<close>

definition GetCurrentLeader :: "string option go_result \<Rightarrow> string go_result" where
  "GetCurrentLeader lease = (case lease of
      Inl e \<Rightarrow> Inl (Wrapped ''failed to get leader lease'' e)
    | Inr None \<Rightarrow> Inl (ErrorString ''no current leader'')
    | Inr (Some holder) \<Rightarrow> Inr holder)"

datatype leader_callback = Started | Stopped | NewLeader string

fun le_apply :: "leader_callback \<Rightarrow> leader_election \<Rightarrow> leader_election" where
  "le_apply Started le = snd (onStartLeading None le)"
| "le_apply Stopped le = onStopLeading le"
| "le_apply (NewLeader l) le = onNewLeader l le"

text \<open>The holder that a sequence of callbacks reported last.\<close>

fun last_reported :: "string \<Rightarrow> string \<Rightarrow> leader_callback list \<Rightarrow> string" where
  "last_reported me holder [] = holder"
| "last_reported me holder (Started # cs) = last_reported me me cs"
| "last_reported me holder (Stopped # cs) = last_reported me '''' cs"
| "last_reported me holder (NewLeader l # cs) = last_reported me l cs"

section \<open>Lemmas\<close>

lemma le_apply_identity [simp]: "le_identity (le_apply cb le) = le_identity le"
  by (cases cb) (simp_all add: onStartLeading_def onStopLeading_def onNewLeader_def Let_def)

lemma le_apply_leader:
  "le_currentLeader (le_apply cb le) = last_reported (le_identity le) (le_currentLeader le) [cb]"
  by (cases cb) (simp_all add: onStartLeading_def onStopLeading_def onNewLeader_def Let_def)

lemma le_fold:
  "le_currentLeader (fold le_apply cbs le) = last_reported (le_identity le) (le_currentLeader le) cbs \<and>
   le_identity (fold le_apply cbs le) = le_identity le"
proof (induction cbs arbitrary: le)
  case (Cons cb cbs)
  then show ?case
    using le_apply_leader [of cb le] le_apply_identity [of cb le] by (cases cb) simp_all
qed simp

text \<open>
  C36: after any sequence of callbacks of the election library, an instance with a
  non-empty identity considers itself leader exactly when it is the holder that was reported last. A
  fresh instance is not leader.
\<close>

theorem leader_iff_reported:
  assumes "NewLeaderElection getenv hostname = Inr le" and "le_identity le \<noteq> ''''"
  shows "le_IsLeader (fold le_apply cbs le) \<longleftrightarrow> last_reported (le_identity le) '''' cbs = le_identity le"
proof -
  have "le_currentLeader le = ''''"
    using assms(1) by (auto simp: NewLeaderElection_def split: sum.splits)
  then show ?thesis using le_fold [of cbs le] by (simp add: le_IsLeader_def)
qed

theorem leader_iff_reported_witness:
  "NewLeaderElection (\<lambda>k. if k = ''POD_NAME'' then ''ctl-0'' else '''') (Inl (ErrorString ''none'')) =
     Inr \<lparr>le_identity = ''ctl-0'', le_currentLeader = ''''\<rparr> \<and>
   \<not> le_IsLeader (fold le_apply [Started, NewLeader ''ctl-1'']
       \<lparr>le_identity = ''ctl-0'', le_currentLeader = ''''\<rparr>)"
proof -
  have 1: "NewLeaderElection (\<lambda>k. if k = ''POD_NAME'' then ''ctl-0'' else '''') (Inl (ErrorString ''none'')) =
     Inr \<lparr>le_identity = ''ctl-0'', le_currentLeader = ''''\<rparr>"
    by (simp add: NewLeaderElection_def getPodIdentity_def)
  show ?thesis
    using 1 leader_iff_reported [OF 1, of "[Started, NewLeader ''ctl-1'']"] by simp
qed

end
