(* ===== verification/Health_Prober.thy ===== *)
theory Health_Prober
  imports Go_Duration
begin

text \<open>
  The counters of \<open>internal/controller/prober.go\<close>. Recording a failure returns whether the
  threshold was reached, which is when the source starts the goroutine that queues a failover check
  (or switches the read gateway's upstream). The checks themselves are in \<open>Prober_Checks\<close>.
\<close>

section \<open>Definitions\<close>

record health_prober =
  hp_CheckInterval :: int
  hp_Timeout :: int
  hp_FailureThreshold :: int
  hp_running :: bool
  hp_consecutiveFailures :: int
  hp_lastHealthStatus :: bool
  hp_readGatewayConsecutiveFailures :: int
  hp_lastReadGatewayHealthStatus :: bool

text \<open>\<open>NewHealthProber\<close> with the configuration of \<open>DefaultProberConfig\<close>.\<close>

definition NewHealthProber :: "int \<Rightarrow> int \<Rightarrow> int \<Rightarrow> health_prober" where
  "NewHealthProber checkInterval timeout failureThreshold =
     \<lparr>hp_CheckInterval = checkInterval, hp_Timeout = timeout, hp_FailureThreshold = failureThreshold,
      hp_running = False, hp_consecutiveFailures = 0, hp_lastHealthStatus = True,
      hp_readGatewayConsecutiveFailures = 0, hp_lastReadGatewayHealthStatus = True\<rparr>"

definition DefaultProberConfig :: "int \<times> int \<times> int" where
  "DefaultProberConfig = (5 * Second, 3 * Second, 3)"

text \<open>\<open>Start\<close> and \<open>Stop\<close>: whether a loop goroutine is started, and the prober after it.\<close>

definition prober_Start :: "health_prober \<Rightarrow> bool \<times> health_prober" where
  "prober_Start p = (if hp_running p then (False, p) else (True, p\<lparr>hp_running := True\<rparr>))"

definition prober_Stop :: "health_prober \<Rightarrow> health_prober" where
  "prober_Stop p = (if \<not> hp_running p then p else p\<lparr>hp_running := False\<rparr>)"

definition GetHealthStatus :: "health_prober \<Rightarrow> bool \<times> int" where
  "GetHealthStatus p = (hp_lastHealthStatus p, hp_consecutiveFailures p)"

definition recordFailure :: "health_prober \<Rightarrow> bool \<times> health_prober" where
  "recordFailure p = (let p' = p\<lparr>hp_consecutiveFailures := wrap64 (hp_consecutiveFailures p + 1),
                                 hp_lastHealthStatus := False\<rparr>
     in (hp_consecutiveFailures p' = hp_FailureThreshold p', p'))"

definition recordSuccess :: "health_prober \<Rightarrow> health_prober" where
  "recordSuccess p = p\<lparr>hp_consecutiveFailures := 0, hp_lastHealthStatus := True\<rparr>"

definition recordReadGatewayFailure :: "health_prober \<Rightarrow> bool \<times> health_prober" where
  "recordReadGatewayFailure p =
     (let p' = p\<lparr>hp_readGatewayConsecutiveFailures := wrap64 (hp_readGatewayConsecutiveFailures p + 1),
                 hp_lastReadGatewayHealthStatus := False\<rparr>
      in (hp_readGatewayConsecutiveFailures p' = hp_FailureThreshold p', p'))"

definition recordReadGatewaySuccess :: "health_prober \<Rightarrow> health_prober" where
  "recordReadGatewaySuccess p =
     p\<lparr>hp_readGatewayConsecutiveFailures := 0, hp_lastReadGatewayHealthStatus := True\<rparr>"

definition resetReadGatewayFailures :: "health_prober \<Rightarrow> health_prober" where
  "resetReadGatewayFailures p =
     (if hp_readGatewayConsecutiveFailures p > 0
      then p\<lparr>hp_readGatewayConsecutiveFailures := 0, hp_lastReadGatewayHealthStatus := True\<rparr> else p)"

text \<open>A run over the outcomes of the checks: after which of them failover was triggered.\<close>

definition prober_check :: "bool \<Rightarrow> health_prober \<Rightarrow> bool \<times> health_prober" where
  "prober_check ok p = (if ok then (False, recordSuccess p) else recordFailure p)"

fun prober_run :: "bool list \<Rightarrow> health_prober \<Rightarrow> bool list" where
  "prober_run [] p = []"
| "prober_run (ok # oks) p = fst (prober_check ok p) # prober_run oks (snd (prober_check ok p))"

text \<open>The length of the run of failures that ends at a position of the outcomes (newest first).\<close>

fun streak :: "bool list \<Rightarrow> nat" where
  "streak [] = 0"
| "streak (ok # oks) = (if ok then 0 else Suc (streak oks))"

section \<open>Lemmas\<close>

lemma prober_check_step:
  assumes "hp_consecutiveFailures p = int (streak past)" and "int (length past) < 2 ^ 62"
    and "0 < hp_FailureThreshold p"
  shows "hp_consecutiveFailures (snd (prober_check ok p)) = int (streak (ok # past))"
    and "fst (prober_check ok p) \<longleftrightarrow> int (streak (ok # past)) = hp_FailureThreshold p"
    and "hp_FailureThreshold (snd (prober_check ok p)) = hp_FailureThreshold p"
proof -
  have "streak past \<le> length past" by (induction past) auto
  then have "wrap64 (int (streak past) + 1) = int (streak past) + 1"
    using assms(2) by (intro wrap64_id) auto
  then show "hp_consecutiveFailures (snd (prober_check ok p)) = int (streak (ok # past))"
    and "fst (prober_check ok p) \<longleftrightarrow> int (streak (ok # past)) = hp_FailureThreshold p"
    and "hp_FailureThreshold (snd (prober_check ok p)) = hp_FailureThreshold p"
    using assms(1,3) by (auto simp: prober_check_def recordSuccess_def recordFailure_def Let_def)
qed

lemma prober_run_streak:
  assumes "hp_consecutiveFailures p = int (streak past)" and "int (length past + length oks) < 2 ^ 62"
    and "i < length oks" and "0 < hp_FailureThreshold p"
  shows "prober_run oks p ! i \<longleftrightarrow> int (streak (rev (take (Suc i) oks) @ past)) = hp_FailureThreshold p"
  using assms
proof (induction oks arbitrary: p past i)
  case (Cons ok oks)
  have "int (length past) < 2 ^ 62" using Cons.prems(2) by simp
  note step = prober_check_step [OF Cons.prems(1) this Cons.prems(4), of ok]
  show ?case
  proof (cases i)
    case 0
    then show ?thesis using step(2) by simp
  next
    case (Suc j)
    then show ?thesis using Cons.IH [OF step(1), of j] Cons.prems step(3) by simp
  qed
qed simp

text \<open>
  C29: whatever the outcomes of the checks, the prober triggers a failover check
  after exactly those checks that complete a run of as many consecutive failures as the threshold: not
  before, and not again until a check has succeeded in between.
\<close>

theorem prober_triggers_once:
  assumes "i < length oks" and "int (length oks) < 2 ^ 62" and "0 < threshold"
  shows "prober_run oks (NewHealthProber interval timeout threshold) ! i \<longleftrightarrow>
    int (streak (rev (take (Suc i) oks))) = threshold"
  using prober_run_streak [of "NewHealthProber interval timeout threshold" "[]" oks i] assms
  by (simp add: NewHealthProber_def)

theorem prober_triggers_once_witness:
  "prober_run [False, False, False, False, True, False] (NewHealthProber (5 * Second) (3 * Second) 3) =
     [False, False, True, False, False, False] \<and>
   int (streak (rev (take 3 [False, False, False, False, True, False]))) = 3"
proof -
  let ?oks = "[False, False, False, False, True, False]"
  have 1: "prober_run ?oks (NewHealthProber (5 * Second) (3 * Second) 3) =
      [False, False, True, False, False, False]"
    by code_simp
  then have "prober_run ?oks (NewHealthProber (5 * Second) (3 * Second) 3) ! 2" by simp
  then have "int (streak (rev (take (Suc 2) ?oks))) = 3"
    using prober_triggers_once [of 2 ?oks 3 "5 * Second" "3 * Second"] by simp
  with 1 show ?thesis by simp
qed

end
