(* ===== verification/Controller_State.thy ===== *)
theory Controller_State
  imports Memgraph_Cluster Gateway_Server Event_Queue Leader_Election Health_Prober
    "HOL-Library.Char_ord" "HOL-Library.List_Lexorder"
begin

text \<open>
  The controller's state and the operations of \<open>internal/controller/controller_core.go\<close> that the
  failover and the reconciliation are built from. The cluster object exists (it is created once the
  informers have synced, before anything here runs), and so does the main gateway (the constructor
  always creates it); the read gateway is optional. Node pointers are the keys of the node map. A
  gateway's change of upstream is also an event of the trace.
\<close>

section \<open>Definitions\<close>

record reconciliation_metrics =
  rm_TotalReconciliations :: int64
  rm_SuccessfulReconciliations :: int64
  rm_FailedReconciliations :: int64
  rm_AverageReconciliationTime :: int
  rm_LastReconciliationTime :: int
  rm_LastReconciliationReason :: string
  rm_LastReconciliationError :: string

record controller_state = cluster_state +
  targetMainIndex :: int32
  configMapName :: string
  gatewayServer :: server
  readGatewayServer :: "server option"
  leaderElection :: leader_election
  reconcileQueue :: "reconcile_event queue"
  failoverCheckQueue :: "failover_event queue"
  failoverCheckNeeded :: bool
  isRunning :: bool
  stopCh_closed :: bool
  recMetrics :: reconciliation_metrics
  promMetrics :: "metrics option"
  healthProber :: health_prober

subsection \<open>Construction\<close>

definition zero_metrics :: reconciliation_metrics where
  "zero_metrics = \<lparr>rm_TotalReconciliations = 0, rm_SuccessfulReconciliations = 0,
     rm_FailedReconciliations = 0, rm_AverageReconciliationTime = 0, rm_LastReconciliationTime = 0,
     rm_LastReconciliationReason = '''', rm_LastReconciliationError = ''''\<rparr>"

definition state_configmap_name :: "(string \<Rightarrow> string) \<Rightarrow> string" where
  "state_configmap_name getenv = (let
       name = (if getenv ''RELEASE_NAME'' \<noteq> '''' then getenv ''RELEASE_NAME'' @ ''-state''
               else ''memgraph-controller-state'')
     in if length name > 63 then take 63 name else name)"

text \<open>\<open>None\<close> is the nil that the constructor returns when the pod's identity is not known.\<close>

definition NewMemgraphController ::
  "(string \<Rightarrow> string) \<Rightarrow> string go_result \<Rightarrow> Config \<Rightarrow> controller_state option" where
  "NewMemgraphController getenv hostname c = (case NewLeaderElection getenv hostname of
      Inl e \<Rightarrow> None
    | Inr le \<Rightarrow> Some (case DefaultProberConfig of (ci, tmo, ft) \<Rightarrow>
       \<lparr>trace = [], drivers = [], podIPs = [], MemgraphNodes = [],
        targetMainIndex = - 1,
        configMapName = state_configmap_name getenv,
        gatewayServer = NewServer ''main-gw''
          ((LoadGatewayConfig getenv)\<lparr>BindAddress := GatewayBindAddress c\<rparr>),
        readGatewayServer = (if getenv ''ENABLE_READ_GATEWAY'' = ''true''
          then Some (NewServer ''read-gw'' ((LoadGatewayConfig getenv)\<lparr>BindAddress := ''0.0.0.0:7688''\<rparr>))
          else None),
        leaderElection = le,
        reconcileQueue = new_queue, failoverCheckQueue = new_queue, failoverCheckNeeded = False,
        isRunning = False, stopCh_closed = False, recMetrics = zero_metrics, promMetrics = None,
        healthProber = NewHealthProber ci tmo ft\<rparr>))"

definition IsLeader :: "'z controller_state_scheme \<Rightarrow> bool" where
  "IsLeader s = le_IsLeader (leaderElection s)"

text \<open>The collectors are one object, which the gateways share with the controller.\<close>

definition SetPrometheusMetrics :: "metrics option \<Rightarrow> ('z controller_state_scheme, unit) state" where
  "SetPrometheusMetrics m = modify (\<lambda>s. s\<lparr>promMetrics := m\<rparr>)"

definition with_metrics :: "(metrics \<Rightarrow> metrics) \<Rightarrow> ('z controller_state_scheme, unit) state" where
  "with_metrics f = modify (\<lambda>s. s\<lparr>promMetrics := map_option f (promMetrics s)\<rparr>)"

subsection \<open>Gateways\<close>

definition set_main_upstream :: "string \<Rightarrow> ('z controller_state_scheme, unit) state" where
  "set_main_upstream a = do {
     gw \<leftarrow> gets gatewayServer;
     modify (\<lambda>s. s\<lparr>gatewayServer := SetUpstreamAddress a gw\<rparr>);
     if GetUpstreamAddress gw = a then return () else emit (IoUpstream ''main-gw'' a) }"

definition set_read_upstream :: "string \<Rightarrow> ('z controller_state_scheme, unit) state" where
  "set_read_upstream a = do {
     r \<leftarrow> gets readGatewayServer;
     case r of
       None \<Rightarrow> return ()
     | Some gw \<Rightarrow> do {
         modify (\<lambda>s. s\<lparr>readGatewayServer := Some (SetUpstreamAddress a gw)\<rparr>);
         if GetUpstreamAddress gw = a then return () else emit (IoUpstream ''read-gw'' a) } }"

definition disconnect_read :: "('z controller_state_scheme, unit) state" where
  "disconnect_read = modify (\<lambda>s. s\<lparr>readGatewayServer := map_option DisconnectAll (readGatewayServer s)\<rparr>)"

definition disconnect_main :: "('z controller_state_scheme, unit) state" where
  "disconnect_main = modify (\<lambda>s. s\<lparr>gatewayServer := DisconnectAll (gatewayServer s)\<rparr>)"

definition read_upstream :: "'z controller_state_scheme \<Rightarrow> string" where
  "read_upstream s = (case readGatewayServer s of None \<Rightarrow> '''' | Some gw \<Rightarrow> GetUpstreamAddress gw)"

subsection \<open>The target main index\<close>

definition GetTargetMainIndex ::
  "environment \<Rightarrow> ('z controller_state_scheme, int32 go_result) state" where
  "GetTargetMainIndex env = do {
     index \<leftarrow> gets targetMainIndex;
     if index \<noteq> - 1 then return (Inr index)
     else do {
       name \<leftarrow> gets configMapName;
       r \<leftarrow> cm_get env name;
       case r of
         Inl e \<Rightarrow> return (Inl (Wrapped ''ConfigMap not available'' e))
       | Inr dt \<Rightarrow> (case map_of dt ''targetMainIndex'' of
           None \<Rightarrow> return (Inl (ErrorString ''targetMainIndex not found in ConfigMap''))
         | Some str \<Rightarrow> (case sscanf_int32 str of
             None \<Rightarrow> return (Inl (Wrapped ''invalid targetMainIndex format'' (ErrorString ''scan'')))
           | Some i \<Rightarrow> do {
               modify (\<lambda>s. s\<lparr>targetMainIndex := i\<rparr>);
               return (Inr i) })) } }"

text \<open>The first Deployment that owns one of the ReplicaSets that own the controller's pod.\<close>

fun find_deployment ::
  "environment \<Rightarrow> owner_ref list \<Rightarrow> ('z controller_state_scheme, owner_ref option) state" where
  "find_deployment env [] = return None"
| "find_deployment env (ref # refs) =
     (if Kind ref = ''ReplicaSet'' \<and> APIVersion ref = ''apps/v1'' then do {
        r \<leftarrow> rs_get env (OwnerName ref);
        case r of
          Inl e \<Rightarrow> find_deployment env refs
        | Inr owners \<Rightarrow>
            (case find (\<lambda>o1. Kind o1 = ''Deployment'' \<and> APIVersion o1 = ''apps/v1'') owners of
               Some o2 \<Rightarrow> return (Some o2)
             | None \<Rightarrow> find_deployment env refs) }
      else find_deployment env refs)"

definition getControllerOwnerReference ::
  "environment \<Rightarrow> ('z controller_state_scheme, owner_ref go_result) state" where
  "getControllerOwnerReference env = (let podName = env_getenv env ''POD_NAME'' in
     if podName = '''' then return (Inl (ErrorString ''POD_NAME environment variable not set''))
     else do {
       r \<leftarrow> pod_get env podName;
       case r of
         Inl e \<Rightarrow> return (Inl (Wrapped (''failed to get controller pod '' @ podName) e))
       | Inr p \<Rightarrow> do {
           d \<leftarrow> find_deployment env (OwnerReferences p);
           return (case d of
               Some ref \<Rightarrow> Inr ref
             | None \<Rightarrow> Inl (ErrorString
                 (''could not find Deployment owner reference for pod '' @ podName))) } })"

definition index_data :: "int32 \<Rightarrow> cm_data" where
  "index_data i = [(''targetMainIndex'', itoa (sint i))]"

definition SetTargetMainIndex ::
  "environment \<Rightarrow> int32 \<Rightarrow> ('z controller_state_scheme, unit go_result) state" where
  "SetTargetMainIndex env index = do {
     o1 \<leftarrow> getControllerOwnerReference env;
     name \<leftarrow> gets configMapName;
     let ow = (case o1 of Inl e \<Rightarrow> None | Inr ref \<Rightarrow> Some ref);
     let dt = index_data index;
     e1 \<leftarrow> cm_update env name dt ow;
     e2 \<leftarrow> (case e1 of
          None \<Rightarrow> return None
        | Some e \<Rightarrow> if IsNotFound e then cm_create env name dt ow else return (Some e));
     case e2 of
       Some e \<Rightarrow> return (Inl (Wrapped ''failed to update ConfigMap'' e))
     | None \<Rightarrow> do {
         oldIndex \<leftarrow> gets targetMainIndex;
         (if oldIndex \<noteq> index \<and> oldIndex \<noteq> - 1 then with_metrics RecordMainChange else return ());
         modify (\<lambda>s. s\<lparr>targetMainIndex := index\<rparr>);
         return (Inr ()) } }"

subsection \<open>Nodes and pods\<close>

definition getTargetMainNode ::
  "environment \<Rightarrow> Config \<Rightarrow> ('z controller_state_scheme, string go_result) state" where
  "getTargetMainNode env c = do {
     r \<leftarrow> GetTargetMainIndex env;
     case r of
       Inl e \<Rightarrow> return (Inl (Wrapped ''failed to get target main index'' e))
     | Inr i \<Rightarrow> do {
         known \<leftarrow> gets (has_node (GetPodName c i));
         return (if known then Inr (GetPodName c i)
           else Inl (ErrorString (''target main pod '' @ GetPodName c i @ '' not found in cluster state''))) } }"

definition sync_index :: "int32 \<Rightarrow> int32" where
  "sync_index i = (if i = 0 then 1 else 0)"

definition getTargetSyncReplicaNode ::
  "environment \<Rightarrow> Config \<Rightarrow> ('z controller_state_scheme, string go_result) state" where
  "getTargetSyncReplicaNode env c = do {
     r \<leftarrow> GetTargetMainIndex env;
     case r of
       Inl e \<Rightarrow> return (Inl (Wrapped ''failed to get target main index'' e))
     | Inr i \<Rightarrow> do {
         let podName = GetPodName c (sync_index i);
         known \<leftarrow> gets (has_node podName);
         return (if known then Inr podName
           else Inl (ErrorString (''target sync replica pod '' @ podName @ '' not found in cluster state''))) } }"

definition getPodFromCache ::
  "environment \<Rightarrow> Config \<Rightarrow> string \<Rightarrow> ('z controller_state_scheme, pod go_result) state" where
  "getPodFromCache env c podName = do {
     r \<leftarrow> store_get env (pod_key c podName);
     return (case r of
         Inl e \<Rightarrow> Inl (Wrapped (''failed to get pod '' @ podName @ '' from cache'') e)
       | Inr None \<Rightarrow> Inl (ErrorString (''pod '' @ podName @ '' not found in cache''))
       | Inr (Some p) \<Rightarrow> Inr p) }"

text \<open>The node that \<open>GetCurrentMainNode\<close> makes from a pod fetched from the API server.\<close>

definition node_from_api ::
  "environment \<Rightarrow> string \<Rightarrow> ('z controller_state_scheme, memgraph_node go_result) state" where
  "node_from_api env podName = do {
     r \<leftarrow> pod_get env podName;
     return (case r of
         Inl e \<Rightarrow> Inl (Wrapped (''failed to get pod '' @ podName) e)
       | Inr p \<Rightarrow> if PodIP p = '''' then Inl (ErrorString (''pod '' @ podName @ '' has no IP address assigned''))
                 else Inr (NewMemgraphNode p)) }"

fun find_actual_main ::
  "environment \<Rightarrow> Config \<Rightarrow> string list \<Rightarrow> ('z controller_state_scheme, string option) state" where
  "find_actual_main env c [] = return None"
| "find_actual_main env c (k # ks) = do {
     (role, err) \<leftarrow> on_node k (\<lambda>n. GetReplicationRole env n False);
     if role = ''MAIN'' then do {
       r \<leftarrow> getPodFromCache env c k;
       (case r of
          Inr p \<Rightarrow> if PodIP p \<noteq> '''' then return (Some k) else find_actual_main env c ks
        | Inl e \<Rightarrow> find_actual_main env c ks) }
     else find_actual_main env c ks }"

definition GetCurrentMainNode ::
  "environment \<Rightarrow> Config \<Rightarrow> ('z controller_state_scheme, memgraph_node go_result) state" where
  "GetCurrentMainNode env c = do {
     ns \<leftarrow> gets MemgraphNodes;
     if ns = [] then do {
       r \<leftarrow> GetTargetMainIndex env;
       case r of
         Inl e \<Rightarrow> return (Inl (Wrapped ''no cluster state and failed to get target main index'' e))
       | Inr i \<Rightarrow> node_from_api env (GetPodName c i) }
     else do {
       keys \<leftarrow> range_keys env (map fst ns);
       found \<leftarrow> find_actual_main env c keys;
       case found of
         Some k \<Rightarrow> do { n \<leftarrow> gets (node_at k); return (Inr n) }
       | None \<Rightarrow> do {
           r \<leftarrow> GetTargetMainIndex env;
           case r of
             Inl e \<Rightarrow> return (Inl (Wrapped ''no main node found and failed to get target main index'' e))
           | Inr i \<Rightarrow> do {
               known \<leftarrow> gets (has_node (GetPodName c i));
               if known then do {
                 p \<leftarrow> getPodFromCache env c (GetPodName c i);
                 case p of
                   Inr _ \<Rightarrow> do { n \<leftarrow> gets (node_at (GetPodName c i)); return (Inr n) }
                 | Inl e \<Rightarrow> node_from_api env (GetPodName c i) }
               else node_from_api env (GetPodName c i) } } } }"

subsection \<open>The read gateway\<close>

definition replica_candidate ::
  "environment \<Rightarrow> Config \<Rightarrow> string \<Rightarrow> string \<Rightarrow> ('z controller_state_scheme, bool) state" where
  "replica_candidate env c mainPod podName =
     (if podName = mainPod then return False
      else do {
        r \<leftarrow> getPodFromCache env c podName;
        case r of
          Inl e \<Rightarrow> return False
        | Inr p \<Rightarrow>
            if \<not> isPodReady p then return False
            else do {
              (role, err) \<leftarrow> on_node podName (\<lambda>n. GetReplicationRole env n False);
              return (err = None \<and> role = ''replica'') } })"

fun collect_replicas ::
  "environment \<Rightarrow> Config \<Rightarrow> string \<Rightarrow> string list \<Rightarrow> ('z controller_state_scheme, string list) state" where
  "collect_replicas env c mainPod [] = return []"
| "collect_replicas env c mainPod (k # ks) = do {
     ok \<leftarrow> replica_candidate env c mainPod k;
     rest \<leftarrow> collect_replicas env c mainPod ks;
     return (if ok then k # rest else rest) }"

definition selectBestReplica ::
  "environment \<Rightarrow> Config \<Rightarrow> ('z controller_state_scheme, string go_result) state" where
  "selectBestReplica env c = do {
     r \<leftarrow> GetTargetMainIndex env;
     case r of
       Inl e \<Rightarrow> return (Inl (Wrapped ''failed to get target main index'' e))
     | Inr i \<Rightarrow> do {
         ns \<leftarrow> gets MemgraphNodes;
         keys \<leftarrow> range_keys env (map fst ns);
         replicas \<leftarrow> collect_replicas env c (StatefulSetName c @ ''-'' @ itoa (sint i)) keys;
         return (case rev (sort replicas) of
             best # _ \<Rightarrow> Inr best
           | [] \<Rightarrow> Inl (ErrorString ''no healthy replicas available'')) } }"

definition node_address :: "string \<Rightarrow> 'z controller_state_scheme \<Rightarrow> string go_result" where
  "node_address k s = GetBoltAddress (node_at k s)"

text \<open>Setting the read gateway to the address of a node, or to nothing when it has none.\<close>

definition route_read :: "string \<Rightarrow> ('z controller_state_scheme, unit) state" where
  "route_read k = do {
     a \<leftarrow> gets (node_address k);
     case a of Inl e \<Rightarrow> set_read_upstream '''' | Inr boltAddress \<Rightarrow> set_read_upstream boltAddress }"

definition updateReadGatewayUpstream ::
  "environment \<Rightarrow> Config \<Rightarrow> ('z controller_state_scheme, unit) state" where
  "updateReadGatewayUpstream env c = do {
     rg \<leftarrow> gets readGatewayServer;
     if rg = None then return ()
     else do {
       replica \<leftarrow> selectBestReplica env c;
       case replica of
         Inl e \<Rightarrow> do {
           m \<leftarrow> getTargetMainNode env c;
           case m of
             Inl e2 \<Rightarrow> set_read_upstream ''''
           | Inr k \<Rightarrow> route_read k }
       | Inr k \<Rightarrow> route_read k } }"

definition handleReadGatewayUpstreamFailure ::
  "environment \<Rightarrow> Config \<Rightarrow> string \<Rightarrow> go_error \<Rightarrow> ('z controller_state_scheme, unit) state" where
  "handleReadGatewayUpstreamFailure env c upstreamAddress err = updateReadGatewayUpstream env c"

subsection \<open>Cluster health\<close>

text \<open>The replicas that the check looks at: those that may still recover.\<close>

definition healable :: "ReplicaInfo \<Rightarrow> bool" where
  "healable r = (case ri_ParsedDataInfo r of
      Some d \<Rightarrow> \<not> (di_Status d = ''diverged'' \<or> di_Status d = ''malformed'')
    | None \<Rightarrow> False)"

definition replicating_in_step :: "ReplicaInfo list \<Rightarrow> ReplicaInfo \<Rightarrow> bool" where
  "replicating_in_step replicas r = (case ri_ParsedDataInfo r of
      None \<Rightarrow> False
    | Some d \<Rightarrow> ri_SyncMode r = ''async'' \<and> di_Status d = ''replicating'' \<and> di_Behind d \<ge> 0 \<and>
        list_ex (\<lambda>o1. ri_SyncMode o1 = ''strict_sync'' \<and> IsHealthy o1 \<and>
          (case ri_ParsedDataInfo o1 of None \<Rightarrow> False | Some d1 \<Rightarrow> di_Timestamp d1 = di_Timestamp d))
          replicas)"

fun check_replicas :: "ReplicaInfo list \<Rightarrow> ReplicaInfo list \<Rightarrow> go_error option" where
  "check_replicas all [] = None"
| "check_replicas all (r # rs) =
     (if IsHealthy r \<or> replicating_in_step all r then check_replicas all rs
      else Some (ErrorString (case ri_ParsedDataInfo r of
          Some d \<Rightarrow> ''replica '' @ ri_Name r @ '' is not healthy (status: '' @ di_Status d @ '', behind: ''
            @ itoa (di_Behind d) @ '', ts: '' @ itoa (di_Timestamp d) @ '')''
        | None \<Rightarrow> ''replica '' @ ri_Name r @ '' is not healthy'')))"

definition replicas_healthy :: "ReplicaInfo list \<Rightarrow> go_error option" where
  "replicas_healthy replicas = (let healthyReplicas = filter healable replicas in
     if healthyReplicas = [] then None else check_replicas healthyReplicas healthyReplicas)"

definition isHealthy ::
  "environment \<Rightarrow> Config \<Rightarrow> ('z controller_state_scheme, go_error option) state" where
  "isHealthy env c = do {
     m \<leftarrow> getTargetMainNode env c;
     case m of
       Inl e \<Rightarrow> return (Some (Wrapped ''failed to get target main pod'' e))
     | Inr k \<Rightarrow> do {
         (replicas, err) \<leftarrow> on_node k (\<lambda>n. GetReplicas env n False);
         return (case err of
             Some e \<Rightarrow> Some (Wrapped ''failed to get replicas'' e)
           | None \<Rightarrow> replicas_healthy replicas) } }"

text \<open>
  The calls behind \<open>logDetailedClusterStatus\<close> and behind the final log of the hook; they may
  refresh the caches.
\<close>

definition logDetailedClusterStatus ::
  "environment \<Rightarrow> Config \<Rightarrow> ('z controller_state_scheme, unit) state" where
  "logDetailedClusterStatus env c = do {
     m \<leftarrow> getTargetMainNode env c;
     case m of
       Inl e \<Rightarrow> return ()
     | Inr k \<Rightarrow> do { on_node k (\<lambda>n. GetReplicas env n False); return () } }"

text \<open>The wake-ups of the hook's loop: the two-second ticker, or the end of the request's context.\<close>

datatype wakeup = Tick | Done go_error

text \<open>\<open>None\<close>: the hook is still waiting after these wake-ups.\<close>

fun prestop_loop ::
  "environment \<Rightarrow> Config \<Rightarrow> wakeup list \<Rightarrow> ('z controller_state_scheme, unit go_result option) state" where
  "prestop_loop env c [] = return None"
| "prestop_loop env c (Done e # ws) = do { logDetailedClusterStatus env c; return (Some (Inl e)) }"
| "prestop_loop env c (Tick # ws) = do {
     err \<leftarrow> isHealthy env c;
     case err of
       None \<Rightarrow> return (Some (Inr ()))
     | Some e \<Rightarrow> do { logDetailedClusterStatus env c; prestop_loop env c ws } }"

definition HandlePreStopHook :: "environment \<Rightarrow> Config \<Rightarrow> string \<Rightarrow> wakeup list
    \<Rightarrow> ('z controller_state_scheme, unit go_result option) state" where
  "HandlePreStopHook env c podName ws = do { set_main_upstream ''''; prestop_loop env c ws }"

subsection \<open>Administration and shutdown\<close>

definition ResetAllConnections :: "environment \<Rightarrow> ('z controller_state_scheme, int go_result) state" where
  "ResetAllConnections env = do {
     ds \<leftarrow> gets drivers;
     pool_Close env;
     disconnect_main;
     disconnect_read;
     return (Inr (int (length ds))) }"

text \<open>Closing a closed channel panics: \<open>None\<close>.\<close>

definition close_stopCh :: "('z controller_state_scheme, unit option) state" where
  "close_stopCh = do {
     closed \<leftarrow> gets stopCh_closed;
     if closed then return None
     else do { modify (\<lambda>s. s\<lparr>stopCh_closed := True\<rparr>); return (Some ()) } }"

definition StopInformers :: "('z controller_state_scheme, unit option) state" where
  "StopInformers = close_stopCh"

definition ctl_stop :: "('z controller_state_scheme, unit option) state" where
  "ctl_stop = do {
     running \<leftarrow> gets isRunning;
     if \<not> running then return (Some ())
     else do {
       modify (\<lambda>s. s\<lparr>isRunning := False\<rparr>);
       r \<leftarrow> close_stopCh;
       case r of
         None \<Rightarrow> return None
       | Some _ \<Rightarrow> do {
           modify (\<lambda>s. s\<lparr>reconcileQueue := cancel_queue (reconcileQueue s),
                         failoverCheckQueue := cancel_queue (failoverCheckQueue s)\<rparr>);
           return (Some ()) } } }"

definition StopGatewayServer :: "('z controller_state_scheme, go_error option) state" where
  "StopGatewayServer = return None"

definition Shutdown :: "('z controller_state_scheme, unit option) state" where
  "Shutdown = do {
     modify (\<lambda>s. s\<lparr>healthProber := prober_Stop (healthProber s)\<rparr>);
     err \<leftarrow> StopGatewayServer;
     StopInformers }"

subsection \<open>Invariants and frames\<close>

definition is_upstream :: "io \<Rightarrow> bool" where
  "is_upstream e = (case e of IoUpstream gw a \<Rightarrow> True | _ \<Rightarrow> False)"

text \<open>The upstream that a gateway was last given.\<close>

fun routed :: "string \<Rightarrow> history \<Rightarrow> string" where
  "routed gw [] = ''''"
| "routed gw (IoUpstream gw' a # h) = (if gw' = gw then a else routed gw h)"
| "routed gw (_ # h) = routed gw h"

text \<open>A promotion: the query that makes a server main.\<close>

definition is_promotion :: "io \<Rightarrow> bool" where
  "is_promotion e = (case e of IoQuery d q r \<Rightarrow> q = cmd_main | _ \<Rightarrow> False)"

text \<open>Every promotion in the history was sent while both gateways had no upstream.\<close>

fun guarded :: "history \<Rightarrow> bool" where
  "guarded [] = True"
| "guarded (e # h) = (guarded h \<and>
     (is_promotion e \<longrightarrow> routed ''main-gw'' h = '''' \<and> routed ''read-gw'' h = ''''))"

text \<open>The gateways' upstreams are those of the history.\<close>

definition routes_ok :: "'z controller_state_scheme \<Rightarrow> bool" where
  "routes_ok s \<longleftrightarrow> routed ''main-gw'' (trace s) = GetUpstreamAddress (gatewayServer s) \<and>
     routed ''read-gw'' (trace s) = read_upstream s"

definition ctl_wf :: "'z controller_state_scheme \<Rightarrow> bool" where
  "ctl_wf s \<longleftrightarrow> cluster_wf s \<and> routes_ok s \<and> guarded (trace s)"

text \<open>
  An operation that reads: it leaves the controller's own fields alone, but for the target main
  index, which it may load when it is not set.
\<close>

definition own_fields :: "'z controller_state_scheme \<Rightarrow> 'z controller_state_scheme \<Rightarrow> bool" where
  "own_fields s t \<longleftrightarrow>
     cluster_state.more (t\<lparr>targetMainIndex := 0\<rparr>) = cluster_state.more (s\<lparr>targetMainIndex := 0\<rparr>) \<and>
     (targetMainIndex s \<noteq> - 1 \<longrightarrow> targetMainIndex t = targetMainIndex s)"

definition read_step ::
  "(string \<Rightarrow> string \<Rightarrow> bool) \<Rightarrow> 'z controller_state_scheme \<Rightarrow> 'z controller_state_scheme \<Rightarrow> bool" where
  "read_step P s t \<longleftrightarrow> (cluster_wf s \<longrightarrow>
     cluster_wf t \<and> emits (commands P (addresses s)) s t \<and> addresses t = addresses s \<and> own_fields s t)"

text \<open>An operation that may also route the gateways, change the index and write the ConfigMap.\<close>

definition ctl_step ::
  "(string \<Rightarrow> string \<Rightarrow> bool) \<Rightarrow> 'z controller_state_scheme \<Rightarrow> 'z controller_state_scheme \<Rightarrow> bool" where
  "ctl_step P s t \<longleftrightarrow> (ctl_wf s \<longrightarrow>
     ctl_wf t \<and> emits (\<lambda>e. is_upstream e \<or> commands P (addresses s) e) s t \<and> addresses t = addresses s)"

text \<open>
  The frame of every operation, those that learn new nodes included: the controller stays
  well-formed.
\<close>

definition wf_step :: "'z controller_state_scheme \<Rightarrow> 'z controller_state_scheme \<Rightarrow> bool" where
  "wf_step s t \<longleftrightarrow> (ctl_wf s \<longrightarrow> ctl_wf t \<and> emits (\<lambda>_. True) s t)"

text \<open>The evidence for a pod that may serve reads.\<close>

definition read_candidate ::
  "Config \<Rightarrow> string \<Rightarrow> string \<Rightarrow> io list \<Rightarrow> 'z cluster_state_scheme \<Rightarrow> bool" where
  "read_candidate c mainPod k evs t \<longleftrightarrow>
     k \<noteq> mainPod \<and> seen_ready c k evs \<and> nd_memgraphRole (node_at k t) = ''replica''"

text \<open>The index was stored in the ConfigMap.\<close>

definition index_stored :: "string \<Rightarrow> int32 \<Rightarrow> io list \<Rightarrow> bool" where
  "index_stored name j evs \<longleftrightarrow> (\<exists>ow. IoCMUpdate name (index_data j) ow None \<in> set evs \<or>
     IoCMCreate name (index_data j) ow None \<in> set evs)"

text \<open>A new controller with both gateways, and the same once it knows the pods of a scenario.\<close>

definition start_controller :: controller_state where
  "start_controller = the (NewMemgraphController
     (\<lambda>k. if k = ''ENABLE_READ_GATEWAY'' then ''true'' else '''') (Inr ''ctl-0'') sim_config)"

text \<open>The same controller, running and leading.\<close>

definition leading_controller :: "controller_state" where
  "leading_controller = start_controller\<lparr>isRunning := True,
     leaderElection := (leaderElection start_controller)\<lparr>le_currentLeader := ''ctl-0''\<rparr>\<rparr>"

definition ready_controller :: "scenario \<Rightarrow> controller_state" where
  "ready_controller sc = exec (Refresh (sim_env sc)) start_controller"

section \<open>Lemmas\<close>

subsection \<open>Frames\<close>


interpretation read_frame: frame_relation "read_step P" for P
  by unfold_locales (auto simp: read_step_def own_fields_def intro: emits_trans)

interpretation ctl_frame: frame_relation "ctl_step P" for P
  by unfold_locales (auto simp: ctl_step_def intro: emits_trans)

lemma own_fields_more: 
  fixes s t :: "'z controller_state_scheme"
  shows "cluster_state.more t = cluster_state.more s \<Longrightarrow> own_fields s t"
  by (cases s; cases t) (simp add: own_fields_def)

lemma cluster_read_step: "cluster_step P s t \<Longrightarrow> read_step P s t"
  by (simp add: cluster_step_def read_step_def own_fields_more)

lemma cluster_read: "state_io_rel (cluster_step P) m \<Longrightarrow> state_io_rel (read_step P) m"
  by (auto simp: state_io_rel_def cluster_read_step)

lemma own_fieldsD:
  fixes s t :: "'z controller_state_scheme"
  assumes "own_fields s t"
  shows "gatewayServer t = gatewayServer s" and "readGatewayServer t = readGatewayServer s"
    and "configMapName t = configMapName s" and "leaderElection t = leaderElection s"
    and "reconcileQueue t = reconcileQueue s" and "failoverCheckQueue t = failoverCheckQueue s"
    and "isRunning t = isRunning s" and "stopCh_closed t = stopCh_closed s"
    and "recMetrics t = recMetrics s" and "promMetrics t = promMetrics s"
    and "healthProber t = healthProber s" and "failoverCheckNeeded t = failoverCheckNeeded s"
    and "read_upstream t = read_upstream s"
    and "targetMainIndex s \<noteq> - 1 \<Longrightarrow> targetMainIndex t = targetMainIndex s"
  using assms by (cases s; cases t; simp add: own_fields_def read_upstream_def)+

lemma routed_append: "\<not> list_ex is_upstream new \<Longrightarrow> routed gw (new @ h) = routed gw h"
proof (induction new)
  case (Cons e new)
  then show ?case by (cases e) (auto simp: is_upstream_def)
qed simp

lemma guarded_append:
  "\<not> list_ex is_promotion new \<Longrightarrow> guarded (new @ h) \<longleftrightarrow> guarded h"
  by (induction new) auto

lemma commands_plain: "commands P b e \<Longrightarrow> \<not> is_upstream e"
  by (cases e) (auto simp: commands_def is_upstream_def)

lemma is_command_main [simp]: "is_command cmd_main"
  by (simp add: is_command_def cmd_main_def)

lemma commands_no_promotion: "commands P b e \<Longrightarrow> (\<And>n. \<not> P n cmd_main) \<Longrightarrow> \<not> is_promotion e"
  by (cases e) (auto simp: commands_def is_promotion_def)

lemma emits_routed:
  assumes "emits (commands P b) s t"
  shows "routed gw (trace t) = routed gw (trace s)"
proof -
  obtain new where "trace t = new @ trace s" and "list_all (commands P b) new"
    using assms by (auto simp: emits_def)
  moreover from this have "\<not> list_ex is_upstream new"
    using commands_plain by (auto simp: list_all_iff list_ex_iff)
  ultimately show ?thesis by (simp add: routed_append)
qed

lemma emits_guarded:
  assumes "emits (commands P b) s t" and "\<And>n. \<not> P n cmd_main"
  shows "guarded (trace t) \<longleftrightarrow> guarded (trace s)"
proof -
  obtain new where "trace t = new @ trace s" and "list_all (commands P b) new"
    using assms(1) by (auto simp: emits_def)
  moreover from this have "\<not> list_ex is_promotion new"
    using commands_no_promotion assms(2) by (auto simp: list_all_iff list_ex_iff)
  ultimately show ?thesis by (simp add: guarded_append)
qed

lemma read_ctl_step:
  assumes "read_step P s t" and "\<And>n. \<not> P n cmd_main"
  shows "ctl_step P s t"
  unfolding ctl_step_def
proof
  assume "ctl_wf s"
  then have wf: "cluster_wf s" and ok: "routes_ok s" "guarded (trace s)"
    by (simp_all add: ctl_wf_def)
  then have t: "cluster_wf t" "emits (commands P (addresses s)) s t" "addresses t = addresses s" "own_fields s t"
    using assms(1) by (simp_all add: read_step_def)
  have "routes_ok t"
    using ok(1) emits_routed [OF t(2)] own_fieldsD [OF t(4)] by (simp add: routes_ok_def)
  moreover have "guarded (trace t)"
    using ok(2) emits_guarded [OF t(2)] assms(2) by simp
  ultimately show "ctl_wf t \<and> emits (\<lambda>e. is_upstream e \<or> commands P (addresses s) e) s t \<and> addresses t = addresses s"
    using t by (auto simp: ctl_wf_def elim: emits_mono)
qed

lemma read_ctl: "state_io_rel (read_step P) m \<Longrightarrow> (\<And>n. \<not> P n cmd_main) \<Longrightarrow> state_io_rel (ctl_step P) m"
  by (auto simp: state_io_rel_def read_ctl_step)

subsection \<open>Frames of the reading operations\<close>

lemma read_step_call:
  "(\<And>r. command_to (\<lambda>a q. False) (ev r)) \<Longrightarrow> state_io_rel (read_step P) (call f ev)"
  by (rule cluster_read, rule cluster_step_call) simp

lemma addresses_own [simp]:
  "addresses (s\<lparr>targetMainIndex := i\<rparr>) = addresses s"
  "addresses (s\<lparr>gatewayServer := gw\<rparr>) = addresses s"
  "addresses (s\<lparr>readGatewayServer := rg\<rparr>) = addresses s"
  "addresses (s\<lparr>promMetrics := pm\<rparr>) = addresses s"
  by (simp_all add: addresses_def fun_eq_iff)

lemma cluster_wf_own [simp]:
  "cluster_wf (s\<lparr>targetMainIndex := i\<rparr>) = cluster_wf s"
  "cluster_wf (s\<lparr>gatewayServer := gw\<rparr>) = cluster_wf s"
  "cluster_wf (s\<lparr>readGatewayServer := rg\<rparr>) = cluster_wf s"
  "cluster_wf (s\<lparr>promMetrics := pm\<rparr>) = cluster_wf s"
  by (simp_all add: cluster_wf_def pool_wf_def)

lemma read_load_index:
  "targetMainIndex s = - 1 \<Longrightarrow> read_step P s (s\<lparr>targetMainIndex := i\<rparr>)"
  by (simp add: read_step_def own_fields_def emits_def)

lemma cm_get_run [simp]:
  "eval_result (cm_get env n) s = env_cm_get env (trace s) n"
  "exec (cm_get env n) s = s\<lparr>trace := IoCMGet n (env_cm_get env (trace s) n) # trace s\<rparr>"
  by (simp_all add: cm_get_def call_run)

lemma GetTargetMainIndex_read: "state_io_rel (read_step P) (GetTargetMainIndex env)"
proof (rule io_relI)
  fix s :: "'z controller_state_scheme"
  let ?n = "configMapName s"
  let ?u = "exec (cm_get env ?n) s"
  show "read_step P s (exec (GetTargetMainIndex env) s)"
  proof (cases "targetMainIndex s = - 1")
    case True
    have "state_io_rel (read_step P) (cm_get env ?n)"
      unfolding cm_get_def by (rule read_step_call) simp
    then have u: "read_step P s ?u" by (rule io_relD)
    moreover have "read_step P ?u (?u\<lparr>targetMainIndex := i\<rparr>)" for i
      by (rule read_load_index) (simp add: True)
    ultimately have "read_step P s (?u\<lparr>targetMainIndex := i\<rparr>)" for i
      by (rule read_frame.frame_trans)
    then show ?thesis
      using u True by (auto simp: GetTargetMainIndex_def split: sum.split option.split)
  qed (simp add: GetTargetMainIndex_def read_frame.frame_refl)
qed

lemma getTargetMainNode_read: "state_io_rel (read_step P) (getTargetMainNode env c)"
  unfolding getTargetMainNode_def by (intro read_frame.frame_rules GetTargetMainIndex_read)

lemma getTargetSyncReplicaNode_read: "state_io_rel (read_step P) (getTargetSyncReplicaNode env c)"
  unfolding getTargetSyncReplicaNode_def Let_def by (intro read_frame.frame_rules GetTargetMainIndex_read)

lemma getPodFromCache_cluster: "state_io_rel (cluster_step P) (getPodFromCache env c k)"
  unfolding getPodFromCache_def store_get_def
  by (intro cluster_frame.frame_rules cluster_step_call) simp

lemmas getPodFromCache_read = cluster_read [OF getPodFromCache_cluster]

lemma node_from_api_read: "state_io_rel (read_step P) (node_from_api env k)"
  unfolding node_from_api_def pod_get_def
  by (intro read_frame.frame_rules read_step_call) simp

lemma range_keys_cluster: "state_io_rel (cluster_step P) (range_keys env ks)"
  unfolding range_keys_def by (rule cluster_step_call) simp

lemmas range_keys_read = cluster_read [OF range_keys_cluster]

lemma role_cluster: "state_io_rel (cluster_step P) (on_node k (\<lambda>n. GetReplicationRole env n b))"
  by (rule on_node_step [OF role_op.node_operation_axioms]) simp

lemma replicas_cluster: "state_io_rel (cluster_step P) (on_node k (\<lambda>n. GetReplicas env n b))"
  by (rule on_node_step [OF replicas_op.node_operation_axioms]) auto

lemma ping_cluster: "state_io_rel (cluster_step P) (on_node k (node_Ping env))"
  by (rule on_node_step [OF ping_op.node_operation_axioms]) simp

lemmas role_read = cluster_read [OF role_cluster]
lemmas replicas_read = cluster_read [OF replicas_cluster]
lemmas ping_read = cluster_read [OF ping_cluster]

lemma find_actual_main_read: "state_io_rel (read_step P) (find_actual_main env c ks)"
  by (induction ks)
    (auto intro!: read_frame.frame_rules role_read getPodFromCache_read)

lemma GetCurrentMainNode_read: "state_io_rel (read_step P) (GetCurrentMainNode env c)"
  unfolding GetCurrentMainNode_def
  by (intro read_frame.frame_rules GetTargetMainIndex_read node_from_api_read range_keys_read
      find_actual_main_read getPodFromCache_read)

lemma replica_candidate_cluster: "state_io_rel (cluster_step P) (replica_candidate env c m k)"
  unfolding replica_candidate_def
  by (intro cluster_frame.frame_rules getPodFromCache_cluster role_cluster)

lemmas replica_candidate_read = cluster_read [OF replica_candidate_cluster]

lemma collect_replicas_cluster: "state_io_rel (cluster_step P) (collect_replicas env c m ks)"
  by (induction ks) (auto intro!: cluster_frame.frame_rules replica_candidate_cluster)

lemmas collect_replicas_read = cluster_read [OF collect_replicas_cluster]

lemma selectBestReplica_read: "state_io_rel (read_step P) (selectBestReplica env c)"
  unfolding selectBestReplica_def
  by (intro read_frame.frame_rules GetTargetMainIndex_read range_keys_read collect_replicas_read)

lemma isHealthy_read: "state_io_rel (read_step P) (isHealthy env c)"
  unfolding isHealthy_def
  by (intro read_frame.frame_rules getTargetMainNode_read replicas_read)

lemma logDetailed_read: "state_io_rel (read_step P) (logDetailedClusterStatus env c)"
  unfolding logDetailedClusterStatus_def
  by (intro read_frame.frame_rules getTargetMainNode_read replicas_read)

lemma prestop_loop_read: "state_io_rel (read_step P) (prestop_loop env c ws)"
  by (induction env c ws rule: prestop_loop.induct)
    (auto intro!: read_frame.frame_rules isHealthy_read logDetailed_read)

lemma find_deployment_cluster: "state_io_rel (cluster_step P) (find_deployment env refs)"
  by (induction refs)
    (auto simp: rs_get_def intro!: cluster_frame.frame_rules cluster_step_call)

lemma getControllerOwnerReference_cluster: "state_io_rel (cluster_step P) (getControllerOwnerReference env)"
  unfolding getControllerOwnerReference_def Let_def pod_get_def
  by (intro cluster_frame.frame_rules cluster_step_call find_deployment_cluster) simp

lemmas getControllerOwnerReference_read = cluster_read [OF getControllerOwnerReference_cluster]

subsection \<open>Frames of the routing operations\<close>

lemma set_main_run:
  "exec (set_main_upstream a) s = s\<lparr>gatewayServer := SetUpstreamAddress a (gatewayServer s),
     trace := (if GetUpstreamAddress (gatewayServer s) = a then [] else [IoUpstream ''main-gw'' a]) @ trace s\<rparr>"
  by (cases s) (simp add: set_main_upstream_def emit_def)

lemma set_read_run:
  "exec (set_read_upstream a) s = (case readGatewayServer s of
      None \<Rightarrow> s
    | Some gw \<Rightarrow> s\<lparr>readGatewayServer := Some (SetUpstreamAddress a gw),
        trace := (if GetUpstreamAddress gw = a then [] else [IoUpstream ''read-gw'' a]) @ trace s\<rparr>)"
  by (cases s) (simp add: set_read_upstream_def emit_def split: option.split)

lemma upstream_events [simp]:
  "is_upstream (IoUpstream gw a)" "\<not> is_promotion (IoUpstream gw a)"
  by (simp_all add: is_upstream_def is_promotion_def)

lemma set_main_fields:
  fixes s :: "'z controller_state_scheme" and a :: string
  defines "t \<equiv> exec (set_main_upstream a) s"
  shows "GetUpstreamAddress (gatewayServer t) = a" and "readGatewayServer t = readGatewayServer s"
    and "targetMainIndex t = targetMainIndex s" and "MemgraphNodes t = MemgraphNodes s"
    and "read_upstream t = read_upstream s"
  by (simp_all add: t_def set_main_run GetUpstreamAddress_def read_upstream_def)

lemma set_read_fields:
  fixes s :: "'z controller_state_scheme" and a :: string
  defines "t \<equiv> exec (set_read_upstream a) s"
  shows "gatewayServer t = gatewayServer s" and "targetMainIndex t = targetMainIndex s"
    and "MemgraphNodes t = MemgraphNodes s"
    and "read_upstream t = (if readGatewayServer s = None then '''' else a)"
  by (simp_all add: t_def set_read_run GetUpstreamAddress_def read_upstream_def split: option.split)

lemma set_main_step: "state_io_rel (ctl_step P) (set_main_upstream a)"
proof (rule io_relI)
  fix s :: "'z controller_state_scheme"
  show "ctl_step P s (exec (set_main_upstream a) s)"
    by (auto simp: ctl_step_def ctl_wf_def routes_ok_def set_main_run emits_def cluster_wf_def pool_wf_def
        addresses_def fun_eq_iff read_upstream_def GetUpstreamAddress_def)
qed

lemma set_read_step: "state_io_rel (ctl_step P) (set_read_upstream a)"
proof (rule io_relI)
  fix s :: "'z controller_state_scheme"
  show "ctl_step P s (exec (set_read_upstream a) s)"
  proof (cases "readGatewayServer s")
    case (Some gw)
    then show ?thesis
      by (auto simp: ctl_step_def ctl_wf_def routes_ok_def set_read_run emits_def cluster_wf_def pool_wf_def
        addresses_def fun_eq_iff read_upstream_def GetUpstreamAddress_def)
  qed (simp add: set_read_run ctl_frame.frame_refl)
qed

lemma ctl_step_modify:
  assumes "\<And>s. trace (f s) = trace s" and "\<And>s. drivers (f s) = drivers s"
    and "\<And>s. MemgraphNodes (f s) = MemgraphNodes s"
    and "\<And>s. GetUpstreamAddress (gatewayServer (f s)) = GetUpstreamAddress (gatewayServer s)"
    and "\<And>s. read_upstream (f s) = read_upstream s"
  shows "state_io_rel (ctl_step P) (modify f)"
  by (rule io_relI)
    (simp add: ctl_step_def ctl_wf_def routes_ok_def cluster_wf_def pool_wf_def addresses_def fun_eq_iff
      emits_def assms)

lemma with_metrics_step: "state_io_rel (ctl_step P) (with_metrics f)"
  unfolding with_metrics_def by (rule ctl_step_modify) (simp_all add: read_upstream_def)

lemma ctl_step_call:
  assumes "\<And>r. command_to (\<lambda>a q. False) (ev r)" and "\<And>n. \<not> P n cmd_main"
  shows "state_io_rel (ctl_step P) (call f ev)"
  using read_step_call [OF assms(1)] assms(2) by (rule read_ctl)

lemma SetTargetMainIndex_step:
  assumes "\<And>n. \<not> P n cmd_main"
  shows "state_io_rel (ctl_step P) (SetTargetMainIndex env i)"
  unfolding SetTargetMainIndex_def cm_update_def cm_create_def
  by (intro ctl_frame.frame_rules ctl_step_call with_metrics_step ctl_step_modify
      read_ctl [OF getControllerOwnerReference_read])
    (simp_all add: assms read_upstream_def)

lemma updateReadGatewayUpstream_step:
  assumes "\<And>n. \<not> P n cmd_main"
  shows "state_io_rel (ctl_step P) (updateReadGatewayUpstream env c)"
  unfolding updateReadGatewayUpstream_def route_read_def
  by (intro ctl_frame.frame_rules set_read_step read_ctl [OF selectBestReplica_read]
      read_ctl [OF getTargetMainNode_read]) (simp_all add: assms)

lemma HandlePreStopHook_step:
  "(\<And>n. \<not> P n cmd_main) \<Longrightarrow> state_io_rel (ctl_step P) (HandlePreStopHook env c p ws)"
  unfolding HandlePreStopHook_def
  by (intro ctl_frame.frame_rules set_main_step read_ctl [OF prestop_loop_read])

subsection \<open>Well-formed controllers\<close>

interpretation wf_frame: frame_relation wf_step
  by unfold_locales (auto simp: wf_step_def intro: emits_trans)

lemma ctl_wf_step: "ctl_step P s t \<Longrightarrow> wf_step s t"
  by (auto simp: ctl_step_def wf_step_def elim: emits_mono)

lemma ctl_wf_rel: "state_io_rel (ctl_step P) m \<Longrightarrow> state_io_rel wf_step m"
  by (auto simp: state_io_rel_def intro: ctl_wf_step)

lemma cluster_more_fields:
  fixes s t :: "'z controller_state_scheme"
  assumes "cluster_state.more t = cluster_state.more s"
  shows "gatewayServer t = gatewayServer s" and "readGatewayServer t = readGatewayServer s"
    and "targetMainIndex t = targetMainIndex s" and "recMetrics t = recMetrics s"
  using assms by (cases s; cases t; simp)+

lemma refresh_wf_step:
  fixes s t :: "'z controller_state_scheme"
  assumes "refresh_step s t"
  shows "wf_step s t"
  unfolding wf_step_def
proof
  assume "ctl_wf s"
  then have wf: "cluster_wf s" "routes_ok s" "guarded (trace s)" by (simp_all add: ctl_wf_def)
  then have t: "cluster_wf t" "emits (commands (\<lambda>_ _. False) (addresses s)) s t"
    "cluster_state.more t = cluster_state.more s"
    using assms by (simp_all add: refresh_step_def commands_def)
  have "routes_ok t"
    using wf(2) emits_routed [OF t(2)] cluster_more_fields [OF t(3)] by (simp add: routes_ok_def read_upstream_def)
  then show "ctl_wf t \<and> emits (\<lambda>_. True) s t"
    using wf(3) t emits_guarded [OF t(2)] by (auto simp: ctl_wf_def elim: emits_mono)
qed

lemma Refresh_wf: "state_io_rel wf_step (Refresh env)"
  using Refresh_step by (auto simp: state_io_rel_def intro: refresh_wf_step)

lemma wf_rel_step: "state_io_rel wf_step m \<Longrightarrow> ctl_wf s \<Longrightarrow> ctl_wf (exec m s)"
  using io_relD [of wf_step m s] by (simp add: wf_step_def)

lemma read_wf_rel: "state_io_rel (read_step (\<lambda>_ _. False)) m \<Longrightarrow> state_io_rel wf_step m"
  by (rule ctl_wf_rel [OF read_ctl]) auto

lemmas index_wf = read_wf_rel [OF GetTargetMainIndex_read]

lemma start_wf: "ctl_wf start_controller"
  by code_simp

lemma ready_wf [simp]: "ctl_wf (ready_controller sc)"
  unfolding ready_controller_def by (rule wf_rel_step [OF Refresh_wf start_wf])

lemma indexed_wf [simp]: "ctl_wf (exec (GetTargetMainIndex env) (ready_controller sc))"
  by (rule wf_rel_step [OF index_wf]) simp

lemma ctl_wf_cluster: "ctl_wf s \<Longrightarrow> cluster_wf s"
  by (simp add: ctl_wf_def)

lemma leading_wf: "ctl_wf leading_controller" "cluster_wf leading_controller"
  by code_simp+

lemmas ready_cluster_wf [simp] = ctl_wf_cluster [OF ready_wf] ctl_wf_cluster [OF indexed_wf]

subsection \<open>Nodes after a method call\<close>

lemma node_at_other:
  fixes s :: "'z cluster_state_scheme"
  assumes "cluster_wf s" and "node_operation Q f" and "k \<noteq> j"
  shows "node_at k (exec (on_node j f) s) = node_at k s"
proof -
  have "MemgraphNodes (exec (f (node_at j s)) s) = MemgraphNodes s"
    using io_relD [OF node_operation.op_step [OF assms(2), of "node_at j s"], of s] assms(1)
      pool_more_cluster(1) [of "exec (f (node_at j s)) s" s]
    by (simp add: pool_step_def cluster_wf_def)
  then show ?thesis
    using assms(3) by (simp add: exec_on_node node_at_def [of k] Let_def)
qed

lemma node_at_same:
  fixes s :: "'z cluster_state_scheme"
  assumes "cluster_wf s" and "node_operation Q f" and "has_node k s"
  shows "node_at k (exec (on_node k f) s) = snd (eval_result (f (node_at k s)) s)"
  using assms(3) by (auto simp: exec_on_node node_at_def [of k "_\<lparr>MemgraphNodes := _\<rparr>"] has_node_def Let_def)

subsection \<open>The read gateway's choice\<close>

lemma read_step_wf:
  "read_step P s t \<Longrightarrow> cluster_wf s \<Longrightarrow> cluster_wf t \<and> emits (\<lambda>_. True) s t \<and> addresses t = addresses s"
  by (auto simp: read_step_def elim: emits_mono)

lemma getPodFromCache_run:
  "eval_result (getPodFromCache env c k) s = Inr p \<Longrightarrow>
   exec (getPodFromCache env c k) s = s\<lparr>trace := IoStoreGet (pod_key c k) (Inr (Some p)) # trace s\<rparr>"
  by (auto simp: getPodFromCache_def store_get_def call_run split: sum.splits option.splits)

lemma node_at_trace [simp]: "node_at k (s\<lparr>trace := h\<rparr>) = node_at k s"
  by (simp add: node_at_def)

lemma has_node_trace [simp]: "has_node k (s\<lparr>trace := h\<rparr>) = has_node k s"
  by (simp add: has_node_def)

lemma replica_candidate_true:
  fixes s :: "'z controller_state_scheme"
  assumes wf: "cluster_wf s" and known: "has_node k s" and res: "eval_result (replica_candidate env c m k) s"
  shows "read_candidate c m k (new_events s (exec (replica_candidate env c m k) s))
    (exec (replica_candidate env c m k) s)"
proof -
  let ?f = "\<lambda>n. GetReplicationRole env n False"
  obtain p where m: "k \<noteq> m" and p: "eval_result (getPodFromCache env c k) s = Inr p" "isPodReady p"
    using res by (auto simp: replica_candidate_def split: if_splits sum.splits)
  let ?e = "IoStoreGet (pod_key c k) (Inr (Some p))"
  let ?u = "s\<lparr>trace := ?e # trace s\<rparr>"
  have wu: "cluster_wf ?u" using wf by (rule cluster_wf_trace) auto
  have run: "exec (replica_candidate env c m k) s = exec (on_node k ?f) ?u"
    and val: "eval_result (on_node k ?f) ?u = (''replica'', None)"
    using res m p by (auto simp: replica_candidate_def getPodFromCache_run split: prod.splits)
  obtain n' where n': "eval_result (?f (node_at k s)) ?u = ((''replica'', None), n')"
    using val by (cases "eval_result (?f (node_at k s)) ?u") (auto simp: eval_on_node)
  have "pool_wf ?u" using wu by (simp add: cluster_wf_def)
  from GetReplicationRole_result(1) [OF this n'] have "nd_memgraphRole n' = ''replica''" .
  moreover have "node_at k (exec (on_node k ?f) ?u) = n'"
    using node_at_same [OF wu role_op.node_operation_axioms, of k env False] known n' by simp
  moreover have "?e \<in> set (new_events s (exec (on_node k ?f) ?u))"
  proof -
    have "emits (\<lambda>_. True) ?u (exec (on_node k ?f) ?u)"
      using read_step_wf [OF io_relD [OF role_read [of "\<lambda>_ _. True" k env False], of ?u] wu] by simp
    then show ?thesis by (auto simp: emits_def new_events_def)
  qed
  ultimately show ?thesis
    using m p(2) by (auto simp: read_candidate_def run seen_ready_def)
qed

lemma candidate_other:
  fixes s :: "'z controller_state_scheme"
  assumes wf: "cluster_wf s" and "k \<noteq> j"
  shows "node_at k (exec (replica_candidate env c m j) s) = node_at k s"
proof -
  have wf': "cluster_wf (s\<lparr>trace := e # trace s\<rparr>)" for e using wf by (rule cluster_wf_trace) auto
  have "node_at k (exec (on_node j (\<lambda>n. GetReplicationRole env n False)) (s\<lparr>trace := e # trace s\<rparr>)) = node_at k s" for e
    using node_at_other [OF wf' [of e] role_op.node_operation_axioms assms(2)] by simp
  then show ?thesis
    by (auto simp: replica_candidate_def getPodFromCache_def store_get_def call_run
        split: sum.split option.split prod.split)
qed

lemma read_candidate_mono:
  "read_candidate c m k evs t \<Longrightarrow> set evs \<subseteq> set evs' \<Longrightarrow> node_at k t' = node_at k t \<Longrightarrow>
   read_candidate c m k evs' t'"
  by (auto simp: read_candidate_def dest: seen_ready_mono)

lemma collect_other:
  assumes "cluster_wf s" and "k \<notin> set ks"
  shows "node_at k (exec (collect_replicas env c m ks) s) = node_at k s"
  using assms
proof (induction ks arbitrary: s)
  case (Cons j js)
  let ?u = "exec (replica_candidate env c m j) s"
  have "cluster_wf ?u"
    using read_step_wf [OF io_relD [OF replica_candidate_read] Cons.prems(1)] by simp
  then have "node_at k (exec (collect_replicas env c m js) ?u) = node_at k ?u"
    using Cons.IH Cons.prems(2) by simp
  then show ?case using Cons.prems candidate_other [of s k j env c m] by simp
qed simp

lemma collect_replicas_true:
  assumes "cluster_wf s" and "distinct ks" and "\<forall>k \<in> set ks. has_node k s"
    and "k \<in> set (eval_result (collect_replicas env c m ks) s)"
  shows "k \<in> set ks \<and> read_candidate c m k (new_events s (exec (collect_replicas env c m ks) s))
    (exec (collect_replicas env c m ks) s)"
  using assms
proof (induction ks arbitrary: s)
  case (Cons j js)
  let ?u = "exec (replica_candidate env c m j) s"
  let ?t = "exec (collect_replicas env c m js) ?u"
  have u: "cluster_wf ?u" "emits (\<lambda>_. True) s ?u" "addresses ?u = addresses s"
    using read_step_wf [OF io_relD [OF replica_candidate_read] Cons.prems(1)] by simp_all
  have t: "emits (\<lambda>_. True) ?u ?t"
    using read_step_wf [OF io_relD [OF collect_replicas_read] u(1)] by simp
  note mono = new_events_mono [OF u(2) t]
  show ?case
  proof (cases "k = j \<and> eval_result (replica_candidate env c m j) s")
    case True
    have "read_candidate c m j (new_events s ?u) ?u"
      using True Cons.prems by (intro replica_candidate_true) simp_all
    moreover have "node_at j ?t = node_at j ?u"
      using u(1) Cons.prems(2) by (intro collect_other) simp_all
    ultimately show ?thesis using True mono(1) by (auto intro: read_candidate_mono)
  next
    case False
    then have "k \<in> set (eval_result (collect_replicas env c m js) ?u)"
      using Cons.prems(4) by (auto split: if_splits)
    moreover have "\<forall>k \<in> set js. has_node k ?u"
      using Cons.prems(3) u(3) by (simp add: has_node_book)
    ultimately have "k \<in> set js \<and> read_candidate c m k (new_events ?u ?t) ?t"
      using Cons.IH [OF u(1)] Cons.prems(2) by simp
    then show ?thesis using mono(2) by (auto intro: read_candidate_mono)
  qed
qed simp

lemma has_node_key: "has_node k s \<longleftrightarrow> k \<in> fst ` set (MemgraphNodes s)"
  by (auto simp: has_node_def map_of_eq_None_iff)

lemma GetTargetMainIndex_index:
  "eval_result (GetTargetMainIndex env) s = Inr i \<Longrightarrow> targetMainIndex (exec (GetTargetMainIndex env) s) = i"
  by (auto simp: GetTargetMainIndex_def split: if_splits sum.splits option.splits)

lemma node_at_index [simp]: "node_at k (s\<lparr>targetMainIndex := i\<rparr>) = node_at k s"
  by (simp add: node_at_def)

lemma cluster_step_index:
  fixes s t :: "'z controller_state_scheme"
  assumes "cluster_step P s t" and "cluster_wf s"
  shows "targetMainIndex t = targetMainIndex s"
  using assms by (cases s; cases t) (auto simp: cluster_step_def)

lemma best_of_sorted: "sort xs = r @ [b] \<Longrightarrow> b \<in> set xs"
  by (metis in_set_conv_decomp set_sort)

text \<open>The run of the selection: the index, then the candidates among all known nodes.\<close>

lemma selectBestReplica_result:
  fixes s :: "'z controller_state_scheme" and env :: environment and c :: Config
  defines "t \<equiv> exec (selectBestReplica env c) s"
  assumes wf: "cluster_wf s" and res: "eval_result (selectBestReplica env c) s = Inr k"
  shows "has_node k s \<and> read_candidate c (GetPodName c (targetMainIndex t)) k (new_events s t) t"
proof -
  let ?u = "exec (GetTargetMainIndex env) s"
  let ?ks = "map fst (MemgraphNodes ?u)"
  let ?keys = "eval_result (range_keys env ?ks) ?u"
  let ?v = "exec (range_keys env ?ks) ?u"
  obtain i where i: "eval_result (GetTargetMainIndex env) s = Inr i"
    using res by (cases "eval_result (GetTargetMainIndex env) s") (auto simp: selectBestReplica_def)
  let ?m = "GetPodName c i"
  let ?rs = "eval_result (collect_replicas env c ?m ?keys) ?v"
  have u: "cluster_wf ?u" "emits (\<lambda>_. True) s ?u" "addresses ?u = addresses s"
    using read_step_wf [OF io_relD [OF GetTargetMainIndex_read] wf] by simp_all
  have v: "cluster_wf ?v" "emits (\<lambda>_. True) ?u ?v" "addresses ?v = addresses ?u" "targetMainIndex ?v = targetMainIndex ?u"
    using cluster_step_emits [OF io_relD [OF range_keys_cluster] u(1)]
      cluster_step_index [OF io_relD [OF range_keys_cluster] u(1)] by simp_all
  have keys: "set ?keys = set ?ks" "distinct ?keys" and nodes: "MemgraphNodes ?v = MemgraphNodes ?u"
    using u(1) by (simp_all add: range_keys_def call_run pick_order_distinct cluster_wf_def)
  have run: "t = exec (collect_replicas env c ?m ?keys) ?v"
    by (simp add: t_def selectBestReplica_def i GetPodName_def)
  have "eval_result (selectBestReplica env c) s =
      (case rev (sort ?rs) of best # _ \<Rightarrow> Inr best | [] \<Rightarrow> Inl (ErrorString ''no healthy replicas available''))"
    by (simp add: selectBestReplica_def i GetPodName_def)
  with res have "k \<in> set ?rs"
    by (cases "rev (sort ?rs)") (simp_all, metis best_of_sorted)
  moreover have "\<forall>k \<in> set ?keys. has_node k ?v"
    by (simp add: has_node_key nodes keys)
  ultimately have k: "k \<in> set ?keys \<and> read_candidate c ?m k (new_events ?v t) t"
    using v(1) keys(2) unfolding run by (intro collect_replicas_true) simp_all
  have t: "emits (\<lambda>_. True) ?v t" "targetMainIndex t = targetMainIndex ?v"
    using cluster_step_emits [OF io_relD [OF collect_replicas_cluster] v(1)]
      cluster_step_index [OF io_relD [OF collect_replicas_cluster] v(1)] by (simp_all add: run)
  have "has_node k s" using k u(3) keys(1) by (simp add: has_node_key [symmetric] has_node_book)
  moreover have "read_candidate c ?m k (new_events s t) t"
    using k new_events_mono(2) [OF emits_trans [OF u(2) v(2)] t(1)] by (auto intro: read_candidate_mono)
  ultimately show ?thesis using GetTargetMainIndex_index [OF i] t(2) v(4) by simp
qed

lemma getTargetMainNode_result:
  "eval_result (getTargetMainNode env c) s = Inr k \<Longrightarrow>
   k = GetPodName c (targetMainIndex (exec (getTargetMainNode env c) s)) \<and>
   has_node k (exec (getTargetMainNode env c) s)"
  by (cases "eval_result (GetTargetMainIndex env) s")
    (auto simp: getTargetMainNode_def GetTargetMainIndex_index split: if_splits)

lemma node_address_book:
  "node_address k s = Inr a \<Longrightarrow> \<exists>ip. addresses s k = Some ip \<and> a = ip @ '':7687''"
  by (simp add: node_address_def GetBoltAddress_book)

lemma route_read_result:
  assumes "cluster_wf s" and "read_upstream (exec (route_read k) s) \<noteq> ''''"
  shows "\<exists>ip. addresses s k = Some ip \<and> read_upstream (exec (route_read k) s) = ip @ '':7687''"
    and "MemgraphNodes (exec (route_read k) s) = MemgraphNodes s"
    and "targetMainIndex (exec (route_read k) s) = targetMainIndex s"
    and "emits (\<lambda>_. True) s (exec (route_read k) s)"
proof -
  obtain x where x: "exec (route_read k) s = exec (set_read_upstream x) s" "x = '''' \<or> node_address k s = Inr x"
    by (cases "node_address k s") (simp_all add: route_read_def)
  then show "\<exists>ip. addresses s k = Some ip \<and> read_upstream (exec (route_read k) s) = ip @ '':7687''"
    using assms(2) node_address_book [of k s x] by (auto simp: set_read_fields split: if_splits)
  show "MemgraphNodes (exec (route_read k) s) = MemgraphNodes s"
    and "targetMainIndex (exec (route_read k) s) = targetMainIndex s"
    and "emits (\<lambda>_. True) s (exec (route_read k) s)"
    by (simp_all add: x(1) set_read_fields, auto simp: set_read_run emits_def split: option.split)
qed



subsection \<open>The target main index\<close>

lemma cm_write_run [simp]:
  "eval_result (cm_update env n d ow) s = env_cm_update env (trace s) n d ow"
  "exec (cm_update env n d ow) s = s\<lparr>trace := IoCMUpdate n d ow (env_cm_update env (trace s) n d ow) # trace s\<rparr>"
  "eval_result (cm_create env n d ow) s = env_cm_create env (trace s) n d ow"
  "exec (cm_create env n d ow) s = s\<lparr>trace := IoCMCreate n d ow (env_cm_create env (trace s) n d ow) # trace s\<rparr>"
  by (simp_all add: cm_update_def cm_create_def call_run)

lemma SetTargetMainIndex_result:
  fixes s :: "'z controller_state_scheme" and env :: environment and i :: int32
  assumes "cluster_wf s"
  defines "t \<equiv> exec (SetTargetMainIndex env i) s"
  shows "eval_result (SetTargetMainIndex env i) s = Inr () \<Longrightarrow>
      targetMainIndex t = i \<and> index_stored (configMapName s) i (new_events s t)"
    and "eval_result (SetTargetMainIndex env i) s = Inl e \<Longrightarrow> targetMainIndex t = targetMainIndex s"
proof -
  let ?u = "exec (getControllerOwnerReference env) s"
  have "cluster_state.more ?u = cluster_state.more s"
    using io_relD [OF getControllerOwnerReference_cluster [of "\<lambda>_ _. True" env], of s] assms(1)
    by (simp add: cluster_step_def)
  then have u: "configMapName ?u = configMapName s" "targetMainIndex ?u = targetMainIndex s"
    by (cases ?u; cases s; simp)+
  obtain new where new: "trace ?u = new @ trace s"
    using cluster_step_emits [OF io_relD [OF getControllerOwnerReference_cluster] assms(1), of env]
    by (auto simp: emits_def)
  show "eval_result (SetTargetMainIndex env i) s = Inr () \<Longrightarrow>
      targetMainIndex t = i \<and> index_stored (configMapName s) i (new_events s t)"
    using u(1)
    by (auto simp: t_def SetTargetMainIndex_def Let_def index_stored_def with_metrics_def new_events_def new
        split: option.splits if_splits)
  show "eval_result (SetTargetMainIndex env i) s = Inl e \<Longrightarrow> targetMainIndex t = targetMainIndex s"
    using u(2)
    by (auto simp: t_def SetTargetMainIndex_def Let_def with_metrics_def split: option.splits if_splits)
qed

text \<open>
  C15: when setting the target main index succeeds, it was stored
  in the controller's ConfigMap, the running controller reports it from its cache, and any controller
  that starts later with the same ConfigMap name and reads that data obtains the same index; when it
  fails, the cached index is unchanged.
\<close>

theorem target_index_roundtrip:
  fixes s :: "'z controller_state_scheme" and env :: environment and i :: int32
  assumes "cluster_wf s"
  defines "t \<equiv> exec (SetTargetMainIndex env i) s"
  shows "case eval_result (SetTargetMainIndex env i) s of
      Inl e \<Rightarrow> targetMainIndex t = targetMainIndex s
    | Inr _ \<Rightarrow> index_stored (configMapName s) i (new_events s t) \<and>
        (i \<noteq> - 1 \<longrightarrow> eval_result (GetTargetMainIndex env) t = Inr i) \<and>
        (\<forall>env' (u :: 'z controller_state_scheme).
           targetMainIndex u = - 1 \<and> env_cm_get env' (trace u) (configMapName u) = Inr (index_data i) \<longrightarrow>
           eval_result (GetTargetMainIndex env') u = Inr i \<and>
           targetMainIndex (exec (GetTargetMainIndex env') u) = i)"
  using SetTargetMainIndex_result [OF assms(1), of env i]
  by (auto simp: t_def GetTargetMainIndex_def index_data_def sscanf_itoa split: sum.split)

theorem target_index_roundtrip_witness:
  "eval_result (SetTargetMainIndex (sim_env running_scenario) 1) start_controller = Inr () \<and>
   eval_result (GetTargetMainIndex (sim_env running_scenario))
     (exec (SetTargetMainIndex (sim_env running_scenario) 1) start_controller) = Inr 1"
proof -
  have "cluster_wf start_controller" by (rule ctl_wf_cluster [OF start_wf])
  moreover have "eval_result (SetTargetMainIndex (sim_env running_scenario) 1) start_controller = Inr ()"
    by code_simp
  ultimately show ?thesis
    using target_index_roundtrip [of start_controller "sim_env running_scenario" 1] by simp
qed

subsection \<open>Health and shutdown\<close>

lemma check_replicas_iff:
  "check_replicas all rs = None \<longleftrightarrow> (\<forall>r \<in> set rs. IsHealthy r \<or> replicating_in_step all r)"
  by (induction rs) auto



lemma prestop_loop_passed:
  "eval_result (prestop_loop env c ws) s = Some (Inr ()) \<Longrightarrow>
   \<exists>u. eval_result (isHealthy env c) u = None \<and> exec (prestop_loop env c ws) s = exec (isHealthy env c) u"
  by (induction env c ws arbitrary: s rule: prestop_loop.induct) (auto split: option.splits)

lemma prestop_loop_returns:
  "Done e \<in> set ws \<Longrightarrow> eval_result (prestop_loop env c ws) s \<noteq> None"
  by (induction env c ws arbitrary: s rule: prestop_loop.induct) (auto split: option.splits)



text \<open>
  Once the controller was shut down while its loop is running, the
  loop's own stop closes the informers' channel a second time, which panics; without the shutdown it
  does not.
\<close>

theorem shutdown_then_stop_panics:
  assumes "isRunning s" and "\<not> stopCh_closed s"
  shows "eval_result Shutdown s = Some () \<and> eval_result ctl_stop (exec Shutdown s) = None \<and>
    eval_result ctl_stop s = Some ()"
  using assms by (simp_all add: Shutdown_def StopGatewayServer_def StopInformers_def close_stopCh_def ctl_stop_def)

end
