(* ===== verification/Failover.thy ===== *)
theory Failover
  imports Controller_State
begin

text \<open>
  \<open>internal/controller/queue_failover.go\<close>: the failover check, its safety conditions, the
  promotion of the sync replica and the handling of queued failover events. The operation lock
  serialises a failover with the reconciliation, so both are single operations on the state. The body
  of \<open>executeFailoverInternal\<close> is split where the source's comment says that it proceeds:
  \<open>failover_check\<close> only reads, \<open>failover_commit\<close> changes routing, servers and index.
\<close>

section \<open>Definitions\<close>

definition lastChancePing ::
  "environment \<Rightarrow> string \<Rightarrow> ('z controller_state_scheme, go_error option) state" where
  "lastChancePing env podName = do {
     known \<leftarrow> gets (has_node podName);
     if \<not> known then return (Some (ErrorString (''pod '' @ podName @ '' not found in cluster state'')))
     else do {
       err \<leftarrow> on_node podName (node_Ping env);
       return (map_option (Wrapped ''cannot ping pod'') err) } }"

definition getHealthyRole ::
  "environment \<Rightarrow> Config \<Rightarrow> string \<Rightarrow> ('z controller_state_scheme, string \<times> bool) state" where
  "getHealthyRole env c podName = do {
     r \<leftarrow> getPodFromCache env c podName;
     case r of
       Inl e \<Rightarrow> return ('''', False)
     | Inr p \<Rightarrow>
         if PodIP p = '''' then return ('''', False)
         else if \<not> isPodReady p then return ('''', False)
         else do {
           known \<leftarrow> gets (has_node podName);
           if \<not> known then return ('''', False)
           else do {
             (role, err) \<leftarrow> on_node podName (\<lambda>n. GetReplicationRole env n False);
             return (role, err = None) } } }"

definition protectReadGatewayBeforeRoleChange :: "string \<Rightarrow> ('z controller_state_scheme, unit) state" where
  "protectReadGatewayBeforeRoleChange podNameBeingPromoted = do {
     rg \<leftarrow> gets readGatewayServer;
     case rg of
       None \<Rightarrow> return ()
     | Some gw \<Rightarrow>
         if GetUpstreamAddress gw = '''' then return ()
         else do {
           known \<leftarrow> gets (has_node podNameBeingPromoted);
           if \<not> known then return ()
           else do {
             a \<leftarrow> gets (node_address podNameBeingPromoted);
             case a of
               Inl e \<Rightarrow> return ()
             | Inr promotedPodAddress \<Rightarrow>
                 if GetUpstreamAddress gw = promotedPodAddress
                 then do { disconnect_read; set_read_upstream '''' }
                 else return () } } }"

definition promoteSyncReplica ::
  "environment \<Rightarrow> Config \<Rightarrow> ('z controller_state_scheme, unit go_result) state" where
  "promoteSyncReplica env c = do {
     r \<leftarrow> GetTargetMainIndex env;
     case r of
       Inl e \<Rightarrow> return (Inl (Wrapped ''cannot get target main index'' e))
     | Inr i \<Rightarrow> do {
         let name = GetPodName c (1 - i);
         protectReadGatewayBeforeRoleChange name;
         known \<leftarrow> gets (has_node name);
         if \<not> known then
           return (Inl (ErrorString (''sync replica node '' @ name @ '' not found in cluster map'')))
         else do {
           err \<leftarrow> on_node name (SetToMainRole env);
           case err of
             Some e \<Rightarrow> return (Inl (Wrapped (''failed to promote pod '' @ name @ '' to main'') e))
           | None \<Rightarrow> do {
               (role, err2) \<leftarrow> on_node name (\<lambda>n. GetReplicationRole env n False);
               return (case err2 of
                   Some e \<Rightarrow> Inl (Wrapped (''failed to verify new role of pod '' @ name) e)
                 | None \<Rightarrow> if role \<noteq> ''main''
                     then Inl (ErrorString (''pod '' @ name
                       @ '' promotion to main did not take effect, current role: '' @ role))
                     else Inr ()) } } } }"

text \<open>The sync replica's entry in the main's list of replicas.\<close>

definition sync_replica_safe :: "string \<Rightarrow> string \<Rightarrow> ReplicaInfo list \<Rightarrow> unit go_result" where
  "sync_replica_safe podName replicaName replicas = (case find (\<lambda>r. ri_Name r = replicaName) replicas of
      None \<Rightarrow> Inl (ErrorString (podName @ '' not found in cached replicas list, unsafe to perform failover''))
    | Some r \<Rightarrow>
        if ri_SyncMode r \<noteq> ''strict_sync'' then Inl (ErrorString ''cached replica type is not strict_sync'')
        else (case ri_ParsedDataInfo r of
            None \<Rightarrow> Inl (ErrorString ''cached replica data_info is nil'')
          | Some d \<Rightarrow> if di_Status d \<noteq> ''ready'' then Inl (ErrorString ''cached replica status is not ready'')
              else Inr ()))"

fun all_replicas_ready :: "ReplicaInfo list \<Rightarrow> unit go_result" where
  "all_replicas_ready [] = Inr ()"
| "all_replicas_ready (r # rs) = (case ri_ParsedDataInfo r of
      None \<Rightarrow> Inl (ErrorString (''replica '' @ ri_Name r @ '' has nil data_info, unsafe to perform failover''))
    | Some d \<Rightarrow> if di_Status d \<noteq> ''ready''
        then Inl (ErrorString (''replica '' @ ri_Name r @ '' not ready (status: '' @ di_Status d
          @ ''), unsafe to perform failover''))
        else all_replicas_ready rs)"

text \<open>The conditions, in the source's order: the index to flip to and the sync replica's role.\<close>

definition failover_replicas ::
  "environment \<Rightarrow> Config \<Rightarrow> string \<Rightarrow> ('z controller_state_scheme, unit go_result) state" where
  "failover_replicas env c syncName = do {
     m \<leftarrow> getTargetMainNode env c;
     case m of
       Inl e \<Rightarrow> return (Inl (Wrapped ''cannot get target main node'' e))
     | Inr mainName \<Rightarrow> do {
         (replicas, err) \<leftarrow> on_node mainName (\<lambda>n. GetReplicas env n False);
         case err of
           Some e \<Rightarrow> return (Inl (Wrapped ''cannot get replicas from target main node'' e))
         | None \<Rightarrow> do {
             known \<leftarrow> gets (has_node syncName);
             if \<not> known then return (Inl (ErrorString ''sync replica node not found in cluster state''))
             else do {
               node \<leftarrow> gets (node_at syncName);
               return (case sync_replica_safe syncName (GetReplicaName node) replicas of
                   Inl e \<Rightarrow> Inl e
                 | Inr _ \<Rightarrow> all_replicas_ready replicas) } } } }"

definition failover_conditions ::
  "environment \<Rightarrow> Config \<Rightarrow> int32 \<Rightarrow> ('z controller_state_scheme, (int32 \<times> string) go_result) state" where
  "failover_conditions env c i = do {
     (role, healthy) \<leftarrow> getHealthyRole env c (GetPodName c (1 - i));
     if \<not> healthy then return (Inl (ErrorString ''sync replica pod is not healthy''))
     else do {
       ok \<leftarrow> failover_replicas env c (GetPodName c (1 - i));
       case ok of
         Inl e \<Rightarrow> return (Inl e)
       | Inr _ \<Rightarrow> do {
           err \<leftarrow> lastChancePing env (GetPodName c (1 - i));
           return (case err of
               Some e \<Rightarrow> Inl (ErrorString ''sync replica pod is not reachable'')
             | None \<Rightarrow> Inr (1 - i, role)) } } }"

definition failover_check ::
  "environment \<Rightarrow> Config \<Rightarrow> ('z controller_state_scheme, (int32 \<times> string) go_result) state" where
  "failover_check env c = do {
     r \<leftarrow> GetTargetMainIndex env;
     case r of
       Inl e \<Rightarrow> return (Inl (Wrapped ''cannot get target main index'' e))
     | Inr i \<Rightarrow> failover_conditions env c i }"

text \<open>All clients are disconnected and no new ones are accepted.\<close>

definition drain :: "('z controller_state_scheme, unit) state" where
  "drain = do { set_main_upstream ''''; set_read_upstream '''' }"

text \<open>The last part of a failover: the new index is stored, and the gateways follow.\<close>

definition failover_finish ::
  "environment \<Rightarrow> Config \<Rightarrow> int32 \<Rightarrow> ('z controller_state_scheme, unit go_result) state" where
  "failover_finish env c newIndex = do {
     r \<leftarrow> SetTargetMainIndex env newIndex;
     case r of
       Inl e \<Rightarrow> return (Inl (Wrapped ''failed to update target main index'' e))
     | Inr _ \<Rightarrow> do {
         a \<leftarrow> gets (node_address (GetPodName c newIndex));
         (case a of
            Inr boltAddress \<Rightarrow> do { set_main_upstream boltAddress; updateReadGatewayUpstream env c }
          | Inl e \<Rightarrow> return ());
         return (Inr ()) } }"

definition failover_commit ::
  "environment \<Rightarrow> Config \<Rightarrow> int32 \<Rightarrow> string \<Rightarrow> ('z controller_state_scheme, unit go_result) state" where
  "failover_commit env c newIndex role = do {
     drain;
     p \<leftarrow> (if role = ''main'' then return (Inr ()) else promoteSyncReplica env c);
     case p of
       Inl e \<Rightarrow> return (Inl e)
     | Inr _ \<Rightarrow> failover_finish env c newIndex }"

definition executeFailoverInternal ::
  "environment \<Rightarrow> Config \<Rightarrow> ('z controller_state_scheme, unit go_result) state" where
  "executeFailoverInternal env c = do {
     r \<leftarrow> failover_check env c;
     case r of
       Inl e \<Rightarrow> return (Inl e)
     | Inr (newIndex, role) \<Rightarrow> failover_commit env c newIndex role }"

text \<open>The event travels in the context; \<open>None\<close> is a direct call, from the reconciliation.\<close>

definition performFailoverCheck ::
  "environment \<Rightarrow> Config \<Rightarrow> failover_event option \<Rightarrow> ('z controller_state_scheme, unit go_result) state" where
  "performFailoverCheck env c event = do {
     r \<leftarrow> GetTargetMainIndex env;
     case r of
       Inl e \<Rightarrow> return (Inl (Wrapped ''cannot get target main index'' e))
     | Inr i \<Rightarrow> do {
         let targetMainPodName = GetPodName c i;
         stop \<leftarrow> (case event of
             Some ev \<Rightarrow>
               if fe_Reason ev = ''health-check-failure''
               then do { err \<leftarrow> lastChancePing env targetMainPodName; return True }
               else return False
           | None \<Rightarrow> do {
               (role, healthy) \<leftarrow> getHealthyRole env c targetMainPodName;
               return (healthy \<and> role = ''main'') });
         if stop then return (Inr ())
         else do {
           res \<leftarrow> executeFailoverInternal env c;
           return (case res of
               Inl e \<Rightarrow> Inl (Wrapped ''failed to execute failover'' e)
             | Inr _ \<Rightarrow> Inr ()) } } }"

text \<open>
  The handler of a queued event at time \<open>now\<close>: \<open>None\<close> when the event is ignored, else the
  result of the check and whether it could be delivered to the event's completion channel.
\<close>

definition handleFailoverCheckEvent :: "environment \<Rightarrow> Config \<Rightarrow> int \<Rightarrow> failover_event
    \<Rightarrow> ('z controller_state_scheme, (unit go_result \<times> bool) option) state" where
  "handleFailoverCheckEvent env c now event = do {
     leader \<leftarrow> gets IsLeader;
     if \<not> leader then return None
     else do {
       fq \<leftarrow> gets failoverCheckQueue;
       let (go, fq') = dedup now (failover_key event) (fe_Timestamp event) fq;
       modify (\<lambda>s. s\<lparr>failoverCheckQueue := fq'\<rparr>);
       if \<not> go then return None
       else do {
         err \<leftarrow> performFailoverCheck env c (Some event);
         modify (\<lambda>s. s\<lparr>failoverCheckNeeded := False\<rparr>);
         return (Some (err, case fe_CompletionChan event of None \<Rightarrow> False | Some n \<Rightarrow> 0 < n)) } } }"

definition enqueueFailoverCheckEvent ::
  "int \<Rightarrow> string \<Rightarrow> string \<Rightarrow> string \<Rightarrow> ('z controller_state_scheme, unit) state" where
  "enqueueFailoverCheckEvent now eventType reason podName = modify (\<lambda>s. s\<lparr>failoverCheckQueue :=
     try_send 50 \<lparr>fe_Type = eventType, fe_Reason = reason, fe_PodName = podName, fe_Timestamp = now,
       fe_CompletionChan = None\<rparr> (failoverCheckQueue s)\<rparr>)"

subsection \<open>Safety\<close>

text \<open>No gateway has an upstream.\<close>

definition drained :: "'z controller_state_scheme \<Rightarrow> bool" where
  "drained s \<longleftrightarrow> GetUpstreamAddress (gatewayServer s) = '''' \<and> read_upstream s = ''''"

text \<open>The one command of a failover: the sync replica is made main.\<close>

definition promotes :: "Config \<Rightarrow> int32 \<Rightarrow> string \<Rightarrow> string \<Rightarrow> bool" where
  "promotes c j name q \<longleftrightarrow> name = GetPodName c j \<and> q = cmd_main"

text \<open>Replicas that a failover may leave behind: the named one is strictly synchronous, all are ready.\<close>

definition safe_replicas :: "string \<Rightarrow> ReplicaInfo list \<Rightarrow> bool" where
  "safe_replicas name rs \<longleftrightarrow> (\<exists>r \<in> set rs. ri_Name r = name \<and> ri_SyncMode r = ''strict_sync'') \<and>
     (\<forall>r \<in> set rs. \<exists>d. ri_ParsedDataInfo r = Some d \<and> di_Status d = ''ready'')"

text \<open>
  What is known of the sync replica \<open>k\<close> when a check that started in \<open>s\<close> has passed in
  \<open>u\<close>: the store had its pod ready, its server answered a ping, and in the main's list of
  replicas it is strictly synchronous and every replica is ready.
\<close>

definition failover_safe :: "Config \<Rightarrow> int32 \<Rightarrow> 'z controller_state_scheme \<Rightarrow> 'z controller_state_scheme \<Rightarrow> bool" where
  "failover_safe c i s u \<longleftrightarrow> (let k = GetPodName c (1 - i) in
     seen_ready c k (new_events s u) \<and>
     (\<exists>ip rs. addresses s k = Some ip \<and> ip \<noteq> '''' \<and>
        answered (ip @ '':7687'') ''RETURN 1'' rs (new_events s u)) \<and>
     safe_replicas (GetReplicaName_pod k) (nd_replicasInfo (node_at (GetPodName c i) u)))"

text \<open>Operations that leave the main gateway and a known index alone.\<close>

definition main_kept :: "'z controller_state_scheme \<Rightarrow> 'z controller_state_scheme \<Rightarrow> bool" where
  "main_kept s t \<longleftrightarrow> (cluster_wf s \<longrightarrow> cluster_wf t \<and> gatewayServer t = gatewayServer s \<and>
     (targetMainIndex s \<noteq> - 1 \<longrightarrow> targetMainIndex t = targetMainIndex s))"

section \<open>Lemmas\<close>

subsection \<open>Frames\<close>

lemma lastChancePing_cluster: "state_io_rel (cluster_step P) (lastChancePing env k)"
  unfolding lastChancePing_def by (intro cluster_frame.frame_rules ping_cluster)

lemma getHealthyRole_cluster: "state_io_rel (cluster_step P) (getHealthyRole env c k)"
  unfolding getHealthyRole_def
  by (intro cluster_frame.frame_rules getPodFromCache_cluster role_cluster)

lemma failover_replicas_read: "state_io_rel (read_step P) (failover_replicas env c k)"
  unfolding failover_replicas_def
  by (intro read_frame.frame_rules getTargetMainNode_read replicas_read)

lemma failover_conditions_read: "state_io_rel (read_step P) (failover_conditions env c i)"
  unfolding failover_conditions_def
  by (intro read_frame.frame_rules failover_replicas_read
      cluster_read [OF lastChancePing_cluster] cluster_read [OF getHealthyRole_cluster])

lemma failover_check_read: "state_io_rel (read_step P) (failover_check env c)"
  unfolding failover_check_def
  by (intro read_frame.frame_rules GetTargetMainIndex_read failover_conditions_read)

lemma disconnect_read_step: "state_io_rel (ctl_step P) disconnect_read"
  unfolding disconnect_read_def
  by (rule ctl_step_modify)
    (simp_all add: read_upstream_def GetUpstreamAddress_def DisconnectAll_def with_connections_def
      split: option.split)

lemma protect_step: "state_io_rel (ctl_step P) (protectReadGatewayBeforeRoleChange k)"
  unfolding protectReadGatewayBeforeRoleChange_def
  by (intro ctl_frame.frame_rules disconnect_read_step set_read_step)

lemma ctl_weaken:
  assumes "ctl_step P s t" and "\<And>n q. P n q \<Longrightarrow> P' n q"
  shows "ctl_step P' s t"
  using assms(1) by (auto simp: ctl_step_def elim!: emits_mono intro: commands_mono assms(2))

lemma read_ctl_any: "state_io_rel (read_step (\<lambda>_ _. False)) m \<Longrightarrow> state_io_rel (ctl_step P) m"
  by (auto simp: state_io_rel_def intro: ctl_weaken read_ctl_step)

lemma step_any: "state_io_rel (ctl_step (\<lambda>_ _. False)) m \<Longrightarrow> state_io_rel (ctl_step P) m"
  by (auto simp: state_io_rel_def intro: ctl_weaken)

lemma guarded_drained:
  "\<not> list_ex is_upstream new \<Longrightarrow> routed ''main-gw'' h = '''' \<Longrightarrow> routed ''read-gw'' h = '''' \<Longrightarrow>
   guarded h \<Longrightarrow> guarded (new @ h)"
  by (induction new) (auto simp: routed_append)

lemma own_fields_drained: "own_fields s t \<Longrightarrow> drained t = drained s"
  using own_fieldsD [of s t] by (simp add: drained_def)

lemma promotion_step:
  assumes "read_step P s t" and "drained s"
  shows "ctl_step P s t"
  unfolding ctl_step_def
proof
  assume wf: "ctl_wf s"
  then have t: "cluster_wf t" "emits (commands P (addresses s)) s t" "addresses t = addresses s" "own_fields s t"
    using assms(1) by (simp_all add: read_step_def ctl_wf_def)
  obtain new where new: "trace t = new @ trace s" "list_all (commands P (addresses s)) new"
    using t(2) by (auto simp: emits_def)
  then have plain: "\<not> list_ex is_upstream new"
    using commands_plain by (auto simp: list_all_iff list_ex_iff)
  have "routed ''main-gw'' (trace s) = ''''" and "routed ''read-gw'' (trace s) = ''''"
    using wf assms(2) by (simp_all add: ctl_wf_def routes_ok_def drained_def)
  then have "guarded (trace t)"
    using guarded_drained [OF plain] wf new(1) by (simp add: ctl_wf_def)
  moreover have "routes_ok t"
    using wf emits_routed [OF t(2)] own_fieldsD [OF t(4)] by (simp add: routes_ok_def ctl_wf_def)
  ultimately show "ctl_wf t \<and> emits (\<lambda>e. is_upstream e \<or> commands P (addresses s) e) s t \<and> addresses t = addresses s"
    using t by (auto simp: ctl_wf_def elim: emits_mono)
qed

lemma drained_protect:
  "drained s \<Longrightarrow> exec (protectReadGatewayBeforeRoleChange k) s = s"
  by (auto simp: protectReadGatewayBeforeRoleChange_def drained_def read_upstream_def split: option.splits)

lemma promote_read:
  fixes s :: "'z controller_state_scheme"
  assumes "drained s" and wf: "cluster_wf s"
    and P: "\<And>i. targetMainIndex s = - 1 \<or> i = targetMainIndex s \<Longrightarrow> P (GetPodName c (1 - i)) cmd_main"
  shows "read_step P s (exec (promoteSyncReplica env c) s)"
proof -
  let ?u = "exec (GetTargetMainIndex env) s"
  have 0: "read_step P s ?u" by (rule io_relD [OF GetTargetMainIndex_read])
  then have "own_fields s ?u" using wf by (simp add: read_step_def)
  then have du: "drained ?u" using assms(1) own_fields_drained by blast
  show ?thesis
  proof (cases "eval_result (GetTargetMainIndex env) s")
    case (Inl e)
    then show ?thesis using 0 by (simp add: promoteSyncReplica_def)
  next
    case (Inr i)
    let ?k = "GetPodName c (1 - i)"
    have "P ?k cmd_main"
      using Inr by (intro P) (auto simp: GetTargetMainIndex_def split: if_splits)
    then have "state_io_rel (cluster_step P) (on_node ?k (SetToMainRole env))"
      by (intro on_node_step [OF main_op.node_operation_axioms]) simp
    then have 1: "read_step P ?u (exec (on_node ?k (SetToMainRole env)) ?u)"
      by (rule io_relD [OF cluster_read])
    have 2: "read_step P v (exec (on_node ?k (\<lambda>n. GetReplicationRole env n False)) v)"
      for v :: "'z controller_state_scheme"
      by (rule io_relD [OF role_read])
    note 01 = read_frame.frame_trans [OF 0 1]
    note 012 = read_frame.frame_trans [OF 01 2]
    show ?thesis
      using du Inr
      by (simp add: promoteSyncReplica_def Let_def drained_protect 0 01 012 split: option.split prod.split)
  qed
qed

lemma drain_result:
  fixes s :: "'z controller_state_scheme"
  shows "drained (exec drain s)" and "targetMainIndex (exec drain s) = targetMainIndex s"
    and "MemgraphNodes (exec drain s) = MemgraphNodes s" and "state_io_rel (ctl_step P) drain"
proof -
  show "drained (exec drain s)"
    using set_main_fields [of "''''" s] set_read_fields [of "''''" "exec (set_main_upstream '''') s"]
    by (simp add: drain_def drained_def)
  show "targetMainIndex (exec drain s) = targetMainIndex s" and "MemgraphNodes (exec drain s) = MemgraphNodes s"
    by (simp_all add: drain_def set_main_fields set_read_fields)
  show "state_io_rel (ctl_step P) drain"
    unfolding drain_def by (intro ctl_frame.frame_rules set_main_step set_read_step)
qed

lemma failover_finish_step: "state_io_rel (ctl_step P) (failover_finish env c j)"
  unfolding failover_finish_def
  by (rule step_any)
    (intro ctl_frame.frame_rules SetTargetMainIndex_step set_main_step updateReadGatewayUpstream_step, simp_all)

lemma failover_commit_run:
  "exec (failover_commit env c j role) s =
     (if role = ''main'' then exec (failover_finish env c j) (exec drain s)
      else case eval_result (promoteSyncReplica env c) (exec drain s) of
          Inl e \<Rightarrow> exec (promoteSyncReplica env c) (exec drain s)
        | Inr _ \<Rightarrow> exec (failover_finish env c j) (exec (promoteSyncReplica env c) (exec drain s)))"
  "eval_result (failover_commit env c j role) s =
     (if role = ''main'' then eval_result (failover_finish env c j) (exec drain s)
      else case eval_result (promoteSyncReplica env c) (exec drain s) of
          Inl e \<Rightarrow> Inl e
        | Inr _ \<Rightarrow> eval_result (failover_finish env c j) (exec (promoteSyncReplica env c) (exec drain s)))"
  by (simp_all add: failover_commit_def split: sum.split)

lemma failover_commit_step:
  fixes s :: "'z controller_state_scheme"
  assumes "ctl_wf s"
    and P: "\<And>i. targetMainIndex s = - 1 \<or> i = targetMainIndex s \<Longrightarrow> P (GetPodName c (1 - i)) cmd_main"
  shows "ctl_step P s (exec (failover_commit env c j role) s)"
proof -
  let ?d = "exec drain s"
  let ?p = "exec (promoteSyncReplica env c) ?d"
  have d: "ctl_step P s ?d"
    by (rule io_relD [OF drain_result(4)])
  then have "ctl_wf ?d" using assms(1) by (simp add: ctl_step_def)
  then have "read_step P ?d ?p"
    using P by (intro promote_read) (simp_all add: drain_result ctl_wf_def)
  then have p: "ctl_step P ?d ?p"
    by (rule promotion_step) (rule drain_result(1))
  have f: "ctl_step P u (exec (failover_finish env c j) u)" for u :: "'z controller_state_scheme"
    by (rule io_relD [OF failover_finish_step])
  note dp = ctl_frame.frame_trans [OF d p]
  show ?thesis
    using dp ctl_frame.frame_trans [OF d f] ctl_frame.frame_trans [OF dp f]
    by (simp add: failover_commit_run split: sum.split)
qed

lemma read_index:
  "read_step P s t \<Longrightarrow> cluster_wf s \<Longrightarrow> targetMainIndex s \<noteq> - 1 \<Longrightarrow> targetMainIndex t = targetMainIndex s"
  by (simp add: read_step_def own_fieldsD(14))

lemma failover_check_index:
  fixes s :: "'z controller_state_scheme"
  assumes "cluster_wf s" and "eval_result (GetTargetMainIndex env) s = Inr i" and "i \<noteq> - 1"
  shows "targetMainIndex (exec (failover_check env c) s) = i"
    and "eval_result (failover_check env c) s = Inr (j, role) \<Longrightarrow> j = 1 - i"
proof -
  let ?u = "exec (GetTargetMainIndex env) s"
  let ?t = "exec (failover_conditions env c i) ?u"
  have run: "exec (failover_check env c) s = ?t"
    "eval_result (failover_check env c) s = eval_result (failover_conditions env c i) ?u"
    using assms(2) by (simp_all add: failover_check_def)
  have "read_step (\<lambda>_ _. True) ?u ?t" by (rule io_relD [OF failover_conditions_read])
  moreover have "cluster_wf ?u"
    using read_step_wf [OF io_relD [OF GetTargetMainIndex_read] assms(1)] by simp
  ultimately show "targetMainIndex (exec (failover_check env c) s) = i"
    using read_index GetTargetMainIndex_index [OF assms(2)] assms(3) by (metis run(1))
  show "eval_result (failover_check env c) s = Inr (j, role) \<Longrightarrow> j = 1 - i"
    by (auto simp: run(2) failover_conditions_def split: prod.splits if_splits sum.splits option.splits)
qed

subsection \<open>What the conditions mean\<close>

lemma trace_getPodFromCache:
  "exec (getPodFromCache env c k) s = s\<lparr>trace := IoStoreGet (pod_key c k) (env_store_get env (trace s) (pod_key c k)) # trace s\<rparr>"
  by (simp add: getPodFromCache_def store_get_def call_run)

lemma getHealthyRole_true:
  fixes s :: "'z controller_state_scheme"
  assumes wf: "cluster_wf s" and res: "eval_result (getHealthyRole env c k) s = (role, True)"
  shows "has_node k s" and "seen_ready c k (new_events s (exec (getHealthyRole env c k) s))"
    and "nd_memgraphRole (node_at k (exec (getHealthyRole env c k) s)) = role"
proof -
  let ?f = "\<lambda>n. GetReplicationRole env n False"
  obtain p where p: "eval_result (getPodFromCache env c k) s = Inr p" "isPodReady p" "PodIP p \<noteq> ''''"
    using res by (cases "eval_result (getPodFromCache env c k) s")
      (auto simp: getHealthyRole_def split: if_splits)
  let ?e = "IoStoreGet (pod_key c k) (Inr (Some p))"
  let ?u = "s\<lparr>trace := ?e # trace s\<rparr>"
  have wu: "cluster_wf ?u" using wf by (rule cluster_wf_trace) auto
  show known: "has_node k s"
    using res p by (auto simp: getHealthyRole_def getPodFromCache_run split: if_splits)
  have run: "exec (getHealthyRole env c k) s = exec (on_node k ?f) ?u"
    and val: "eval_result (on_node k ?f) ?u = (role, None)"
    using res p known by (auto simp: getHealthyRole_def getPodFromCache_run split: prod.splits)
  obtain n' where n': "eval_result (?f (node_at k s)) ?u = ((role, None), n')"
    using val by (cases "eval_result (?f (node_at k s)) ?u") (auto simp: eval_on_node)
  have "pool_wf ?u" using wu by (simp add: cluster_wf_def)
  from GetReplicationRole_result(1) [OF this n'] have "nd_memgraphRole n' = role" .
  then show "nd_memgraphRole (node_at k (exec (getHealthyRole env c k) s)) = role"
    using node_at_same [OF wu role_op.node_operation_axioms, of k env False] known n' run by simp
  have "emits (\<lambda>_. True) ?u (exec (on_node k ?f) ?u)"
    using cluster_step_emits [OF io_relD [OF role_cluster [of "\<lambda>_ _. True" k env False], of ?u] wu] by simp
  then have "?e \<in> set (new_events s (exec (getHealthyRole env c k) s))"
    unfolding run by (auto simp: emits_def new_events_def)
  then show "seen_ready c k (new_events s (exec (getHealthyRole env c k) s))"
    using p(2) by (auto simp: seen_ready_def)
qed

lemma all_replicas_ready_iff:
  "all_replicas_ready rs = Inr () \<longleftrightarrow> (\<forall>r \<in> set rs. \<exists>d. ri_ParsedDataInfo r = Some d \<and> di_Status d = ''ready'')"
  by (induction rs) (auto split: option.splits)

lemma safe_replicas_checked:
  "sync_replica_safe k name rs = Inr () \<Longrightarrow> all_replicas_ready rs = Inr () \<Longrightarrow> safe_replicas name rs"
  by (auto simp: sync_replica_safe_def safe_replicas_def all_replicas_ready_iff find_Some_iff
      split: option.splits if_splits)

lemma failover_replicas_ok:
  fixes s :: "'z controller_state_scheme" and env :: environment and c :: Config and k :: string
  defines "t \<equiv> exec (failover_replicas env c k) s"
  assumes wf: "cluster_wf s" and idx: "targetMainIndex s \<noteq> - 1"
    and res: "eval_result (failover_replicas env c k) s = Inr ()"
  shows "safe_replicas (GetReplicaName_pod k)
    (nd_replicasInfo (node_at (GetPodName c (targetMainIndex s)) t)) \<and> has_node k t \<and>
    (n \<noteq> GetPodName c (targetMainIndex s) \<longrightarrow> node_at n t = node_at n s)"
proof -
  let ?m = "GetPodName c (targetMainIndex s)" and ?f = "\<lambda>n. GetReplicas env n False"
  have m: "has_node ?m s" "exec (getTargetMainNode env c) s = s" "eval_result (getTargetMainNode env c) s = Inr ?m"
    using res idx by (auto simp: failover_replicas_def getTargetMainNode_def GetTargetMainIndex_def split: if_splits)
  obtain rs n' where n': "eval_result (?f (node_at ?m s)) s = ((rs, None), n')"
    using res m by (cases "eval_result (?f (node_at ?m s)) s")
      (auto simp: failover_replicas_def eval_on_node split: option.splits prod.splits)
  have t: "t = exec (on_node ?m ?f) s" and known: "has_node k t"
    and safe: "sync_replica_safe k (GetReplicaName (node_at k t)) rs = Inr ()" "all_replicas_ready rs = Inr ()"
    using res m n' by (auto simp: t_def failover_replicas_def eval_on_node split: if_splits sum.splits)
  have "cluster_wf t"
    using cluster_step_emits [OF io_relD [OF replicas_cluster] wf] by (simp add: t)
  then have "GetReplicaName (node_at k t) = GetReplicaName_pod k"
    using known_name [OF _ known] by (simp add: GetReplicaName_def GetReplicaName_pod_eq)
  moreover have "nd_replicasInfo (node_at ?m t) = rs"
    using node_at_same [OF wf replicas_op.node_operation_axioms m(1)] n' GetReplicas_result [OF n'] by (simp add: t)
  moreover have "n \<noteq> ?m \<Longrightarrow> node_at n t = node_at n s"
    unfolding t by (rule node_at_other [OF wf replicas_op.node_operation_axioms])
  ultimately show ?thesis using safe safe_replicas_checked known by simp
qed

lemma GetBoltAddress_ip:
  "GetBoltAddress (node_at k s) = Inr a \<Longrightarrow> \<exists>ip. addresses s k = Some ip \<and> ip \<noteq> '''' \<and> a = ip @ '':7687''"
  by (auto simp: node_at_def addresses_def GetBoltAddress_def nil_node_def split: option.splits if_splits)

lemma node_address_ip: "addresses s k = Some ip \<Longrightarrow> ip \<noteq> '''' \<Longrightarrow> node_address k s = Inr (ip @ '':7687'')"
  by (auto simp: node_address_def node_at_def addresses_def GetBoltAddress_def)

lemma lastChancePing_ok:
  fixes s :: "'z controller_state_scheme"
  assumes wf: "cluster_wf s" and res: "eval_result (lastChancePing env k) s = None"
  shows "\<exists>ip rs. addresses s k = Some ip \<and> ip \<noteq> '''' \<and>
    answered (ip @ '':7687'') ''RETURN 1'' rs (new_events s (exec (lastChancePing env k) s))"
proof -
  have known: "has_node k s" using res by (auto simp: lastChancePing_def split: if_splits)
  then have "fst (eval_result (node_Ping env (node_at k s)) s) = None"
    using res by (simp add: lastChancePing_def eval_on_node)
  moreover have "pool_wf s" using wf by (simp add: cluster_wf_def)
  ultimately obtain a rs where "GetBoltAddress (node_at k s) = Inr a"
    and ans: "answered a ''RETURN 1'' rs (new_events s (exec (node_Ping env (node_at k s)) s))"
    using node_Ping_answered by blast
  moreover have "trace (exec (lastChancePing env k) s) = trace (exec (node_Ping env (node_at k s)) s)"
    using known by (simp add: lastChancePing_def trace_on_node)
  ultimately show ?thesis
    using GetBoltAddress_ip [of k s a] new_events_cong [of "exec (lastChancePing env k) s"] by force
qed

lemma one_minus_neq [simp]: "(1 :: int32) - i \<noteq> i"
proof
  assume "1 - i = i"
  then have "1 = 2 * i" by (simp add: algebra_simps)
  moreover have "even (2 * i)" and "odd (1 :: int32)" by simp_all
  ultimately show False by metis
qed

lemma failover_conditions_passed:
  fixes s :: "'z controller_state_scheme" and env :: environment and c :: Config and i :: int32
  defines "u \<equiv> exec (failover_conditions env c i) s"
  assumes wf: "cluster_wf s" and idx: "targetMainIndex s = i" "i \<noteq> - 1"
    and res: "eval_result (failover_conditions env c i) s = Inr (j, role)"
  shows "j = 1 - i \<and> failover_safe c i s u \<and> nd_memgraphRole (node_at (GetPodName c (1 - i)) u) = role"
proof -
  let ?k = "GetPodName c (1 - i)"
  let ?s1 = "exec (getHealthyRole env c ?k) s"
  let ?s2 = "exec (failover_replicas env c ?k) ?s1"
  have r1: "eval_result (getHealthyRole env c ?k) s = (role, True)"
    and r2: "eval_result (failover_replicas env c ?k) ?s1 = Inr ()"
    and r3: "eval_result (lastChancePing env ?k) ?s2 = None" and j: "j = 1 - i"
    and u: "u = exec (lastChancePing env ?k) ?s2"
    using res by (auto simp: u_def failover_conditions_def split: prod.splits if_splits sum.splits option.splits)
  have 1: "cluster_wf ?s1" "emits (\<lambda>_. True) s ?s1" "addresses ?s1 = addresses s" "targetMainIndex ?s1 = i"
    using cluster_step_emits [OF io_relD [OF getHealthyRole_cluster] wf]
      cluster_step_index [OF io_relD [OF getHealthyRole_cluster] wf] idx by simp_all
  have 2: "cluster_wf ?s2" "emits (\<lambda>_. True) ?s1 ?s2" "addresses ?s2 = addresses ?s1"
    using read_step_wf [OF io_relD [OF failover_replicas_read] 1(1)] by simp_all
  have 3: "emits (\<lambda>_. True) ?s2 u"
    using cluster_step_emits [OF io_relD [OF lastChancePing_cluster] 2(1)] by (simp add: u)
  note safe = failover_replicas_ok [OF 1(1) _ r2, unfolded 1(4), OF idx(2)]
  have same: "node_at n u = node_at n ?s2" for n
  proof -
    have "snd (eval_result (node_Ping env m) v) = m" for m and v :: "'z controller_state_scheme"
      by (simp add: node_Ping_def split: sum.split)
    then show ?thesis
      using safe node_at_other [OF 2(1) ping_op.node_operation_axioms, of n ?k env]
        node_at_same [OF 2(1) ping_op.node_operation_axioms, of ?k env]
      by (cases "n = ?k") (simp_all add: u lastChancePing_def)
  qed
  have mono: "set (new_events s ?s1) \<subseteq> set (new_events s u)" "set (new_events ?s2 u) \<subseteq> set (new_events s u)"
    using new_events_mono(1) [OF 1(2) emits_trans [OF 2(2) 3]]
      new_events_mono(2) [OF emits_trans [OF 1(2) 2(2)] 3] by simp_all
  have "seen_ready c ?k (new_events s u)"
    using getHealthyRole_true(2) [OF wf r1] mono(1) by (rule seen_ready_mono)
  moreover have "\<exists>ip rs. addresses s ?k = Some ip \<and> ip \<noteq> '''' \<and>
      answered (ip @ '':7687'') ''RETURN 1'' rs (new_events s u)"
  proof -
    obtain ip rs where "addresses ?s2 ?k = Some ip" and "ip \<noteq> ''''"
      and "answered (ip @ '':7687'') ''RETURN 1'' rs (new_events ?s2 u)"
      using lastChancePing_ok [OF 2(1) r3] by (auto simp: u)
    then show ?thesis using mono(2) 1(3) 2(3) by (auto dest: answered_mono)
  qed
  moreover have "nd_memgraphRole (node_at ?k u) = role"
    using getHealthyRole_true(3) [OF wf r1] safe by (simp add: same)
  ultimately show ?thesis
    using safe j by (simp add: failover_safe_def Let_def same)
qed

text \<open>The two ways a failover goes: its conditions fail and nothing follows, or it is committed.\<close>

lemma failover_cases:
  fixes s :: "'z controller_state_scheme" and env :: environment and c :: Config
  defines "u \<equiv> exec (failover_check env c) s" and "t \<equiv> exec (executeFailoverInternal env c) s"
  assumes "ctl_wf s" and "eval_result (GetTargetMainIndex env) s = Inr i" and "i \<noteq> - 1"
  obtains (refused) e where "eval_result (executeFailoverInternal env c) s = Inl e" and "t = u"
  | (committed) role where "eval_result (executeFailoverInternal env c) s =
        eval_result (failover_commit env c (1 - i) role) u"
    and "t = exec (failover_commit env c (1 - i) role) u"
    and "failover_safe c i (exec (GetTargetMainIndex env) s) u"
    and "nd_memgraphRole (node_at (GetPodName c (1 - i)) u) = role"
proof -
  let ?g = "exec (GetTargetMainIndex env) s"
  have wf: "cluster_wf s" using assms(3) by (simp add: ctl_wf_def)
  have wg: "cluster_wf ?g" "targetMainIndex ?g = i"
    using read_step_wf [OF io_relD [OF GetTargetMainIndex_read] wf] GetTargetMainIndex_index [OF assms(4)] by simp_all
  show thesis
  proof (cases "eval_result (failover_check env c) s")
    case (Inl e)
    then show thesis by (intro refused) (simp_all add: t_def u_def executeFailoverInternal_def)
  next
    case (Inr p)
    obtain j role where p: "p = (j, role)" by (cases p)
    have r: "eval_result (failover_conditions env c i) ?g = Inr (j, role)"
      and u: "u = exec (failover_conditions env c i) ?g"
      using Inr p assms(4) by (simp_all add: u_def failover_check_def)
    note passed = failover_conditions_passed [OF wg assms(5) r, folded u]
    show thesis
      using Inr p passed by (intro committed [of role]) (simp_all add: t_def u_def executeFailoverInternal_def)
  qed
qed

lemma failover_check_state:
  fixes s :: "'z controller_state_scheme" and env :: environment and c :: Config
  defines "u \<equiv> exec (failover_check env c) s"
  assumes "ctl_wf s" and "eval_result (GetTargetMainIndex env) s = Inr i" and "i \<noteq> - 1"
  shows "emits (command_to (\<lambda>a q. False)) s u" and "addresses u = addresses s" and "ctl_wf u"
    and "targetMainIndex u = i" and "own_fields s u"
proof -
  have wf: "cluster_wf s" using assms(2) by (simp add: ctl_wf_def)
  have chk: "read_step (\<lambda>_ _. False) s u"
    unfolding u_def by (rule io_relD [OF failover_check_read])
  then show "emits (command_to (\<lambda>a q. False)) s u" and "addresses u = addresses s" and "own_fields s u"
    using wf by (simp_all add: read_step_def commands_def)
  show "ctl_wf u"
    using read_ctl_step [OF chk] assms(2) by (simp add: ctl_step_def)
  show "targetMainIndex u = i"
    unfolding u_def by (rule failover_check_index(1) [OF wf assms(3,4)])
qed

text \<open>
  C2: a failover sends no command to any server before its conditions have been
  checked, and afterwards at most the promotion of the sync replica (the pod with index one minus the
  target main's), and that only if the conditions held: the store had that pod ready, its server
  answered a ping in this very run, and in the main's list of replicas it is strictly synchronous and
  every replica is ready.
\<close>

theorem failover_promotes_safely:
  fixes s :: "'z controller_state_scheme" and env :: environment and c :: Config
  defines "u \<equiv> exec (failover_check env c) s" and "t \<equiv> exec (executeFailoverInternal env c) s"
  assumes "ctl_wf s" and "eval_result (GetTargetMainIndex env) s = Inr i" and "i \<noteq> - 1"
  shows "emits (command_to (\<lambda>a q. False)) s u \<and>
    emits (\<lambda>e. is_upstream e \<or> commands (\<lambda>name q. promotes c (1 - i) name q \<and>
      failover_safe c i (exec (GetTargetMainIndex env) s) u) (addresses s) e) u t"
proof -
  note u = failover_check_state [OF assms(3-5), of c, folded u_def]
  from assms(3-5) show ?thesis
  proof (cases rule: failover_cases [of s env i c])
    case (refused e)
    then show ?thesis using u(1) by (simp add: u_def t_def)
  next
    case (committed role)
    have "ctl_step (promotes c (1 - i)) u t"
      unfolding t_def committed(2) u_def [symmetric]
      using u assms(5) by (intro failover_commit_step) (auto simp: promotes_def)
    then have "emits (\<lambda>e. is_upstream e \<or> commands (promotes c (1 - i)) (addresses s) e) u t"
      using u by (simp add: ctl_step_def)
    then show ?thesis
      using u(1) committed(3) by (simp add: u_def)
  qed
qed

theorem failover_promotes_safely_witness:
  "failover_safe sim_config 0 (exec (GetTargetMainIndex (sim_env running_scenario)) (ready_controller running_scenario))
     (exec (failover_check (sim_env running_scenario) sim_config) (ready_controller running_scenario)) \<and>
   emits (command_to (\<lambda>a q. False)) (ready_controller running_scenario)
     (exec (failover_check (sim_env running_scenario) sim_config) (ready_controller running_scenario)) \<and>
   length (filter is_promotion (trace (exec (executeFailoverInternal (sim_env running_scenario) sim_config)
     (ready_controller running_scenario)))) = 1"
proof -
  let ?s = "ready_controller running_scenario" and ?e = "sim_env running_scenario"
  have wf: "ctl_wf ?s" by simp
  have i: "eval_result (GetTargetMainIndex ?e) ?s = Inr 0" by code_simp
  have one: "length (filter is_promotion (trace (exec (executeFailoverInternal ?e sim_config) ?s))) = 1"
    by code_simp
  have "eval_result (executeFailoverInternal ?e sim_config) ?s = Inr ()" by code_simp
  then have safe: "failover_safe sim_config 0 (exec (GetTargetMainIndex ?e) ?s) (exec (failover_check ?e sim_config) ?s)"
    using failover_cases [OF wf i, of sim_config] by force
  show ?thesis
    using failover_promotes_safely [OF wf i, of sim_config] safe one by simp
qed

subsection \<open>Outcomes\<close>

interpretation main_frame: frame_relation main_kept
  by unfold_locales (auto simp: main_kept_def)

lemma read_main_kept: "state_io_rel (read_step P) m \<Longrightarrow> state_io_rel main_kept m"
  by (auto simp: state_io_rel_def read_step_def main_kept_def own_fieldsD)

lemma set_read_main_kept: "state_io_rel main_kept (set_read_upstream a)"
  by (rule io_relI)
    (auto simp: main_kept_def set_read_run cluster_wf_def pool_wf_def split: option.split)

lemma updateRead_main_kept: "state_io_rel main_kept (updateReadGatewayUpstream env c)"
  unfolding updateReadGatewayUpstream_def route_read_def
  by (intro main_frame.frame_rules set_read_main_kept read_main_kept [OF selectBestReplica_read]
      read_main_kept [OF getTargetMainNode_read])

lemma ctl_step_wf:
  "ctl_step P s t \<Longrightarrow> ctl_wf s \<Longrightarrow>
   ctl_wf t \<and> cluster_wf t \<and> emits (\<lambda>_. True) s t \<and> addresses t = addresses s"
  by (auto simp: ctl_step_def ctl_wf_def elim: emits_mono)

lemma failover_finish_ok:
  fixes s :: "'z controller_state_scheme"
  assumes "ctl_wf s" and "addresses s (GetPodName c j) = Some ip" and "ip \<noteq> ''''" and "j \<noteq> - 1"
    and res: "eval_result (failover_finish env c j) s = Inr ()"
  defines "t \<equiv> exec (failover_finish env c j) s"
  shows "targetMainIndex t = j \<and> GetUpstreamAddress (gatewayServer t) = ip @ '':7687'' \<and>
    index_stored (configMapName s) j (new_events s t)"
proof -
  let ?u = "exec (SetTargetMainIndex env j) s"
  let ?v = "exec (set_main_upstream (ip @ '':7687'')) ?u"
  have ok: "eval_result (SetTargetMainIndex env j) s = Inr ()"
    using res by (cases "eval_result (SetTargetMainIndex env j) s") (auto simp: failover_finish_def)
  have "ctl_step (\<lambda>_ _. False) s ?u" by (rule io_relD [OF SetTargetMainIndex_step]) simp
  from ctl_step_wf [OF this assms(1)]
  have u: "ctl_wf ?u" "emits (\<lambda>_. True) s ?u" "addresses ?u = addresses s" by simp_all
  have "ctl_step (\<lambda>_ _. False) ?u ?v" by (rule io_relD [OF set_main_step])
  from ctl_step_wf [OF this u(1)]
  have v: "ctl_wf ?v" "cluster_wf ?v" "emits (\<lambda>_. True) ?u ?v" by simp_all
  have t: "t = exec (updateReadGatewayUpstream env c) ?v"
    using ok assms(2,3) u(3) by (simp add: t_def failover_finish_def node_address_ip)
  have "ctl_step (\<lambda>_ _. False) ?v t" unfolding t by (rule io_relD [OF updateReadGatewayUpstream_step]) simp
  from ctl_step_wf [OF this v(1)] have vt: "emits (\<lambda>_. True) ?v t" by simp
  have "cluster_wf s" using assms(1) by (simp add: ctl_wf_def)
  note w = SetTargetMainIndex_result(1) [OF this ok]
  have "main_kept ?v t" unfolding t by (rule io_relD [OF updateRead_main_kept])
  then have "targetMainIndex t = j" "GetUpstreamAddress (gatewayServer t) = ip @ '':7687''"
    using v(2) w assms(4) set_main_fields [of "ip @ '':7687''" ?u] by (auto simp: main_kept_def)
  moreover have "index_stored (configMapName s) j (new_events s t)"
    using w new_events_mono(1) [OF u(2) emits_trans [OF v(3) vt]] by (auto simp: index_stored_def)
  ultimately show ?thesis by simp
qed

lemma SetToMainRole_run:
  fixes s :: "'z controller_state_scheme"
  assumes "cluster_wf s" and "has_node k s" and "eval_result (on_node k (SetToMainRole env)) s = None"
  shows "nd_memgraphRole (node_at k (exec (on_node k (SetToMainRole env)) s)) = ''''"
proof -
  obtain n' where n': "eval_result (SetToMainRole env (node_at k s)) s = (None, n')"
    using assms(3) by (cases "eval_result (SetToMainRole env (node_at k s)) s") (auto simp: eval_on_node)
  have "pool_wf s" using assms(1) by (simp add: cluster_wf_def)
  from SetToMainRole_answered(1) [OF this n'] show ?thesis
    using node_at_same [OF assms(1) main_op.node_operation_axioms assms(2)] n' by simp
qed

lemma fresh_role_reported:
  fixes s :: "'z controller_state_scheme"
  assumes wf: "cluster_wf s" and empty: "nd_memgraphRole (node_at k s) = ''''"
    and res: "eval_result (on_node k (\<lambda>n. GetReplicationRole env n False)) s = (role, None)"
  shows "role_reported (addresses s) k role
    (new_events s (exec (on_node k (\<lambda>n. GetReplicationRole env n False)) s))"
proof -
  let ?f = "\<lambda>n. GetReplicationRole env n False"
  obtain n' where n': "eval_result (?f (node_at k s)) s = ((role, None), n')"
    using res by (cases "eval_result (?f (node_at k s)) s") (auto simp: eval_on_node)
  have "pool_wf s" using wf by (simp add: cluster_wf_def)
  from GetReplicationRole_result(2) [OF this n'] empty obtain a rs where
    "GetBoltAddress (node_at k s) = Inr a" and "role_of_records rs = Inr role"
    and "answered a ''SHOW REPLICATION ROLE'' rs (new_events s (exec (?f (node_at k s)) s))"
    by auto
  then show ?thesis
    using GetBoltAddress_book [of k s a] new_events_cong [OF trace_on_node [of k ?f s]]
    by (force simp: role_reported_def)
qed

text \<open>A promotion that succeeds was confirmed by the promoted server itself.\<close>

lemma promote_confirmed:
  fixes s :: "'z controller_state_scheme"
  assumes "drained s" and wf: "cluster_wf s" and idx: "targetMainIndex s \<noteq> - 1"
    and res: "eval_result (promoteSyncReplica env c) s = Inr ()"
  shows "role_reported (addresses s) (GetPodName c (1 - targetMainIndex s)) ''main''
    (new_events s (exec (promoteSyncReplica env c) s))"
proof -
  let ?k = "GetPodName c (1 - targetMainIndex s)" and ?f = "\<lambda>n. GetReplicationRole env n False"
  let ?u = "exec (on_node ?k (SetToMainRole env)) s"
  have r: "has_node ?k s" "eval_result (on_node ?k (SetToMainRole env)) s = None"
    "eval_result (on_node ?k ?f) ?u = (''main'', None)"
    and t: "exec (promoteSyncReplica env c) s = exec (on_node ?k ?f) ?u"
    using res assms(1) idx
    by (auto simp: promoteSyncReplica_def GetTargetMainIndex_def Let_def drained_protect
        split: if_splits option.splits prod.splits)
  have "state_io_rel (cluster_step (\<lambda>_ _. True)) (on_node ?k (SetToMainRole env))"
    by (rule on_node_step [OF main_op.node_operation_axioms]) simp
  note u = cluster_step_emits [OF io_relD [OF this] wf]
  have "role_reported (addresses ?u) ?k ''main'' (new_events ?u (exec (on_node ?k ?f) ?u))"
    using u SetToMainRole_run [OF wf r(1,2)] r(3) by (intro fresh_role_reported) simp_all
  moreover have "emits (\<lambda>_. True) ?u (exec (on_node ?k ?f) ?u)"
    using cluster_step_emits [OF io_relD [OF role_cluster]] u by blast
  ultimately show ?thesis
    using u new_events_mono(2) [of "\<lambda>_. True" s ?u "\<lambda>_. True" "exec (on_node ?k ?f) ?u"]
    by (auto simp: t intro: role_reported_mono)
qed

lemma drain_state:
  fixes s :: "'z controller_state_scheme"
  assumes "ctl_wf s"
  shows "ctl_wf (exec drain s)" and "cluster_wf (exec drain s)" and "emits (\<lambda>_. True) s (exec drain s)"
    and "addresses (exec drain s) = addresses s" and "configMapName (exec drain s) = configMapName s"
proof -
  have "ctl_step (\<lambda>_ _. False) s (exec drain s)" by (rule io_relD [OF drain_result(4)])
  from ctl_step_wf [OF this assms]
  show "ctl_wf (exec drain s)" and "cluster_wf (exec drain s)" and "emits (\<lambda>_. True) s (exec drain s)"
    and "addresses (exec drain s) = addresses s" by simp_all
  show "configMapName (exec drain s) = configMapName s"
    by (simp add: drain_def set_main_run set_read_run split: option.split)
qed

text \<open>Before the last part: drained, the index as before, and a promotion confirmed unless it was skipped.\<close>

lemma promoted_state:
  fixes s :: "'z controller_state_scheme" and env :: environment and c :: Config
  assumes wf: "ctl_wf s" and idx: "targetMainIndex s \<noteq> - 1"
  defines "v \<equiv> exec (promoteSyncReplica env c) (exec drain s)"
  shows "ctl_wf v" and "drained v" and "targetMainIndex v = targetMainIndex s"
    and "configMapName v = configMapName s" and "addresses v = addresses s" and "emits (\<lambda>_. True) s v"
    and "eval_result (promoteSyncReplica env c) (exec drain s) = Inr () \<Longrightarrow>
      role_reported (addresses s) (GetPodName c (1 - targetMainIndex s)) ''main'' (new_events s v)"
proof -
  let ?d = "exec drain s" and ?P = "\<lambda>_ _. True"
  note d0 = drain_result(1-3) [where s = s]
  note d = drain_state [OF wf]
  have r: "read_step ?P ?d v"
    unfolding v_def using d0 d by (intro promote_read) simp_all
  then have "own_fields ?d v" using d by (simp add: read_step_def)
  note own = own_fieldsD [OF this] own_fields_drained [OF this]
  show "drained v" and "targetMainIndex v = targetMainIndex s" and "configMapName v = configMapName s"
    using own d0 idx d(5) by simp_all
  have "ctl_step ?P ?d v" using r d0(1) by (rule promotion_step)
  from ctl_step_wf [OF this d(1)]
  have v: "ctl_wf v" "emits (\<lambda>_. True) ?d v" "addresses v = addresses ?d" by simp_all
  show "ctl_wf v" and "addresses v = addresses s" and "emits (\<lambda>_. True) s v"
    using v d by (auto intro: emits_trans)
  show "eval_result (promoteSyncReplica env c) (exec drain s) = Inr () \<Longrightarrow>
      role_reported (addresses s) (GetPodName c (1 - targetMainIndex s)) ''main'' (new_events s v)"
    using promote_confirmed [of ?d env c] d0 d idx new_events_mono(2) [OF d(3) v(2)]
    by (auto simp: v_def intro: role_reported_mono)
qed

lemma failover_success_state:
  fixes s :: "'z controller_state_scheme" and env :: environment and c :: Config
  defines "t \<equiv> exec (executeFailoverInternal env c) s" and "u \<equiv> exec (failover_check env c) s"
  assumes "ctl_wf s" and "eval_result (GetTargetMainIndex env) s = Inr i" and "i \<in> {0, 1}"
    and "eval_result (executeFailoverInternal env c) s = Inr ()"
  shows "targetMainIndex t = 1 - i \<and> index_stored (configMapName s) (1 - i) (new_events s t) \<and>
    (\<exists>ip. addresses s (GetPodName c (1 - i)) = Some ip \<and>
       GetUpstreamAddress (gatewayServer t) = ip @ '':7687'') \<and>
    (role_reported (addresses s) (GetPodName c (1 - i)) ''main'' (new_events u t) \<or>
     nd_memgraphRole (node_at (GetPodName c (1 - i)) u) = ''main'')"
proof -
  let ?k = "GetPodName c (1 - i)"
  have i: "i \<noteq> - 1" "1 - i \<noteq> - 1" using assms(5) by auto
  note u = failover_check_state [OF assms(3,4) i(1), of c, folded u_def]
  have su: "emits (\<lambda>_. True) s u" using u(1) by (rule emits_mono) simp
  from assms(3,4) i(1) show ?thesis
  proof (cases rule: failover_cases [of s env i c])
    case (refused e)
    then show ?thesis using assms(6) by simp
  next
    case (committed role)
    define v where "v = (if role = ''main'' then exec drain u else exec (promoteSyncReplica env c) (exec drain u))"
    note d = drain_state [OF u(3)]
    note p = promoted_state [OF u(3), of env c, unfolded u(4), OF i(1)]
    have v: "ctl_wf v" "addresses v = addresses u" "emits (\<lambda>_. True) u v" "configMapName v = configMapName u"
      using d p by (simp_all add: v_def)
    have c1: "eval_result (failover_commit env c (1 - i) role) u = Inr ()"
      and c2: "t = exec (failover_commit env c (1 - i) role) u"
      using committed(1,2) assms(6) by (simp_all only: t_def u_def)
    have t: "t = exec (failover_finish env c (1 - i)) v" and ok: "eval_result (failover_finish env c (1 - i)) v = Inr ()"
      and pr: "role \<noteq> ''main'' \<Longrightarrow> eval_result (promoteSyncReplica env c) (exec drain u) = Inr ()"
      using c1 unfolding c2
      by (cases "eval_result (promoteSyncReplica env c) (exec drain u)";
          simp add: v_def failover_commit_run split: if_splits)+
    obtain ip where ip: "addresses s ?k = Some ip" "ip \<noteq> ''''"
    proof -
      have "cluster_wf s" using assms(3) by (simp add: ctl_wf_def)
      from read_step_wf [OF io_relD [OF GetTargetMainIndex_read [of "\<lambda>_ _. True" env]] this]
      have "addresses (exec (GetTargetMainIndex env) s) = addresses s" by simp
      then show thesis using committed(3) that by (auto simp: failover_safe_def Let_def)
    qed
    have a: "addresses v ?k = Some ip" using v(2) u(2) ip(1) by simp
    note f = failover_finish_ok [OF v(1) a ip(2) i(2) ok, folded t]
    have vt: "emits (\<lambda>_. True) v t"
      unfolding t using ctl_step_wf [OF io_relD [OF failover_finish_step] v(1)] by simp
    have "role_reported (addresses s) ?k ''main'' (new_events u v)" if "role \<noteq> ''main''"
      using p(7) [OF pr [OF that]] that u(2) by (simp add: v_def)
    then have "role_reported (addresses s) ?k ''main'' (new_events u t) \<or> role = ''main''"
      using new_events_mono(1) [OF v(3) vt] by (blast intro: role_reported_mono)
    moreover have "index_stored (configMapName s) (1 - i) (new_events s t)"
      using f v(4) own_fieldsD(3) [OF u(5)] new_events_mono(2) [OF emits_trans [OF su v(3)] vt]
      by (auto simp: index_stored_def)
    ultimately show ?thesis
      using f ip(1) committed(4) by (auto simp: u_def)
  qed
qed



lemma SetTargetMainIndex_gateways:
  fixes s :: "'z controller_state_scheme"
  assumes "cluster_wf s"
  shows "drained (exec (SetTargetMainIndex env i) s) = drained s"
proof -
  let ?u = "exec (getControllerOwnerReference env) s"
  have "cluster_state.more ?u = cluster_state.more s"
    using io_relD [OF getControllerOwnerReference_cluster [of "\<lambda>_ _. True" env], of s] assms
    by (simp add: cluster_step_def)
  then have "gatewayServer ?u = gatewayServer s" "readGatewayServer ?u = readGatewayServer s"
    by (cases ?u; cases s; simp)+
  then show ?thesis
    by (simp add: SetTargetMainIndex_def Let_def with_metrics_def drained_def read_upstream_def
        split: option.split)
qed

text \<open>
  C5: a failover that returns an error leaves the target main index as it was, and
  either it changed nothing (no command was sent and both gateways are as before), or both gateways
  are left without an upstream, so that no client reaches a server whose role is in doubt.
\<close>

theorem failover_fails_closed:
  fixes s :: "'z controller_state_scheme" and env :: environment and c :: Config
  defines "t \<equiv> exec (executeFailoverInternal env c) s"
  assumes "ctl_wf s" and "eval_result (GetTargetMainIndex env) s = Inr i" and "i \<noteq> - 1"
    and "eval_result (executeFailoverInternal env c) s = Inl e"
  shows "targetMainIndex t = i \<and>
    (gatewayServer t = gatewayServer s \<and> readGatewayServer t = readGatewayServer s \<and>
       emits (command_to (\<lambda>a q. False)) s t \<or>
     drained t)"
proof -
  let ?u = "exec (failover_check env c) s"
  note u = failover_check_state [OF assms(2-4), of c]
  from assms(2-4) show ?thesis
  proof (cases rule: failover_cases [of s env i c])
    case (refused e)
    then show ?thesis
      using u own_fieldsD(1,2) [OF u(5)] by (simp add: t_def)
  next
    case (committed role)
    let ?d = "exec drain ?u"
    let ?p = "exec (promoteSyncReplica env c) ?d"
    have c1: "eval_result (failover_commit env c (1 - i) role) ?u = Inl e"
      and t: "t = exec (failover_commit env c (1 - i) role) ?u"
      using committed(1,2) assms(5) by (simp_all add: t_def)
    note p = promoted_state [OF u(3), of env c, unfolded u(4), OF assms(4)]
    note d = drain_state [OF u(3)] drain_result(1,2) [where s = ?u]
    have fin: "targetMainIndex (exec (failover_finish env c (1 - i)) v) = targetMainIndex v \<and>
        drained (exec (failover_finish env c (1 - i)) v) = drained v"
      if "cluster_wf v" and "eval_result (failover_finish env c (1 - i)) v = Inl e" for v :: "'z controller_state_scheme"
      using that SetTargetMainIndex_gateways [OF that(1)] SetTargetMainIndex_result(2) [OF that(1), of env "1 - i"]
      by (cases "eval_result (SetTargetMainIndex env (1 - i)) v") (simp_all add: failover_finish_def)
    consider "role = ''main''" | e' where "role \<noteq> ''main''" "eval_result (promoteSyncReplica env c) ?d = Inl e'"
      | "role \<noteq> ''main''" "eval_result (promoteSyncReplica env c) ?d = Inr ()"
      by (cases "eval_result (promoteSyncReplica env c) ?d") auto
    then have "targetMainIndex t = i \<and> drained t"
    proof cases
      case 1
      then show ?thesis
        using c1 fin [OF d(2)] d(6,7) u(4) by (simp add: t failover_commit_run)
    next
      case 2
      then show ?thesis using p(2,3) by (simp add: t failover_commit_run)
    next
      case 3
      have "cluster_wf ?p" using p(1) by (simp add: ctl_wf_def)
      from fin [OF this] show ?thesis
        using c1 3 p(2,3) by (simp add: t failover_commit_run)
    qed
    then show ?thesis by simp
  qed
qed

theorem failover_fails_closed_witness:
  "let sc = running_scenario\<lparr>sc_dead := [''10.0.0.2:7687'']\<rparr>; s = ready_controller sc in
     eval_result (executeFailoverInternal (sim_env sc) sim_config) s =
       Inl (ErrorString ''sync replica pod is not healthy'') \<and>
     targetMainIndex (exec (executeFailoverInternal (sim_env sc) sim_config) s) = 0"
proof -
  let ?sc = "running_scenario\<lparr>sc_dead := [''10.0.0.2:7687'']\<rparr>"
  let ?s = "ready_controller ?sc"
  have "ctl_wf ?s" by simp
  moreover have "eval_result (GetTargetMainIndex (sim_env ?sc)) ?s = Inr 0" by code_simp
  moreover have "eval_result (executeFailoverInternal (sim_env ?sc) sim_config) ?s =
      Inl (ErrorString ''sync replica pod is not healthy'')"
    by code_simp
  ultimately show ?thesis
    using failover_fails_closed [of ?s "sim_env ?sc" 0 sim_config] by (simp add: Let_def)
qed

text \<open>
  C31: while the store reports the target main's pod ready (with an address) and
  the controller has cached the role main for it, the check of the reconciliation ends without a
  failover and without a single query: whether the server still answers is not looked at.
\<close>

theorem cached_main_is_trusted:
  fixes s :: "'z controller_state_scheme" and env :: environment and c :: Config
  assumes "targetMainIndex s \<noteq> - 1"
    and "env_store_get env (trace s) (pod_key c (GetPodName c (targetMainIndex s))) = Inr (Some p)"
    and "isPodReady p" and "PodIP p \<noteq> ''''" and "has_node (GetPodName c (targetMainIndex s)) s"
    and "nd_memgraphRole (node_at (GetPodName c (targetMainIndex s)) s) = ''main''"
  shows "eval_result (performFailoverCheck env c None) s = Inr () \<and>
    new_events s (exec (performFailoverCheck env c None) s) =
      [IoStoreGet (pod_key c (GetPodName c (targetMainIndex s))) (Inr (Some p))]"
  using assms
  by (simp add: performFailoverCheck_def GetTargetMainIndex_def getHealthyRole_def getPodFromCache_def
      store_get_def call_run on_node_def GetReplicationRole_def new_events_def put_node_def Let_def)

theorem cached_main_is_trusted_witness:
  "let env = sim_env running_scenario;
       s = exec (getHealthyRole env sim_config ''mg-0'') (exec (GetTargetMainIndex env) (ready_controller running_scenario))
   in eval_result (performFailoverCheck (sim_env (running_scenario\<lparr>sc_dead := [''10.0.0.1:7687'']\<rparr>)) sim_config None) s =
        Inr ()"
proof -
  let ?env = "sim_env running_scenario" and ?env' = "sim_env (running_scenario\<lparr>sc_dead := [''10.0.0.1:7687'']\<rparr>)"
  let ?s = "exec (getHealthyRole ?env sim_config ''mg-0'') (exec (GetTargetMainIndex ?env) (ready_controller running_scenario))"
  let ?p = "sim_pod ''mg-0'' ''10.0.0.1''"
  have k: "GetPodName sim_config (targetMainIndex ?s) = ''mg-0''" by code_simp
  have "targetMainIndex ?s \<noteq> - 1" by code_simp
  moreover have "env_store_get ?env' (trace ?s) (pod_key sim_config ''mg-0'') = Inr (Some ?p)" by code_simp
  moreover have "isPodReady ?p" "PodIP ?p \<noteq> ''''" by code_simp+
  moreover have "has_node ''mg-0'' ?s" "nd_memgraphRole (node_at ''mg-0'' ?s) = ''main''" by code_simp+
  ultimately show ?thesis
    using cached_main_is_trusted [of ?s ?env' sim_config ?p] by (simp add: k Let_def)
qed

subsection \<open>The whole check\<close>

text \<open>Whatever the index is, a failover check promotes at most, and keeps the controller well-formed.\<close>

lemma executeFailover_step:
  fixes s :: "'z controller_state_scheme" and P :: "string \<Rightarrow> string \<Rightarrow> bool"
  assumes "ctl_wf s" and "\<And>i. P (GetPodName c i) cmd_main"
  shows "ctl_step P s (exec (executeFailoverInternal env c) s)"
proof -
  let ?u = "exec (failover_check env c) s"
  have u: "ctl_step P s ?u"
    by (rule ctl_weaken [OF read_ctl_step [OF io_relD [OF failover_check_read [of "\<lambda>_ _. False"]]]]) simp_all
  then have "ctl_wf ?u" using assms(1) by (simp add: ctl_step_def)
  then have "ctl_step P ?u (exec (failover_commit env c j role) ?u)" for j role
    using assms(2) by (rule failover_commit_step)
  from ctl_frame.frame_trans [OF u this] show ?thesis
    using u by (simp add: executeFailoverInternal_def split: sum.split prod.split)
qed

lemma performFailoverCheck_step:
  assumes P: "\<And>i. P (GetPodName c i) cmd_main"
  shows "state_io_rel (ctl_step P) (performFailoverCheck env c event)"
proof -
  have ex: "state_io_rel (ctl_step P) (executeFailoverInternal env c)"
    by (rule io_relI) (metis executeFailover_step P ctl_step_def)
  show ?thesis
    unfolding performFailoverCheck_def Let_def
    by (intro ctl_frame.frame_rules ex read_ctl_any [OF GetTargetMainIndex_read]
        read_ctl_any [OF cluster_read [OF lastChancePing_cluster]]
        read_ctl_any [OF cluster_read [OF getHealthyRole_cluster]])
qed

lemma handleFailoverCheckEvent_step:
  assumes P: "\<And>i. P (GetPodName c i) cmd_main"
  shows "state_io_rel (ctl_step P) (handleFailoverCheckEvent env c now event)"
  unfolding handleFailoverCheckEvent_def Let_def
  by (intro ctl_frame.frame_rules performFailoverCheck_step P ctl_step_modify) (simp_all add: read_upstream_def)

lemma enqueueFailoverCheckEvent_step: "state_io_rel (ctl_step P) (enqueueFailoverCheckEvent now ty reason k)"
  unfolding enqueueFailoverCheckEvent_def by (rule ctl_step_modify) (simp_all add: read_upstream_def)

end
