(* ===== verification/Reconcile.thy ===== *)
theory Reconcile
  imports Failover
begin

text \<open>
  \<open>internal/controller/controller_reconcile.go\<close>: one reconciliation, its metrics, the gateway's
  upstream. The body of \<open>performReconciliationActions\<close> is split
  along its sections; each part returns where the source returns or continues with the next node. A
  reconciliation ends with the error recorded for the metrics and the error it returns; \<open>None\<close> in
  place of the latter is the panic on a replica without parsed data.
\<close>

section \<open>Definitions\<close>

subsection \<open>The gateway's upstream\<close>

definition reconcileGateway ::
  "environment \<Rightarrow> Config \<Rightarrow> ('z controller_state_scheme, unit go_result) state" where
  "reconcileGateway env c = do {
     m \<leftarrow> getTargetMainNode env c;
     case m of
       Inl e \<Rightarrow> return (Inl (Wrapped ''failed to get target main node'' e))
     | Inr k \<Rightarrow> do {
         name \<leftarrow> gets (\<lambda>s. nd_name (node_at k s));
         r \<leftarrow> getPodFromCache env c name;
         case r of
           Inl e \<Rightarrow> return (Inl (Wrapped ''failed to get target main pod'' e))
         | Inr p \<Rightarrow>
             if \<not> isPodReady p then return (Inl (ErrorString ''target main pod is not ready''))
             else if DeletionTimestamp p \<noteq> None then
               return (Inl (ErrorString ''target main pod is being deleted''))
             else do {
               a \<leftarrow> gets (node_address k);
               case a of
                 Inl e \<Rightarrow> return (Inl (Wrapped ''failed to get bolt address for target main node'' e))
               | Inr boltAddress \<Rightarrow> do {
                   h \<leftarrow> isHealthy env c;
                   case h of
                     Some e \<Rightarrow> return (Inl (ErrorString ''cluster is not healthy''))
                   | None \<Rightarrow> do { set_main_upstream boltAddress; return (Inr ()) } } } } }"

subsection \<open>Registering a missing replica\<close>

text \<open>The other nodes whose cached role is main; a node whose role cannot be read is passed over.\<close>

fun other_mains ::
  "environment \<Rightarrow> string \<Rightarrow> string list \<Rightarrow> ('z controller_state_scheme, string list) state" where
  "other_mains env mainName [] = return []"
| "other_mains env mainName (k # ks) =
     (if k = mainName then other_mains env mainName ks
      else do {
        (role, err) \<leftarrow> on_node k (\<lambda>n. GetReplicationRole env n False);
        rest \<leftarrow> other_mains env mainName ks;
        return (if err = None \<and> role = ''main'' then k # rest else rest) })"

definition registration_safe ::
  "environment \<Rightarrow> string \<Rightarrow> ('z controller_state_scheme, bool) state" where
  "registration_safe env mainName = do {
     ns \<leftarrow> gets MemgraphNodes;
     keys \<leftarrow> range_keys env (map fst ns);
     nonTargetMains \<leftarrow> other_mains env mainName keys;
     k8sPods \<leftarrow> getPodsFromCache env;
     nodes \<leftarrow> gets MemgraphNodes;
     return (nonTargetMains = [] \<and> length k8sPods = length nodes) }"

text \<open>Memgraph's error for a replica whose data has diverged.\<close>

definition diverged :: "go_error \<Rightarrow> bool" where
  "diverged e = (case as_neo4j e of
      None \<Rightarrow> False
    | Some (code, msg) \<Rightarrow> code = ''Memgraph.ClientError.MemgraphError.MemgraphError'' \<and>
        Contains msg ''Error: 3'')"

definition register_replica ::
  "environment \<Rightarrow> string \<Rightarrow> string \<Rightarrow> string \<Rightarrow> string \<Rightarrow> ('z controller_state_scheme, unit) state" where
  "register_replica env mainKey replicaName replicationAddress syncMode = do {
     err \<leftarrow> on_node mainKey (\<lambda>n. RegisterReplica env n replicaName replicationAddress syncMode);
     case err of
       None \<Rightarrow> return ()
     | Some e \<Rightarrow>
         if diverged e then return ()
         else do { on_node mainKey (\<lambda>n. DropReplica env n replicaName); return () } }"

definition register_missing ::
  "environment \<Rightarrow> Config \<Rightarrow> string \<Rightarrow> string \<Rightarrow> ('z controller_state_scheme, unit) state" where
  "register_missing env c mainKey podName = do {
     r \<leftarrow> getTargetSyncReplicaNode env c;
     case r of
       Inl e \<Rightarrow> return ()
     | Inr syncName \<Rightarrow> do {
         node \<leftarrow> gets (node_at podName);
         syncNode \<leftarrow> gets (node_at syncName);
         mainNode \<leftarrow> gets (node_at mainKey);
         let syncMode = (if nd_name node = nd_name syncNode then ''STRICT_SYNC'' else ''ASYNC'');
         safe \<leftarrow> registration_safe env (nd_name mainNode);
         if \<not> safe then return ()
         else register_replica env mainKey (GetReplicaName node)
           (GetReplicationFQDN node (StatefulSetName c) (Namespace c)) syncMode } }"

subsection \<open>One node\<close>

definition replica_map :: "ReplicaInfo list \<Rightarrow> (string \<times> ReplicaInfo) list" where
  "replica_map replicas = foldl (\<lambda>m r. AList.update (ri_Name r) r m) [] replicas"

text \<open>The node has the role replica, or was just demoted; \<open>False\<close> when the source gives up on it.\<close>

definition ensure_replica :: "environment \<Rightarrow> string \<Rightarrow> ('z controller_state_scheme, bool) state" where
  "ensure_replica env podName = do {
     (role, err) \<leftarrow> on_node podName (\<lambda>n. GetReplicationRole env n True);
     case err of
       Some e \<Rightarrow> return False
     | None \<Rightarrow>
         if role \<noteq> ''replica'' then do {
           e \<leftarrow> on_node podName (SetToReplicaRole env);
           return (e = None) }
         else return True }"

text \<open>The result is the readiness of the pod for the flag \<open>isAllPodsReady\<close>.\<close>

definition reconcile_node ::
  "environment \<Rightarrow> Config \<Rightarrow> string \<Rightarrow> (string \<times> ReplicaInfo) list \<Rightarrow> string
    \<Rightarrow> ('z controller_state_scheme, bool) state" where
  "reconcile_node env c mainKey replicaMap podName = do {
     r \<leftarrow> getPodFromCache env c podName;
     case r of
       Inl e \<Rightarrow> return False
     | Inr p \<Rightarrow>
         if \<not> isPodReady p \<and> \<not> isPodTerminating (Some p) then return False
         else do {
           ok \<leftarrow> ensure_replica env podName;
           if \<not> ok then return True
           else do {
             node \<leftarrow> gets (node_at podName);
             if map_of replicaMap (GetReplicaName node) \<noteq> None then return True
             else if isPodTerminating (Some p) then return True
             else do { register_missing env c mainKey podName; return True } } } }"

fun reconcile_nodes ::
  "environment \<Rightarrow> Config \<Rightarrow> string \<Rightarrow> (string \<times> ReplicaInfo) list \<Rightarrow> string list
    \<Rightarrow> ('z controller_state_scheme, bool) state" where
  "reconcile_nodes env c mainKey replicaMap [] = return True"
| "reconcile_nodes env c mainKey replicaMap (k # ks) = do {
     mainName \<leftarrow> gets (\<lambda>s. nd_name (node_at mainKey s));
     ready \<leftarrow> (if k = mainName then return True else reconcile_node env c mainKey replicaMap k);
     rest \<leftarrow> reconcile_nodes env c mainKey replicaMap ks;
     return (ready \<and> rest) }"

subsection \<open>A reconciliation\<close>

definition reconcile_replicas ::
  "environment \<Rightarrow> Config \<Rightarrow> string \<Rightarrow> (string \<times> ReplicaInfo) list
    \<Rightarrow> ('z controller_state_scheme, go_error option) state" where
  "reconcile_replicas env c mainKey replicaMap = do {
     mainName \<leftarrow> gets (\<lambda>s. nd_name (node_at mainKey s));
     r \<leftarrow> getPodFromCache env c mainName;
     case r of
       Inl e \<Rightarrow> return (Some e)
     | Inr p \<Rightarrow> do {
         ns \<leftarrow> gets MemgraphNodes;
         keys \<leftarrow> range_keys env (map fst ns);
         ready \<leftarrow> reconcile_nodes env c mainKey replicaMap keys;
         if isPodReady p \<and> ready then do {
           g \<leftarrow> reconcileGateway env c;
           return (case g of Inl e \<Rightarrow> Some e | Inr _ \<Rightarrow> None) }
         else return None } }"

text \<open>A replica whose data was not parsed: logging its status dereferences a nil pointer.\<close>

definition nil_data :: "ReplicaInfo \<Rightarrow> bool" where
  "nil_data r \<longleftrightarrow> \<not> IsHealthy r \<and> ri_ParsedDataInfo r = None"

definition reconcile_main ::
  "environment \<Rightarrow> Config \<Rightarrow> string \<Rightarrow> go_error option
    \<Rightarrow> ('z controller_state_scheme, go_error option \<times> go_error option option) state" where
  "reconcile_main env c mainKey reconcileErr = do {
     updateReadGatewayUpstream env c;
     (replicas, err) \<leftarrow> on_node mainKey (\<lambda>n. GetReplicas env n True);
     case err of
       Some e \<Rightarrow> return (reconcileErr, Some None)
     | None \<Rightarrow>
         if list_ex (\<lambda>(name, r). nil_data r) (replica_map replicas) then return (reconcileErr, None)
         else do {
           e \<leftarrow> reconcile_replicas env c mainKey (replica_map replicas);
           return (reconcileErr, Some e) } }"

definition count_reconcile_error :: "int \<Rightarrow> ('z controller_state_scheme, unit) state" where
  "count_reconcile_error now = with_metrics (RecordError now ''reconciliation'')"

definition reconcile_target ::
  "environment \<Rightarrow> Config \<Rightarrow> int \<Rightarrow> go_error option
    \<Rightarrow> ('z controller_state_scheme, go_error option \<times> go_error option option) state" where
  "reconcile_target env c now reconcileErr = do {
     m \<leftarrow> getTargetMainNode env c;
     case m of
       Inl e \<Rightarrow> do { count_reconcile_error now; return (Some e, Some None) }
     | Inr mainKey \<Rightarrow> reconcile_main env c mainKey reconcileErr }"

definition reconcile_body ::
  "environment \<Rightarrow> Config \<Rightarrow> int
    \<Rightarrow> ('z controller_state_scheme, go_error option \<times> go_error option option) state" where
  "reconcile_body env c now = do {
     r \<leftarrow> GetTargetMainIndex env;
     case r of
       Inl e \<Rightarrow> do { count_reconcile_error now; return (Some e, Some None) }
     | Inr i \<Rightarrow>
         if i = - 1 then return (None, Some None)
         else do {
           rr \<leftarrow> Refresh env;
           case rr of
             Inl e \<Rightarrow> do { count_reconcile_error now; return (Some e, Some None) }
           | Inr _ \<Rightarrow> do {
               f \<leftarrow> performFailoverCheck env c None;
               reconcileErr \<leftarrow> (case f of
                   Inl e \<Rightarrow> do { count_reconcile_error now; return (Some e) }
                 | Inr _ \<Rightarrow> return None);
               reconcile_target env c now reconcileErr } } }"

text \<open>The deferred updates of the two sets of metrics.\<close>

definition record_metrics :: "int \<Rightarrow> int \<Rightarrow> go_error option \<Rightarrow> reconciliation_metrics \<Rightarrow> reconciliation_metrics" where
  "record_metrics now duration err m = (let
       m1 = m\<lparr>rm_TotalReconciliations := rm_TotalReconciliations m + 1\<rparr>;
       m2 = (case err of
           None \<Rightarrow> m1\<lparr>rm_SuccessfulReconciliations := rm_SuccessfulReconciliations m1 + 1\<rparr>
         | Some e \<Rightarrow> m1\<lparr>rm_FailedReconciliations := rm_FailedReconciliations m1 + 1,
                       rm_LastReconciliationError := Error e\<rparr>)
     in m2\<lparr>rm_LastReconciliationTime := now, rm_AverageReconciliationTime := duration\<rparr>)"

definition finish_reconciliation ::
  "int \<Rightarrow> int \<Rightarrow> go_error option \<Rightarrow> ('z controller_state_scheme, unit) state" where
  "finish_reconciliation now duration reconcileErr = do {
     with_metrics (RecordReconciliation now (reconcileErr = None) duration);
     modify (\<lambda>s. s\<lparr>recMetrics := record_metrics now duration reconcileErr (recMetrics s)\<rparr>) }"

text \<open>\<open>None\<close> is a panic; the deferred updates run even then.\<close>

definition performReconciliationActions ::
  "environment \<Rightarrow> Config \<Rightarrow> int \<Rightarrow> int \<Rightarrow> ('z controller_state_scheme, go_error option option) state" where
  "performReconciliationActions env c now duration = do {
     (reconcileErr, err) \<leftarrow> reconcile_body env c now;
     finish_reconciliation now duration reconcileErr;
     return err }"

definition GetReconciliationMetrics :: "'z controller_state_scheme \<Rightarrow> reconciliation_metrics" where
  "GetReconciliationMetrics s = recMetrics s"

subsection \<open>What a reconciliation may do\<close>

text \<open>The registration of pod \<open>k\<close> with the main of index \<open>i\<close>, and its clean-up when it fails.\<close>

definition registers :: "Config \<Rightarrow> int32 \<Rightarrow> string \<Rightarrow> string \<Rightarrow> string \<Rightarrow> bool" where
  "registers c i k name q \<longleftrightarrow> name = GetPodName c i \<and>
     (q = cmd_register (GetReplicaName_pod k)
            (if k = GetPodName c (sync_index i) then ''STRICT_SYNC'' else ''ASYNC'')
            (k @ ''.'' @ StatefulSetName c @ ''.'' @ Namespace c @ ''.svc.cluster.local'') \<or>
      q = cmd_drop (GetReplicaName_pod k))"

definition demotes :: "string \<Rightarrow> string \<Rightarrow> string \<Rightarrow> bool" where
  "demotes k name q \<longleftrightarrow> name = k \<and> q = cmd_replica"

text \<open>The commands of the loop over the nodes: other pods are demoted and registered with the main.\<close>

definition reconcile_command :: "Config \<Rightarrow> int32 \<Rightarrow> string \<Rightarrow> string \<Rightarrow> bool" where
  "reconcile_command c i name q \<longleftrightarrow> (\<exists>k. k \<noteq> GetPodName c i \<and> (demotes k name q \<or> registers c i k name q))"

text \<open>No node but the main has the cached role main, and the store lists as many pods as there are nodes.\<close>

definition single_main :: "string \<Rightarrow> 'z cluster_state_scheme \<Rightarrow> bool" where
  "single_main mainName u \<longleftrightarrow>
     (\<forall>k. has_node k u \<and> k \<noteq> mainName \<longrightarrow> nd_memgraphRole (node_at k u) \<noteq> ''main'')"

definition all_counted :: "io list \<Rightarrow> 'z cluster_state_scheme \<Rightarrow> bool" where
  "all_counted evs u \<longleftrightarrow> (\<exists>pods. IoStoreList pods \<in> set evs \<and> length pods = length (MemgraphNodes u))"

section \<open>Lemmas\<close>

subsection \<open>Frames\<close>

lemma other_mains_cluster: "state_io_rel (cluster_step P) (other_mains env m ks)"
  by (induction ks) (auto intro!: cluster_frame.frame_rules role_cluster)

lemma registration_safe_cluster: "state_io_rel (cluster_step P) (registration_safe env m)"
  unfolding registration_safe_def getPodsFromCache_def store_list_def
  by (intro cluster_frame.frame_rules range_keys_cluster other_mains_cluster cluster_step_call) simp

lemma register_replica_cluster:
  assumes "P k (cmd_register n m a)" and "P k (cmd_drop n)"
  shows "state_io_rel (cluster_step P) (register_replica env k n a m)"
  unfolding register_replica_def
  by (intro cluster_frame.frame_rules on_node_step [OF register_op.node_operation_axioms]
      on_node_step [OF drop_op.node_operation_axioms]) (simp_all add: assms)

lemma ensure_replica_cluster:
  assumes "P k cmd_replica"
  shows "state_io_rel (cluster_step P) (ensure_replica env k)"
  unfolding ensure_replica_def
  by (intro cluster_frame.frame_rules role_cluster on_node_step [OF demote_op.node_operation_axioms])
    (simp add: assms)

subsection \<open>The registration's safety check\<close>

lemma GetReplicationRole_cached_error:
  "eval_result (GetReplicationRole env n False) s = ((r, Some e), n') \<Longrightarrow> nd_memgraphRole n' = ''''"
  by (auto simp: GetReplicationRole_def split: if_splits sum.splits)

lemma cached_role_result:
  fixes s :: "'z controller_state_scheme"
  assumes wf: "cluster_wf s" and known: "has_node k s"
    and res: "eval_result (on_node k (\<lambda>n. GetReplicationRole env n False)) s = (role, err)"
    and other: "\<not> (err = None \<and> role = ''main'')"
  shows "nd_memgraphRole (node_at k (exec (on_node k (\<lambda>n. GetReplicationRole env n False)) s)) \<noteq> ''main''"
proof -
  let ?f = "\<lambda>n. GetReplicationRole env n False"
  obtain n' where n': "eval_result (?f (node_at k s)) s = ((role, err), n')"
    using res by (cases "eval_result (?f (node_at k s)) s") (simp add: eval_on_node)
  have "pool_wf s" using wf by (simp add: cluster_wf_def)
  then have "nd_memgraphRole n' \<noteq> ''main''"
    using n' other GetReplicationRole_result(1) [of s env "node_at k s" False role n']
      GetReplicationRole_cached_error [of env "node_at k s" s role _ n']
    by (cases err) auto
  then show ?thesis
    using node_at_same [OF wf role_op.node_operation_axioms known, of env False] n' by simp
qed

lemma other_mains_untouched:
  fixes s :: "'z controller_state_scheme"
  assumes "cluster_wf s" and "k \<notin> set ks"
  shows "node_at k (exec (other_mains env m ks) s) = node_at k s"
  using assms
proof (induction ks arbitrary: s)
  case (Cons j js)
  let ?u = "exec (on_node j (\<lambda>n. GetReplicationRole env n False)) s"
  have "cluster_wf ?u" using cluster_step_emits [OF io_relD [OF role_cluster] Cons.prems(1)] by simp
  then show ?case
    using Cons node_at_other [OF Cons.prems(1) role_op.node_operation_axioms, of k j env False]
    by (simp split: prod.split)
qed simp

lemma other_mains_none:
  fixes s :: "'z controller_state_scheme"
  assumes "cluster_wf s" and "distinct ks" and "\<forall>k \<in> set ks. has_node k s"
    and "eval_result (other_mains env m ks) s = []" and "k \<in> set ks" and "k \<noteq> m"
  shows "nd_memgraphRole (node_at k (exec (other_mains env m ks) s)) \<noteq> ''main''"
  using assms
proof (induction ks arbitrary: s)
  case (Cons j js)
  let ?f = "\<lambda>n. GetReplicationRole env n False"
  let ?u = "exec (on_node j ?f) s"
  have u: "cluster_wf ?u" "addresses ?u = addresses s"
    using cluster_step_emits [OF io_relD [OF role_cluster] Cons.prems(1)] by simp_all
  then have known: "\<forall>k \<in> set js. has_node k ?u"
    using Cons.prems(3) by (simp add: has_node_book)
  obtain role err where r: "eval_result (on_node j ?f) s = (role, err)" by force
  show ?case
  proof (cases "j = m")
    case True
    then show ?thesis using Cons by auto
  next
    case False
    then have rest: "eval_result (other_mains env m js) ?u = []" "\<not> (err = None \<and> role = ''main'')"
      using Cons.prems(4) r by (auto split: if_splits)
    show ?thesis
    proof (cases "k = j")
      case True
      have "nd_memgraphRole (node_at j ?u) \<noteq> ''main''"
        using Cons.prems(1,3) r rest(2) by (intro cached_role_result) simp_all
      then show ?thesis
        using True False Cons.prems(2) other_mains_untouched [OF u(1), of j js env m] r by simp
    next
      case False
      then show ?thesis
        using \<open>j \<noteq> m\<close> Cons.IH [OF u(1) _ known rest(1)] Cons.prems(2,5,6) r by auto
    qed
  qed
qed simp

lemma registration_safe_true:
  fixes s :: "'z controller_state_scheme" and env :: environment and m :: string
  defines "t \<equiv> exec (registration_safe env m) s"
  assumes wf: "cluster_wf s" and res: "eval_result (registration_safe env m) s"
  shows "single_main m t" and "all_counted (new_events s t) t"
proof -
  let ?ks = "map fst (MemgraphNodes s)"
  let ?u = "exec (range_keys env ?ks) s" and ?keys = "eval_result (range_keys env ?ks) s"
  let ?v = "exec (other_mains env m ?keys) ?u"
  have u: "cluster_wf ?u" "emits (\<lambda>_. True) s ?u" "MemgraphNodes ?u = MemgraphNodes s"
    using cluster_step_emits [OF io_relD [OF range_keys_cluster] wf]
    by (simp_all, simp add: range_keys_def call_run)
  have v: "cluster_wf ?v" "emits (\<lambda>_. True) ?u ?v" "addresses ?v = addresses ?u"
    using cluster_step_emits [OF io_relD [OF other_mains_cluster] u(1)] by simp_all
  have keys: "set ?keys = set ?ks" "distinct ?keys"
    using wf by (simp_all add: range_keys_def call_run pick_order_distinct cluster_wf_def)
  let ?pods = "env_store_list env (trace ?v)"
  have t: "t = ?v\<lparr>trace := IoStoreList ?pods # trace ?v\<rparr>"
    by (simp add: t_def registration_safe_def getPodsFromCache_def store_list_def call_run)
  have none: "eval_result (other_mains env m ?keys) ?u = []" and len: "length ?pods = length (MemgraphNodes ?v)"
    using res by (simp_all add: registration_safe_def getPodsFromCache_def store_list_def call_run)
  have known: "\<forall>k \<in> set ?keys. has_node k ?u" using keys(1) by (simp add: has_node_key u(3))
  show "single_main m t"
    unfolding single_main_def
  proof (intro allI impI, elim conjE)
    fix k assume k: "has_node k t" "k \<noteq> m"
    then have "has_node k ?u" using v(3) by (simp add: t has_node_book)
    then have "k \<in> set ?keys" using keys(1) by (simp add: has_node_key u(3))
    then show "nd_memgraphRole (node_at k t) \<noteq> ''main''"
      using other_mains_none [OF u(1) keys(2) known none _ k(2)] by (simp add: t)
  qed
  have "IoStoreList ?pods \<in> set (new_events s t)"
    using u(2) v(2) by (auto simp: t emits_def new_events_def)
  then show "all_counted (new_events s t) t"
    using len by (auto simp: all_counted_def t)
qed

lemma sync_node_known:
  assumes "targetMainIndex s \<noteq> - 1"
  shows "exec (getTargetSyncReplicaNode env c) s = s"
    and "eval_result (getTargetSyncReplicaNode env c) s = Inr k \<Longrightarrow>
      k = GetPodName c (sync_index (targetMainIndex s)) \<and> has_node k s"
  using assms by (auto simp: getTargetSyncReplicaNode_def GetTargetMainIndex_def Let_def split: if_splits)

text \<open>The state just before the registration is sent, if it is.\<close>

lemma register_missing_run:
  fixes s :: "'z controller_state_scheme" and i :: int32
  assumes wf: "cluster_wf s" and idx: "targetMainIndex s = i" "i \<noteq> - 1"
    and known: "has_node k s" "has_node (GetPodName c i) s"
  shows "\<exists>u. cluster_step (\<lambda>_ _. False) s u \<and>
    (exec (register_missing env c (GetPodName c i) k) s = u \<or>
     single_main (GetPodName c i) u \<and> all_counted (new_events s u) u \<and>
     cluster_step (registers c i k) u (exec (register_missing env c (GetPodName c i) k) s))"
proof (cases "eval_result (getTargetSyncReplicaNode env c) s")
  case (Inl e)
  then show ?thesis
    using sync_node_known(1) [of s env c] idx
    by (intro exI [of _ s]) (simp add: register_missing_def cluster_frame.frame_refl)
next
  case (Inr y)
  let ?m = "GetPodName c i"
  let ?u = "exec (registration_safe env ?m) s"
  have y: "y = GetPodName c (sync_index i)" "has_node y s"
    using sync_node_known(2) [of s env c y] Inr idx by auto
  have names: "nd_name (node_at k s) = k" "nd_name (node_at ?m s) = ?m" "nd_name (node_at y s) = y"
    using known_name [OF wf] known y(2) by simp_all
  have u: "cluster_step (\<lambda>_ _. False) s ?u" by (rule io_relD [OF registration_safe_cluster])
  define mode where "mode = (if k = y then ''STRICT_SYNC'' else ''ASYNC'')"
  let ?reg = "register_replica env ?m (GetReplicaName (node_at k s))
    (GetReplicationFQDN (node_at k s) (StatefulSetName c) (Namespace c)) mode"
  have run: "exec (register_missing env c ?m k) s =
      (if eval_result (registration_safe env ?m) s then exec ?reg ?u else ?u)"
    using Inr sync_node_known(1) [of s env c] idx names
    by (simp add: register_missing_def mode_def Let_def)
  have "state_io_rel (cluster_step (registers c i k)) ?reg"
    by (rule register_replica_cluster)
      (simp_all add: registers_def mode_def y(1) GetReplicaName_def GetReplicaName_pod_eq names GetReplicationFQDN_def)
  then have "cluster_step (registers c i k) ?u (exec ?reg ?u)" by (rule io_relD)
  then show ?thesis
    using u run registration_safe_true [OF wf, of env ?m] by (intro exI [of _ ?u]) auto
qed

subsection \<open>One node\<close>

lemma ensure_replica_index:
  fixes s :: "'z controller_state_scheme" and env :: environment and k :: string
  assumes "cluster_wf s"
  defines "u \<equiv> exec (ensure_replica env k) s"
  shows "cluster_wf u" and "addresses u = addresses s" and "targetMainIndex u = targetMainIndex s"
    and "cluster_step (demotes k) s u"
proof -
  have step: "cluster_step (demotes k) s u"
    unfolding u_def by (rule io_relD [OF ensure_replica_cluster]) (simp add: demotes_def)
  show "cluster_wf u" and "addresses u = addresses s" and "targetMainIndex u = targetMainIndex s"
    using cluster_step_emits [OF step assms(1)] cluster_step_index [OF step assms(1)] by simp_all
  show "cluster_step (demotes k) s u" by (rule step)
qed

lemma reconcile_node_run:
  fixes s :: "'z controller_state_scheme" and env :: environment and c :: Config and k m :: string
    and rm :: "(string \<times> ReplicaInfo) list"
  defines "a \<equiv> exec (getPodFromCache env c k) s"
  defines "b \<equiv> exec (ensure_replica env k) a"
  obtains (quiet) "exec (reconcile_node env c m rm k) s = a"
  | (demoted) "exec (reconcile_node env c m rm k) s = b"
  | (register) p where "eval_result (getPodFromCache env c k) s = Inr p" and "isPodReady p"
    and "exec (reconcile_node env c m rm k) s = exec (register_missing env c m k) b"
proof (cases "eval_result (getPodFromCache env c k) s")
  case (Inl e)
  then show thesis using quiet by (simp add: reconcile_node_def a_def)
next
  case (Inr p)
  have "exec (reconcile_node env c m rm k) s =
      (if \<not> isPodReady p \<and> \<not> isPodTerminating (Some p) then a
       else if eval_result (ensure_replica env k) a \<and> map_of rm (GetReplicaName (node_at k b)) = None \<and>
         \<not> isPodTerminating (Some p)
       then exec (register_missing env c m k) b else b)"
    using Inr by (simp add: reconcile_node_def a_def b_def)
  then show thesis
    using quiet demoted register [OF Inr] by (simp split: if_splits)
qed



subsection \<open>The loop over the nodes\<close>

lemma cluster_weaken:
  assumes "cluster_step P s t" and "\<And>n q. P n q \<Longrightarrow> P' n q"
  shows "cluster_step P' s t"
  using assms(1) by (auto simp: cluster_step_def elim!: emits_mono intro: commands_mono assms(2))

lemma reconcile_node_cluster:
  fixes s :: "'z controller_state_scheme" and i :: int32
  assumes wf: "cluster_wf s" and idx: "targetMainIndex s = i" "i \<noteq> - 1"
    and known: "has_node k s" "has_node (GetPodName c i) s" and other: "k \<noteq> GetPodName c i"
  shows "cluster_step (reconcile_command c i) s (exec (reconcile_node env c (GetPodName c i) rm k) s)"
proof -
  let ?m = "GetPodName c i" and ?C = "cluster_step (reconcile_command c i)"
  let ?a = "exec (getPodFromCache env c k) s"
  let ?b = "exec (ensure_replica env k) ?a"
  have a: "?C s ?a" by (rule io_relD [OF getPodFromCache_cluster])
  have wa: "cluster_wf ?a" "addresses ?a = addresses s" "targetMainIndex ?a = i"
    using cluster_step_emits [OF a wf] cluster_step_index [OF a wf] idx by simp_all
  have b: "?C ?a ?b"
    by (rule cluster_weaken [OF ensure_replica_index(4) [OF wa(1)]]) (use other in \<open>auto simp: reconcile_command_def\<close>)
  have wb: "cluster_wf ?b" "addresses ?b = addresses s" "targetMainIndex ?b = i"
    using cluster_step_emits [OF b wa(1)] cluster_step_index [OF b wa(1)] wa by simp_all
  note ab = cluster_frame.frame_trans [OF a b]
  have kb: "has_node k ?b" "has_node ?m ?b" using known wb(2) by (simp_all add: has_node_book)
  obtain u where u: "cluster_step (\<lambda>_ _. False) ?b u" and reg: "exec (register_missing env c ?m k) ?b = u \<or>
      cluster_step (registers c i k) u (exec (register_missing env c ?m k) ?b)"
    using register_missing_run [OF wb(1,3) idx(2) kb] by blast
  have "?C ?b u" using u by (rule cluster_weaken) simp
  note bu = cluster_frame.frame_trans [OF ab this]
  have su: "?C s (exec (register_missing env c ?m k) ?b)"
    using reg
  proof
    assume "cluster_step (registers c i k) u (exec (register_missing env c ?m k) ?b)"
    then have "?C u (exec (register_missing env c ?m k) ?b)"
      by (rule cluster_weaken) (use other in \<open>auto simp: reconcile_command_def\<close>)
    with bu show ?thesis by (rule cluster_frame.frame_trans)
  qed (simp add: bu)
  show ?thesis
    by (rule reconcile_node_run [where env = env and c = c and k = k and s = s and m = ?m and rm = rm])
      (simp_all add: a ab su)
qed

lemma reconcile_nodes_cluster:
  fixes s :: "'z controller_state_scheme" and i :: int32
  assumes "cluster_wf s" and "targetMainIndex s = i" and "i \<noteq> - 1"
    and "\<forall>k \<in> set ks. has_node k s" and "has_node (GetPodName c i) s"
  shows "cluster_step (reconcile_command c i) s (exec (reconcile_nodes env c (GetPodName c i) rm ks) s)"
  using assms
proof (induction ks arbitrary: s)
  case (Cons k ks)
  let ?m = "GetPodName c i"
  let ?u = "if k = ?m then s else exec (reconcile_node env c ?m rm k) s"
  have u: "cluster_step (reconcile_command c i) s ?u"
    using reconcile_node_cluster [OF Cons.prems(1,2,3) _ Cons.prems(5), of k env rm] Cons.prems(4)
    by (simp add: cluster_frame.frame_refl)
  have "cluster_wf ?u" "addresses ?u = addresses s" "targetMainIndex ?u = i"
    using cluster_step_emits [OF u Cons.prems(1)] cluster_step_index [OF u Cons.prems(1)] Cons.prems(2)
    by (simp_all del: if_split)
  then have "cluster_step (reconcile_command c i) ?u (exec (reconcile_nodes env c ?m rm ks) ?u)"
    using Cons.prems by (intro Cons.IH) (simp_all add: has_node_book del: if_split)
  from cluster_frame.frame_trans [OF u this] show ?case
    using known_name [OF Cons.prems(1,5)] by (simp split: if_splits)
qed (simp add: cluster_frame.frame_refl)

subsection \<open>The gateway's upstream\<close>

lemma main_node_known:
  assumes "targetMainIndex s \<noteq> - 1"
  shows "exec (getTargetMainNode env c) s = s"
    and "eval_result (getTargetMainNode env c) s = Inr k \<Longrightarrow>
      k = GetPodName c (targetMainIndex s) \<and> has_node k s"
  using assms by (auto simp: getTargetMainNode_def GetTargetMainIndex_def split: if_splits)

lemma isHealthy_none:
  fixes s :: "'z controller_state_scheme"
  assumes wf: "cluster_wf s" and idx: "targetMainIndex s \<noteq> - 1" and res: "eval_result (isHealthy env c) s = None"
  shows "replicas_healthy (nd_replicasInfo (node_at (GetPodName c (targetMainIndex s)) (exec (isHealthy env c) s))) = None"
proof -
  let ?m = "GetPodName c (targetMainIndex s)" and ?f = "\<lambda>n. GetReplicas env n False"
  have m: "eval_result (getTargetMainNode env c) s = Inr ?m" "has_node ?m s"
    using res main_node_known [OF idx, of env c]
    by (cases "eval_result (getTargetMainNode env c) s"; auto simp: isHealthy_def)+
  obtain rs n' where n': "eval_result (?f (node_at ?m s)) s = ((rs, None), n')" and rs: "replicas_healthy rs = None"
    using res m main_node_known(1) [OF idx, of env c]
    by (cases "eval_result (?f (node_at ?m s)) s") (auto simp: isHealthy_def eval_on_node split: option.splits prod.splits)
  have "exec (isHealthy env c) s = exec (on_node ?m ?f) s"
    using m main_node_known(1) [OF idx, of env c] by (simp add: isHealthy_def split: prod.split)
  then show ?thesis
    using node_at_same [OF wf replicas_op.node_operation_axioms m(2), of env False] n' GetReplicas_result [OF n'] rs
    by simp
qed

lemma reconcileGateway_run:
  fixes s :: "'z controller_state_scheme" and env :: environment and c :: Config
  defines "m \<equiv> GetPodName c (targetMainIndex s)"
  defines "u \<equiv> exec (getPodFromCache env c m) s"
  assumes wf: "cluster_wf s" and idx: "targetMainIndex s \<noteq> - 1"
  obtains (failed) e where "eval_result (reconcileGateway env c) s = Inl e"
      and "exec (reconcileGateway env c) s \<in> {s, u, exec (isHealthy env c) u}"
  | (routed) p a where "eval_result (reconcileGateway env c) s = Inr ()"
      and "eval_result (getPodFromCache env c m) s = Inr p" and "isPodReady p" and "DeletionTimestamp p = None"
      and "node_address m u = Inr a" and "eval_result (isHealthy env c) u = None"
      and "exec (reconcileGateway env c) s = exec (set_main_upstream a) (exec (isHealthy env c) u)"
proof (cases "eval_result (getTargetMainNode env c) s")
  case (Inl e)
  then show thesis using failed main_node_known(1) [OF idx, of env c] by (simp add: reconcileGateway_def)
next
  case (Inr k)
  then have k: "k = m" "nd_name (node_at m s) = m"
    using main_node_known(2) [OF idx] known_name [OF wf] by (auto simp: m_def)
  have run: "exec (reconcileGateway env c) s = (case eval_result (getPodFromCache env c m) s of Inl e \<Rightarrow> u
      | Inr p \<Rightarrow> if \<not> isPodReady p \<or> DeletionTimestamp p \<noteq> None then u
        else case node_address m u of Inl e \<Rightarrow> u
      | Inr a \<Rightarrow> (case eval_result (isHealthy env c) u of Some e \<Rightarrow> exec (isHealthy env c) u
      | None \<Rightarrow> exec (set_main_upstream a) (exec (isHealthy env c) u)))"
    using Inr k main_node_known(1) [OF idx, of env c]
    by (simp add: reconcileGateway_def u_def split: sum.split option.split)
  have res: "eval_result (reconcileGateway env c) s = Inr () \<longleftrightarrow>
      (case eval_result (getPodFromCache env c m) s of Inl e \<Rightarrow> False
      | Inr p \<Rightarrow> isPodReady p \<and> DeletionTimestamp p = None \<and>
        (case node_address m u of Inl e \<Rightarrow> False | Inr a \<Rightarrow> eval_result (isHealthy env c) u = None))"
    using Inr k main_node_known(1) [OF idx, of env c]
    by (simp add: reconcileGateway_def u_def split: sum.split option.split)
  show thesis
  proof (cases "eval_result (reconcileGateway env c) s")
    case (Inl e)
    then show thesis using res run by (intro failed [of e]) (auto split: sum.splits option.splits if_splits)
  next
    case (Inr x)
    then show thesis
      using res run by (auto split: sum.splits intro: routed)
  qed
qed

text \<open>
  C8: a reconciliation of the main gateway points it at the target main's bolt
  address only if the store had the main's pod ready and not being deleted, its address is known, and
  the replicas the main lists pass the health check; in every other case the gateway is left as it is.
  No command is sent to a server either way.
\<close>

theorem gateway_follows_main:
  fixes s :: "'z controller_state_scheme" and env :: environment and c :: Config
  defines "t \<equiv> exec (reconcileGateway env c) s" and "m \<equiv> GetPodName c (targetMainIndex s)"
  assumes "cluster_wf s" and "targetMainIndex s \<noteq> - 1"
  shows "case eval_result (reconcileGateway env c) s of
      Inl e \<Rightarrow> gatewayServer t = gatewayServer s \<and> emits (command_to (\<lambda>a q. False)) s t
    | Inr _ \<Rightarrow> (\<exists>ip p. addresses s m = Some ip \<and> ip \<noteq> '''' \<and>
        GetUpstreamAddress (gatewayServer t) = ip @ '':7687'' \<and>
        IoStoreGet (pod_key c m) (Inr (Some p)) \<in> set (new_events s t) \<and> isPodReady p \<and>
        DeletionTimestamp p = None) \<and>
        replicas_healthy (nd_replicasInfo (node_at m t)) = None \<and>
        emits (\<lambda>e. is_upstream e \<or> command_to (\<lambda>a q. False) e) s t"
proof -
  let ?u = "exec (getPodFromCache env c m) s" and ?h = "\<lambda>u. exec (isHealthy env c) u"
  have u: "cluster_wf ?u" "emits (command_to (\<lambda>a q. False)) s ?u" "targetMainIndex ?u = targetMainIndex s"
    "gatewayServer ?u = gatewayServer s" "addresses ?u = addresses s"
    using io_relD [OF getPodFromCache_cluster [of "\<lambda>_ _. False" env c m], of s] assms(3)
    by (simp_all add: cluster_step_def commands_def trace_getPodFromCache)
  have h: "emits (command_to (\<lambda>a q. False)) ?u (?h ?u)" "gatewayServer (?h ?u) = gatewayServer s"
    using io_relD [OF isHealthy_read [of "\<lambda>_ _. False" env c], of ?u] u own_fieldsD(1) [of ?u "?h ?u"]
    by (simp_all add: read_step_def commands_def)
  show ?thesis
  proof (rule reconcileGateway_run [OF assms(3,4), of env c, folded m_def t_def])
    fix e assume "eval_result (reconcileGateway env c) s = Inl e" and "t \<in> {s, ?u, ?h ?u}"
    then show ?thesis using u h emits_trans [OF u(2) h(1)] by auto
  next
    fix p a
    assume a: "eval_result (reconcileGateway env c) s = Inr ()" "eval_result (getPodFromCache env c m) s = Inr p"
      "isPodReady p" "DeletionTimestamp p = None" "node_address m ?u = Inr a"
      "eval_result (isHealthy env c) ?u = None" "t = exec (set_main_upstream a) (?h ?u)"
    have ip: "\<exists>ip. addresses s m = Some ip \<and> ip \<noteq> '''' \<and> a = ip @ '':7687''"
      using GetBoltAddress_ip [of m ?u a] a(5) u(5) by (auto simp: node_address_def split: if_splits)
    have ht: "emits (\<lambda>e. is_upstream e \<or> command_to (\<lambda>a q. False) e) (?h ?u) t"
      using a(7) by (auto simp: set_main_run emits_def)
    have "emits (\<lambda>e. is_upstream e \<or> command_to (\<lambda>a q. False) e) s t"
      using emits_trans [OF emits_mono [OF emits_trans [OF u(2) h(1)]] ht] by simp
    moreover have "IoStoreGet (pod_key c m) (Inr (Some p)) \<in> set (new_events s t)"
      using getPodFromCache_run [OF a(2)] new_events_mono(1) [OF u(2) emits_trans [OF emits_mono [OF h(1)] ht]]
      by (auto simp: new_events_def)
    moreover have "replicas_healthy (nd_replicasInfo (node_at m t)) = None"
      using isHealthy_none [OF u(1) _ a(6)] u(3) assms(4) set_main_fields(4) [of a "?h ?u"] a(7)
      by (simp add: m_def node_at_def)
    ultimately show ?thesis
      using a(1,3,4,7) ip set_main_fields(1) [of a "?h ?u"] by auto
  qed
qed

theorem gateway_follows_main_witness:
  "let env = sim_env running_scenario;
       s = exec (GetTargetMainIndex env) (ready_controller running_scenario) in
     eval_result (reconcileGateway env sim_config) s = Inr () \<and>
     (\<exists>ip. addresses s ''mg-0'' = Some ip \<and>
        GetUpstreamAddress (gatewayServer (exec (reconcileGateway env sim_config) s)) = ip @ '':7687'')"
proof -
  let ?env = "sim_env running_scenario"
  let ?s = "exec (GetTargetMainIndex ?env) (ready_controller running_scenario)"
  have i: "targetMainIndex ?s = 0" by code_simp
  have m: "GetPodName sim_config 0 = ''mg-0''" by code_simp
  have "cluster_wf ?s" by simp
  moreover have "eval_result (reconcileGateway ?env sim_config) ?s = Inr ()" by code_simp
  ultimately show ?thesis
    using gateway_follows_main [of ?s ?env sim_config] by (auto simp: i m Let_def)
qed

subsection \<open>A whole reconciliation\<close>

lemma executeFailover_index:
  fixes s :: "'z controller_state_scheme"
  assumes wf: "ctl_wf s" and idx: "targetMainIndex s = i" "i \<noteq> - 1"
  shows "ctl_step (promotes c (1 - i)) s (exec (executeFailoverInternal env c) s)"
proof -
  let ?u = "exec (failover_check env c) s"
  have "read_step (\<lambda>_ _. False) s ?u" by (rule io_relD [OF failover_check_read])
  moreover from this have "targetMainIndex ?u = i"
    using idx wf by (auto simp: ctl_wf_def dest: read_index)
  moreover from calculation(1) have u: "ctl_step (promotes c (1 - i)) s ?u"
    by (rule ctl_weaken [OF read_ctl_step]) simp_all
  moreover from u have "ctl_wf ?u" using wf by (simp add: ctl_step_def)
  ultimately have "ctl_step (promotes c (1 - i)) ?u (exec (failover_commit env c j role) ?u)" for j role
    using idx(2) by (intro failover_commit_step) (auto simp: promotes_def)
  from ctl_frame.frame_trans [OF u this] show ?thesis
    using u by (simp add: executeFailoverInternal_def split: sum.split prod.split)
qed

lemma failover_check_promotes:
  fixes s :: "'z controller_state_scheme"
  assumes wf: "ctl_wf s" and idx: "targetMainIndex s = i" "i \<noteq> - 1"
  shows "ctl_step (promotes c (1 - i)) s (exec (performFailoverCheck env c None) s)"
proof -
  let ?u = "exec (getHealthyRole env c (GetPodName c i)) s"
  have ru: "read_step (\<lambda>_ _. False) s ?u" by (rule io_relD [OF cluster_read [OF getHealthyRole_cluster]])
  then have "targetMainIndex ?u = i" using idx wf by (auto simp: ctl_wf_def dest: read_index)
  moreover have u: "ctl_step (promotes c (1 - i)) s ?u"
    using ru by (rule ctl_weaken [OF read_ctl_step]) simp_all
  moreover from u have "ctl_wf ?u" using wf by (simp add: ctl_step_def)
  ultimately have "ctl_step (promotes c (1 - i)) ?u (exec (executeFailoverInternal env c) ?u)"
    using idx(2) by (intro executeFailover_index) simp_all
  from ctl_frame.frame_trans [OF u this] show ?thesis
    using u idx by (simp add: performFailoverCheck_def GetTargetMainIndex_def Let_def split: prod.split)
qed

lemma reconcileGateway_step: "state_io_rel (ctl_step P) (reconcileGateway env c)"
  unfolding reconcileGateway_def
  by (rule step_any, intro ctl_frame.frame_rules set_main_step)
    (simp_all add: read_ctl_any getTargetMainNode_read getPodFromCache_read isHealthy_read)

lemma cluster_ctl:
  fixes s t :: "'z controller_state_scheme"
  shows "cluster_step P s t \<Longrightarrow> (\<And>n. \<not> P n cmd_main) \<Longrightarrow> ctl_step P s t"
  by (rule read_ctl_step [OF cluster_read_step])

lemma cmd_distinct [simp]: "cmd_replica \<noteq> cmd_main" "cmd_register n m a \<noteq> cmd_main" "cmd_drop n \<noteq> cmd_main"
  by (simp_all add: cmd_replica_def cmd_main_def cmd_register_def cmd_drop_def)

lemma reconcile_command_no_promotion [simp]: "\<not> reconcile_command c i name cmd_main"
  by (auto simp: reconcile_command_def demotes_def registers_def dest: cmd_distinct [THEN not_sym, THEN notE])

lemma reconcile_replicas_step:
  fixes s :: "'z controller_state_scheme"
  assumes wf: "ctl_wf s" and idx: "targetMainIndex s = i" "i \<noteq> - 1" and known: "has_node (GetPodName c i) s"
  shows "ctl_step (reconcile_command c i) s (exec (reconcile_replicas env c (GetPodName c i) rm) s)"
proof -
  let ?m = "GetPodName c i" and ?C = "cluster_step (reconcile_command c i)"
  have cwf: "cluster_wf s" using wf by (simp add: ctl_wf_def)
  let ?a = "exec (getPodFromCache env c ?m) s"
  have a: "?C s ?a" by (rule io_relD [OF getPodFromCache_cluster])
  let ?ks = "map fst (MemgraphNodes ?a)"
  let ?b = "exec (range_keys env ?ks) ?a" and ?keys = "eval_result (range_keys env ?ks) ?a"
  have ab: "?C ?a ?b" by (rule io_relD [OF range_keys_cluster])
  note b = cluster_frame.frame_trans [OF a ab]
  have wb: "cluster_wf ?b" "addresses ?b = addresses s" "targetMainIndex ?b = i"
    using cluster_step_emits [OF b cwf] cluster_step_index [OF b cwf] idx by simp_all
  have "set ?keys = set ?ks" "MemgraphNodes ?b = MemgraphNodes ?a"
    by (simp_all add: range_keys_def call_run)
  then have "\<forall>k \<in> set ?keys. has_node k ?b" by (simp add: has_node_key)
  then have "?C ?b (exec (reconcile_nodes env c ?m rm ?keys) ?b)"
    using wb idx known by (intro reconcile_nodes_cluster) (simp_all add: has_node_book)
  then have d: "ctl_step (reconcile_command c i) s (exec (reconcile_nodes env c ?m rm ?keys) ?b)"
    by (intro cluster_ctl [OF cluster_frame.frame_trans [OF b]]) simp_all
  note e = ctl_frame.frame_trans [OF d io_relD [OF reconcileGateway_step [where env = env and c = c]]]
  show ?thesis
    using d e cluster_ctl [OF a] known_name [OF cwf known]
    by (simp add: reconcile_replicas_def split: sum.split)
qed

lemma reconcile_main_step:
  fixes s :: "'z controller_state_scheme"
  assumes wf: "ctl_wf s" and idx: "targetMainIndex s = i" "i \<noteq> - 1" and known: "has_node (GetPodName c i) s"
  shows "ctl_step (reconcile_command c i) s (exec (reconcile_main env c (GetPodName c i) e) s)"
proof -
  let ?m = "GetPodName c i"
  let ?a = "exec (updateReadGatewayUpstream env c) s"
  let ?b = "exec (on_node ?m (\<lambda>n. GetReplicas env n True)) ?a"
  have a: "ctl_step (reconcile_command c i) s ?a" by (rule io_relD [OF updateReadGatewayUpstream_step]) simp
  have wa: "ctl_wf ?a" "cluster_wf ?a" "addresses ?a = addresses s" using ctl_step_wf [OF a wf] by simp_all
  have ia: "targetMainIndex ?a = i"
    using io_relD [OF updateRead_main_kept [of env c], of s] wf idx by (simp add: main_kept_def ctl_wf_def)
  have b: "cluster_step (reconcile_command c i) ?a ?b" by (rule io_relD [OF replicas_cluster])
  have wb: "addresses ?b = addresses s" "targetMainIndex ?b = i"
    using cluster_step_emits [OF b wa(2)] cluster_step_index [OF b wa(2)] wa ia by simp_all
  have ab: "ctl_step (reconcile_command c i) s ?b"
    using ctl_frame.frame_trans [OF a cluster_ctl [OF b]] by simp
  then have "ctl_step (reconcile_command c i) ?b (exec (reconcile_replicas env c ?m rm) ?b)" for rm
    using ctl_step_wf [OF ab wf] wb idx known by (intro reconcile_replicas_step) (simp_all add: has_node_book)
  from ctl_frame.frame_trans [OF ab this] show ?thesis
    using ab by (simp add: reconcile_main_def split: prod.split option.split)
qed

end
