(* ===== verification/Main_Loop.thy ===== *)
theory Main_Loop
  imports Reconcile
begin

text \<open>
  \<open>Run\<close> of \<open>internal/controller/controller_reconcile.go\<close>: the controller's main loop, with the
  bootstrap of a cluster whose state is not stored yet; and the properties of a reconciliation as a
  whole.\<close>

section \<open>Definitions\<close>

subsection \<open>The main loop\<close>

datatype run_result = RunContinue | RunReturn "go_error option" | RunPanic

definition run_reconcile ::
  "environment \<Rightarrow> Config \<Rightarrow> int \<Rightarrow> int \<Rightarrow> ('z controller_state_scheme, run_result) state" where
  "run_reconcile env c now duration = do {
     r \<leftarrow> performReconciliationActions env c now duration;
     return (case r of None \<Rightarrow> RunPanic | Some _ \<Rightarrow> RunContinue) }"

text \<open>The discovery of a cluster whose state ConfigMap cannot be read.\<close>

definition run_bootstrap ::
  "environment \<Rightarrow> Config \<Rightarrow> int \<Rightarrow> int \<Rightarrow> ('z controller_state_scheme, run_result) state" where
  "run_bootstrap env c now duration = do {
     d \<leftarrow> discoverClusterState env c;
     case d of
       None \<Rightarrow> return RunPanic
     | Some (Inl e) \<Rightarrow> return (RunReturn (Some (Wrapped ''failed to discover cluster state'' e)))
     | Some (Inr i) \<Rightarrow>
         if i = - 1 then return RunContinue
         else do {
           w \<leftarrow> SetTargetMainIndex env i;
           case w of
             Inl e \<Rightarrow> return (RunReturn (Some (Wrapped ''failed to set target main index in ConfigMap'' e)))
           | Inr _ \<Rightarrow> run_reconcile env c now duration } }"

definition run_tick ::
  "environment \<Rightarrow> Config \<Rightarrow> int \<Rightarrow> int \<Rightarrow> ('z controller_state_scheme, run_result) state" where
  "run_tick env c now duration = do {
     leader \<leftarrow> gets IsLeader;
     if \<not> leader then return RunContinue
     else do {
       r \<leftarrow> GetTargetMainIndex env;
       case r of
         Inl e \<Rightarrow> run_bootstrap env c now duration
       | Inr _ \<Rightarrow> run_reconcile env c now duration } }"

text \<open>
  The loop over its wake-ups: the ticker at a time, for a tick that takes some time, or the end of the
  context, after which the controller stops.
\<close>

datatype run_wakeup = RunTick int int | RunDone go_error

fun run_loop ::
  "environment \<Rightarrow> Config \<Rightarrow> run_wakeup list \<Rightarrow> ('z controller_state_scheme, run_result) state" where
  "run_loop env c [] = return RunContinue"
| "run_loop env c (RunDone e # ws) = do {
     r \<leftarrow> ctl_stop;
     return (case r of None \<Rightarrow> RunPanic | Some _ \<Rightarrow> RunReturn (Some e)) }"
| "run_loop env c (RunTick now duration # ws) = do {
     r \<leftarrow> run_tick env c now duration;
     case r of
       RunContinue \<Rightarrow> run_loop env c ws
     | RunReturn e \<Rightarrow> return (RunReturn e)
     | RunPanic \<Rightarrow> return RunPanic }"

definition Run ::
  "environment \<Rightarrow> Config \<Rightarrow> run_wakeup list \<Rightarrow> ('z controller_state_scheme, run_result) state" where
  "Run env c ws = do {
     running \<leftarrow> gets isRunning;
     if running then
       return (RunReturn (Some (ErrorString ''controller reconciliation loop is already running'')))
     else do {
       modify (\<lambda>s. s\<lparr>isRunning := True, healthProber := snd (prober_Start (healthProber s))\<rparr>);
       run_loop env c ws } }"

subsection \<open>Frames\<close>

text \<open>Operations that leave the controller's own fields alone, but may learn of new nodes.\<close>

definition more_kept :: "'z controller_state_scheme \<Rightarrow> 'z controller_state_scheme \<Rightarrow> bool" where
  "more_kept s t \<longleftrightarrow> (cluster_wf s \<longrightarrow> cluster_wf t \<and> cluster_state.more t = cluster_state.more s)"

text \<open>
  Operations that leave the counters of reconciliations, the leadership, the running flag and the
  stop channel alone.
\<close>

definition recs :: "metrics \<Rightarrow> nat \<times> nat \<times> nat" where
  "recs m = (ReconciliationsTotal m, ReconciliationsSuccessful m, ReconciliationsFailed m)"

definition admin_kept :: "'z controller_state_scheme \<Rightarrow> 'z controller_state_scheme \<Rightarrow> bool" where
  "admin_kept s t \<longleftrightarrow> (cluster_wf s \<longrightarrow> cluster_wf t \<and> recMetrics t = recMetrics s \<and>
     isRunning t = isRunning s \<and> stopCh_closed t = stopCh_closed s \<and> leaderElection t = leaderElection s \<and>
     map_option recs (promMetrics t) = map_option recs (promMetrics s))"

section \<open>Lemmas\<close>

subsection \<open>Frames\<close>

lemma cluster_wf_rel:
  "state_io_rel (cluster_step P) m \<Longrightarrow> (\<And>n. \<not> P n cmd_main) \<Longrightarrow> state_io_rel wf_step m"
  by (rule ctl_wf_rel [OF read_ctl [OF cluster_read]])

lemma init_command_no_promotion [simp]: "\<not> init_command c name cmd_main"
  by (auto simp: init_command_def dest: cmd_distinct [THEN not_sym, THEN notE])

lemma discover_wf: "state_io_rel wf_step (discoverClusterState env c)"
  unfolding discoverClusterState_def
  by (intro wf_frame.frame_rules Refresh_wf cluster_wf_rel [OF cached_ready_step [of "\<lambda>_ _. False"]]
      cluster_wf_rel [OF isNewCluster_step [of "\<lambda>_ _. False"]])
    (auto split: option.split sum.split bool.split intro!: wf_frame.frame_rules
      cluster_wf_rel [OF discover_roles_step [of "\<lambda>_ _. False"]] cluster_wf_rel [OF initializeCluster_step])

interpretation more_frame: frame_relation more_kept
  by unfold_locales (auto simp: more_kept_def)

lemma cluster_more: "state_io_rel (cluster_step P) m \<Longrightarrow> state_io_rel more_kept m"
  by (auto simp: state_io_rel_def cluster_step_def more_kept_def)

lemma discover_more: "state_io_rel more_kept (discoverClusterState env c)"
proof -
  have r: "state_io_rel more_kept (Refresh env)"
    using Refresh_step [of env] by (auto simp: state_io_rel_def refresh_step_def more_kept_def)
  show ?thesis
    unfolding discoverClusterState_def
    by (intro more_frame.frame_rules r cluster_more [OF cached_ready_step] cluster_more [OF isNewCluster_step])
      (auto split: option.split sum.split bool.split intro!: more_frame.frame_rules
        cluster_more [OF discover_roles_step] cluster_more [OF initializeCluster_step])
qed

lemma count_error_step: "state_io_rel (ctl_step P) (count_reconcile_error now)"
  unfolding count_reconcile_error_def by (rule with_metrics_step)

lemma finish_step: "state_io_rel (ctl_step P) (finish_reconciliation now d e)"
  unfolding finish_reconciliation_def
  by (intro ctl_frame.frame_rules with_metrics_step ctl_step_modify) (simp_all add: read_upstream_def)

subsection \<open>A reconciliation as a whole\<close>

text \<open>The index after a failover check is the old one or the sync replica's.\<close>

lemma failover_finish_index:
  fixes s :: "'z controller_state_scheme"
  assumes "ctl_wf s" and "j \<noteq> - 1"
  shows "targetMainIndex (exec (failover_finish env c j) s) \<in> {targetMainIndex s, j}"
proof -
  let ?u = "exec (SetTargetMainIndex env j) s"
  have wf: "cluster_wf s" using assms(1) by (simp add: ctl_wf_def)
  note w = SetTargetMainIndex_result [OF wf, of env j]
  have wu: "ctl_wf ?u"
    using ctl_step_wf [OF io_relD [OF SetTargetMainIndex_step [of "\<lambda>_ _. False" env j], of s] assms(1)] by simp
  have "targetMainIndex (exec (updateReadGatewayUpstream env c) (exec (set_main_upstream a) ?u)) = j"
    if "targetMainIndex ?u = j" for a
  proof -
    let ?v = "exec (set_main_upstream a) ?u"
    have "ctl_wf ?v" using ctl_step_wf [OF io_relD [OF set_main_step [of "\<lambda>_ _. False" a], of ?u] wu] by simp
    then show ?thesis
      using io_relD [OF updateRead_main_kept [of env c], of ?v] set_main_fields(3) [of a ?u] that assms(2)
      by (simp add: main_kept_def ctl_wf_def)
  qed
  then show ?thesis
    using w by (cases "eval_result (SetTargetMainIndex env j) s")
      (auto simp: failover_finish_def split: sum.split)
qed

lemma failover_commit_index:
  fixes s :: "'z controller_state_scheme"
  assumes wf: "ctl_wf s" and "targetMainIndex s \<noteq> - 1" and "j \<noteq> - 1"
  shows "targetMainIndex (exec (failover_commit env c j role) s) \<in> {targetMainIndex s, j}"
  using failover_finish_index [OF drain_state(1) [OF wf] assms(3), of env c] drain_result(2) [of s]
    failover_finish_index [OF promoted_state(1) [OF wf assms(2), of env c] assms(3), of env c]
    promoted_state(3) [OF wf assms(2), of env c]
  by (simp add: failover_commit_run split: sum.split)

lemma failover_index:
  fixes s :: "'z controller_state_scheme"
  assumes wf: "ctl_wf s" and idx: "targetMainIndex s = i" "i \<in> {0, 1}"
  shows "targetMainIndex (exec (performFailoverCheck env c None) s) \<in> {0, 1}"
proof -
  let ?u = "exec (getHealthyRole env c (GetPodName c i)) s"
  have i: "i \<noteq> - 1" "1 - i \<noteq> - 1" "{i, 1 - i} = {0, 1}" using idx(2) by auto
  have ru: "read_step (\<lambda>_ _. False) s ?u" by (rule io_relD [OF cluster_read [OF getHealthyRole_cluster]])
  then have u: "targetMainIndex ?u = i" using idx i(1) wf by (auto simp: ctl_wf_def dest: read_index)
  have wu: "ctl_wf ?u" using ctl_step_wf [OF read_ctl_step [OF ru] wf] by simp
  have g: "eval_result (GetTargetMainIndex env) ?u = Inr i" using u i(1) by (simp add: GetTargetMainIndex_def)
  note chk = failover_check_state [OF wu g i(1), of c]
  have "targetMainIndex (exec (executeFailoverInternal env c) ?u) \<in> {i, 1 - i}"
    using wu g i(1)
  proof (cases rule: failover_cases [where env = env and c = c])
    case (committed role)
    then show ?thesis
      using failover_commit_index [OF chk(3), of "1 - i" env c role] chk(4) i(1,2) by simp
  qed (simp add: chk(4))
  then show ?thesis
    using u idx i by (simp add: performFailoverCheck_def GetTargetMainIndex_def Let_def split: prod.split)
qed

text \<open>The commands of the part after the refresh.\<close>

lemma reconcile_after_refresh:
  fixes u :: "'z controller_state_scheme" and env :: environment and c :: Config
  defines "v \<equiv> exec (performFailoverCheck env c None) u"
  assumes wf: "ctl_wf u" and idx: "targetMainIndex u \<noteq> - 1"
  shows "ctl_step (promotes c (1 - targetMainIndex u)) u v"
    and "eval_result (getTargetMainNode env c) v = Inr k \<Longrightarrow> targetMainIndex v \<noteq> - 1 \<Longrightarrow>
      ctl_step (reconcile_command c (targetMainIndex v)) v (exec (reconcile_main env c k e) v)"
proof -
  show v: "ctl_step (promotes c (1 - targetMainIndex u)) u v"
    unfolding v_def by (rule failover_check_promotes [OF wf refl idx])
  show "ctl_step (reconcile_command c (targetMainIndex v)) v (exec (reconcile_main env c k e) v)"
    if "eval_result (getTargetMainNode env c) v = Inr k" and "targetMainIndex v \<noteq> - 1"
    using main_node_known(2) [OF that(2,1)] that(2) ctl_step_wf [OF v wf]
    by (auto intro!: reconcile_main_step)
qed


lemma body_run:
  fixes s :: "'z controller_state_scheme" and env :: environment and c :: Config and now :: int
  defines "u \<equiv> exec (Refresh env) (exec (GetTargetMainIndex env) s)"
  defines "v \<equiv> exec (performFailoverCheck env c None) u"
  assumes wf: "ctl_wf s" and idx: "eval_result (GetTargetMainIndex env) s = Inr i" "i \<in> {0, 1}"
  shows "ctl_wf u" and "targetMainIndex u = i" and "emits (command_to (\<lambda>a q. False)) s u"
    and "ctl_step (promotes c (1 - i)) u v" and "targetMainIndex v \<in> {0, 1}"
    and "ctl_step (reconcile_command c (targetMainIndex v)) v (exec (reconcile_body env c now) s)"
proof -
  let ?g = "exec (GetTargetMainIndex env) s"
  have cwf: "cluster_wf s" using wf by (simp add: ctl_wf_def)
  have g: "read_step (\<lambda>_ _. False) s ?g" by (rule io_relD [OF GetTargetMainIndex_read])
  have wg: "ctl_wf ?g" "cluster_wf ?g" "targetMainIndex ?g = i"
    using ctl_step_wf [OF read_ctl_step [OF g] wf] GetTargetMainIndex_index [OF idx(1)] by simp_all
  have r: "refresh_step ?g u" unfolding u_def by (rule io_relD [OF Refresh_step])
  show wu: "ctl_wf u" using refresh_wf_step [OF r] wg by (simp add: wf_step_def)
  show iu: "targetMainIndex u = i"
    using r wg cluster_more_fields(3) [of u ?g] by (simp add: refresh_step_def)
  show "emits (command_to (\<lambda>a q. False)) s u"
    using g r cwf wg(2) emits_trans [of _ s ?g u] by (simp add: read_step_def refresh_step_def commands_def)
  have i: "targetMainIndex u \<noteq> - 1" using iu idx(2) by auto
  note after = reconcile_after_refresh [OF wu i, where c = c and env = env, folded v_def]
  show v: "ctl_step (promotes c (1 - i)) u v" using after(1) iu by simp
  show iv: "targetMainIndex v \<in> {0, 1}" unfolding v_def by (rule failover_index [OF wu iu idx(2)])
  let ?P = "reconcile_command c (targetMainIndex v)"
  define w where "w = (case eval_result (performFailoverCheck env c None) u of
      Inl e \<Rightarrow> exec (count_reconcile_error now) v | Inr _ \<Rightarrow> v)"
  have w: "ctl_step ?P v w"
    using io_relD [OF count_error_step [of ?P now], of v]
    by (simp add: w_def ctl_frame.frame_refl split: sum.split)
  have same: "targetMainIndex w = targetMainIndex v"
    by (simp add: w_def count_reconcile_error_def with_metrics_def split: sum.split)
  have ww: "ctl_wf w" using ctl_step_wf [OF w] ctl_step_wf [OF v wu] by simp
  have iw: "targetMainIndex w \<noteq> - 1" using iv same by auto
  note main = main_node_known [OF iw, of env c]
  have fin: "ctl_step ?P w (exec (reconcile_target env c now err) w)" for err
    using io_relD [OF count_error_step [of ?P now], of w] main reconcile_main_step [OF ww refl iw]
    by (auto simp: same reconcile_target_def split: sum.split)
  have "eval_result (Refresh env) ?g = Inr ()" "i \<noteq> - 1" using idx(2) by (auto simp: Refresh_def)
  then have "exec (reconcile_body env c now) s = exec (reconcile_target env c now
      (case eval_result (performFailoverCheck env c None) u of Inl e \<Rightarrow> Some e | Inr _ \<Rightarrow> None)) w"
    using idx(1)
    by (cases "eval_result (performFailoverCheck env c None) u")
      (simp_all add: reconcile_body_def w_def u_def v_def)
  then show "ctl_step ?P v (exec (reconcile_body env c now) s)"
    using ctl_frame.frame_trans [OF w fin] by simp
qed




subsection \<open>No panic\<close>

lemma replica_map_aux:
  "r \<in> snd ` set (foldl (\<lambda>m r. AList.update (ri_Name r) r m) m rs) \<Longrightarrow> r \<in> snd ` set m \<or> r \<in> set rs"
proof (induction rs arbitrary: m)
  case (Cons x xs)
  then show ?case by (fastforce dest: alist_update_mem)
qed simp

lemma replica_map_mem: "(name, r) \<in> set (replica_map rs) \<Longrightarrow> r \<in> set rs"
  using replica_map_aux [of r "[]" rs] by (force simp: replica_map_def)

lemma node_at_replicas: "cluster_wf s \<Longrightarrow> list_all replica_wf (nd_replicasInfo (node_at k s))"
  by (auto simp: node_at_def nil_node_def node_wf_def dest: map_of_wf split: option.split)

lemma replicas_parsed:
  assumes wf: "cluster_wf s" and res: "eval_result (on_node k (\<lambda>n. GetReplicas env n b)) s = (rs, None)"
  shows "\<not> list_ex (\<lambda>(name, r). nil_data r) (replica_map rs)"
proof -
  let ?f = "\<lambda>n. GetReplicas env n b"
  obtain n' where n': "eval_result (?f (node_at k s)) s = ((rs, None), n')"
    using res by (cases "eval_result (?f (node_at k s)) s") (auto simp: eval_on_node)
  have "node_kept (node_at k s) n'"
    using node_operation.op_kept [OF replicas_op.node_operation_axioms, of "node_at k s" env b s] n' by simp
  then have "list_all replica_wf rs"
    using node_at_replicas [OF wf] GetReplicas_result [OF n'] by (simp add: node_kept_def)
  then show ?thesis
    by (auto simp: list_ex_iff list_all_iff nil_data_def replica_wf_def dest!: replica_map_mem split: option.splits)
qed

lemma reconcile_main_returns:
  assumes "ctl_wf s"
  shows "snd (eval_result (reconcile_main env c k e) s) \<noteq> None"
proof -
  have "cluster_wf (exec (updateReadGatewayUpstream env c) s)"
    using ctl_step_wf [OF io_relD [OF updateReadGatewayUpstream_step [of "\<lambda>_ _. False" env c], of s] assms] by simp
  from replicas_parsed [OF this, of k env True] show ?thesis
    by (auto simp: reconcile_main_def split: option.splits prod.splits)
qed


lemmas check_wf = ctl_wf_rel [OF performFailoverCheck_step [of "\<lambda>_ _. True"], simplified]
lemmas main_node_wf = read_wf_rel [OF getTargetMainNode_read]
lemmas count_wf = ctl_wf_rel [OF count_error_step [of "\<lambda>_ _. False"]]

text \<open>
  C18: a reconciliation never dereferences missing replica data, whatever the
  servers answer: the data of every replica that a node lists was parsed.
\<close>

theorem reconciliation_never_panics:
  fixes s :: "'z controller_state_scheme"
  assumes "ctl_wf s"
  shows "eval_result (performReconciliationActions env c now d) s \<noteq> None"
proof -
  let ?u = "exec (Refresh env) (exec (GetTargetMainIndex env) s)"
  let ?v = "exec (performFailoverCheck env c None) ?u"
  have v: "ctl_wf ?v" by (intro wf_rel_step [OF check_wf] wf_rel_step [OF Refresh_wf] wf_rel_step [OF index_wf] assms)
  have tail: "snd (eval_result (reconcile_target env c now err) w) \<noteq> None" if "ctl_wf w" for err and w :: "'z controller_state_scheme"
    using reconcile_main_returns [OF wf_rel_step [OF main_node_wf that]] by (simp add: reconcile_target_def split: sum.split)
  have "snd (eval_result (reconcile_body env c now) s) \<noteq> None"
  proof (cases "eval_result (GetTargetMainIndex env) s")
    case (Inr i)
    have "eval_result (Refresh env) (exec (GetTargetMainIndex env) s) = Inr ()" by (simp add: Refresh_def)
    then show ?thesis
      using Inr tail [OF v] tail [OF wf_rel_step [OF count_wf v]]
      by (cases "eval_result (performFailoverCheck env c None) ?u") (auto simp: reconcile_body_def)
  qed (simp add: reconcile_body_def)
  then show ?thesis by (auto simp: performReconciliationActions_def split: prod.split)
qed

theorem reconciliation_never_panics_witness:
  "ctl_wf (ready_controller running_scenario) \<and>
   eval_result (performReconciliationActions (sim_env running_scenario) sim_config 7 1)
     (ready_controller running_scenario) \<noteq> None"
  using reconciliation_never_panics [OF ready_wf] by auto

subsection \<open>The counters\<close>

interpretation admin_frame: frame_relation admin_kept
  by unfold_locales (auto simp: admin_kept_def)

lemma read_admin: "state_io_rel (read_step P) m \<Longrightarrow> state_io_rel admin_kept m"
  by (auto simp: state_io_rel_def read_step_def admin_kept_def own_fieldsD)

lemmas cluster_admin = read_admin [OF cluster_read]

lemma modify_admin:
  assumes "\<And>s. trace (f s) = trace s" and "\<And>s. drivers (f s) = drivers s"
    and "\<And>s. MemgraphNodes (f s) = MemgraphNodes s" and "\<And>s. recMetrics (f s) = recMetrics s"
    and "\<And>s. isRunning (f s) = isRunning s" and "\<And>s. stopCh_closed (f s) = stopCh_closed s"
    and "\<And>s. leaderElection (f s) = leaderElection s"
    and "\<And>s. map_option recs (promMetrics (f s)) = map_option recs (promMetrics s)"
  shows "state_io_rel admin_kept (modify f)"
  by (rule io_relI) (simp add: admin_kept_def cluster_wf_def pool_wf_def assms)

lemma with_metrics_admin: "(\<And>m. recs (f m) = recs m) \<Longrightarrow> state_io_rel admin_kept (with_metrics f)"
  unfolding with_metrics_def by (rule modify_admin) (simp_all add: option.map_comp comp_def)

lemma set_upstream_admin: "state_io_rel admin_kept (set_main_upstream a)" "state_io_rel admin_kept (set_read_upstream a)"
  by (rule io_relI, auto simp: admin_kept_def cluster_wf_def pool_wf_def set_main_run set_read_run split: option.split)+

lemma disconnect_read_admin: "state_io_rel admin_kept disconnect_read"
  unfolding disconnect_read_def by (rule modify_admin) simp_all

lemma SetTargetMainIndex_admin: "state_io_rel admin_kept (SetTargetMainIndex env i)"
  unfolding SetTargetMainIndex_def cm_update_def cm_create_def
  by (intro admin_frame.frame_rules read_admin [OF read_step_call] with_metrics_admin modify_admin
      read_admin [OF getControllerOwnerReference_read])
    (simp_all add: recs_def RecordMainChange_def)

lemma updateRead_admin: "state_io_rel admin_kept (updateReadGatewayUpstream env c)"
  unfolding updateReadGatewayUpstream_def route_read_def
  by (intro admin_frame.frame_rules set_upstream_admin read_admin [OF selectBestReplica_read]
      read_admin [OF getTargetMainNode_read])

lemma promote_admin: "state_io_rel admin_kept (promoteSyncReplica env c)"
  unfolding promoteSyncReplica_def protectReadGatewayBeforeRoleChange_def Let_def
  by (intro admin_frame.frame_rules read_admin [OF GetTargetMainIndex_read] set_upstream_admin
      disconnect_read_admin cluster_admin [OF role_cluster]
      cluster_admin [OF on_node_step [OF main_op.node_operation_axioms, of "\<lambda>_ _. True"]]) simp

lemma performFailoverCheck_admin: "state_io_rel admin_kept (performFailoverCheck env c event)"
  unfolding performFailoverCheck_def executeFailoverInternal_def failover_commit_def drain_def
    failover_finish_def Let_def
  by (intro admin_frame.frame_rules read_admin [OF GetTargetMainIndex_read] set_upstream_admin
      read_admin [OF failover_check_read] promote_admin SetTargetMainIndex_admin updateRead_admin
      cluster_admin [OF lastChancePing_cluster] cluster_admin [OF getHealthyRole_cluster])


lemma reconcile_node_admin: "state_io_rel admin_kept (reconcile_node env c m rm k)"
  unfolding reconcile_node_def register_missing_def Let_def
  by (intro admin_frame.frame_rules read_admin [OF getTargetSyncReplicaNode_read]
      cluster_admin [OF getPodFromCache_cluster] cluster_admin [OF registration_safe_cluster]
      cluster_admin [OF ensure_replica_cluster [of "\<lambda>_ _. True"]]
      cluster_admin [OF register_replica_cluster [of "\<lambda>_ _. True"]]) simp_all

lemma reconcile_nodes_admin: "state_io_rel admin_kept (reconcile_nodes env c m rm ks)"
  by (induction ks) (auto intro!: admin_frame.frame_rules reconcile_node_admin)

lemma reconcileGateway_admin: "state_io_rel admin_kept (reconcileGateway env c)"
  unfolding reconcileGateway_def
  by (intro admin_frame.frame_rules set_upstream_admin read_admin [OF getTargetMainNode_read]
      read_admin [OF getPodFromCache_read] read_admin [OF isHealthy_read])

lemma Refresh_admin: "state_io_rel admin_kept (Refresh env)"
proof (rule io_relI)
  fix s :: "'z controller_state_scheme"
  let ?t = "exec (Refresh env) s"
  show "admin_kept s ?t"
    using io_relD [OF Refresh_step [of env], of s] own_fieldsD [OF own_fields_more [of ?t s]]
    by (simp add: refresh_step_def admin_kept_def)
qed

lemma reconcile_replicas_admin: "state_io_rel admin_kept (reconcile_replicas env c m rm)"
  unfolding reconcile_replicas_def
  by (intro admin_frame.frame_rules cluster_admin [OF getPodFromCache_cluster]
      cluster_admin [OF range_keys_cluster] reconcile_nodes_admin reconcileGateway_admin)

lemma reconcile_main_admin: "state_io_rel admin_kept (reconcile_main env c m e)"
  unfolding reconcile_main_def
  by (intro admin_frame.frame_rules updateRead_admin cluster_admin [OF replicas_cluster] reconcile_replicas_admin)

lemma reconcile_body_admin: "state_io_rel admin_kept (reconcile_body env c now)"
proof -
  have e: "state_io_rel admin_kept (count_reconcile_error now)"
    unfolding count_reconcile_error_def by (rule with_metrics_admin) (simp add: recs_def RecordError_def)
  show ?thesis
    unfolding reconcile_body_def reconcile_target_def
    by (intro admin_frame.frame_rules Refresh_admin e read_admin [OF GetTargetMainIndex_read]
        performFailoverCheck_admin read_admin [OF getTargetMainNode_read] reconcile_main_admin)
qed

lemma recs_record:
  "recs (RecordReconciliation now ok d m) = (ReconciliationsTotal m + 1,
     ReconciliationsSuccessful m + (if ok then 1 else 0), ReconciliationsFailed m + (if ok then 0 else 1))"
  by (cases ok) (simp_all add: recs_def RecordReconciliation_def Let_def)

text \<open>
  C19: every reconciliation is counted exactly once, in the controller's own
  metrics and in the exported ones alike: the total grows by one, and so does exactly one of the
  successes and the failures, the same one in both.
\<close>

theorem reconciliation_counted:
  fixes s :: "'z controller_state_scheme" and env :: environment and c :: Config and now d :: int
  defines "r \<equiv> recMetrics s" and "r' \<equiv> recMetrics (exec (performReconciliationActions env c now d) s)"
  assumes "cluster_wf s"
  shows "\<exists>ok. rm_TotalReconciliations r' = rm_TotalReconciliations r + 1 \<and>
    rm_SuccessfulReconciliations r' = rm_SuccessfulReconciliations r + (if ok then 1 else 0) \<and>
    rm_FailedReconciliations r' = rm_FailedReconciliations r + (if ok then 0 else 1) \<and>
    map_option recs (promMetrics (exec (performReconciliationActions env c now d) s)) =
      map_option (\<lambda>m. (ReconciliationsTotal m + 1, ReconciliationsSuccessful m + (if ok then 1 else 0),
        ReconciliationsFailed m + (if ok then 0 else 1))) (promMetrics s)"
proof -
  let ?b = "exec (reconcile_body env c now) s" and ?e = "fst (eval_result (reconcile_body env c now) s)"
  have b: "recMetrics ?b = r" "map_option recs (promMetrics ?b) = map_option recs (promMetrics s)"
    using io_relD [OF reconcile_body_admin [of env c now], of s] assms(3) by (simp_all add: admin_kept_def r_def)
  have t: "exec (performReconciliationActions env c now d) s = exec (finish_reconciliation now d ?e) ?b"
    by (simp add: performReconciliationActions_def split: prod.split)
  have "map_option recs (promMetrics (exec (finish_reconciliation now d ?e) ?b)) =
      map_option (\<lambda>(x, y, z). (x + 1, y + (if ?e = None then 1 else 0), z + (if ?e = None then 0 else 1)))
        (map_option recs (promMetrics ?b))"
    by (simp add: finish_reconciliation_def with_metrics_def option.map_comp comp_def recs_record)
      (simp add: recs_def)
  also have "\<dots> = map_option (\<lambda>m. (ReconciliationsTotal m + 1, ReconciliationsSuccessful m + (if ?e = None then 1 else 0),
        ReconciliationsFailed m + (if ?e = None then 0 else 1))) (promMetrics s)"
    by (simp add: b(2) option.map_comp comp_def) (simp add: recs_def)
  finally show ?thesis
    using b(1) unfolding r'_def t
    by (intro exI [of _ "?e = None"])
      (simp add: finish_reconciliation_def with_metrics_def record_metrics_def Let_def split: option.split)
qed

theorem reconciliation_counted_witness:
  "rm_TotalReconciliations (recMetrics (exec (performReconciliationActions (sim_env running_scenario) sim_config 7 1)
     (ready_controller running_scenario))) = rm_TotalReconciliations (recMetrics (ready_controller running_scenario)) + 1"
  using reconciliation_counted [OF ready_cluster_wf(1), of "sim_env running_scenario" sim_config 7 1 running_scenario]
  by auto

subsection \<open>The main loop\<close>

text \<open>Nothing after the failover check of a reconciliation makes a server main.\<close>

lemma reconcile_node_wf: "state_io_rel wf_step (reconcile_node env c m rm k)"
  unfolding reconcile_node_def register_missing_def Let_def
  by (intro wf_frame.frame_rules read_wf_rel [OF getTargetSyncReplicaNode_read]
      read_wf_rel [OF getPodFromCache_read] read_wf_rel [OF cluster_read [OF registration_safe_cluster]]
      cluster_wf_rel [OF ensure_replica_cluster [of "\<lambda>_ q. q \<noteq> cmd_main"]]
      cluster_wf_rel [OF register_replica_cluster [of "\<lambda>_ q. q \<noteq> cmd_main"]]) simp_all

lemma reconcile_nodes_wf: "state_io_rel wf_step (reconcile_nodes env c m rm ks)"
  by (induction ks) (auto intro!: wf_frame.frame_rules reconcile_node_wf)

lemma reconcile_main_wf: "state_io_rel wf_step (reconcile_main env c m e)"
  unfolding reconcile_main_def reconcile_replicas_def
  by (intro wf_frame.frame_rules reconcile_nodes_wf ctl_wf_rel [OF reconcileGateway_step]
      ctl_wf_rel [OF updateReadGatewayUpstream_step [of "\<lambda>_ _. False"]] read_wf_rel [OF replicas_read]
      read_wf_rel [OF getPodFromCache_read] read_wf_rel [OF range_keys_read]) simp

lemma performReconciliationActions_wf: "state_io_rel wf_step (performReconciliationActions env c now d)"
  unfolding performReconciliationActions_def reconcile_body_def reconcile_target_def
  by (intro wf_frame.frame_rules Refresh_wf index_wf check_wf main_node_wf count_wf reconcile_main_wf
      ctl_wf_rel [OF finish_step])

lemma run_tick_wf: "state_io_rel wf_step (run_tick env c now d)"
  unfolding run_tick_def run_bootstrap_def run_reconcile_def
  by (intro wf_frame.frame_rules index_wf discover_wf performReconciliationActions_wf
      ctl_wf_rel [OF SetTargetMainIndex_step [of "\<lambda>_ _. False"]]) simp

lemma stop_wf: "state_io_rel wf_step ctl_stop"
  unfolding ctl_stop_def close_stopCh_def
  by (intro wf_frame.frame_rules ctl_wf_rel [OF ctl_step_modify]) (simp_all add: read_upstream_def)

lemma run_loop_wf:
  "state_io_rel wf_step (run_loop env c ws :: ('z controller_state_scheme, run_result) state)"
proof (induction env c ws rule: run_loop.induct)
  case (2 env c e ws)
  then show ?case by (auto intro!: wf_frame.frame_rules stop_wf)
next
  case (3 env c now d ws)
  have "state_io_rel wf_step (case r of
        RunContinue \<Rightarrow> run_loop env c ws :: ('z controller_state_scheme, run_result) state
      | RunReturn e \<Rightarrow> return (RunReturn e) | RunPanic \<Rightarrow> return RunPanic)" for r
    using 3 by (cases r) (auto intro: wf_frame.frame_return)
  then show ?case by (auto intro!: wf_frame.frame_bind run_tick_wf)
qed (simp add: wf_frame.frame_return)

lemma Run_wf: "state_io_rel wf_step (Run env c ws)"
  unfolding Run_def
  by (intro wf_frame.frame_rules run_loop_wf ctl_wf_rel [OF ctl_step_modify]) (simp_all add: read_upstream_def)


lemma run_loop_returns: "RunDone e \<in> set ws \<Longrightarrow> eval_result (run_loop env c ws) s \<noteq> RunContinue"
  by (induction env c ws arbitrary: s rule: run_loop.induct) (auto split: run_result.splits option.splits)



text \<open>
  C37: when the state of the cluster is not stored and the discovery fails, the
  main loop returns the error but leaves the running flag up, so that every later call of
  \<open>Run\<close> is refused.
\<close>

theorem discovery_failure_ends_loop:
  fixes s :: "'z controller_state_scheme" and env :: environment and c :: Config and ws :: "run_wakeup list"
    and now d :: int
  defines "u \<equiv> exec (GetTargetMainIndex env) s" and "t \<equiv> exec (run_loop env c (RunTick now d # ws)) s"
  assumes "cluster_wf s" and "IsLeader s" and "isRunning s"
    and "eval_result (GetTargetMainIndex env) s = Inl e'"
    and "eval_result (discoverClusterState env c) u = Some (Inl e)"
  shows "eval_result (run_loop env c (RunTick now d # ws)) s =
      RunReturn (Some (Wrapped ''failed to discover cluster state'' e)) \<and>
    eval_result (Run env' c' ws') t =
      RunReturn (Some (ErrorString ''controller reconciliation loop is already running''))"
proof -
  have ru: "read_step (\<lambda>_ _. False) s u" unfolding u_def by (rule io_relD [OF GetTargetMainIndex_read])
  then have u: "cluster_wf u" "isRunning u"
    using assms(3,5) own_fieldsD(7) [of s u] by (simp_all add: read_step_def)
  have t: "t = exec (discoverClusterState env c) u"
    using assms(4,6,7) by (simp add: t_def u_def run_tick_def run_bootstrap_def)
  have "more_kept u t" unfolding t by (rule io_relD [OF discover_more])
  then have "isRunning t" using u own_fieldsD(7) [OF own_fields_more [of t u]] by (simp add: more_kept_def)
  then show ?thesis
    using assms(4,6,7) by (simp add: u_def run_tick_def run_bootstrap_def Run_def)
qed

theorem discovery_failure_ends_loop_witness:
  "let env = sim_env (fresh_scenario\<lparr>sc_roles := []\<rparr>);
       t = exec (run_loop env sim_config [RunTick 0 0]) leading_controller in
     eval_result (run_loop env sim_config [RunTick 0 0]) leading_controller =
       RunReturn (Some (Wrapped ''failed to discover cluster state'' unknown_state)) \<and>
     eval_result (Run env sim_config []) t =
       RunReturn (Some (ErrorString ''controller reconciliation loop is already running''))"
proof -
  let ?env = "sim_env (fresh_scenario\<lparr>sc_roles := []\<rparr>)" and ?s = leading_controller
  have i: "isRunning ?s" "IsLeader ?s" by code_simp+
  have g: "eval_result (GetTargetMainIndex ?env) ?s =
      Inl (Wrapped ''ConfigMap not available'' (NotFound ''configmaps not found''))"
    by code_simp
  have d: "eval_result (discoverClusterState ?env sim_config) (exec (GetTargetMainIndex ?env) ?s) =
      Some (Inl unknown_state)"
    by code_simp
  show ?thesis
    unfolding Let_def by (rule discovery_failure_ends_loop [OF leading_wf(2) i(2,1) g d])
qed

end
