(* ===== verification/Pod_Events.thy ===== *)
theory Pod_Events
  imports Main_Loop
begin

text \<open>
  The informer's callbacks of \<open>internal/controller/controller_events.go\<close> and the handler of
  \<open>internal/controller/queue_reconcile.go\<close>. Each callback runs at a time \<open>now\<close>, the timestamp
  of the events it queues. A deletion may come as a tombstone in place of the pod (the informer's
  \<open>DeletedFinalStateUnknown\<close>), on which the type assertion panics: \<open>None\<close>.
\<close>

section \<open>Definitions\<close>

subsection \<open>The reconcile queue\<close>

definition enqueueReconcileEvent ::
  "int \<Rightarrow> string \<Rightarrow> string \<Rightarrow> string \<Rightarrow> ('z controller_state_scheme, unit) state" where
  "enqueueReconcileEvent now eventType reason podName = modify (\<lambda>s. s\<lparr>reconcileQueue :=
     try_send 100 \<lparr>re_Type = eventType, re_Reason = reason, re_PodName = podName, re_Timestamp = now\<rparr>
       (reconcileQueue s)\<rparr>)"

text \<open>\<open>None\<close> when the event is ignored, else the result of the reconciliation.\<close>

definition handleReconcileEvent :: "environment \<Rightarrow> Config \<Rightarrow> int \<Rightarrow> int \<Rightarrow> reconcile_event
    \<Rightarrow> ('z controller_state_scheme, go_error option option option) state" where
  "handleReconcileEvent env c now duration event = do {
     leader \<leftarrow> gets IsLeader;
     if \<not> leader then return None
     else do {
       rq \<leftarrow> gets reconcileQueue;
       let (go, rq') = dedup now (reconcile_key event) (re_Timestamp event) rq;
       modify (\<lambda>s. s\<lparr>reconcileQueue := rq'\<rparr>);
       if \<not> go then return None
       else do {
         r \<leftarrow> performReconciliationActions env c now duration;
         return (Some r) } } }"

definition stopReconcileQueue :: "('z controller_state_scheme, unit) state" where
  "stopReconcileQueue = modify (\<lambda>s. s\<lparr>reconcileQueue := cancel_queue (reconcileQueue s)\<rparr>)"

text \<open>
  One turn of the queue's processor. When an event waits and the context is done as well, the
  \<open>select\<close> may take either: \<open>stop\<close> is its choice. The result tells whether the processor goes on.
\<close>

definition processReconcileQueue ::
  "environment \<Rightarrow> Config \<Rightarrow> int \<Rightarrow> int \<Rightarrow> bool \<Rightarrow> ('z controller_state_scheme, bool) state" where
  "processReconcileQueue env c now duration stop = do {
     rq \<leftarrow> gets reconcileQueue;
     case receive rq of
       None \<Rightarrow> return (\<not> q_cancelled rq)
     | Some (event, rq') \<Rightarrow>
         if q_cancelled rq \<and> stop then return False
         else do {
           modify (\<lambda>s. s\<lparr>reconcileQueue := rq'\<rparr>);
           handleReconcileEvent env c now duration event;
           return True } }"

definition processFailoverCheckQueue ::
  "environment \<Rightarrow> Config \<Rightarrow> int \<Rightarrow> bool \<Rightarrow> ('z controller_state_scheme, bool) state" where
  "processFailoverCheckQueue env c now stop = do {
     fq \<leftarrow> gets failoverCheckQueue;
     case receive fq of
       None \<Rightarrow> return (\<not> q_cancelled fq)
     | Some (event, fq') \<Rightarrow>
         if q_cancelled fq \<and> stop then return False
         else do {
           modify (\<lambda>s. s\<lparr>failoverCheckQueue := fq'\<rparr>);
           handleFailoverCheckEvent env c now event;
           return True } }"

subsection \<open>Replicas and the read gateway\<close>

definition handleReplicaHealthChange ::
  "environment \<Rightarrow> Config \<Rightarrow> pod \<Rightarrow> pod \<Rightarrow> ('z controller_state_scheme, unit) state" where
  "handleReplicaHealthChange env c oldPod newPod = do {
     rg \<leftarrow> gets readGatewayServer;
     case rg of
       None \<Rightarrow> return ()
     | Some gw \<Rightarrow>
         if \<not> isPodReady oldPod \<or> isPodReady newPod then return ()
         else if GetUpstreamAddress gw = '''' then return ()
         else if GetUpstreamAddress gw = PodIP newPod @ '':7687'' then updateReadGatewayUpstream env c
         else return () }"

definition handleReplicaDeleted ::
  "environment \<Rightarrow> Config \<Rightarrow> pod \<Rightarrow> ('z controller_state_scheme, unit) state" where
  "handleReplicaDeleted env c deletedPod = do {
     rg \<leftarrow> gets readGatewayServer;
     case rg of
       None \<Rightarrow> return ()
     | Some gw \<Rightarrow>
         if GetUpstreamAddress gw = '''' then return ()
         else if GetUpstreamAddress gw = PodIP deletedPod @ '':7687'' then do {
           disconnect_read;
           set_read_upstream '''';
           updateReadGatewayUpstream env c }
         else return () }"

subsection \<open>The callbacks\<close>

definition onPodAdd :: "environment \<Rightarrow> Config \<Rightarrow> int \<Rightarrow> pod \<Rightarrow> ('z controller_state_scheme, unit) state" where
  "onPodAdd env c now p = do {
     leader \<leftarrow> gets IsLeader;
     if \<not> leader then return ()
     else do {
       r \<leftarrow> GetTargetMainIndex env;
       case r of
         Inl e \<Rightarrow> return ()
       | Inr _ \<Rightarrow> enqueueReconcileEvent now ''pod-add'' ''pod-added'' (PodName p) } }"

definition onPodUpdate ::
  "environment \<Rightarrow> Config \<Rightarrow> int \<Rightarrow> pod \<Rightarrow> pod \<Rightarrow> ('z controller_state_scheme, unit) state" where
  "onPodUpdate env c now oldPod newPod = do {
     leader \<leftarrow> gets IsLeader;
     if \<not> leader then return ()
     else do {
       r \<leftarrow> GetTargetMainIndex env;
       case r of
         Inl e \<Rightarrow> return ()
       | Inr i \<Rightarrow> do {
           (if PodIP oldPod \<noteq> PodIP newPod \<and> PodIP newPod \<noteq> ''''
            then UpdatePodIP env (PodName newPod) (PodIP newPod) else return ());
           (if GetPodName c i = PodName newPod then
              (if isPodBecomeUnhealthy (Some oldPod) (Some newPod)
               then enqueueFailoverCheckEvent now ''pod-update'' ''main-pod-unhealthy'' (PodName newPod)
               else return ())
            else handleReplicaHealthChange env c oldPod newPod);
           if \<not> shouldReconcile oldPod newPod then return ()
           else enqueueReconcileEvent now ''pod-update'' ''pod-state-changed'' (PodName newPod) } } }"

datatype event_object = PodObject pod | DeletedFinalStateUnknown string

definition onPodDelete ::
  "environment \<Rightarrow> Config \<Rightarrow> int \<Rightarrow> event_object \<Rightarrow> ('z controller_state_scheme, unit option) state" where
  "onPodDelete env c now obj = do {
     leader \<leftarrow> gets IsLeader;
     if \<not> leader then return (Some ())
     else do {
       r \<leftarrow> GetTargetMainIndex env;
       case r of
         Inl e \<Rightarrow> return (Some ())
       | Inr i \<Rightarrow> (case obj of
           DeletedFinalStateUnknown key \<Rightarrow> return None
         | PodObject p \<Rightarrow> do {
             InvalidatePodConnection env (PodName p);
             (if GetPodName c i \<noteq> '''' \<and> PodName p = GetPodName c i then return ()
              else handleReplicaDeleted env c p);
             enqueueReconcileEvent now ''pod-delete'' ''pod-deleted'' (PodName p);
             return (Some ()) }) } }"

section \<open>Lemmas\<close>

subsection \<open>Frames\<close>

lemma pool_ctl:
  fixes s t :: "'z controller_state_scheme"
  assumes "pool_step pool_event s t"
  shows "ctl_step P s t"
proof -
  have "cluster_step (\<lambda>_ _. False) s t"
    using assms by (rule pool_to_cluster) (auto simp: pool_event_def commands_def split: io.splits)
  then show ?thesis by (rule ctl_weaken [OF cluster_ctl]) simp_all
qed

lemma pool_ctl_rel: "state_io_rel (pool_step pool_event) m \<Longrightarrow> state_io_rel (ctl_step P) m"
  by (auto simp: state_io_rel_def intro: pool_ctl)

lemma enqueueReconcileEvent_step: "state_io_rel (ctl_step P) (enqueueReconcileEvent now ty reason k)"
  unfolding enqueueReconcileEvent_def by (rule ctl_step_modify) (simp_all add: read_upstream_def)

lemma updateRead_any: "state_io_rel (ctl_step P) (updateReadGatewayUpstream env c)"
  by (rule step_any [OF updateReadGatewayUpstream_step]) simp

lemma replica_handlers_step:
  "state_io_rel (ctl_step P) (handleReplicaHealthChange env c old new)"
  "state_io_rel (ctl_step P) (handleReplicaDeleted env c p)"
  unfolding handleReplicaHealthChange_def handleReplicaDeleted_def
  by (intro ctl_frame.frame_rules updateRead_any disconnect_read_step set_read_step)+

lemma onPodAdd_step: "state_io_rel (ctl_step P) (onPodAdd env c now p)"
  unfolding onPodAdd_def
  by (intro ctl_frame.frame_rules read_ctl_any [OF GetTargetMainIndex_read] enqueueReconcileEvent_step)

lemma onPodUpdate_step: "state_io_rel (ctl_step P) (onPodUpdate env c now old new)"
  unfolding onPodUpdate_def
  by (intro ctl_frame.frame_rules read_ctl_any [OF GetTargetMainIndex_read] enqueueReconcileEvent_step
      enqueueFailoverCheckEvent_step replica_handlers_step pool_ctl_rel [OF UpdatePodIP_step])

lemma case_event_object:
  "(\<And>p. state_io_rel R (f p)) \<Longrightarrow> (\<And>k. state_io_rel R (g k)) \<Longrightarrow>
   state_io_rel R (case obj of PodObject p \<Rightarrow> f p | DeletedFinalStateUnknown k \<Rightarrow> g k)"
  by (cases obj) simp_all

lemma onPodDelete_step: "state_io_rel (ctl_step P) (onPodDelete env c now obj)"
  unfolding onPodDelete_def
  by (intro ctl_frame.frame_rules case_event_object read_ctl_any [OF GetTargetMainIndex_read]
      enqueueReconcileEvent_step replica_handlers_step pool_ctl_rel [OF InvalidatePodConnection_step])

lemma handleReconcileEvent_wf: "state_io_rel wf_step (handleReconcileEvent env c now d event)"
  unfolding handleReconcileEvent_def Let_def
  by (intro wf_frame.frame_rules performReconciliationActions_wf ctl_wf_rel [OF ctl_step_modify])
    (simp_all add: read_upstream_def)

lemmas handleFailover_wf = ctl_wf_rel [OF handleFailoverCheckEvent_step [of "\<lambda>_ _. True"], simplified]

lemma processors_wf:
  "state_io_rel wf_step (processReconcileQueue env c now d stop)"
  "state_io_rel wf_step (processFailoverCheckQueue env c now stop)"
  unfolding processReconcileQueue_def processFailoverCheckQueue_def
  by (intro wf_frame.frame_rules handleReconcileEvent_wf handleFailover_wf ctl_wf_rel [OF ctl_step_modify];
      simp add: read_upstream_def)+

subsection \<open>A controller that does not lead\<close>

text \<open>
  C23: a controller that is not the leader ignores every event: no pod callback, no
  queued reconciliation or failover check and no tick of the main loop changes its state, asks or tells
  anything to a server, the store or the API.
\<close>

theorem standby_is_passive:
  fixes s :: "'z controller_state_scheme"
  assumes "\<not> IsLeader s"
  shows "exec (onPodAdd env c now p) s = s \<and> exec (onPodUpdate env c now p q) s = s \<and>
    exec (onPodDelete env c now obj) s = s \<and> exec (handleReconcileEvent env c now d re) s = s \<and>
    exec (handleFailoverCheckEvent env c now fe) s = s \<and> exec (run_tick env c now d) s = s"
  using assms
  by (simp add: onPodAdd_def onPodUpdate_def onPodDelete_def handleReconcileEvent_def
      handleFailoverCheckEvent_def run_tick_def)

theorem standby_is_passive_witness:
  "\<not> IsLeader (ready_controller running_scenario) \<and>
   exec (run_tick (sim_env running_scenario) sim_config 0 0) (ready_controller running_scenario) =
     ready_controller running_scenario"
proof -
  have "\<not> IsLeader (ready_controller running_scenario)" by code_simp
  then show ?thesis using standby_is_passive by blast
qed

subsection \<open>What the callbacks queue\<close>

lemma pool_more:
  fixes s t :: "'z controller_state_scheme"
  assumes "pool_step pool_event s t" and "cluster_wf s"
  shows "cluster_state.more t = cluster_state.more s"
  using pool_to_cluster [OF assms(1), of "\<lambda>_ _. True"] assms(2)
  by (auto simp: cluster_step_def pool_event_def commands_def split: io.splits)

lemma queue_fields:
  "reconcileQueue (exec (enqueueFailoverCheckEvent now ty r k) s) = reconcileQueue s"
  "failoverCheckQueue (exec (enqueueReconcileEvent now ty r k) s) = failoverCheckQueue s"
  "failoverCheckQueue (exec (enqueueFailoverCheckEvent now ty r k) s) =
     try_send 50 \<lparr>fe_Type = ty, fe_Reason = r, fe_PodName = k, fe_Timestamp = now, fe_CompletionChan = None\<rparr>
       (failoverCheckQueue s)"
  "reconcileQueue (exec (enqueueReconcileEvent now ty r k) s) =
     try_send 100 \<lparr>re_Type = ty, re_Reason = r, re_PodName = k, re_Timestamp = now\<rparr> (reconcileQueue s)"
  by (simp_all add: enqueueFailoverCheckEvent_def enqueueReconcileEvent_def)



text \<open>
  The deletion callback of a leader that knows the target main survives every pod, but
  panics on the tombstone that an informer delivers for a deletion it missed.
\<close>

theorem tombstone_panics:
  fixes s :: "'z controller_state_scheme"
  assumes "IsLeader s" and "targetMainIndex s \<noteq> - 1"
  shows "eval_result (onPodDelete env c now (DeletedFinalStateUnknown key)) s = None \<and>
    eval_result (onPodDelete env c now (PodObject p)) s = Some ()"
  using assms by (simp add: onPodDelete_def GetTargetMainIndex_def)

subsection \<open>What the callbacks may change\<close>

lemma pool_main_kept: "state_io_rel (pool_step pool_event) m \<Longrightarrow> state_io_rel main_kept m"
proof (rule read_main_kept [OF cluster_read])
  fix m :: "('z controller_state_scheme, 'r) state"
  assume "state_io_rel (pool_step pool_event) m"
  then show "state_io_rel (cluster_step (\<lambda>_ _. True)) m"
    by (auto simp: state_io_rel_def pool_event_def commands_def intro!: pool_to_cluster split: io.splits)
qed

lemma modify_main_kept:
  assumes "\<And>s. trace (f s) = trace s" and "\<And>s. drivers (f s) = drivers s"
    and "\<And>s. MemgraphNodes (f s) = MemgraphNodes s" and "\<And>s. gatewayServer (f s) = gatewayServer s"
    and "\<And>s. targetMainIndex (f s) = targetMainIndex s"
  shows "state_io_rel main_kept (modify f)"
  by (rule io_relI) (simp add: main_kept_def cluster_wf_def pool_wf_def assms)

lemma enqueue_main_kept:
  "state_io_rel main_kept (enqueueReconcileEvent now ty r k)"
  "state_io_rel main_kept (enqueueFailoverCheckEvent now ty r k)"
  unfolding enqueueReconcileEvent_def enqueueFailoverCheckEvent_def
  by (rule modify_main_kept; simp)+

lemma replica_handlers_main_kept:
  "state_io_rel main_kept (handleReplicaHealthChange env c old new)"
  "state_io_rel main_kept (handleReplicaDeleted env c p)"
  unfolding handleReplicaHealthChange_def handleReplicaDeleted_def disconnect_read_def
  by (intro main_frame.frame_rules updateRead_main_kept set_read_main_kept modify_main_kept; simp)+

lemma callbacks_main_kept:
  "state_io_rel main_kept (onPodAdd env c now p)"
  "state_io_rel main_kept (onPodUpdate env c now old new)"
  "state_io_rel main_kept (onPodDelete env c now obj)"
  unfolding onPodAdd_def onPodUpdate_def onPodDelete_def
  by (intro main_frame.frame_rules case_event_object read_main_kept [OF GetTargetMainIndex_read]
      enqueue_main_kept replica_handlers_main_kept pool_main_kept [OF UpdatePodIP_step]
      pool_main_kept [OF InvalidatePodConnection_step])+

text \<open>
  C25: the informer's callbacks send no command to a server and leave the main
  gateway and a known target main index as they are; the only gateway they may redirect is the read
  gateway.
\<close>

theorem callbacks_change_no_server:
  fixes s :: "'z controller_state_scheme" and env :: environment and c :: Config
    and callback :: "('z controller_state_scheme, unit) state"
  assumes "ctl_wf s" and "callback \<in> {onPodAdd env c now p, onPodUpdate env c now p q,
      do { onPodDelete env c now obj; return () }}"
  shows "emits (\<lambda>e. is_upstream e \<or> command_to (\<lambda>a q. False) e) s (exec callback s) \<and>
    gatewayServer (exec callback s) = gatewayServer s \<and>
    (targetMainIndex s \<noteq> - 1 \<longrightarrow> targetMainIndex (exec callback s) = targetMainIndex s)"
proof -
  have "state_io_rel (ctl_step (\<lambda>_ _. False)) callback" and "state_io_rel main_kept callback"
    using assms(2) by (auto intro!: onPodAdd_step onPodUpdate_step onPodDelete_step callbacks_main_kept
        ctl_frame.frame_rules main_frame.frame_rules)
  then have "ctl_step (\<lambda>_ _. False) s (exec callback s)" and "main_kept s (exec callback s)"
    by (simp_all add: io_relD)
  then show ?thesis using assms(1) by (simp add: ctl_step_def main_kept_def ctl_wf_def commands_def)
qed

theorem callbacks_change_no_server_witness:
  "gatewayServer (exec (onPodAdd (sim_env running_scenario) sim_config 5 (sim_pod ''mg-2'' ''10.0.0.3'')) leading_controller) =
   gatewayServer leading_controller"
  using callbacks_change_no_server [OF leading_wf(1)] by blast

end
