(* ===== verification/Prober_Checks.thy ===== *)
theory Prober_Checks
  imports Pod_Events
begin

text \<open>
  The checks of \<open>internal/controller/prober.go\<close>. A check returns the goroutines that it starts;
  \<open>run_task\<close> is what such a goroutine does when it runs.
\<close>

section \<open>Definitions\<close>

datatype prober_task = TriggerFailover | TriggerSwitch string

definition prober_IsRunning :: "health_prober \<Rightarrow> bool" where
  "prober_IsRunning p = hp_running p"

definition on_prober :: "(health_prober \<Rightarrow> health_prober) \<Rightarrow> ('z controller_state_scheme, unit) state" where
  "on_prober f = modify (\<lambda>s. s\<lparr>healthProber := f (healthProber s)\<rparr>)"

definition record_main_failure :: "('z controller_state_scheme, prober_task list) state" where
  "record_main_failure = do {
     p \<leftarrow> gets healthProber;
     on_prober (\<lambda>p. snd (recordFailure p));
     return (if fst (recordFailure p) then [TriggerFailover] else []) }"

definition record_read_failure :: "string \<Rightarrow> ('z controller_state_scheme, prober_task list) state" where
  "record_read_failure upstreamAddress = do {
     p \<leftarrow> gets healthProber;
     on_prober (\<lambda>p. snd (recordReadGatewayFailure p));
     return (if fst (recordReadGatewayFailure p) then [TriggerSwitch upstreamAddress] else []) }"

definition findUpstreamNode ::
  "environment \<Rightarrow> string \<Rightarrow> ('z controller_state_scheme, string go_result) state" where
  "findUpstreamNode env upstreamAddress =
     (if length upstreamAddress \<le> 5 \<or> drop (length upstreamAddress - 5) upstreamAddress \<noteq> '':7687'' then
        return (Inl (ErrorString (''invalid upstream address format: '' @ upstreamAddress)))
      else do {
        ns \<leftarrow> gets MemgraphNodes;
        keys \<leftarrow> range_keys env (map fst ns);
        s \<leftarrow> State_Monad.get;
        return (case find (\<lambda>k. GetBoltAddress (node_at k s) = Inr upstreamAddress) keys of
            Some k \<Rightarrow> Inr k
          | None \<Rightarrow> Inl (ErrorString (''upstream node not found for address: '' @ upstreamAddress))) })"

definition performReadGatewayUpstreamHealthCheck ::
  "environment \<Rightarrow> ('z controller_state_scheme, prober_task list) state" where
  "performReadGatewayUpstreamHealthCheck env = do {
     rg \<leftarrow> gets readGatewayServer;
     case rg of
       None \<Rightarrow> return []
     | Some gw \<Rightarrow>
         if GetUpstreamAddress gw = '''' then do { on_prober resetReadGatewayFailures; return [] }
         else do {
           n \<leftarrow> findUpstreamNode env (GetUpstreamAddress gw);
           case n of
             Inl e \<Rightarrow> record_read_failure (GetUpstreamAddress gw)
           | Inr k \<Rightarrow> do {
               err \<leftarrow> on_node k (node_Ping env);
               case err of
                 Some e \<Rightarrow> record_read_failure (GetUpstreamAddress gw)
               | None \<Rightarrow> do { on_prober recordReadGatewaySuccess; return [] } } } }"

definition performHealthCheck ::
  "environment \<Rightarrow> Config \<Rightarrow> ('z controller_state_scheme, prober_task list) state" where
  "performHealthCheck env c = do {
     r \<leftarrow> GetTargetMainIndex env;
     case r of
       Inl e \<Rightarrow> record_main_failure
     | Inr i \<Rightarrow> do {
         m \<leftarrow> getTargetMainNode env c;
         case m of
           Inl e \<Rightarrow> record_main_failure
         | Inr k \<Rightarrow> do {
             err \<leftarrow> on_node k (node_Ping env);
             case err of
               Some e \<Rightarrow> record_main_failure
             | None \<Rightarrow> do {
                 on_prober recordSuccess;
                 performReadGatewayUpstreamHealthCheck env } } } }"

text \<open>The event that the prober queues has no type and no completion channel.\<close>

definition triggerFailover ::
  "environment \<Rightarrow> Config \<Rightarrow> int \<Rightarrow> ('z controller_state_scheme, unit) state" where
  "triggerFailover env c now = do {
     r \<leftarrow> GetTargetMainIndex env;
     case r of
       Inl e \<Rightarrow> return ()
     | Inr i \<Rightarrow> enqueueFailoverCheckEvent now '''' ''health-check-failure'' (GetPodName c i) }"

text \<open>Without a read gateway the last line would dereference nil: \<open>None\<close>.\<close>

definition triggerReadGatewayUpstreamSwitch ::
  "environment \<Rightarrow> Config \<Rightarrow> string \<Rightarrow> ('z controller_state_scheme, unit option) state" where
  "triggerReadGatewayUpstreamSwitch env c failedUpstream = do {
     updateReadGatewayUpstream env c;
     rg \<leftarrow> gets readGatewayServer;
     case rg of
       None \<Rightarrow> return None
     | Some gw \<Rightarrow> do {
         (if GetUpstreamAddress gw \<noteq> failedUpstream then on_prober resetReadGatewayFailures else return ());
         return (Some ()) } }"

definition run_task ::
  "environment \<Rightarrow> Config \<Rightarrow> int \<Rightarrow> prober_task \<Rightarrow> ('z controller_state_scheme, unit option) state" where
  "run_task env c now task = (case task of
      TriggerFailover \<Rightarrow> do { triggerFailover env c now; return (Some ()) }
    | TriggerSwitch failedUpstream \<Rightarrow> triggerReadGatewayUpstreamSwitch env c failedUpstream)"

section \<open>Lemmas\<close>

subsection \<open>Frames\<close>

lemma on_prober_step: "state_io_rel (ctl_step P) (on_prober f)"
  unfolding on_prober_def by (rule ctl_step_modify) (simp_all add: read_upstream_def)

lemma findUpstreamNode_cluster: "state_io_rel (cluster_step P) (findUpstreamNode env a)"
  unfolding findUpstreamNode_def
  by (intro cluster_frame.frame_rules range_keys_cluster)
    (auto simp: state_io_rel_def cluster_frame.frame_refl)

lemma read_check_step: "state_io_rel (ctl_step P) (performReadGatewayUpstreamHealthCheck env)"
  unfolding performReadGatewayUpstreamHealthCheck_def record_read_failure_def
  by (intro ctl_frame.frame_rules on_prober_step read_ctl_any [OF ping_read]
      read_ctl_any [OF cluster_read [OF findUpstreamNode_cluster]])

lemma performHealthCheck_step: "state_io_rel (ctl_step P) (performHealthCheck env c)"
  unfolding performHealthCheck_def record_main_failure_def
  by (intro ctl_frame.frame_rules on_prober_step read_check_step read_ctl_any [OF ping_read]
      read_ctl_any [OF GetTargetMainIndex_read] read_ctl_any [OF getTargetMainNode_read])

lemma triggerFailover_step: "state_io_rel (ctl_step P) (triggerFailover env c now)"
  unfolding triggerFailover_def
  by (intro ctl_frame.frame_rules read_ctl_any [OF GetTargetMainIndex_read] enqueueFailoverCheckEvent_step)

lemma triggerSwitch_step: "state_io_rel (ctl_step P) (triggerReadGatewayUpstreamSwitch env c a)"
  unfolding triggerReadGatewayUpstreamSwitch_def
  by (intro ctl_frame.frame_rules updateRead_any on_prober_step)

lemma run_task_step: "state_io_rel (ctl_step P) (run_task env c now task)"
  unfolding run_task_def
  by (cases task) (auto intro!: ctl_frame.frame_rules triggerFailover_step triggerSwitch_step)

lemma handleReadFailure_step: "state_io_rel (ctl_step P) (handleReadGatewayUpstreamFailure env c a e)"
  unfolding handleReadGatewayUpstreamFailure_def by (rule updateRead_any)


subsection \<open>What a check reports\<close>

lemma on_prober_fields [simp]:
  "healthProber (exec (on_prober f) s) = f (healthProber s)" "trace (exec (on_prober f) s) = trace s"
  "MemgraphNodes (exec (on_prober f) s) = MemgraphNodes s"
  "targetMainIndex (exec (on_prober f) s) = targetMainIndex s" "drivers (exec (on_prober f) s) = drivers s"
  by (simp_all add: on_prober_def)

lemma read_prober: "read_step P s t \<Longrightarrow> cluster_wf s \<Longrightarrow> healthProber t = healthProber s"
  by (simp add: read_step_def own_fieldsD(11))

lemma read_counters:
  "hp_consecutiveFailures (resetReadGatewayFailures p) = hp_consecutiveFailures p"
  "hp_lastHealthStatus (resetReadGatewayFailures p) = hp_lastHealthStatus p"
  "hp_consecutiveFailures (recordReadGatewaySuccess p) = hp_consecutiveFailures p"
  "hp_lastHealthStatus (recordReadGatewaySuccess p) = hp_lastHealthStatus p"
  "hp_consecutiveFailures (snd (recordReadGatewayFailure p)) = hp_consecutiveFailures p"
  "hp_lastHealthStatus (snd (recordReadGatewayFailure p)) = hp_lastHealthStatus p"
  by (simp_all add: resetReadGatewayFailures_def recordReadGatewaySuccess_def recordReadGatewayFailure_def Let_def)

lemma read_check_emits:
  fixes s :: "'z controller_state_scheme"
  assumes "cluster_wf s"
  shows "emits (\<lambda>_. True) s (exec (performReadGatewayUpstreamHealthCheck env) s)"
proof -
  have u: "cluster_wf (exec (findUpstreamNode env a) s)" "emits (\<lambda>_. True) s (exec (findUpstreamNode env a) s)" for a
    using cluster_step_emits [OF io_relD [OF findUpstreamNode_cluster] assms] by simp_all
  have v: "emits (\<lambda>_. True) s (exec (on_node k (node_Ping env)) (exec (findUpstreamNode env a) s))" for k a
    using emits_trans [OF u(2)] cluster_step_emits [OF io_relD [OF ping_cluster] u(1)] by blast
  show ?thesis
    unfolding performReadGatewayUpstreamHealthCheck_def record_read_failure_def
    using u(2) v by (auto simp: emits_def split: option.split sum.split)
qed

lemma read_check_main_status:
  fixes s :: "'z controller_state_scheme" and env :: environment
  assumes "cluster_wf s"
  defines "t \<equiv> exec (performReadGatewayUpstreamHealthCheck env) s"
  shows "hp_consecutiveFailures (healthProber t) = hp_consecutiveFailures (healthProber s) \<and>
    hp_lastHealthStatus (healthProber t) = hp_lastHealthStatus (healthProber s) \<and>
    targetMainIndex t = targetMainIndex s"
proof -
  let ?u = "\<lambda>a. exec (findUpstreamNode env a) s"
  have u: "healthProber (?u a) = healthProber s" "cluster_wf (?u a)" "targetMainIndex (?u a) = targetMainIndex s" for a
    using read_prober [OF io_relD [OF cluster_read [OF findUpstreamNode_cluster]] assms(1)]
      cluster_step_emits [OF io_relD [OF findUpstreamNode_cluster] assms(1)]
      cluster_step_index [OF io_relD [OF findUpstreamNode_cluster] assms(1)] by simp_all
  have v: "healthProber (exec (on_node k (node_Ping env)) (?u a)) = healthProber s"
    "targetMainIndex (exec (on_node k (node_Ping env)) (?u a)) = targetMainIndex s" for k a
    using read_prober [OF io_relD [OF ping_read] u(2)] u
      cluster_step_index [OF io_relD [OF ping_cluster] u(2)] by simp_all
  show ?thesis
    unfolding t_def performReadGatewayUpstreamHealthCheck_def record_read_failure_def
    using u v by (auto simp: read_counters split: option.split sum.split)
qed

lemma answered_ping_recorded:
  fixes m :: "'z controller_state_scheme" and env :: environment and k :: string
  defines "u \<equiv> exec (on_node k (node_Ping env)) m"
  defines "t \<equiv> exec (performReadGatewayUpstreamHealthCheck env) (exec (on_prober recordSuccess) u)"
  assumes wm: "cluster_wf m" and k: "has_node k m" and ok: "eval_result (on_node k (node_Ping env)) m = None"
  shows "hp_lastHealthStatus (healthProber t) \<and> hp_consecutiveFailures (healthProber t) = 0"
    and "targetMainIndex t = targetMainIndex m" and "emits (\<lambda>_. True) m t"
    and "\<exists>ip rs. addresses m k = Some ip \<and> answered (ip @ '':7687'') ''RETURN 1'' rs (new_events m t)"
proof -
  let ?w = "exec (on_prober recordSuccess) u"
  have u: "cluster_wf u" "emits (\<lambda>_. True) m u" "targetMainIndex u = targetMainIndex m"
    using read_step_wf [OF io_relD [OF ping_read] wm] cluster_step_index [OF io_relD [OF ping_cluster] wm]
    by (simp_all add: u_def)
  have ww: "cluster_wf ?w" using u(1) by (simp add: cluster_wf_def pool_wf_def)
  note st = read_check_main_status [OF ww, of env, folded t_def]
  show "hp_lastHealthStatus (healthProber t) \<and> hp_consecutiveFailures (healthProber t) = 0"
    and "targetMainIndex t = targetMainIndex m"
    using st u(3) by (simp_all add: recordSuccess_def)
  have wt: "emits (\<lambda>_. True) u t" using read_check_emits [OF ww, of env] by (simp add: t_def emits_def)
  show "emits (\<lambda>_. True) m t" by (rule emits_trans [OF u(2) wt])
  have ping: "eval_result (lastChancePing env k) m = None" "exec (lastChancePing env k) m = u"
    using ok k by (simp_all add: lastChancePing_def u_def)
  show "\<exists>ip rs. addresses m k = Some ip \<and> answered (ip @ '':7687'') ''RETURN 1'' rs (new_events m t)"
    using lastChancePing_ok [OF wm ping(1)] ping(2) new_events_mono(1) [OF u(2) wt] by (auto intro: answered_mono)
qed

text \<open>
  C28: a health check either records one more failure, or the target main's server
  answered a ping during the check; only then is the main recorded as healthy, with no consecutive
  failures.
\<close>

theorem health_check_sound:
  fixes s :: "'z controller_state_scheme" and env :: environment and c :: Config
  defines "t \<equiv> exec (performHealthCheck env c) s"
  assumes "cluster_wf s"
  shows "healthProber t = snd (recordFailure (healthProber s)) \<or>
    hp_lastHealthStatus (healthProber t) \<and> hp_consecutiveFailures (healthProber t) = 0 \<and>
    (\<exists>ip rs. addresses s (GetPodName c (targetMainIndex t)) = Some ip \<and>
       answered (ip @ '':7687'') ''RETURN 1'' rs (new_events s t))"
proof -
  let ?g = "exec (GetTargetMainIndex env) s"
  let ?m = "exec (getTargetMainNode env c) ?g"
  have g: "read_step (\<lambda>_ _. True) s ?g" by (rule io_relD [OF GetTargetMainIndex_read])
  note m = read_frame.frame_trans [OF g io_relD [OF getTargetMainNode_read]]
  have wm: "cluster_wf ?m" "emits (\<lambda>_. True) s ?m" "addresses ?m = addresses s"
    using read_step_wf [OF m assms(2)] by simp_all
  have p: "healthProber ?g = healthProber s" "healthProber ?m = healthProber s"
    using read_prober [OF g assms(2)] read_prober [OF m assms(2)] by simp_all
  consider (failed) "healthProber t = snd (recordFailure (healthProber s))"
    | (ok) k where "eval_result (getTargetMainNode env c) ?g = Inr k" "eval_result (on_node k (node_Ping env)) ?m = None"
      "t = exec (performReadGatewayUpstreamHealthCheck env)
         (exec (on_prober recordSuccess) (exec (on_node k (node_Ping env)) ?m))"
    using p read_prober [OF io_relD [OF ping_read] wm(1)]
    by (fastforce simp: t_def performHealthCheck_def record_main_failure_def split: sum.splits option.splits)
  then show ?thesis
  proof cases
    case (ok k)
    have k: "k = GetPodName c (targetMainIndex ?m)" "has_node k ?m"
      using getTargetMainNode_result [OF ok(1)] by blast+
    note r = answered_ping_recorded [OF wm(1) k(2) ok(2), folded ok(3)]
    then show ?thesis
      using k(1) wm(3) new_events_mono(2) [OF wm(2) r(3)] by (auto intro: answered_mono)
  qed simp
qed

theorem health_check_sound_witness:
  "let t = exec (performHealthCheck (sim_env running_scenario) sim_config) (ready_controller running_scenario) in
     hp_lastHealthStatus (healthProber t) \<and>
     (\<exists>ip rs. addresses (ready_controller running_scenario) ''mg-0'' = Some ip \<and>
       answered (ip @ '':7687'') ''RETURN 1'' rs (new_events (ready_controller running_scenario) t))"
proof -
  let ?s = "ready_controller running_scenario" and ?env = "sim_env running_scenario"
  let ?t = "exec (performHealthCheck ?env sim_config) ?s"
  have "hp_lastHealthStatus (healthProber ?t)" by code_simp
  moreover have "\<not> hp_lastHealthStatus (snd (recordFailure p))" for p
    by (simp add: recordFailure_def Let_def)
  moreover have "GetPodName sim_config (targetMainIndex ?t) = ''mg-0''" by code_simp
  ultimately show ?thesis
    using health_check_sound [OF ready_cluster_wf(1), of ?env sim_config running_scenario] by (auto simp: Let_def)
qed

subsection \<open>The prober and the failover\<close>

lemma health_event_handled:
  fixes u :: "'z controller_state_scheme"
  assumes wf: "cluster_wf u" and idx: "targetMainIndex u \<noteq> - 1" and ev: "fe_Reason ev = ''health-check-failure''"
  shows "emits (command_to (\<lambda>a q. False)) u (exec (handleFailoverCheckEvent env c now ev) u) \<and>
    gatewayServer (exec (handleFailoverCheckEvent env c now ev) u) = gatewayServer u \<and>
    targetMainIndex (exec (handleFailoverCheckEvent env c now ev) u) = targetMainIndex u"
proof -
  let ?k = "GetPodName c (targetMainIndex u)"
  have v: "emits (command_to (\<lambda>a q. False)) u (exec (lastChancePing env ?k) (u\<lparr>failoverCheckQueue := q\<rparr>)) \<and>
      gatewayServer (exec (lastChancePing env ?k) (u\<lparr>failoverCheckQueue := q\<rparr>)) = gatewayServer u \<and>
      targetMainIndex (exec (lastChancePing env ?k) (u\<lparr>failoverCheckQueue := q\<rparr>)) = targetMainIndex u" for q
  proof -
    let ?w = "u\<lparr>failoverCheckQueue := q\<rparr>"
    have "cluster_wf ?w" using wf by (simp add: cluster_wf_def pool_wf_def)
    moreover have "read_step (\<lambda>_ _. False) ?w (exec (lastChancePing env ?k) ?w)"
      by (rule io_relD [OF cluster_read [OF lastChancePing_cluster]])
    ultimately have "emits (command_to (\<lambda>a q. False)) ?w (exec (lastChancePing env ?k) ?w)"
      and "own_fields ?w (exec (lastChancePing env ?k) ?w)"
      by (simp_all add: read_step_def commands_def)
    then show ?thesis using idx own_fieldsD(1,14) [of ?w] by (simp add: emits_def)
  qed
  then show ?thesis
    using ev idx
    by (auto simp: handleFailoverCheckEvent_def performFailoverCheck_def GetTargetMainIndex_def Let_def emits_def
        split: prod.split)
qed

text \<open>
  C30: the event that the prober queues when the main has failed its checks never
  leads to a failover: whenever it is handled, whatever the environment answers, no command is sent to
  a server and neither the main gateway nor the target main index changes.
\<close>

theorem prober_cannot_fail_over:
  fixes s u :: "'z controller_state_scheme" and env env' :: environment and c :: Config
  assumes "targetMainIndex s \<noteq> - 1" and "length (q_events (failoverCheckQueue s)) < 50"
    and "cluster_wf u" and "targetMainIndex u \<noteq> - 1"
  shows "\<exists>ev. q_events (failoverCheckQueue (exec (triggerFailover env c now) s)) =
      q_events (failoverCheckQueue s) @ [ev] \<and>
    (let t = exec (handleFailoverCheckEvent env' c later ev) u in
     emits (command_to (\<lambda>a q. False)) u t \<and> gatewayServer t = gatewayServer u \<and>
     targetMainIndex t = targetMainIndex u)"
proof -
  let ?ev = "\<lparr>fe_Type = '''', fe_Reason = ''health-check-failure'', fe_PodName = GetPodName c (targetMainIndex s),
    fe_Timestamp = now, fe_CompletionChan = None\<rparr>"
  have "q_events (failoverCheckQueue (exec (triggerFailover env c now) s)) = q_events (failoverCheckQueue s) @ [?ev]"
    using assms(1,2) by (simp add: triggerFailover_def GetTargetMainIndex_def queue_fields try_send_def)
  then show ?thesis
    using health_event_handled [OF assms(3,4), of ?ev env' c later] by (auto simp: Let_def)
qed

theorem prober_cannot_fail_over_witness:
  "\<exists>ev. q_events (failoverCheckQueue (exec (triggerFailover (sim_env running_scenario) sim_config 3)
      (leading_controller\<lparr>targetMainIndex := 0\<rparr>))) = [ev] \<and>
    targetMainIndex (exec (handleFailoverCheckEvent (sim_env running_scenario) sim_config 4 ev)
      (leading_controller\<lparr>targetMainIndex := 0\<rparr>)) = 0"
proof -
  let ?s = "leading_controller\<lparr>targetMainIndex := 0\<rparr>"
  have "q_events (failoverCheckQueue ?s) = []" by code_simp
  moreover have "cluster_wf ?s" using leading_wf(2) by simp
  ultimately show ?thesis
    using prober_cannot_fail_over [of ?s ?s "sim_env running_scenario" sim_config 3 "sim_env running_scenario" 4]
    by (auto simp: Let_def)
qed

text \<open>
  The read gateway's switch picks a replica without asking it: with the role in the cache and the pod
  still ready for the store, a replica that answers no ping is chosen again.
\<close>

theorem dead_replica_chosen_again:
  "let env = sim_env running_scenario; dead = sim_env (running_scenario\<lparr>sc_dead := [''10.0.0.2:7687'']\<rparr>);
       s = exec (updateReadGatewayUpstream env sim_config) (ready_controller running_scenario);
       t = exec (triggerReadGatewayUpstreamSwitch dead sim_config (read_upstream s)) s
   in read_upstream s = ''10.0.0.2:7687'' \<and> read_upstream t = ''10.0.0.2:7687'' \<and>
      eval_result (on_node ''mg-1'' (node_Ping dead)) t \<noteq> None"
  by code_simp

end
