(* ===== verification/Status.thy ===== *)
theory Status
  imports Prober_Checks
begin

text \<open>
  The status report: \<open>GetClusterStatus\<close> and its helpers in
  \<open>internal/controller/controller_core.go\<close>, \<open>internal/controller/status_api.go\<close> and the
  types of \<open>internal/httpapi/types.go\<close>. A report reads the caches of the nodes, which may ask the
  servers, and the informer's store.
\<close>

section \<open>Definitions\<close>

record StatusInconsistency =
  in_Description :: string
  in_MemgraphRole :: string

record PodStatus =
  ps_Name :: string
  ps_State :: string
  ps_MemgraphRole :: string
  ps_IPAddress :: string
  ps_Timestamp :: int
  ps_Healthy :: bool
  ps_ReplicasRegistered :: "string list"
  ps_Inconsistency :: "StatusInconsistency option"

record ReplicaRegistration =
  rr_Name :: string
  rr_PodName :: string
  rr_Address :: string
  rr_SyncMode :: string
  rr_IsHealthy :: bool

record GatewayConnectionStats =
  gc_ActiveConnections :: int64
  gc_TotalConnections :: int64
  gc_RejectedConnections :: int64
  gc_Errors :: int64

record HealthCheckStats =
  hc_ConsecutiveFailures :: int
  hc_LastHealthStatus :: bool

record ReadGatewayStatus =
  rg_Enabled :: bool
  rg_CurrentUpstream :: string
  rg_UpstreamPodName :: string
  rg_UpstreamHealthy :: bool
  rg_ConnectionStats :: GatewayConnectionStats
  rg_HealthCheckStats :: HealthCheckStats

record ClusterStatus =
  cs_CurrentMain :: string
  cs_CurrentSyncReplica :: string
  cs_TotalPods :: int
  cs_HealthyPods :: int
  cs_UnhealthyPods :: int
  cs_SyncReplicaHealthy :: bool
  cs_ReconciliationMetrics :: reconciliation_metrics
  cs_ReplicaRegistrations :: "ReplicaRegistration list"
  cs_ReadGatewayStatus :: "ReadGatewayStatus option"

record StatusResponse =
  st_Timestamp :: int
  st_ClusterState :: ClusterStatus
  st_Pods :: "PodStatus list"

subsection \<open>One pod\<close>

definition convertMemgraphNodeToStatus ::
  "environment \<Rightarrow> string \<Rightarrow> bool \<Rightarrow> ('z controller_state_scheme, PodStatus) state" where
  "convertMemgraphNodeToStatus env k healthy = do {
     inconsistency \<leftarrow> (if \<not> healthy then do {
         (role, err) \<leftarrow> on_node k (\<lambda>n. GetReplicationRole env n False);
         return (Some \<lparr>in_Description = ''Pod is unreachable - cannot query Memgraph status'',
           in_MemgraphRole = (if role \<noteq> '''' then role else ''unknown'')\<rparr>) }
       else return None);
     (replicas, err) \<leftarrow> on_node k (\<lambda>n. GetReplicas env n False);
     (role, err') \<leftarrow> on_node k (\<lambda>n. GetReplicationRole env n False);
     node \<leftarrow> gets (node_at k);
     return \<lparr>ps_Name = nd_name node, ps_State = ''unknown'', ps_MemgraphRole = role,
       ps_IPAddress = nd_ipAddress node, ps_Timestamp = nd_timestamp node, ps_Healthy = healthy,
       ps_ReplicasRegistered = (case err of None \<Rightarrow> map ri_Name replicas | Some e \<Rightarrow> []),
       ps_Inconsistency = inconsistency\<rparr> }"

definition pod_ready :: "environment \<Rightarrow> Config \<Rightarrow> string \<Rightarrow> ('z controller_state_scheme, bool) state" where
  "pod_ready env c k = do {
     r \<leftarrow> getPodFromCache env c k;
     return (case r of Inl e \<Rightarrow> False | Inr p \<Rightarrow> isPodReady p) }"

fun status_pods ::
  "environment \<Rightarrow> Config \<Rightarrow> string list \<Rightarrow> ('z controller_state_scheme, PodStatus list) state" where
  "status_pods env c [] = return []"
| "status_pods env c (k # ks) = do {
     name \<leftarrow> gets (\<lambda>s. nd_name (node_at k s));
     healthy \<leftarrow> pod_ready env c name;
     podStatus \<leftarrow> convertMemgraphNodeToStatus env k healthy;
     rest \<leftarrow> status_pods env c ks;
     return (podStatus # rest) }"

subsection \<open>The summary\<close>

text \<open>The healthy pods, and the sync replica if its pod is one of them.\<close>

fun count_healthy :: "environment \<Rightarrow> Config \<Rightarrow> string list \<Rightarrow> int \<times> string option
    \<Rightarrow> ('z controller_state_scheme, int \<times> string option) state" where
  "count_healthy env c [] acc = return acc"
| "count_healthy env c (k # ks) (n, sync) = do {
     healthy \<leftarrow> pod_ready env c k;
     if \<not> healthy then count_healthy env c ks (n, sync)
     else do {
       r \<leftarrow> getTargetSyncReplicaNode env c;
       s \<leftarrow> State_Monad.get;
       count_healthy env c ks (n + 1, (case r of
           Inl e \<Rightarrow> sync
         | Inr j \<Rightarrow> if k = nd_name (node_at j s) then Some k else sync)) } }"

definition replica_registration :: "ReplicaInfo \<Rightarrow> ReplicaRegistration" where
  "replica_registration r = \<lparr>rr_Name = ri_Name r, rr_PodName = replica_GetPodName r,
     rr_Address = ri_SocketAddress r, rr_SyncMode = ri_SyncMode r, rr_IsHealthy = IsHealthy r\<rparr>"

definition status_registrations ::
  "environment \<Rightarrow> Config \<Rightarrow> ('z controller_state_scheme, ReplicaRegistration list) state" where
  "status_registrations env c = do {
     r \<leftarrow> GetTargetMainIndex env;
     case r of
       Inl e \<Rightarrow> return []
     | Inr i \<Rightarrow> do {
         known \<leftarrow> gets (has_node (GetPodName c i));
         if \<not> known then return []
         else do {
           (replicas, err) \<leftarrow> on_node (GetPodName c i) (\<lambda>n. GetReplicas env n False);
           return (case err of None \<Rightarrow> map replica_registration replicas | Some e \<Rightarrow> []) } } }"

text \<open>An address shorter than six characters has no room for an address before the port.\<close>

definition getUpstreamPodName :: "environment \<Rightarrow> string \<Rightarrow> ('z controller_state_scheme, string) state" where
  "getUpstreamPodName env upstreamAddress =
     (if length upstreamAddress < 6 \<or> drop (length upstreamAddress - 5) upstreamAddress \<noteq> '':7687'' then
        return ''''
      else do {
        ns \<leftarrow> gets MemgraphNodes;
        keys \<leftarrow> range_keys env (map fst ns);
        s \<leftarrow> State_Monad.get;
        return (case find (\<lambda>k. GetBoltAddress (node_at k s) = Inr upstreamAddress) keys of
            Some k \<Rightarrow> k | None \<Rightarrow> '''') })"

definition getReadGatewayStatus ::
  "environment \<Rightarrow> ('z controller_state_scheme, ReadGatewayStatus option) state" where
  "getReadGatewayStatus env = do {
     rg \<leftarrow> gets readGatewayServer;
     case rg of
       None \<Rightarrow> return None
     | Some gw \<Rightarrow> do {
         p \<leftarrow> gets healthProber;
         let stats = server_GetStats gw;
         let hc = \<lparr>hc_ConsecutiveFailures = hp_readGatewayConsecutiveFailures p,
                   hc_LastHealthStatus = hp_lastReadGatewayHealthStatus p\<rparr>;
         name \<leftarrow> (if GetUpstreamAddress gw \<noteq> '''' then getUpstreamPodName env (GetUpstreamAddress gw)
                  else return '''');
         return (Some \<lparr>rg_Enabled = True, rg_CurrentUpstream = GetUpstreamAddress gw,
           rg_UpstreamPodName = name,
           rg_UpstreamHealthy = (GetUpstreamAddress gw \<noteq> '''' \<and>
             hc_LastHealthStatus hc \<and> hc_ConsecutiveFailures hc = 0),
           rg_ConnectionStats = \<lparr>gc_ActiveConnections = gs_ActiveConnections stats,
             gc_TotalConnections = gs_TotalConnections stats,
             gc_RejectedConnections = gs_RejectedConnections stats, gc_Errors = gs_Errors stats\<rparr>,
           rg_HealthCheckStats = hc\<rparr>) } }"

definition GetClusterStatus ::
  "environment \<Rightarrow> Config \<Rightarrow> int \<Rightarrow> ('z controller_state_scheme, StatusResponse go_result) state" where
  "GetClusterStatus env c now = do {
     r \<leftarrow> GetTargetMainIndex env;
     let currentMain = (case r of Inl e \<Rightarrow> '''' | Inr i \<Rightarrow> GetPodName c i);
     ns \<leftarrow> gets MemgraphNodes;
     keys \<leftarrow> range_keys env (map fst ns);
     (healthyCount, sync) \<leftarrow> count_healthy env c keys (0, None);
     with_metrics (UpdateClusterState (healthyCount = int (length ns) \<and> currentMain \<noteq> '''')
       (int (length ns)) healthyCount (sync \<noteq> None));
     ns' \<leftarrow> gets MemgraphNodes;
     keys' \<leftarrow> range_keys env (map fst ns');
     pods \<leftarrow> status_pods env c keys';
     regs \<leftarrow> status_registrations env c;
     metrics \<leftarrow> gets GetReconciliationMetrics;
     rgs \<leftarrow> getReadGatewayStatus env;
     return (Inr \<lparr>st_Timestamp = now,
       st_ClusterState = \<lparr>cs_CurrentMain = currentMain,
         cs_CurrentSyncReplica = (case sync of None \<Rightarrow> '''' | Some k \<Rightarrow> k),
         cs_TotalPods = int (length ns), cs_HealthyPods = healthyCount,
         cs_UnhealthyPods = int (length ns) - healthyCount, cs_SyncReplicaHealthy = (sync \<noteq> None),
         cs_ReconciliationMetrics = metrics, cs_ReplicaRegistrations = regs,
         cs_ReadGatewayStatus = rgs\<rparr>,
       st_Pods = pods\<rparr>) }"

subsection \<open>Reading only\<close>

text \<open>An operation that leaves the controller as it is, but for caches and metrics, and sends no command.\<close>

definition quiet_step :: "'z controller_state_scheme \<Rightarrow> 'z controller_state_scheme \<Rightarrow> bool" where
  "quiet_step s t \<longleftrightarrow> (cluster_wf s \<longrightarrow> cluster_wf t \<and> emits (command_to (\<lambda>a q. False)) s t \<and>
     addresses t = addresses s \<and> gatewayServer t = gatewayServer s \<and>
     readGatewayServer t = readGatewayServer s \<and> recMetrics t = recMetrics s \<and>
     (targetMainIndex s \<noteq> - 1 \<longrightarrow> targetMainIndex t = targetMainIndex s))"

section \<open>Lemmas\<close>

subsection \<open>Frames\<close>

lemma get_read: "state_io_rel (read_step P) State_Monad.get"
  by (auto simp: state_io_rel_def read_frame.frame_refl)

lemma pod_ready_cluster: "state_io_rel (cluster_step P) (pod_ready env c k)"
  unfolding pod_ready_def by (intro cluster_frame.frame_rules getPodFromCache_cluster)

lemma convert_cluster: "state_io_rel (cluster_step P) (convertMemgraphNodeToStatus env k b)"
  unfolding convertMemgraphNodeToStatus_def
  by (intro cluster_frame.frame_rules role_cluster replicas_cluster)

lemma status_pods_cluster: "state_io_rel (cluster_step P) (status_pods env c ks)"
  by (induction ks) (auto intro!: cluster_frame.frame_rules pod_ready_cluster convert_cluster)

lemma count_healthy_read: "state_io_rel (read_step P) (count_healthy env c ks acc)"
  by (induction env c ks acc rule: count_healthy.induct)
    (auto intro!: read_frame.frame_rules cluster_read [OF pod_ready_cluster] getTargetSyncReplicaNode_read get_read)

lemma registrations_read: "state_io_rel (read_step P) (status_registrations env c)"
  unfolding status_registrations_def
  by (intro read_frame.frame_rules GetTargetMainIndex_read replicas_read)

lemma getUpstreamPodName_read: "state_io_rel (read_step P) (getUpstreamPodName env a)"
  unfolding getUpstreamPodName_def by (intro read_frame.frame_rules range_keys_read get_read)

lemma getReadGatewayStatus_read: "state_io_rel (read_step P) (getReadGatewayStatus env)"
  unfolding getReadGatewayStatus_def Let_def by (intro read_frame.frame_rules getUpstreamPodName_read)

lemma GetClusterStatus_step: "state_io_rel (ctl_step P) (GetClusterStatus env c now)"
  unfolding GetClusterStatus_def Let_def
  by (intro ctl_frame.frame_rules read_ctl_any [OF GetTargetMainIndex_read] read_ctl_any [OF range_keys_read]
      read_ctl_any [OF count_healthy_read] read_ctl_any [OF cluster_read [OF status_pods_cluster]]
      read_ctl_any [OF registrations_read] read_ctl_any [OF getReadGatewayStatus_read] with_metrics_step)

subsection \<open>The numbers of a report\<close>

lemma count_healthy_bounds:
  "eval_result (count_healthy env c ks (n, sync)) s = (n', sync') \<Longrightarrow>
   n \<le> n' \<and> n' \<le> n + int (length ks) \<and> (sync' = sync \<or> (\<exists>k \<in> set ks. sync' = Some k))"
proof (induction ks arbitrary: n sync s)
  case (Cons k ks)
  then show ?case by (fastforce split: if_splits sum.splits)
qed simp

lemma nd_name_kept:
  fixes s :: "'z controller_state_scheme"
  assumes "cluster_step P s t" and "cluster_wf s" and "has_node k s"
  shows "nd_name (node_at k t) = k" and "has_node k t" and "cluster_wf t"
proof -
  show t: "cluster_wf t" "has_node k t"
    using cluster_step_emits [OF assms(1,2)] assms(3) by (simp_all add: has_node_book)
  then show "nd_name (node_at k t) = k" by (rule known_name)
qed

lemma convert_name:
  fixes s :: "'z controller_state_scheme"
  assumes "cluster_wf s" and "has_node k s"
  shows "ps_Name (eval_result (convertMemgraphNodeToStatus env k b) s) = k"
proof -
  have "ps_Name (eval_result (convertMemgraphNodeToStatus env k b) s) =
      nd_name (node_at k (exec (convertMemgraphNodeToStatus env k b) s))"
    by (simp add: convertMemgraphNodeToStatus_def split: prod.split)
  then show ?thesis
    using nd_name_kept [OF io_relD [OF convert_cluster [of "\<lambda>_ _. True"]] assms] by simp
qed

lemma status_pods_names:
  fixes s :: "'z controller_state_scheme"
  assumes "cluster_wf s" and "\<forall>k \<in> set ks. has_node k s"
  shows "map ps_Name (eval_result (status_pods env c ks) s) = ks"
  using assms
proof (induction ks arbitrary: s)
  case (Cons k ks)
  let ?u = "exec (pod_ready env c k) s" and ?b = "eval_result (pod_ready env c k) s"
  let ?v = "exec (convertMemgraphNodeToStatus env k ?b) ?u"
  have k: "has_node k s" "nd_name (node_at k s) = k" using Cons.prems known_name [OF Cons.prems(1)] by simp_all
  have u: "cluster_wf ?u" "addresses ?u = addresses s"
    using cluster_step_emits [OF io_relD [OF pod_ready_cluster] Cons.prems(1)] by simp_all
  have v: "cluster_wf ?v" "addresses ?v = addresses s"
    using cluster_step_emits [OF io_relD [OF convert_cluster] u(1)] u(2) by simp_all
  have "map ps_Name (eval_result (status_pods env c ks) ?v) = ks"
    using Cons.IH [OF v(1)] Cons.prems(2) v(2) by (simp add: has_node_book)
  moreover have "ps_Name (eval_result (convertMemgraphNodeToStatus env k ?b) ?u) = k"
    using convert_name [OF u(1)] k(1) u(2) by (simp add: has_node_book)
  ultimately show ?case using k(2) by simp
qed simp

interpretation quiet_frame: frame_relation quiet_step
  by unfold_locales (auto simp: quiet_step_def intro: emits_trans)

lemma read_quiet: "state_io_rel (read_step (\<lambda>_ _. False)) m \<Longrightarrow> state_io_rel quiet_step m"
  by (auto simp: state_io_rel_def read_step_def quiet_step_def commands_def own_fieldsD)

lemma with_metrics_quiet: "state_io_rel quiet_step (with_metrics f)"
  by (rule io_relI) (simp add: quiet_step_def with_metrics_def cluster_wf_def pool_wf_def emits_def addresses_def fun_eq_iff)

lemma GetClusterStatus_quiet: "state_io_rel quiet_step (GetClusterStatus env c now)"
  unfolding GetClusterStatus_def Let_def
  by (intro quiet_frame.frame_rules read_quiet [OF GetTargetMainIndex_read] read_quiet [OF range_keys_read]
      read_quiet [OF count_healthy_read] read_quiet [OF cluster_read [OF status_pods_cluster]]
      read_quiet [OF registrations_read] read_quiet [OF getReadGatewayStatus_read] with_metrics_quiet)

lemma quiet_keys:
  fixes s t :: "'z controller_state_scheme"
  assumes "quiet_step s t" and "cluster_wf s"
  shows "cluster_wf t" and "set (map fst (MemgraphNodes t)) = set (map fst (MemgraphNodes s))"
    and "length (MemgraphNodes t) = length (MemgraphNodes s)"
proof -
  show t: "cluster_wf t" using assms by (simp add: quiet_step_def)
  have "addresses t = addresses s" using assms by (simp add: quiet_step_def)
  then have "has_node k t = has_node k s" for k by (simp add: has_node_book)
  then show keys: "set (map fst (MemgraphNodes t)) = set (map fst (MemgraphNodes s))"
    by (auto simp: has_node_key)
  then show "length (MemgraphNodes t) = length (MemgraphNodes s)"
    using assms(2) t distinct_card [of "map fst (MemgraphNodes t)"] distinct_card [of "map fst (MemgraphNodes s)"]
    by (simp add: cluster_wf_def)
qed

text \<open>
  C26: a status report is consistent with the nodes the controller knows: it counts
  all of them, healthy and unhealthy pods add up to the total, it lists every node exactly once, and
  it names a sync replica exactly if it calls the sync replica healthy. Producing it sends no command
  to a server and changes neither gateway nor a known target main index.
\<close>

theorem cluster_status_consistent:
  fixes s :: "'z controller_state_scheme" and env :: environment and c :: Config and now :: int
  defines "t \<equiv> exec (GetClusterStatus env c now) s"
  assumes "cluster_wf s" and "'''' \<notin> set (map fst (MemgraphNodes s))"
  shows "\<exists>st. eval_result (GetClusterStatus env c now) s = Inr st \<and> (let cs = st_ClusterState st in
      cs_TotalPods cs = int (length (MemgraphNodes s)) \<and>
      0 \<le> cs_HealthyPods cs \<and> 0 \<le> cs_UnhealthyPods cs \<and> cs_HealthyPods cs + cs_UnhealthyPods cs = cs_TotalPods cs \<and>
      distinct (map ps_Name (st_Pods st)) \<and>
      set (map ps_Name (st_Pods st)) = set (map fst (MemgraphNodes s)) \<and>
      (cs_SyncReplicaHealthy cs \<longleftrightarrow> cs_CurrentSyncReplica cs \<noteq> '''')) \<and>
    quiet_step s t"
proof -
  let ?g = "exec (GetTargetMainIndex env) s"
  let ?ks = "map fst (MemgraphNodes ?g)"
  let ?a = "exec (range_keys env ?ks) ?g" and ?keys = "eval_result (range_keys env ?ks) ?g"
  obtain n sync where cnt: "eval_result (count_healthy env c ?keys (0, None)) ?a = (n, sync)" by force
  let ?b = "exec (count_healthy env c ?keys (0, None)) ?a"
  let ?main = "case eval_result (GetTargetMainIndex env) s of Inl e \<Rightarrow> '''' | Inr i \<Rightarrow> GetPodName c i"
  let ?d = "exec (with_metrics (UpdateClusterState (n = int (length (MemgraphNodes ?g)) \<and> ?main \<noteq> '''')
       (int (length (MemgraphNodes ?g))) n (sync \<noteq> None))) ?b"
  let ?e = "exec (range_keys env (map fst (MemgraphNodes ?d))) ?d"
  let ?keys' = "eval_result (range_keys env (map fst (MemgraphNodes ?d))) ?d"
  have g: "quiet_step s ?g" by (rule io_relD [OF read_quiet [OF GetTargetMainIndex_read]])
  have ga: "quiet_step ?g ?a" by (rule io_relD [OF read_quiet [OF range_keys_read]])
  have ab: "quiet_step ?a ?b" by (rule io_relD [OF read_quiet [OF count_healthy_read]])
  have bd: "quiet_step ?b ?d" by (rule io_relD [OF with_metrics_quiet])
  have de: "quiet_step ?d ?e" by (rule io_relD [OF read_quiet [OF range_keys_read]])
  note sd = quiet_frame.frame_trans [OF quiet_frame.frame_trans [OF quiet_frame.frame_trans [OF g ga] ab] bd]
  note kg = quiet_keys [OF g assms(2)] and kd = quiet_keys [OF sd assms(2)]
  have keys: "set ?keys = set (map fst (MemgraphNodes s))" "length ?keys = length (MemgraphNodes s)"
    using kg distinct_card [of ?keys] distinct_card [of ?ks]
    by (simp_all add: range_keys_def call_run pick_order_distinct cluster_wf_def)
  have keys': "set ?keys' = set (map fst (MemgraphNodes s))" "distinct ?keys'"
    using kd by (simp_all add: range_keys_def call_run pick_order_distinct cluster_wf_def)
  have we: "cluster_wf ?e" "\<forall>k \<in> set ?keys'. has_node k ?e"
    using quiet_keys [OF quiet_frame.frame_trans [OF sd de] assms(2)] keys'(1) by (auto simp: has_node_key)
  note pods = status_pods_names [OF we, of env c]
  have bounds: "0 \<le> n" "n \<le> int (length (MemgraphNodes s))" "sync \<noteq> Some ''''"
    using count_healthy_bounds [OF cnt] keys assms(3) by auto
  obtain st where st: "eval_result (GetClusterStatus env c now) s = Inr st"
    and cs: "cs_TotalPods (st_ClusterState st) = int (length (MemgraphNodes ?g))"
      "cs_HealthyPods (st_ClusterState st) = n"
      "cs_UnhealthyPods (st_ClusterState st) = int (length (MemgraphNodes ?g)) - n"
      "cs_SyncReplicaHealthy (st_ClusterState st) = (sync \<noteq> None)"
      "cs_CurrentSyncReplica (st_ClusterState st) = (case sync of None \<Rightarrow> '''' | Some k \<Rightarrow> k)"
      "st_Pods st = eval_result (status_pods env c ?keys') ?e"
    using cnt by (simp add: GetClusterStatus_def Let_def)
  have "quiet_step s t" unfolding t_def by (rule io_relD [OF GetClusterStatus_quiet])
  moreover have "distinct (map ps_Name (st_Pods st))" "set (map ps_Name (st_Pods st)) = set (map fst (MemgraphNodes s))"
    unfolding cs(6) pods by (rule keys'(2), rule keys'(1))
  moreover have "cs_SyncReplicaHealthy (st_ClusterState st) \<longleftrightarrow> cs_CurrentSyncReplica (st_ClusterState st) \<noteq> ''''"
    unfolding cs(4,5) using bounds(3) by (auto split: option.split)
  ultimately show ?thesis
    using st cs(1-3) kg(3) bounds(1,2) by (intro exI [of _ st]) (simp add: Let_def)
qed

theorem cluster_status_consistent_witness:
  "\<exists>st. eval_result (GetClusterStatus (sim_env running_scenario) sim_config 9) (ready_controller running_scenario) = Inr st \<and>
     cs_HealthyPods (st_ClusterState st) + cs_UnhealthyPods (st_ClusterState st) = cs_TotalPods (st_ClusterState st)"
proof -
  have "'''' \<notin> set (map fst (MemgraphNodes (ready_controller running_scenario)))" by code_simp
  from cluster_status_consistent [OF ready_cluster_wf(1) this, of "sim_env running_scenario" sim_config 9]
  show ?thesis by (auto simp: Let_def)
qed

end
