(* ===== verification/Http_Api.thy ===== *)
theory Http_Api
  imports Status
begin

text \<open>
  \<open>internal/httpapi/server.go\<close>: the routes and the handlers of the controller's HTTP API, over the
  operations of \<open>ControllerInterface\<close>. A request is its method, path and basic-auth credentials; a
  response its status code, headers and body, as the handler wrote it to the \<open>ResponseWriter\<close>. JSON is
  kept as the value that is encoded.
\<close>

section \<open>Definitions\<close>

record http_request =
  rq_Method :: string
  rq_Path :: string
  rq_BasicAuth :: "(string \<times> string) option"

datatype json_value = JString string | JBool bool | JInt int | JTime int | JStrings "string list"

datatype http_body = Text string | Json "(string \<times> json_value) list" | JsonStatus StatusResponse

record http_response =
  rs_Code :: nat
  rs_Headers :: "(string \<times> string) list"
  rs_Body :: http_body

text \<open>\<open>http.Error\<close>, and a body written with a code and no headers.\<close>

definition http_Error :: "string \<Rightarrow> nat \<Rightarrow> http_response" where
  "http_Error msg code = \<lparr>rs_Code = code, rs_Headers = [(''Content-Type'', ''text/plain; charset=utf-8''),
     (''X-Content-Type-Options'', ''nosniff'')], rs_Body = Text (msg @ ''\<newline>'')\<rparr>"

definition plain :: "nat \<Rightarrow> string \<Rightarrow> http_response" where
  "plain code msg = \<lparr>rs_Code = code, rs_Headers = [], rs_Body = Text msg\<rparr>"

definition method_not_allowed :: http_response where
  "method_not_allowed = http_Error ''Method not allowed'' 405"

definition no_cache :: "(string \<times> string) list" where
  "no_cache = [(''Content-Type'', ''application/json''), (''Cache-Control'', ''no-cache, no-store, must-revalidate'')]"

subsection \<open>Handlers\<close>

definition handleStatus ::
  "environment \<Rightarrow> Config \<Rightarrow> int \<Rightarrow> http_request \<Rightarrow> ('z controller_state_scheme, http_response) state" where
  "handleStatus env c now r =
     (if rq_Method r \<noteq> ''GET'' then return method_not_allowed
      else do {
        st \<leftarrow> GetClusterStatus env c now;
        return (case st of
            Inl e \<Rightarrow> http_Error (''Failed to get cluster status: '' @ Error e) 500
          | Inr status \<Rightarrow> \<lparr>rs_Code = 200, rs_Headers = no_cache, rs_Body = JsonStatus status\<rparr>) })"

text \<open>\<open>lease\<close> is the API server's answer to the read of the leader lease.\<close>

definition handleLeadership ::
  "Config \<Rightarrow> string option go_result \<Rightarrow> int \<Rightarrow> http_request \<Rightarrow> ('z controller_state_scheme, http_response) state" where
  "handleLeadership c lease now r =
     (if rq_Method r \<noteq> ''GET'' then return method_not_allowed
      else do {
        le \<leftarrow> gets leaderElection;
        return (case GetCurrentLeader lease of
            Inl e \<Rightarrow> http_Error (''Failed to get current leader: '' @ Error e) 500
          | Inr currentLeader \<Rightarrow> \<lparr>rs_Code = 200, rs_Headers = no_cache, rs_Body = Json
              [(''current_leader'', JString currentLeader), (''my_identity'', JString (le_identity le)),
               (''i_am_leader'', JBool (le_IsLeader le)), (''leader_match'', JBool (currentLeader = le_identity le)),
               (''timestamp'', JTime now), (''lease_name'', JString ''memgraph-controller-leader''),
               (''namespace'', JString (Namespace c))]\<rparr>) })"

definition handleHealth :: "int \<Rightarrow> http_request \<Rightarrow> http_response" where
  "handleHealth now r =
     (if rq_Method r \<noteq> ''GET'' then method_not_allowed
      else \<lparr>rs_Code = 200, rs_Headers = [(''Content-Type'', ''application/json'')], rs_Body = Json
        [(''status'', JString ''ok''), (''timestamp'', JTime now), (''service'', JString ''memgraph-controller'')]\<rparr>)"

definition handleRoot :: "int \<Rightarrow> http_request \<Rightarrow> http_response" where
  "handleRoot now r =
     (if rq_Method r \<noteq> ''GET'' then method_not_allowed
      else \<lparr>rs_Code = 200, rs_Headers = [(''Content-Type'', ''application/json'')], rs_Body = Json
        [(''service'', JString ''memgraph-controller''), (''version'', JString ''1.0.0''),
         (''endpoints'', JStrings [''/api/v1/status'', ''/api/v1/leadership'', ''/health'', ''/livez'', ''/readyz'']),
         (''timestamp'', JTime now)]\<rparr>)"

definition handleLiveness :: "http_request \<Rightarrow> ('z controller_state_scheme, http_response) state" where
  "handleLiveness r =
     (if rq_Method r \<noteq> ''GET'' then return method_not_allowed
      else do {
        running \<leftarrow> gets isRunning;
        return (if \<not> running then plain 503 ''Controller not running'' else plain 200 ''OK'') })"

definition handleReadiness :: "http_request \<Rightarrow> ('z controller_state_scheme, http_response) state" where
  "handleReadiness r =
     (if rq_Method r \<noteq> ''GET'' then return method_not_allowed
      else do {
        leader \<leftarrow> gets IsLeader;
        return (if \<not> leader then plain 503 ''Not leader'' else plain 200 ''OK'') })"

definition handleResetConnections ::
  "environment \<Rightarrow> int \<Rightarrow> http_request \<Rightarrow> ('z controller_state_scheme, http_response) state" where
  "handleResetConnections env now r =
     (if rq_Method r \<noteq> ''POST'' then return method_not_allowed
      else do {
        res \<leftarrow> ResetAllConnections env;
        return (case res of
            Inl e \<Rightarrow> http_Error (''Failed to reset connections: '' @ Error e) 500
          | Inr closedCount \<Rightarrow> \<lparr>rs_Code = 200, rs_Headers = [(''Content-Type'', ''application/json'')],
              rs_Body = Json [(''status'', JString ''success''), (''connections_reset'', JInt closedCount),
                (''timestamp'', JTime now),
                (''message'', JString (''Successfully reset '' @ itoa closedCount @ '' connections''))]\<rparr>) })"

text \<open>The time after which the hook's context ends, in seconds.\<close>

definition prestop_timeout :: "(string \<Rightarrow> string) \<Rightarrow> int" where
  "prestop_timeout getenv = (let envTimeout = getenv ''PRESTOP_TIMEOUT_SECONDS'' in
     if envTimeout = '''' then 600
     else case Atoi envTimeout of
         Some parsed \<Rightarrow> if parsed > 0 then parsed else 600
       | None \<Rightarrow> 600)"

definition authorized :: "Config \<Rightarrow> http_request \<Rightarrow> bool" where
  "authorized c r = (case rq_BasicAuth r of
      None \<Rightarrow> False
    | Some (username, password) \<Rightarrow> \<not> (username \<noteq> MemgraphUser c \<or> password \<noteq> MemgraphPassword c))"

text \<open>\<open>None\<close>: the hook is still waiting after the wake-ups \<open>ws\<close>.\<close>

definition handlePreStopHook :: "environment \<Rightarrow> Config \<Rightarrow> wakeup list \<Rightarrow> http_request \<Rightarrow> string
    \<Rightarrow> ('z controller_state_scheme, http_response option) state" where
  "handlePreStopHook env c ws r podName =
     (if rq_Method r \<noteq> ''POST'' then return (Some method_not_allowed)
      else if \<not> authorized c r then return (Some (http_Error ''Unauthorized'' 401))
      else do {
        res \<leftarrow> HandlePreStopHook env c podName ws;
        return (case res of
            None \<Rightarrow> None
          | Some (Inl e) \<Rightarrow> Some (http_Error (''Failed to handle preStop hook: '' @ Error e) 500)
          | Some (Inr _) \<Rightarrow> Some (plain 200 '''')) })"

subsection \<open>Routing\<close>

datatype http_route = StatusRoute | LeadershipRoute | HealthRoute | LivezRoute | ReadyzRoute | MetricsRoute
  | PreStopRoute string | AdminResetRoute | RootRoute

text \<open>The wildcard matches one non-empty path segment; all other paths fall to the root.\<close>

definition route :: "(string \<Rightarrow> string) \<Rightarrow> string \<Rightarrow> http_route" where
  "route getenv path =
     (if path = ''/api/v1/status'' then StatusRoute
      else if path = ''/api/v1/leadership'' then LeadershipRoute
      else if path = ''/health'' then HealthRoute
      else if path = ''/livez'' then LivezRoute
      else if path = ''/readyz'' then ReadyzRoute
      else if path = ''/metrics'' then MetricsRoute
      else if HasPrefix path ''/prestop-hook/'' \<and> drop 14 path \<noteq> '''' \<and> CHR ''/'' \<notin> set (drop 14 path)
        then PreStopRoute (drop 14 path)
      else if getenv ''ENABLE_ADMIN_API'' = ''true'' \<and> path = ''/api/v1/admin/reset-connections''
        then AdminResetRoute
      else RootRoute)"

text \<open>
  The server. The metrics endpoint is served by the Prometheus library, which only reads the
  collectors: \<open>exposition\<close> is its page.
\<close>

definition serve :: "environment \<Rightarrow> Config \<Rightarrow> (string \<Rightarrow> string) \<Rightarrow> string option go_result
    \<Rightarrow> (metrics option \<Rightarrow> string) \<Rightarrow> wakeup list \<Rightarrow> int \<Rightarrow> http_request
    \<Rightarrow> ('z controller_state_scheme, http_response option) state" where
  "serve env c getenv lease exposition ws now r = (case route getenv (rq_Path r) of
      StatusRoute \<Rightarrow> do { x \<leftarrow> handleStatus env c now r; return (Some x) }
    | LeadershipRoute \<Rightarrow> do { x \<leftarrow> handleLeadership c lease now r; return (Some x) }
    | HealthRoute \<Rightarrow> return (Some (handleHealth now r))
    | LivezRoute \<Rightarrow> do { x \<leftarrow> handleLiveness r; return (Some x) }
    | ReadyzRoute \<Rightarrow> do { x \<leftarrow> handleReadiness r; return (Some x) }
    | MetricsRoute \<Rightarrow> do { m \<leftarrow> gets promMetrics; return (Some (plain 200 (exposition m))) }
    | PreStopRoute podName \<Rightarrow> handlePreStopHook env c ws r podName
    | AdminResetRoute \<Rightarrow> do { x \<leftarrow> handleResetConnections env now r; return (Some x) }
    | RootRoute \<Rightarrow> return (Some (handleRoot now r)))"

section \<open>Lemmas\<close>

subsection \<open>Frames\<close>

lemma disconnect_main_step: "state_io_rel (ctl_step P) disconnect_main"
  unfolding disconnect_main_def
  by (rule ctl_step_modify)
    (simp_all add: read_upstream_def GetUpstreamAddress_def DisconnectAll_def with_connections_def)

lemma ResetAllConnections_step: "state_io_rel (ctl_step P) (ResetAllConnections env)"
  unfolding ResetAllConnections_def
  by (intro ctl_frame.frame_rules disconnect_main_step disconnect_read_step pool_ctl_rel [OF pool_Close_step])

lemma HandlePreStopHook_any: "state_io_rel (ctl_step P) (HandlePreStopHook env c k ws)"
  by (rule step_any [OF HandlePreStopHook_step]) simp

lemma serve_step: "state_io_rel (ctl_step P) (serve env c getenv lease exposition ws now r)"
  unfolding serve_def handleStatus_def handleLeadership_def handleLiveness_def handleReadiness_def
    handlePreStopHook_def handleResetConnections_def
  by (cases "route getenv (rq_Path r)"; simp only: http_route.case;
      intro ctl_frame.frame_rules GetClusterStatus_step HandlePreStopHook_any ResetAllConnections_step)

subsection \<open>Who may change what\<close>

text \<open>
  C27: a request to the HTTP API answers at once and changes neither gateway, nor
  the target main, nor a server, unless it is a POST to the preStop hook with the configured
  credentials, or a POST to the reset endpoint of a controller started with the admin API enabled.
\<close>

theorem api_needs_rights:
  fixes s :: "'z controller_state_scheme"
  assumes "\<not> (rq_Method r = ''POST'' \<and> (\<exists>k. route getenv (rq_Path r) = PreStopRoute k) \<and> authorized c r)"
    and "\<not> (rq_Method r = ''POST'' \<and> rq_Path r = ''/api/v1/admin/reset-connections'' \<and>
      getenv ''ENABLE_ADMIN_API'' = ''true'')"
  shows "quiet_step s (exec (serve env c getenv lease exposition ws now r) s) \<and>
    eval_result (serve env c getenv lease exposition ws now r) s \<noteq> None"
proof -
  have admin: "route getenv (rq_Path r) = AdminResetRoute \<Longrightarrow> rq_Method r \<noteq> ''POST''"
    using assms(2) by (auto simp: route_def split: if_splits)
  have prestop: "route getenv (rq_Path r) = PreStopRoute k \<Longrightarrow> rq_Method r \<noteq> ''POST'' \<or> \<not> authorized c r" for k
    using assms(1) by auto
  have "quiet_step s (exec (GetClusterStatus env c now) s)" by (rule io_relD [OF GetClusterStatus_quiet])
  then show ?thesis
    using admin prestop
    by (cases "route getenv (rq_Path r)")
      (auto simp: serve_def handleStatus_def handleLeadership_def handleLiveness_def handleReadiness_def
        handlePreStopHook_def handleResetConnections_def quiet_frame.frame_refl split: if_splits)
qed

theorem api_needs_rights_witness:
  "let r = \<lparr>rq_Method = ''POST'', rq_Path = ''/prestop-hook/mg-0'', rq_BasicAuth = Some (''memgraph'', ''guess'')\<rparr> in
     route (\<lambda>_. '''') (rq_Path r) = PreStopRoute ''mg-0'' \<and>
     eval_result (serve (sim_env running_scenario) sim_config (\<lambda>_. '''') (Inr None) (\<lambda>_. '''') [] 0 r)
       (ready_controller running_scenario) \<noteq> None"
proof -
  let ?r = "\<lparr>rq_Method = ''POST'', rq_Path = ''/prestop-hook/mg-0'', rq_BasicAuth = Some (''memgraph'', ''guess'')\<rparr>"
  have "route (\<lambda>_. '''') (rq_Path ?r) = PreStopRoute ''mg-0''" and "\<not> authorized sim_config ?r" by code_simp+
  moreover from this have "eval_result (serve (sim_env running_scenario) sim_config (\<lambda>_. '''') (Inr None) (\<lambda>_. '''') [] 0 ?r)
      (ready_controller running_scenario) \<noteq> None"
    by (intro conjunct2 [OF api_needs_rights]) simp_all
  ultimately show ?thesis by (simp add: Let_def)
qed

text \<open>
  The readiness probe succeeds exactly while the controller leads and the liveness
  probe exactly while its main loop runs; every other answer to a GET on them is 503.
\<close>

theorem probe_endpoints:
  fixes s :: "'z controller_state_scheme"
  assumes "rq_Method r = ''GET''" and "eval_result (serve env c getenv lease exposition ws now r) s = Some resp"
  shows "(rq_Path r = ''/readyz'' \<longrightarrow> rs_Code resp = (if IsLeader s then 200 else 503)) \<and>
    (rq_Path r = ''/livez'' \<longrightarrow> rs_Code resp = (if isRunning s then 200 else 503))"
  using assms by (auto simp: serve_def route_def handleReadiness_def handleLiveness_def plain_def)

end
