(* ===== verification/Prober_Loop.thy ===== *)
theory Prober_Loop
  imports Health_Prober
begin

text \<open>
  The goroutines of the health prober: \<open>Start\<close>, \<open>Stop\<close> and \<open>runHealthCheckLoop\<close> of
  \<open>internal/controller/prober.go\<close> as a step relation. \<open>Start\<close> makes a channel and starts a loop;
  \<open>Stop\<close> closes the channel and sets the field to nil. The loop reads the field anew for every
  \<open>select\<close>, and receives from the channel it then found: a nil channel is never ready.
\<close>

section \<open>Definitions\<close>

text \<open>A loop is about to select (after a check, or at its start), waits in a select, or has returned.\<close>

datatype loop_pc = BeforeSelect | InSelect "nat option" | Returned

record prober_loops =
  pl_runningCh :: "nat option"
  pl_made :: nat
  pl_closed :: "nat list"
  pl_ctxDone :: bool
  pl_loops :: "loop_pc list"

definition pl_init :: "prober_loops \<Rightarrow> bool" where
  "pl_init s \<longleftrightarrow> s = \<lparr>pl_runningCh = None, pl_made = 0, pl_closed = [], pl_ctxDone = False, pl_loops = []\<rparr>"

text \<open>The steps; a tick is one check. \<open>Start\<close> of a running and \<open>Stop\<close> of a stopped prober do nothing.\<close>

inductive pl_step :: "prober_loops \<Rightarrow> prober_loops \<Rightarrow> bool" where
  Start: "pl_runningCh s = None \<Longrightarrow>
    pl_step s (s\<lparr>pl_runningCh := Some (pl_made s), pl_made := Suc (pl_made s), pl_loops := pl_loops s @ [BeforeSelect]\<rparr>)"
| Stop: "pl_runningCh s = Some ch \<Longrightarrow> pl_step s (s\<lparr>pl_runningCh := None, pl_closed := ch # pl_closed s\<rparr>)"
| Cancel: "pl_step s (s\<lparr>pl_ctxDone := True\<rparr>)"
| Select: "i < length (pl_loops s) \<Longrightarrow> pl_loops s ! i = BeforeSelect \<Longrightarrow>
    pl_step s (s\<lparr>pl_loops := (pl_loops s)[i := InSelect (pl_runningCh s)]\<rparr>)"
| Check: "i < length (pl_loops s) \<Longrightarrow> pl_loops s ! i = InSelect ch \<Longrightarrow>
    pl_step s (s\<lparr>pl_loops := (pl_loops s)[i := BeforeSelect]\<rparr>)"
| SeeStop: "i < length (pl_loops s) \<Longrightarrow> pl_loops s ! i = InSelect (Some ch) \<Longrightarrow> ch \<in> set (pl_closed s) \<Longrightarrow>
    pl_step s (s\<lparr>pl_loops := (pl_loops s)[i := Returned]\<rparr>)"
| SeeCancel: "i < length (pl_loops s) \<Longrightarrow> pl_loops s ! i = InSelect ch \<Longrightarrow> pl_ctxDone s \<Longrightarrow>
    pl_step s (s\<lparr>pl_loops := (pl_loops s)[i := Returned]\<rparr>)"

inductive_cases pl_stepE: "pl_step s t"

text \<open>A loop that missed the stop: there is no channel, the context is alive, and it does not wait for one.\<close>

definition orphaned :: "nat \<Rightarrow> prober_loops \<Rightarrow> bool" where
  "orphaned i s \<longleftrightarrow> pl_runningCh s = None \<and> \<not> pl_ctxDone s \<and> i < length (pl_loops s) \<and>
     pl_loops s ! i \<in> {BeforeSelect, InSelect None}"

text \<open>The channels that loops wait for were made, and a made channel is the current one or closed.\<close>

definition pl_wf :: "prober_loops \<Rightarrow> bool" where
  "pl_wf s \<longleftrightarrow> (\<forall>ch. InSelect (Some ch) \<in> set (pl_loops s) \<longrightarrow> ch < pl_made s) \<and>
     (\<forall>ch < pl_made s. pl_runningCh s = Some ch \<or> ch \<in> set (pl_closed s)) \<and>
     (\<forall>ch. pl_runningCh s = Some ch \<longrightarrow> ch < pl_made s)"

text \<open>A prober that was started, and one stopped before its loop selects, or while it waits.\<close>

definition started :: prober_loops where
  "started = \<lparr>pl_runningCh = Some 0, pl_made = 1, pl_closed = [], pl_ctxDone = False, pl_loops = [BeforeSelect]\<rparr>"

definition missed :: prober_loops where
  "missed = \<lparr>pl_runningCh = None, pl_made = 1, pl_closed = [0], pl_ctxDone = False, pl_loops = [BeforeSelect]\<rparr>"

definition waiting :: prober_loops where
  "waiting = missed\<lparr>pl_loops := [InSelect (Some 0)]\<rparr>"

section \<open>Lemmas\<close>

interpretation pl_inv: inductive_invariant pl_init pl_step pl_wf
proof
  fix s t assume wf: "pl_wf s" and step: "pl_step s t"
  have upd: "InSelect (Some ch) \<in> set (ls[i := x]) \<Longrightarrow> x = InSelect (Some ch) \<or> InSelect (Some ch) \<in> set ls" for ch ls i x
    using set_update_subset_insert [of ls i x] by auto
  show "pl_wf t"
    using step wf by cases (auto simp: pl_wf_def less_Suc_eq dest!: upd)
qed (auto simp: pl_init_def pl_wf_def)

text \<open>
  In every reachable state in which the prober is stopped, each of its loops
  that waits in a select on a channel can return at once.
\<close>

theorem stop_reaches_waiting_loop:
  assumes "reach pl_init pl_step s" and "pl_runningCh s = None"
    and "i < length (pl_loops s)" and "pl_loops s ! i = InSelect (Some ch)"
  shows "\<exists>t. pl_step s t \<and> pl_loops t ! i = Returned"
proof -
  have "InSelect (Some ch) \<in> set (pl_loops s)" using assms(3,4) by (metis nth_mem)
  then have "ch \<in> set (pl_closed s)" using pl_inv.inv_reach [OF assms(1)] assms(2) by (auto simp: pl_wf_def)
  from pl_step.SeeStop [OF assms(3,4) this] show ?thesis using assms(3) by fastforce
qed

lemma orphan_step: "orphaned i s \<Longrightarrow> pl_step s t \<Longrightarrow> pl_runningCh t = None \<Longrightarrow> \<not> pl_ctxDone t \<Longrightarrow> orphaned i t"
  by (erule pl_stepE) (auto simp: orphaned_def nth_list_update)

lemma orphan_run:
  assumes "orphaned i s" and "rtranclp (\<lambda>s t. pl_step s t \<and> pl_runningCh t = None \<and> \<not> pl_ctxDone t) s t"
  shows "orphaned i t"
  using assms(2,1) by (induction rule: rtranclp_induct) (auto intro: orphan_step)

lemma started_reached: "reach pl_init pl_step started"
proof -
  let ?s0 = "\<lparr>pl_runningCh = None, pl_made = 0, pl_closed = [], pl_ctxDone = False, pl_loops = []\<rparr>"
  have "pl_step ?s0 started" using pl_step.Start [of ?s0] by (simp add: started_def)
  then show ?thesis by (auto simp: pl_init_def intro: reach.reach_step [OF reach.reach_init])
qed

lemma missed_reached: "reach pl_init pl_step missed"
  using reach.reach_step [OF started_reached] pl_step.Stop [of started 0] by (simp add: started_def missed_def)

text \<open>
  C38: \<open>Stop\<close> does not stop a loop that is in the middle of a check: the
  state in which the prober was stopped during a check can be reached, and from there, as long as the
  prober is not started again and the context is alive, the loop can always go on to another check and
  never returns.
\<close>

theorem stopped_prober_keeps_checking:
  assumes "rtranclp (\<lambda>s t. pl_step s t \<and> pl_runningCh t = None \<and> \<not> pl_ctxDone t) missed t"
  shows "reach pl_init pl_step missed \<and> pl_runningCh missed = None \<and> pl_loops t ! 0 \<noteq> Returned \<and>
    (\<exists>u. pl_step t u \<and> pl_loops u ! 0 \<in> {BeforeSelect, InSelect None})"
proof -
  have "orphaned 0 missed" by (simp add: orphaned_def missed_def)
  from orphan_run [OF this assms] have t: "orphaned 0 t" .
  then consider "pl_loops t ! 0 = BeforeSelect" | "pl_loops t ! 0 = InSelect None" by (auto simp: orphaned_def)
  then have "\<exists>u. pl_step t u \<and> pl_loops u ! 0 \<in> {BeforeSelect, InSelect None}"
    using t pl_step.Select [of 0 t] pl_step.Check [of 0 t None] by cases (fastforce simp: orphaned_def)+
  with t show ?thesis using missed_reached by (auto simp: orphaned_def missed_def)
qed

theorem stopped_prober_keeps_checking_witness:
  "pl_runningCh missed = None \<and> pl_loops (missed\<lparr>pl_loops := [InSelect None]\<rparr>) ! 0 \<noteq> Returned \<and>
   (\<exists>u. pl_step (missed\<lparr>pl_loops := [InSelect None]\<rparr>) u \<and> pl_loops u ! 0 \<in> {BeforeSelect, InSelect None})"
proof -
  have "pl_step missed (missed\<lparr>pl_loops := [InSelect None]\<rparr>)"
    using pl_step.Select [of 0 missed] by (simp add: missed_def started_def)
  then have "rtranclp (\<lambda>s t. pl_step s t \<and> pl_runningCh t = None \<and> \<not> pl_ctxDone t) missed
      (missed\<lparr>pl_loops := [InSelect None]\<rparr>)"
    by (intro r_into_rtranclp) (simp add: missed_def started_def)
  from stopped_prober_keeps_checking [OF this] show ?thesis by simp
qed

text \<open>A run in which a loop waits when the prober is stopped.\<close>

theorem stop_reaches_waiting_loop_witness:
  "\<exists>t. pl_step waiting t \<and> pl_loops t ! 0 = Returned"
proof -
  let ?s = "started\<lparr>pl_loops := [InSelect (Some 0)]\<rparr>"
  have "pl_step started ?s" using pl_step.Select [of 0 started] by (simp add: started_def)
  moreover have "pl_step ?s waiting" using pl_step.Stop [of ?s 0] by (simp add: started_def waiting_def missed_def)
  ultimately have "reach pl_init pl_step waiting"
    using started_reached by (auto intro: reach.reach_step)
  then show ?thesis by (rule stop_reaches_waiting_loop [where ch = 0]) (simp_all add: waiting_def missed_def)
qed

end
