(* ===== verification/Startup.thy ===== *)
theory Startup
  imports Main_Loop
begin

text \<open>
  The process: \<open>main\<close> of \<open>cmd/memgraph-controller/main.go\<close> with the start-up operations of
  \<open>controller_core.go\<close> and \<open>controller_events.go\<close>. What the operating system and the API server
  answer during start-up is a record of arguments. After start-up the process is a transition system
  of the loop's goroutine, the signal's goroutine, and the other goroutines, which may change anything
  of the controller but the running flag and the informers' stop channel.
\<close>

section \<open>Definitions\<close>

subsection \<open>Start-up\<close>

record boot =
  bt_getenv :: "string \<Rightarrow> string"
  bt_hostname :: "string go_result"
  bt_kubeconfig :: "go_error option"
  bt_clientset :: "go_error option"
  bt_list :: "go_error option"
  bt_synced :: bool
  bt_load :: "string \<Rightarrow> go_error option"
  bt_listen :: "string \<Rightarrow> go_error option"

definition TestConnection :: "go_error option \<Rightarrow> unit go_result" where
  "TestConnection listed = (case listed of
      Some e \<Rightarrow> Inl (Wrapped ''failed to connect to Kubernetes API'' e)
    | None \<Rightarrow> Inr ())"

text \<open>
  The answer is whether the caches synced before the stop channel was closed. The cluster that the code
  creates then is the empty one of the constructor's state.
\<close>

definition StartInformers :: "bool \<Rightarrow> ('z controller_state_scheme, unit go_result) state" where
  "StartInformers synced =
     return (if synced then Inr () else Inl (ErrorString ''failed to sync informer caches''))"

datatype init_error = InformersFailed go_error | MainGatewayFailed start_error | ReadGatewayFailed start_error

definition StartGatewayServer :: "boot \<Rightarrow> ('z controller_state_scheme, init_error option) state" where
  "StartGatewayServer b = do {
     gw \<leftarrow> gets gatewayServer;
     let (err, gw') = server_Start (bt_load b (sv_name gw)) (bt_listen b (sv_name gw)) gw;
     modify (\<lambda>s. s\<lparr>gatewayServer := gw'\<rparr>);
     case err of
       Some e \<Rightarrow> return (Some (MainGatewayFailed e))
     | None \<Rightarrow> do {
         r \<leftarrow> gets readGatewayServer;
         case r of
           None \<Rightarrow> return None
         | Some rgw \<Rightarrow> do {
             let (err, rgw') = server_Start (bt_load b (sv_name rgw)) (bt_listen b (sv_name rgw)) rgw;
             modify (\<lambda>s. s\<lparr>readGatewayServer := Some rgw'\<rparr>);
             return (map_option ReadGatewayFailed err) } } }"

definition Initialize :: "boot \<Rightarrow> ('z controller_state_scheme, init_error option) state" where
  "Initialize b = do {
     modify (\<lambda>s. s\<lparr>reconcileQueue := new_queue, failoverCheckQueue := new_queue\<rparr>);
     r \<leftarrow> StartInformers (bt_synced b);
     case r of
       Inl e \<Rightarrow> return (Some (InformersFailed e))
     | Inr _ \<Rightarrow> StartGatewayServer b }"

definition GetControllerStatus :: "'z controller_state_scheme \<Rightarrow> bool \<times> reconciliation_metrics" where
  "GetControllerStatus s = (isRunning s, GetReconciliationMetrics s)"

text \<open>
  \<open>main\<close> up to its goroutines. The constructor's nil is not checked, and the first method called on it
  locks its mutex, which panics.
\<close>

datatype main_outcome = MainPanic | MainExit nat | MainStarted Config controller_state

definition main_setup :: "boot \<Rightarrow> main_outcome" where
  "main_setup b = (case Load (bt_getenv b) of
      Inl e \<Rightarrow> MainPanic
    | Inr c \<Rightarrow>
        if bt_kubeconfig b \<noteq> None then MainExit 1
        else if bt_clientset b \<noteq> None then MainExit 1
        else (case NewMemgraphController (bt_getenv b) (bt_hostname b) c of
            None \<Rightarrow> MainPanic
          | Some s0 \<Rightarrow> (let s = exec (SetPrometheusMetrics (Some NewWithRegistry)) s0 in
              case TestConnection (bt_list b) of
                Inl e \<Rightarrow> MainExit 1
              | Inr _ \<Rightarrow>
                  if eval_result (Initialize b) s \<noteq> None then MainExit 1
                  else MainStarted c (exec (Initialize b) s))))"

subsection \<open>The goroutines of main\<close>

text \<open>
  The loop's goroutine: before \<open>Run\<close>, in its loop, after an error for which it has still to cancel the
  context, after that, after a return with the context's error, or panicking. The last three but the
  panic close the channel on which \<open>main\<close> waits.
\<close>

datatype loop_goroutine = NotStarted | Looping | Failed go_error | GaveUp | Stopped | Panicked

text \<open>The signal's goroutine: waiting, after \<open>Shutdown\<close>, after the cancellation, or panicking.\<close>

datatype signal_goroutine = Awaiting | ShutDown | Cancelled | SignalPanicked

record process =
  pr_ctl :: controller_state
  pr_loop :: loop_goroutine
  pr_signal :: signal_goroutine
  pr_cancelled :: bool

definition context_canceled :: go_error where
  "context_canceled = ErrorString ''context canceled''"

definition after_run :: "run_result \<Rightarrow> loop_goroutine" where
  "after_run r = (case r of
      RunContinue \<Rightarrow> Looping
    | RunReturn None \<Rightarrow> Stopped
    | RunReturn (Some e) \<Rightarrow> (if e = context_canceled then Stopped else Failed e)
    | RunPanic \<Rightarrow> Panicked)"

definition loop_runs :: "(controller_state, run_result) state \<Rightarrow> process \<Rightarrow> process" where
  "loop_runs m p = p\<lparr>pr_ctl := exec m (pr_ctl p), pr_loop := after_run (eval_result m (pr_ctl p))\<rparr>"

definition live :: "process \<Rightarrow> bool" where
  "live p \<longleftrightarrow> pr_loop p \<noteq> Panicked \<and> pr_signal p \<noteq> SignalPanicked"

inductive main_step :: "Config \<Rightarrow> process \<Rightarrow> process \<Rightarrow> bool" for c where
  Enter: "live p \<Longrightarrow> pr_loop p = NotStarted \<Longrightarrow> main_step c p (loop_runs (Run env c []) p)"
| LoopTick: "live p \<Longrightarrow> pr_loop p = Looping \<Longrightarrow> main_step c p (loop_runs (run_loop env c [RunTick now d]) p)"
| LoopDone: "live p \<Longrightarrow> pr_loop p = Looping \<Longrightarrow> pr_cancelled p \<Longrightarrow>
    main_step c p (loop_runs (run_loop env c [RunDone context_canceled]) p)"
| GiveUp: "live p \<Longrightarrow> pr_loop p = Failed e \<Longrightarrow> main_step c p (p\<lparr>pr_loop := GaveUp, pr_cancelled := True\<rparr>)"
| Signal: "live p \<Longrightarrow> pr_signal p = Awaiting \<Longrightarrow> main_step c p (p\<lparr>pr_ctl := exec Shutdown (pr_ctl p),
    pr_signal := (if eval_result Shutdown (pr_ctl p) = None then SignalPanicked else ShutDown)\<rparr>)"
| SignalCancel: "live p \<Longrightarrow> pr_signal p = ShutDown \<Longrightarrow>
    main_step c p (p\<lparr>pr_signal := Cancelled, pr_cancelled := True\<rparr>)"
| Other: "live p \<Longrightarrow> cluster_wf t \<Longrightarrow> isRunning t = isRunning (pr_ctl p) \<Longrightarrow>
    stopCh_closed t = stopCh_closed (pr_ctl p) \<Longrightarrow> main_step c p (p\<lparr>pr_ctl := t\<rparr>)"

definition main_init :: "boot \<Rightarrow> Config \<Rightarrow> process \<Rightarrow> bool" where
  "main_init b c p \<longleftrightarrow> (\<exists>s. main_setup b = MainStarted c s \<and>
     p = \<lparr>pr_ctl = s, pr_loop = NotStarted, pr_signal = Awaiting, pr_cancelled = False\<rparr>)"

definition main_inv :: "process \<Rightarrow> bool" where
  "main_inv p \<longleftrightarrow> cluster_wf (pr_ctl p) \<and> pr_loop p \<noteq> Stopped \<and> pr_signal p \<noteq> SignalPanicked \<and>
     (pr_loop p = NotStarted \<longrightarrow> \<not> isRunning (pr_ctl p)) \<and>
     (pr_loop p = Looping \<longrightarrow> isRunning (pr_ctl p)) \<and>
     (pr_signal p = Awaiting \<and> pr_loop p \<noteq> Panicked \<longrightarrow> \<not> stopCh_closed (pr_ctl p)) \<and>
     (pr_signal p \<noteq> Awaiting \<longrightarrow> stopCh_closed (pr_ctl p)) \<and>
     (pr_cancelled p \<longrightarrow> pr_signal p = Cancelled \<or> pr_loop p = GaveUp)"

text \<open>The operations that leave the running flag and the stop channel alone.\<close>

definition flags_kept :: "'z controller_state_scheme \<Rightarrow> 'z controller_state_scheme \<Rightarrow> bool" where
  "flags_kept s t \<longleftrightarrow> (cluster_wf s \<longrightarrow>
     cluster_wf t \<and> isRunning t = isRunning s \<and> stopCh_closed t = stopCh_closed s)"

text \<open>A start-up in which everything succeeds.\<close>

definition sim_boot :: boot where
  "sim_boot = \<lparr>bt_getenv = (\<lambda>k. if k = ''ENABLE_READ_GATEWAY'' then ''true'' else ''''),
     bt_hostname = Inr ''ctl-0'', bt_kubeconfig = None, bt_clientset = None, bt_list = None, bt_synced = True,
     bt_load = (\<lambda>_. None), bt_listen = (\<lambda>_. None)\<rparr>"

definition sim_start :: process where
  "sim_start = (case main_setup sim_boot of
      MainStarted c s \<Rightarrow> \<lparr>pr_ctl = s, pr_loop = NotStarted, pr_signal = Awaiting, pr_cancelled = False\<rparr>
    | _ \<Rightarrow> undefined)"

text \<open>The process that started its loop and was asked to terminate, before the loop notices.\<close>

definition sim_signalled :: process where
  "sim_signalled = (let p = loop_runs (Run (sim_env running_scenario) (projr (Load (bt_getenv sim_boot))) []) sim_start
     in p\<lparr>pr_ctl := exec Shutdown (pr_ctl p), pr_signal := Cancelled, pr_cancelled := True\<rparr>)"

section \<open>Lemmas\<close>

interpretation flags_frame: frame_relation flags_kept
  by unfold_locales (auto simp: flags_kept_def)

lemma admin_flags: "state_io_rel admin_kept m \<Longrightarrow> state_io_rel flags_kept m"
  by (auto simp: state_io_rel_def admin_kept_def flags_kept_def)

lemma more_flags:
  fixes m :: "('z controller_state_scheme, 'a) state"
  assumes "state_io_rel more_kept m"
  shows "state_io_rel flags_kept m"
proof (rule io_relI)
  fix s :: "'z controller_state_scheme"
  show "flags_kept s (exec m s)"
    using io_relD [OF assms, of s] own_fieldsD(7,8) [OF own_fields_more [of "exec m s" s]]
    by (simp add: more_kept_def flags_kept_def)
qed

lemma finish_flags: "state_io_rel flags_kept (finish_reconciliation now d e)"
  by (rule io_relI) (simp add: finish_reconciliation_def with_metrics_def flags_kept_def cluster_wf_def pool_wf_def)

lemma run_tick_flags: "state_io_rel flags_kept (run_tick env c now d)"
  unfolding run_tick_def run_bootstrap_def run_reconcile_def performReconciliationActions_def
  by (intro flags_frame.frame_rules more_flags [OF discover_more] admin_flags [OF SetTargetMainIndex_admin]
      admin_flags [OF reconcile_body_admin] finish_flags admin_flags [OF read_admin [OF GetTargetMainIndex_read]])


lemma run_tick_result:
  "eval_result (run_tick env c now d) s = RunReturn r \<Longrightarrow> \<exists>m e. r = Some (Wrapped m e)"
  by (auto simp: run_tick_def run_bootstrap_def run_reconcile_def split: if_splits option.splits sum.splits)

lemma after_tick:
  "after_run (eval_result (run_loop env c [RunTick now d]) s) \<noteq> Stopped"
  "after_run (eval_result (run_loop env c [RunTick now d]) s) \<noteq> NotStarted"
  "after_run (eval_result (run_loop env c [RunTick now d]) s) \<noteq> GaveUp"
  using run_tick_result [of env c now d s]
  by (auto simp: after_run_def context_canceled_def split: run_result.splits option.splits)

lemma exec_tick: "exec (run_loop env c [RunTick now d]) s = exec (run_tick env c now d) s"
  by (auto split: run_result.splits)

lemma tick_kept: "flags_kept s (exec (run_tick env c now d) s)"
  by (rule io_relD [OF run_tick_flags])

lemma enter_run:
  assumes "\<not> isRunning s"
  shows "eval_result (Run env c []) s = RunContinue"
    and "exec (Run env c []) s = s\<lparr>isRunning := True, healthProber := snd (prober_Start (healthProber s))\<rparr>"
  using assms by (simp_all add: Run_def)

lemma shutdown_run:
  assumes "\<not> stopCh_closed s"
  shows "eval_result Shutdown s = Some ()"
    and "exec Shutdown s = s\<lparr>healthProber := prober_Stop (healthProber s), stopCh_closed := True\<rparr>"
  using assms by (simp_all add: Shutdown_def StopGatewayServer_def StopInformers_def close_stopCh_def)

lemma done_run:
  assumes "isRunning s" and "stopCh_closed s"
  shows "eval_result (run_loop env c [RunDone e]) s = RunPanic"
    and "exec (run_loop env c [RunDone e]) s = s\<lparr>isRunning := False\<rparr>"
  using assms by (simp_all add: ctl_stop_def close_stopCh_def)

lemma cluster_wf_flags [simp]:
  "cluster_wf (s\<lparr>isRunning := r\<rparr>) = cluster_wf s" "cluster_wf (s\<lparr>healthProber := h\<rparr>) = cluster_wf s"
  "cluster_wf (s\<lparr>stopCh_closed := b\<rparr>) = cluster_wf s"
  by (simp_all add: cluster_wf_def pool_wf_def)

lemma main_inv_step:
  assumes "main_inv p" and "main_step c p q"
  shows "main_inv q"
  using assms(2)
proof cases
  case (LoopTick env now d)
  then show ?thesis
    using assms(1) tick_kept [where s = "pr_ctl p" and env = env and c = c and now = now and d = d]
      after_tick [of env c now d "pr_ctl p"] exec_tick [of env c now d "pr_ctl p"]
    by (auto simp: main_inv_def loop_runs_def flags_kept_def)
next
  case (LoopDone env)
  then have "isRunning (pr_ctl p)" and "stopCh_closed (pr_ctl p)" using assms(1) by (auto simp: main_inv_def)
  then show ?thesis
    using assms(1) LoopDone done_run [of "pr_ctl p" env c context_canceled]
    by (auto simp: main_inv_def loop_runs_def after_run_def simp del: run_loop.simps)
qed (use assms(1) in \<open>auto simp: main_inv_def loop_runs_def after_run_def enter_run shutdown_run live_def\<close>)


subsection \<open>Start-up\<close>

lemma init_fields:
  assumes "NewMemgraphController getenv hostname c = Some s"
  shows "trace s = []" and "drivers s = []" and "MemgraphNodes s = []" and "\<not> isRunning s" and "\<not> stopCh_closed s"
    and "GetUpstreamAddress (gatewayServer s) = ''''" and "read_upstream s = ''''"
proof -
  obtain le where "NewLeaderElection getenv hostname = Inr le"
    using assms by (auto simp: NewMemgraphController_def split: sum.splits)
  then show "trace s = []" and "drivers s = []" and "MemgraphNodes s = []" and "\<not> isRunning s"
    and "\<not> stopCh_closed s" and "GetUpstreamAddress (gatewayServer s) = ''''" and "read_upstream s = ''''"
    using assms [symmetric]
    by (simp_all add: NewMemgraphController_def DefaultProberConfig_def read_upstream_def GetUpstreamAddress_def
        NewServer_def)
qed

lemma server_Start_ok:
  assumes "server_Start le li gw = (None, gw')"
  shows "sv_isRunning gw'" and "Validate (sv_config gw') = None" and "GetUpstreamAddress gw' = GetUpstreamAddress gw"
  using assms by (auto simp: server_Start_def GetUpstreamAddress_def split: option.splits if_splits)

lemma Initialize_fields:
  fixes s :: "'z controller_state_scheme" and b :: boot
  defines "t \<equiv> exec (Initialize b) s"
  shows "trace t = trace s" and "drivers t = drivers s" and "MemgraphNodes t = MemgraphNodes s"
    and "isRunning t = isRunning s" and "stopCh_closed t = stopCh_closed s"
  by (auto simp: t_def Initialize_def StartInformers_def StartGatewayServer_def split_def Let_def
      split: sum.splits option.splits)

lemma Initialize_ok:
  fixes s :: "'z controller_state_scheme" and b :: boot
  assumes "eval_result (Initialize b) s = None"
  defines "t \<equiv> exec (Initialize b) s"
  shows "bt_synced b" and "sv_isRunning (gatewayServer t)" and "Validate (sv_config (gatewayServer t)) = None"
    and "GetUpstreamAddress (gatewayServer t) = GetUpstreamAddress (gatewayServer s)"
    and "readGatewayServer t = Some rgw \<Longrightarrow> sv_isRunning rgw \<and> Validate (sv_config rgw) = None"
    and "read_upstream t = read_upstream s"
  using assms(1) server_Start_ok
  by (auto simp: t_def Initialize_def StartInformers_def StartGatewayServer_def split_def Let_def read_upstream_def prod_eq_iff
      split: sum.splits option.splits if_splits)

lemma main_setupD:
  assumes "main_setup b = MainStarted c s"
  obtains s0 where "NewMemgraphController (bt_getenv b) (bt_hostname b) c = Some s0"
    and "eval_result (Initialize b) (s0\<lparr>promMetrics := Some NewWithRegistry\<rparr>) = None"
    and "s = exec (Initialize b) (s0\<lparr>promMetrics := Some NewWithRegistry\<rparr>)"
  using assms
  by (auto simp: main_setup_def SetPrometheusMetrics_def Let_def split: sum.splits option.splits if_splits)

lemma main_init_inv: "main_init b c p \<Longrightarrow> main_inv p"
  by (auto simp: main_init_def main_inv_def cluster_wf_def pool_wf_def Initialize_fields init_fields elim!: main_setupD)


interpretation main_process: inductive_invariant "main_init b c" "main_step c" main_inv for b c
  by unfold_locales (auto intro: main_init_inv main_inv_step)

lemma sim_started: "\<exists>s. main_setup sim_boot = MainStarted (projr (Load (bt_getenv sim_boot))) s"
proof -
  have "(case main_setup sim_boot of MainStarted c s \<Rightarrow> c = projr (Load (bt_getenv sim_boot)) | _ \<Rightarrow> False)" by code_simp
  then show ?thesis by (simp split: main_outcome.splits)
qed

lemma sim_start_flags:
  "main_init sim_boot (projr (Load (bt_getenv sim_boot))) sim_start"
  "pr_loop sim_start = NotStarted" "pr_signal sim_start = Awaiting"
  "\<not> isRunning (pr_ctl sim_start)" "\<not> stopCh_closed (pr_ctl sim_start)"
proof -
  show i: "main_init sim_boot (projr (Load (bt_getenv sim_boot))) sim_start"
    using sim_started by (auto simp: main_init_def sim_start_def)
  show l: "pr_loop sim_start = NotStarted" "pr_signal sim_start = Awaiting"
    using sim_started by (auto simp: sim_start_def)
  show "\<not> isRunning (pr_ctl sim_start)" "\<not> stopCh_closed (pr_ctl sim_start)"
    using main_init_inv [OF i] l by (simp_all add: main_inv_def)
qed

lemma sim_signalled_reached:
  "reach (main_init sim_boot (projr (Load (bt_getenv sim_boot)))) (main_step (projr (Load (bt_getenv sim_boot)))) sim_signalled
   \<and> pr_loop sim_signalled = Looping \<and> pr_cancelled sim_signalled"
proof -
  define c where "c = projr (Load (bt_getenv sim_boot))"
  define p where "p = loop_runs (Run (sim_env running_scenario) c []) sim_start"
  note start = sim_start_flags [folded c_def]
  have p: "live p" "pr_loop p = Looping" "pr_signal p = Awaiting" "\<not> stopCh_closed (pr_ctl p)"
    using start by (simp_all add: p_def loop_runs_def enter_run after_run_def live_def)
  have s: "live sim_start" using start by (simp add: live_def)
  have "reach (main_init sim_boot c) (main_step c) p"
    unfolding p_def
    by (rule reach.reach_step, rule reach.reach_init, rule start, rule main_step.Enter [OF s start(2)])
  from reach.reach_step [OF this main_step.Signal [OF p(1,3)]]
  have "reach (main_init sim_boot c) (main_step c) (p\<lparr>pr_ctl := exec Shutdown (pr_ctl p), pr_signal := ShutDown\<rparr>)"
    using p(4) by (simp add: shutdown_run)
  from reach.reach_step [OF this main_step.SignalCancel]
  show ?thesis
    using p(1,2) by (simp add: sim_signalled_def p_def c_def live_def Let_def)
qed

text \<open>
  Without an identity of the pod the process panics on its first use of the controller, whatever else
  it is told.
\<close>

theorem unknown_identity_panics:
  assumes "NewLeaderElection (bt_getenv b) (bt_hostname b) = Inl e"
    and "bt_kubeconfig b = None" and "bt_clientset b = None"
  shows "main_setup b = MainPanic"
  using assms by (simp add: main_setup_def NewMemgraphController_def split: sum.split)

text \<open>
  C22: a process that gets past its start-up has synced its caches and started every gateway
  with a configuration that validates; it has sent nothing to any server, knows no node yet, and no
  gateway has an upstream, so that clients are refused until the leader routes them.
\<close>

theorem startup_is_quiet:
  assumes "main_setup b = MainStarted c s"
  shows "bt_synced b \<and> sv_isRunning (gatewayServer s) \<and> Validate (sv_config (gatewayServer s)) = None \<and>
    (\<forall>gw. readGatewayServer s = Some gw \<longrightarrow> sv_isRunning gw \<and> Validate (sv_config gw) = None) \<and>
    trace s = [] \<and> MemgraphNodes s = [] \<and> GetUpstreamAddress (gatewayServer s) = '''' \<and> read_upstream s = ''''"
proof -
  obtain s0 where s0: "NewMemgraphController (bt_getenv b) (bt_hostname b) c = Some s0"
    and ok: "eval_result (Initialize b) (s0\<lparr>promMetrics := Some NewWithRegistry\<rparr>) = None"
    and s: "s = exec (Initialize b) (s0\<lparr>promMetrics := Some NewWithRegistry\<rparr>)"
    using assms by (rule main_setupD)
  have "read_upstream (s0\<lparr>promMetrics := Some NewWithRegistry\<rparr>) = ''''"
    using init_fields(7) [OF s0] by (simp add: read_upstream_def)
  then show ?thesis
    using Initialize_ok [OF ok] by (simp add: s Initialize_fields init_fields [OF s0])
qed

theorem startup_is_quiet_witness:
  "\<exists>s. main_setup sim_boot = MainStarted (projr (Load (bt_getenv sim_boot))) s \<and> sv_isRunning (gatewayServer s) \<and>
     trace s = []"
proof -
  obtain s where "main_setup sim_boot = MainStarted (projr (Load (bt_getenv sim_boot))) s" using sim_started by blast
  then show ?thesis using startup_is_quiet [of sim_boot "projr (Load (bt_getenv sim_boot))" s] by blast
qed

text \<open>
  C21: the process never stops cleanly. \<open>Run\<close> returns the context's error in no run of the
  process: the context is cancelled only after the signal's \<open>Shutdown\<close> or after the loop failed, and a
  loop that is still running when the context is cancelled closes the informers' stop channel again,
  which panics before the queues are cancelled.
\<close>

theorem signal_panics_process:
  assumes "reach (main_init b c) (main_step c) p"
  shows "pr_loop p \<noteq> Stopped \<and> (pr_loop p = Looping \<and> pr_cancelled p \<longrightarrow>
    pr_signal p = Cancelled \<and> eval_result (run_loop env c [RunDone context_canceled]) (pr_ctl p) = RunPanic)"
proof -
  have "main_inv p" by (rule main_process.inv_reach [OF assms])
  then show ?thesis using done_run(1) [of "pr_ctl p" env c context_canceled] by (auto simp: main_inv_def)
qed

theorem signal_panics_process_witness:
  "pr_loop sim_signalled = Looping \<and> pr_cancelled sim_signalled \<and>
   eval_result (run_loop (sim_env running_scenario) (projr (Load (bt_getenv sim_boot))) [RunDone context_canceled])
     (pr_ctl sim_signalled) = RunPanic"
proof -
  let ?c = "projr (Load (bt_getenv sim_boot))" and ?env = "sim_env running_scenario"
  have r: "reach (main_init sim_boot ?c) (main_step ?c) sim_signalled"
    and l: "pr_loop sim_signalled = Looping" "pr_cancelled sim_signalled"
    using sim_signalled_reached by simp_all
  then show ?thesis using signal_panics_process [OF r, of ?env] by simp
qed

end
