(* ===== verification/Failover_Progress.thy ===== *)
theory Failover_Progress
  imports Failover
begin

text \<open>
  That a failover happens when it should: the conditions of \<open>executeFailoverInternal\<close> are not only
  necessary but enough, when the sync replica's server is alive and obeys its commands and the API server
  stores the index. The behaviour expected of a live Memgraph server is stated here, over all histories.
\<close>

section \<open>Definitions\<close>

text \<open>A server that can be reached and answers every query in time.\<close>

definition answers :: "environment \<Rightarrow> string \<Rightarrow> bool" where
  "answers env a \<longleftrightarrow> (\<forall>h. \<exists>n. env_new_driver env h a = Inr n) \<and> (\<forall>h n. env_verify env h (a, n) = None) \<and>
     (\<forall>h n q. \<exists>rs. env_query env h (a, n) q = Inr rs) \<and> (\<forall>h q. env_select env h a q = ResultReady)"

text \<open>The last role that the server was told to take, and a server that reports the role main then.\<close>

fun last_role :: "history \<Rightarrow> string \<Rightarrow> string option" where
  "last_role [] a = None"
| "last_role (IoQuery d q (Inr rs) # h) a =
     (if fst d = a \<and> q \<in> {cmd_main, cmd_replica} then Some q else last_role h a)"
| "last_role (_ # h) a = last_role h a"

definition obeys :: "environment \<Rightarrow> string \<Rightarrow> bool" where
  "obeys env a \<longleftrightarrow> (\<forall>h n rs. last_role h a = Some cmd_main \<longrightarrow>
     env_query env h (a, n) ''SHOW REPLICATION ROLE'' = Inr rs \<longrightarrow> role_of_records rs = Inr ''main'')"

text \<open>An API server that stores what it is given, an update only if there is something to update.\<close>

definition stores :: "environment \<Rightarrow> bool" where
  "stores env \<longleftrightarrow> (\<forall>h name d ow e. env_cm_update env h name d ow = Some e \<longrightarrow> IsNotFound e) \<and>
     (\<forall>h name d ow. env_cm_create env h name d ow = None)"

text \<open>The informer's store always has the pod ready, with an address.\<close>

definition store_ready :: "environment \<Rightarrow> Config \<Rightarrow> string \<Rightarrow> bool" where
  "store_ready env c k \<longleftrightarrow> (\<forall>h. \<exists>p. env_store_get env h (pod_key c k) = Inr (Some p) \<and> isPodReady p \<and> PodIP p \<noteq> '''')"

text \<open>
  What the controller has cached when it may fail over from pod \<open>m\<close> to pod \<open>k\<close>: the main's list of
  replicas, in which \<open>k\<close> is strictly synchronous and every replica is ready, and a role and an
  address of \<open>k\<close>.
\<close>

definition failover_ready :: "string \<Rightarrow> string \<Rightarrow> string \<Rightarrow> 'z cluster_state_scheme \<Rightarrow> bool" where
  "failover_ready m k ip s \<longleftrightarrow> has_node m s \<and> nd_memgraphRole (node_at m s) = ''main'' \<and>
     nd_hasReplicasInfo (node_at m s) \<and>
     (case find (\<lambda>r. ri_Name r = GetReplicaName_pod k) (nd_replicasInfo (node_at m s)) of
        None \<Rightarrow> False | Some r \<Rightarrow> ri_SyncMode r = ''strict_sync'') \<and>
     (\<forall>r \<in> set (nd_replicasInfo (node_at m s)).
        case ri_ParsedDataInfo r of None \<Rightarrow> False | Some d \<Rightarrow> di_Status d = ''ready'') \<and>
     addresses s k = Some ip \<and> ip \<noteq> '''' \<and> nd_memgraphRole (node_at k s) \<noteq> ''''"

text \<open>The running cluster once its main's pod is no longer ready, and a controller that knew it before.\<close>

definition unready_scenario :: scenario where
  "unready_scenario = running_scenario\<lparr>sc_pods :=
     [(sim_pod ''mg-0'' ''10.0.0.1'')\<lparr>Conditions := []\<rparr>, sim_pod ''mg-1'' ''10.0.0.2'']\<rparr>"

definition checked_controller :: controller_state where
  "checked_controller = exec (failover_check (sim_env running_scenario) sim_config) (ready_controller running_scenario)"

section \<open>Lemmas\<close>

subsection \<open>Queries to a live server\<close>

lemma answersD:
  assumes "answers env a"
  obtains n where "env_new_driver env h a = Inr n"
  using assms unfolding answers_def by blast

lemma live_driver:
  assumes "answers env a" and "pool_wf s" and "a \<noteq> ''''"
  shows "\<exists>n pre. eval_result (GetDriver env a) s = Inr (a, n) \<and> trace (exec (GetDriver env a) s) = pre @ trace s \<and>
    (\<forall>e \<in> set pre. \<forall>d q r. e \<noteq> IoQuery d q r)"
proof (cases "map_of (drivers s) a")
  case None
  obtain n where "env_new_driver env (trace s) a = Inr n" using answersD [OF assms(1)] .
  then show ?thesis
    using None assms by (auto simp: GetDriver_def createDriver_def new_driver_def verify_connectivity_def put_driver_def
        call_run answers_def)
next
  case (Some d)
  then have "d = (a, snd d)" using pool_wf_lookup [OF assms(2)] by (cases d) auto
  then obtain n where "d = (a, n)" ..
  then show ?thesis
    using Some assms by (auto simp: GetDriver_def recheck_driver_def verify_connectivity_def call_run answers_def)
qed

lemma live_query:
  assumes "answers env a" and "pool_wf s" and "a \<noteq> ''''"
  shows "\<exists>n rs pre. eval_result (RunQueryWithTimeout env a q tmo) s = Inr rs \<and>
    env_query env (pre @ trace s) (a, n) q = Inr rs \<and> (\<forall>e \<in> set pre. \<forall>d q r. e \<noteq> IoQuery d q r) \<and>
    trace (exec (RunQueryWithTimeout env a q tmo) s) =
      IoSelect a q ResultReady # IoQuery (a, n) q (Inr rs) # pre @ trace s"
proof -
  obtain n pre where d: "eval_result (GetDriver env a) s = Inr (a, n)" "trace (exec (GetDriver env a) s) = pre @ trace s"
    "\<forall>e \<in> set pre. \<forall>d q r. e \<noteq> IoQuery d q r"
    using live_driver [OF assms] by blast
  obtain rs where "env_query env (pre @ trace s) (a, n) q = Inr rs"
    using assms(1) unfolding answers_def by blast
  then show ?thesis
    using d assms(1,3)
    by (intro exI [of _ n] exI [of _ rs] exI [of _ pre])
      (simp add: RunQueryWithTimeout_def RunQuery_def session_run_def select_result_def call_run answers_def)
qed

lemma last_role_skip: "(\<forall>e \<in> set pre. \<forall>d q r. e \<noteq> IoQuery d q r) \<Longrightarrow> last_role (pre @ h) a = last_role h a"
proof (induction pre)
  case (Cons e pre)
  then show ?case by (cases e) auto
qed simp


lemma node_ip: "addresses s k = Some ip \<Longrightarrow> nd_ipAddress (node_at k s) = ip"
  by (auto simp: addresses_def node_at_def)

lemma node_bolt: "addresses s k = Some ip \<Longrightarrow> ip \<noteq> '''' \<Longrightarrow> GetBoltAddress (node_at k s) = Inr (ip @ '':7687'')"
  by (simp add: GetBoltAddress_def node_ip)

lemma live_ping:
  fixes s :: "'z controller_state_scheme"
  assumes "cluster_wf s" and "addresses s k = Some ip" and "ip \<noteq> ''''" and "answers env (ip @ '':7687'')"
  shows "eval_result (lastChancePing env k) s = None"
proof -
  have "pool_wf s" using assms(1) by (simp add: cluster_wf_def)
  from live_query [OF assms(4) this, of "''RETURN 1''" 3]
  obtain rs where "eval_result (RunQueryWithTimeout env (ip @ '':7687'') ''RETURN 1'' 3) s = Inr rs" by auto
  then show ?thesis
    using assms(2,3) by (simp add: lastChancePing_def has_node_book eval_on_node node_Ping_def node_bolt client_Ping_def)
qed

lemma protect_drained: "drained s \<Longrightarrow> exec (protectReadGatewayBeforeRoleChange k) s = s"
  by (auto simp: protectReadGatewayBeforeRoleChange_def drained_def read_upstream_def split: option.splits)

lemma live_promotion:
  fixes s :: "'z controller_state_scheme"
  assumes "cluster_wf s" and "addresses s k = Some ip" and "ip \<noteq> ''''" and "answers env (ip @ '':7687'')"
  defines "t \<equiv> exec (on_node k (SetToMainRole env)) s"
  shows "eval_result (on_node k (SetToMainRole env)) s = None" and "nd_memgraphRole (node_at k t) = ''''"
    and "last_role (trace t) (ip @ '':7687'') = Some cmd_main"
proof -
  let ?a = "ip @ '':7687''"
  have known: "map_of (MemgraphNodes s) k \<noteq> None" using assms(2) by (auto simp: addresses_def)
  have "pool_wf s" using assms(1) by (simp add: cluster_wf_def)
  from live_query [OF assms(4) this, of cmd_main 5]
  obtain n rs pre where q: "eval_result (RunQueryWithTimeout env ?a cmd_main 5) s = Inr rs"
    "trace (exec (RunQueryWithTimeout env ?a cmd_main 5) s) =
       IoSelect ?a cmd_main ResultReady # IoQuery (?a, n) cmd_main (Inr rs) # pre @ trace s"
    by auto
  show "eval_result (on_node k (SetToMainRole env)) s = None"
    using q assms(2,3) by (simp add: eval_on_node SetToMainRole_def node_bolt SetReplicationRoleToMain_def)
  have "t = (exec (RunQueryWithTimeout env ?a cmd_main 5) s)\<lparr>MemgraphNodes := AList.update k
      ((node_at k s)\<lparr>nd_memgraphRole := '''', nd_hasReplicasInfo := False\<rparr>)
      (MemgraphNodes (exec (RunQueryWithTimeout env ?a cmd_main 5) s))\<rparr>"
    using q known assms(2,3)
    by (auto simp: t_def exec_on_node SetToMainRole_def node_bolt SetReplicationRoleToMain_def Let_def)
  then show "nd_memgraphRole (node_at k t) = ''''" and "last_role (trace t) ?a = Some cmd_main"
    using q(2) by (simp_all add: node_at_def)
qed

lemma live_role:
  fixes s :: "'z controller_state_scheme"
  assumes "cluster_wf s" and "addresses s k = Some ip" and "ip \<noteq> ''''" and "answers env (ip @ '':7687'')"
    and "obeys env (ip @ '':7687'')" and "nd_memgraphRole (node_at k s) = ''''"
    and "last_role (trace s) (ip @ '':7687'') = Some cmd_main"
  shows "eval_result (on_node k (\<lambda>n. GetReplicationRole env n False)) s = (''main'', None)"
proof -
  let ?a = "ip @ '':7687''" and ?q = "''SHOW REPLICATION ROLE''"
  have "pool_wf s" using assms(1) by (simp add: cluster_wf_def)
  from live_query [OF assms(4) this, of ?q 5]
  obtain n rs pre where q: "eval_result (RunQueryWithTimeout env ?a ?q 5) s = Inr rs"
    "env_query env (pre @ trace s) (?a, n) ?q = Inr rs" "\<forall>e \<in> set pre. \<forall>d q r. e \<noteq> IoQuery d q r"
    by auto
  have "last_role (pre @ trace s) ?a = Some cmd_main" using last_role_skip [OF q(3)] assms(7) by simp
  then have "role_of_records rs = Inr ''main''" using assms(5) q(2) unfolding obeys_def by blast
  then show ?thesis
    using q(1) assms(2,3,6) by (simp add: eval_on_node GetReplicationRole_def node_bolt QueryReplicationRole_def)
qed


lemma live_promote:
  fixes s :: "'z controller_state_scheme"
  assumes "cluster_wf s" and "drained s" and "targetMainIndex s = i" and "i \<noteq> - 1"
    and k: "addresses s (GetPodName c (1 - i)) = Some ip" "ip \<noteq> ''''"
    and srv: "answers env (ip @ '':7687'')" "obeys env (ip @ '':7687'')"
  shows "eval_result (promoteSyncReplica env c) s = Inr ()"
proof -
  let ?k = "GetPodName c (1 - i)"
  let ?t = "exec (on_node ?k (SetToMainRole env)) s"
  note p = live_promotion [OF assms(1) k srv(1)]
  have "cluster_step (\<lambda>_ _. True) s ?t"
    by (rule io_relD [OF on_node_step [OF main_op.node_operation_axioms]]) simp
  then have t: "cluster_wf ?t" "addresses ?t = addresses s" using assms(1) by (simp_all add: cluster_step_def)
  have "eval_result (on_node ?k (\<lambda>n. GetReplicationRole env n False)) ?t = (''main'', None)"
    using t k by (intro live_role [OF t(1) _ k(2) srv p(2,3)]) simp
  then show ?thesis
    using p(1) assms(2,3,4) k
    by (simp add: promoteSyncReplica_def GetTargetMainIndex_def protect_drained has_node_book Let_def)
qed

subsection \<open>The conditions\<close>

lemma cached_role:
  assumes "has_node k s" and "nd_memgraphRole (node_at k s) \<noteq> ''''"
  shows "eval_result (on_node k (\<lambda>n. GetReplicationRole env n False)) s = (nd_memgraphRole (node_at k s), None)"
    and "exec (on_node k (\<lambda>n. GetReplicationRole env n False)) s = s"
  using assms
  by (auto simp: eval_on_node exec_on_node GetReplicationRole_def has_node_def node_at_def Let_def AList.update_triv)

lemma cached_replicas:
  assumes "has_node m s" and "nd_memgraphRole (node_at m s) = ''main''" and "nd_hasReplicasInfo (node_at m s)"
  shows "eval_result (on_node m (\<lambda>n. GetReplicas env n False)) s = (nd_replicasInfo (node_at m s), None)"
    and "exec (on_node m (\<lambda>n. GetReplicas env n False)) s = s"
  using assms
  by (auto simp: eval_on_node exec_on_node GetReplicas_def GetReplicationRole_def has_node_def node_at_def Let_def
      AList.update_triv)

lemma ready_safe:
  assumes "failover_ready m k ip s"
  shows "sync_replica_safe n (GetReplicaName_pod k) (nd_replicasInfo (node_at m s)) = Inr ()"
    and "all_replicas_ready (nd_replicasInfo (node_at m s)) = Inr ()"
proof -
  let ?rs = "nd_replicasInfo (node_at m s)"
  have all: "\<forall>r \<in> set ?rs. \<exists>d. ri_ParsedDataInfo r = Some d \<and> di_Status d = ''ready''"
    using assms by (fastforce simp: failover_ready_def split: option.splits)
  obtain r where r: "find (\<lambda>r. ri_Name r = GetReplicaName_pod k) ?rs = Some r" "ri_SyncMode r = ''strict_sync''"
    using assms by (auto simp: failover_ready_def split: option.splits)
  then have "r \<in> set ?rs" by (auto simp: find_Some_iff)
  then obtain d where "ri_ParsedDataInfo r = Some d" "di_Status d = ''ready''" using all by blast
  then show "sync_replica_safe n (GetReplicaName_pod k) ?rs = Inr ()" using r by (simp add: sync_replica_safe_def)
  show "all_replicas_ready ?rs = Inr ()" using all by (simp add: all_replicas_ready_iff)
qed

lemma failover_ready_trace [simp]: "failover_ready m k ip (s\<lparr>trace := h\<rparr>) = failover_ready m k ip s"
  by (simp add: failover_ready_def)

lemma live_check:
  fixes s :: "'z controller_state_scheme" and env :: environment and c :: Config and i :: int32
  assumes "cluster_wf s" and "targetMainIndex s = i" and "i \<noteq> - 1" and "store_ready env c (GetPodName c (1 - i))"
    and rd: "failover_ready (GetPodName c i) (GetPodName c (1 - i)) ip s" and "answers env (ip @ '':7687'')"
  shows "\<exists>role. eval_result (failover_check env c) s = Inr (1 - i, role)"
proof -
  let ?k = "GetPodName c (1 - i)" and ?m = "GetPodName c i"
  obtain p where p: "env_store_get env (trace s) (pod_key c ?k) = Inr (Some p)" "isPodReady p" "PodIP p \<noteq> ''''"
    using assms(4) unfolding store_ready_def by blast
  let ?u = "s\<lparr>trace := IoStoreGet (pod_key c ?k) (Inr (Some p)) # trace s\<rparr>"
  have wu: "cluster_wf ?u" using assms(1) by (rule cluster_wf_trace) auto
  have ip: "addresses s ?k = Some ip" "ip \<noteq> ''''" and known: "has_node ?k s" "nd_memgraphRole (node_at ?k s) \<noteq> ''''"
    and m: "has_node ?m s" "nd_memgraphRole (node_at ?m s) = ''main''" "nd_hasReplicasInfo (node_at ?m s)"
    using rd by (simp_all add: failover_ready_def has_node_book)
  have "eval_result (getHealthyRole env c ?k) s = (nd_memgraphRole (node_at ?k s), True)"
    and "exec (getHealthyRole env c ?k) s = ?u"
    using p known cached_role [of ?k ?u env]
    by (simp_all add: getHealthyRole_def getPodFromCache_def store_get_def call_run)
  moreover have "eval_result (failover_replicas env c ?k) ?u = Inr ()" and "exec (failover_replicas env c ?k) ?u = ?u"
    using assms(2,3) m known cached_replicas [of ?m ?u env] ready_safe [OF rd] known_name [OF wu, of ?k]
    by (simp_all add: failover_replicas_def getTargetMainNode_def GetTargetMainIndex_def GetReplicaName_def
        GetReplicaName_pod_eq)
  moreover have "eval_result (lastChancePing env ?k) ?u = None"
    using live_ping [OF wu _ ip(2) assms(6)] ip(1) by simp
  ultimately show ?thesis
    using assms(2,3) by (simp add: failover_check_def GetTargetMainIndex_def failover_conditions_def)
qed

lemma live_index:
  assumes "stores env"
  shows "eval_result (SetTargetMainIndex env j) s = Inr ()"
proof -
  have "IsNotFound e" if "env_cm_update env h name d ow = Some e" for h name d ow e
    using assms that unfolding stores_def by blast
  moreover have "env_cm_create env h name d ow = None" for h name d ow using assms by (simp add: stores_def)
  ultimately show ?thesis
    by (auto simp: SetTargetMainIndex_def cm_update_def cm_create_def call_run Let_def split: option.split)
qed

lemma live_failover:
  fixes s :: "'z controller_state_scheme" and env :: environment and c :: Config and i :: int32
  assumes "ctl_wf s" and "targetMainIndex s = i" and "i \<noteq> - 1" and "store_ready env c (GetPodName c (1 - i))"
    and rd: "failover_ready (GetPodName c i) (GetPodName c (1 - i)) ip s"
    and srv: "answers env (ip @ '':7687'')" "obeys env (ip @ '':7687'')" and "stores env"
  shows "eval_result (executeFailoverInternal env c) s = Inr ()"
proof -
  let ?u = "exec (failover_check env c) s"
  have wf: "cluster_wf s" using assms(1) by (simp add: ctl_wf_def)
  obtain role where role: "eval_result (failover_check env c) s = Inr (1 - i, role)"
    using live_check [OF wf assms(2-5) srv(1)] by blast
  have g: "eval_result (GetTargetMainIndex env) s = Inr i" using assms(2,3) by (simp add: GetTargetMainIndex_def)
  note u = failover_check_state [OF assms(1) g assms(3), of c]
  note d = drain_state [OF u(3)] and dr = drain_result(1-3) [of ?u]
  have "eval_result (promoteSyncReplica env c) (exec drain ?u) = Inr ()"
    using rd u(2,4) d dr by (intro live_promote [OF d(2) dr(1) _ assms(3) _ _ srv]) (simp_all add: failover_ready_def)
  moreover have "eval_result (failover_finish env c (1 - i)) v = Inr ()" for v :: "'z controller_state_scheme"
    using live_index [OF assms(8), of "1 - i" v] by (simp add: failover_finish_def)
  ultimately show ?thesis using role by (simp add: executeFailoverInternal_def failover_commit_run)
qed

subsection \<open>Properties\<close>



subsection \<open>The simulated servers are alive and obey\<close>

lemma sim_role_main: "last_role h a = Some cmd_main \<Longrightarrow> sim_role init h a = ''main''"
proof (induction init h a rule: sim_role.induct)
  case (2 init a' n q rs h a)
  then show ?case by (cases "a' = a \<and> q = cmd_main") (auto split: if_splits)
qed auto

lemma sim_obeys: "obeys (sim_env sc) a"
  by (auto simp: obeys_def sim_env_def sim_query_def sim_role_main role_of_records_def)

lemma sim_answers: "sc_dead sc = [] \<Longrightarrow> answers (sim_env sc) a"
  by (simp add: answers_def sim_env_def sim_query_def)

lemma sim_data_missing: "sim_data sc h = Inl e \<Longrightarrow> IsNotFound e"
  by (induction sc h rule: sim_data.induct) (auto split: option.splits)

lemma sim_stores: "stores (sim_env sc)"
  by (auto simp: stores_def sim_env_def sim_data_missing split: sum.splits)


end
