(* ===== verification/Spec2Isabelle.thy ===== *)
theory Spec2Isabelle
  imports Http_Api Prober_Loop Startup Failover_Progress
begin

text \<open>
  \<^bold>\<open>A verification of the Memgraph high-availability controller.\<close>

  The program keeps a Memgraph cluster on Kubernetes available: pods 0 and 1 of a StatefulSet are
  eligible as main, one is the target main (its index is stored in a ConfigMap), the other its strictly
  synchronous replica; further pods are asynchronous replicas. The process elects a leader among its
  replicas, discovers the cluster once, reconciles it periodically and on pod events, fails over to the
  synchronous replica, and proxies clients through a gateway to the main and optionally through a
  second one to a replica.

  \<^bold>\<open>Theories and sources\<close> (under \<open>src/internal\<close>, unless said otherwise).

  \<^item> \<open>Prelude\<close>: Go values, errors (\<open>go_error\<close>, \<open>go_result\<close>), string functions, the state monad's
    program logic, and the locales \<open>frame_relation\<close> (a reflexive and transitive relation that all steps of
    an operation respect, with the rules that lift it through the monad) and \<open>inductive_invariant\<close>
    (an invariant of a transition system). \<open>Go_Duration\<close>: \<open>time.ParseDuration\<close>.
  \<^item> \<open>World\<close>: the record \<open>environment\<close> of everything the sources call outside the repository, and the
    trace of interactions. \<open>Scenario\<close>: a concrete environment on which witnesses are evaluated.
  \<^item> \<open>Common_Config\<close>: \<open>common/config.go\<close>, the level of \<open>common/logging.go\<close>. \<open>Kubernetes\<close>: the pod predicates.
  \<^item> \<open>Data_Info\<close>, \<open>Memgraph_Client\<close>: \<open>controller/memgraph_client.go\<close>. \<open>Connection_Pool\<close>:
    \<open>controller/connection_pool.go\<close>. \<open>Memgraph_Node\<close>: \<open>controller/memgraph_node.go\<close>, with the contract
    \<open>node_operation\<close> that every query of a node fulfils. \<open>Memgraph_Cluster\<close>:
    \<open>controller/memgraph_cluster.go\<close>, with the bootstrap discovery.
  \<^item> \<open>Gateway_Config\<close>, \<open>Rate_Limiter\<close>, \<open>Connection_Tracker\<close>, \<open>Gateway_Server\<close>: \<open>gateway/*.go\<close>. The
    server is modelled twice: its operations as functions, and \<open>gw_step\<close>, the interleaving of the
    acceptor, the connection handlers, the clean-up and a writer of the upstream address.
  \<^item> \<open>Metrics\<close>: \<open>metrics/metrics.go\<close>. \<open>Leader_Election\<close>: \<open>controller/leader_election.go\<close>. \<open>Event_Queue\<close>: the two
    queues with their deduplication, as instances of the locale \<open>event_queue\<close>.
  \<^item> \<open>Controller_State\<close>: \<open>controller/controller_core.go\<close>. \<open>Failover\<close>: \<open>controller/queue_failover.go\<close>;
    \<open>Failover_Progress\<close>: what a live server does, and that failovers then happen. \<open>Reconcile\<close>,
    \<open>Main_Loop\<close>: \<open>controller/controller_reconcile.go\<close>. \<open>Pod_Events\<close>: \<open>controller/controller_events.go\<close> and \<open>queue_reconcile.go\<close>.
  \<^item> \<open>Health_Prober\<close>, \<open>Prober_Checks\<close>, \<open>Prober_Loop\<close>: \<open>controller/prober.go\<close>, its counters, its checks and
    the goroutines they start, and its loop with \<open>Start\<close> and \<open>Stop\<close>.
  \<^item> \<open>Status\<close>: \<open>GetClusterStatus\<close>, \<open>controller/status_api.go\<close>, \<open>httpapi/types.go\<close>. \<open>Http_Api\<close>:
    \<open>httpapi/server.go\<close>. \<open>Startup\<close>: \<open>src/cmd/memgraph-controller/main.go\<close> and the start-up operations.
  \<^item> This theory: the composition of all operations, \<open>sys_step\<close>.

  \<^bold>\<open>How state and operations correspond.\<close> A struct is a record with the source's field names (prefixed
  where several structs share one); \<open>controller_state\<close> extends the cluster's record, which extends the
  pool's, so that one state is passed through calls of all layers. A method that calls the outside is
  a function of the environment in the state monad: it returns the method's result and the new state.
  A Go error is a value of \<open>go_error\<close>, a panic is \<open>None\<close> of an optional result. Maps are
  association lists; where the source ranges over a map, the order is the environment's choice.
  Fixed-width integers that may wrap are words.

  \<^bold>\<open>The environment.\<close> Each answer of a server, the pod store, the API server and the codecs is a
  function of the whole history of interactions, and each interaction is recorded in the trace with its
  answer. Theorems that quantify over the environment hold for every behaviour of these parts;
  statements of the form ``a command was sent only if'' are statements about the trace.

  \<^bold>\<open>Loops.\<close> Loops over data are structural recursion. A loop that waits (the preStop hook, the main loop)
  is a recursion over the list of its wake-ups: no fuel bounds it, a list is one finite run, and that it
  returns is stated for every list that contains the end of its context.

  \<^bold>\<open>What the lemmas show.\<close> Per component: frames (what an operation may change and which commands it may
  send), well-formedness and its preservation, and the result on every branch. The properties are, in
  order of importance: promotions happen only with drained gateways and a synchronous, ready, reachable
  replica; failover succeeds completely or fails closed, and does happen when its conditions hold; reconciliation sends only the commands it
  should, registers replicas only with a single main, and routes clients only to a healthy main;
  discovery; the state invariant; the gateway's sessions never outlive their upstream; the target index
  survives restarts; the preStop hook; counting, termination and start-up; pod events, status and HTTP
  API; prober; rate limiter, configuration, tracker and queues; and behaviours of the code that
  contradict its intention, such as a shutdown that panics and a prober that cannot fail over.

  \<^bold>\<open>Granularity.\<close> In \<open>sys_step\<close> an operation of the controller is one step, as the mutex that
  reconciliation and failover share makes these two; other operations are interleaved between operations
  but not inside them. Interleaving inside operations is modelled where it decides the property: in the
  gateway (\<open>gw_step\<close>), in the prober's loop (\<open>pl_step\<close>) and in the process (\<open>main_step\<close>).

  \<^bold>\<open>Not modelled.\<close> Log lines and the loggers carried in contexts; time-outs of contexts, which show as
  errors that the environment may return at any call; client-go's informer and lease protocol, whose callbacks
  are events here; listening sockets and the bytes that a proxy copies (their counts are arguments);
  JSON encoding of responses and Prometheus exposition, which are library calls; the choice between
  in-cluster and file configuration of the Kubernetes client.
\<close>

section \<open>Definitions\<close>

text \<open>
  The controller as a whole: the operations that its goroutines run, each in one step and in any
  environment. The first group is the main loop and the two queues, then the informer's callbacks, the
  prober with its goroutines, the read gateway's report of a failed upstream, the HTTP API, the election's
  callbacks, start-up and shutdown. The gateways' own goroutines may change anything of a server but
  its upstream.
\<close>

definition sys_init :: "Config \<Rightarrow> controller_state \<Rightarrow> bool" where
  "sys_init c s \<longleftrightarrow> (\<exists>getenv hostname. NewMemgraphController getenv hostname c = Some s)"

definition leader_callback_step :: "leader_callback \<Rightarrow> controller_state \<Rightarrow> controller_state" where
  "leader_callback_step cb s = s\<lparr>leaderElection := le_apply cb (leaderElection s),
     promMetrics := (if cb = Started then fst (onStartLeading (promMetrics s) (leaderElection s)) else promMetrics s)\<rparr>"

inductive sys_step :: "Config \<Rightarrow> controller_state \<Rightarrow> controller_state \<Rightarrow> bool" for c where
  MainLoop: "sys_step c s (exec (Run env c ws) s)"
| Tick: "sys_step c s (exec (run_tick env c now d) s)"
| Stop: "sys_step c s (exec ctl_stop s)"
| ReconcileQueue: "sys_step c s (exec (processReconcileQueue env c now d stop) s)"
| FailoverQueue: "sys_step c s (exec (processFailoverCheckQueue env c now stop) s)"
| PodAdd: "sys_step c s (exec (onPodAdd env c now p) s)"
| PodUpdate: "sys_step c s (exec (onPodUpdate env c now p q) s)"
| PodDelete: "sys_step c s (exec (onPodDelete env c now obj) s)"
| Probe: "sys_step c s (exec (performHealthCheck env c) s)"
| ProbeTask: "sys_step c s (exec (run_task env c now task) s)"
| ReadFailure: "sys_step c s (exec (handleReadGatewayUpstreamFailure env c a e) s)"
| Http: "sys_step c s (exec (serve env c getenv lease exposition ws now r) s)"
| Leader: "sys_step c s (leader_callback_step cb s)"
| Metrics: "sys_step c s (exec (SetPrometheusMetrics m) s)"
| Shut: "sys_step c s (exec Shutdown s)"
| MainGateway: "GetUpstreamAddress gw = GetUpstreamAddress (gatewayServer s) \<Longrightarrow>
    sys_step c s (s\<lparr>gatewayServer := gw\<rparr>)"
| ReadGateway: "readGatewayServer s = Some gw \<Longrightarrow> GetUpstreamAddress gw' = GetUpstreamAddress gw \<Longrightarrow>
    sys_step c s (s\<lparr>readGatewayServer := Some gw'\<rparr>)"

text \<open>A controller that becomes leader, reconciles, and then sees its main's pod not ready.\<close>

definition promoted_controller :: controller_state where
  "promoted_controller = exec (run_tick (sim_env unready_scenario) sim_config 60 1)
     (exec (run_tick (sim_env running_scenario) sim_config 30 1)
       (leader_callback_step Started start_controller))"

section \<open>Lemmas\<close>

lemma init_wf: "sys_init c s \<Longrightarrow> ctl_wf s"
  by (auto simp: sys_init_def ctl_wf_def cluster_wf_def pool_wf_def routes_ok_def init_fields)

lemma modify_wf:
  assumes "trace t = trace s" and "drivers t = drivers s" and "MemgraphNodes t = MemgraphNodes s"
    and "GetUpstreamAddress (gatewayServer t) = GetUpstreamAddress (gatewayServer s)"
    and "read_upstream t = read_upstream s"
  shows "ctl_wf t \<longleftrightarrow> ctl_wf s"
  using assms by (simp add: ctl_wf_def routes_ok_def cluster_wf_def pool_wf_def)

lemma shutdown_wf: "state_io_rel wf_step Shutdown"
  unfolding Shutdown_def StopGatewayServer_def StopInformers_def close_stopCh_def
  by (intro wf_frame.frame_rules ctl_wf_rel [OF ctl_step_modify]) (simp_all add: read_upstream_def)

lemma set_metrics_wf: "state_io_rel wf_step (SetPrometheusMetrics m)"
  unfolding SetPrometheusMetrics_def
  by (intro wf_frame.frame_rules ctl_wf_rel [OF ctl_step_modify]) (simp_all add: read_upstream_def)

lemmas operations_wf =
  Run_wf run_tick_wf stop_wf processors_wf shutdown_wf set_metrics_wf
  ctl_wf_rel [OF onPodAdd_step] ctl_wf_rel [OF onPodUpdate_step] ctl_wf_rel [OF onPodDelete_step]
  ctl_wf_rel [OF performHealthCheck_step] ctl_wf_rel [OF run_task_step] ctl_wf_rel [OF handleReadFailure_step]
  ctl_wf_rel [OF serve_step]

interpretation sys: inductive_invariant "sys_init c" "sys_step c" ctl_wf for c
proof
  fix s t assume wf: "ctl_wf s" and "sys_step c s t"
  from this(2) show "ctl_wf t"
    by cases (simp_all add: wf wf_rel_step operations_wf modify_wf [of _ s] leader_callback_step_def read_upstream_def)
qed (rule init_wf)

lemma guarded_split:
  "guarded (later @ e # earlier) \<Longrightarrow> is_promotion e \<Longrightarrow>
   routed ''main-gw'' earlier = '''' \<and> routed ''read-gw'' earlier = ''''"
  by (induction later) auto

lemma start_init: "sys_init sim_config start_controller"
  unfolding sys_init_def start_controller_def
  by (rule exI [of _ "\<lambda>k. if k = ''ENABLE_READ_GATEWAY'' then ''true'' else ''''"], rule exI [of _ "Inr ''ctl-0''"])
    (simp add: NewMemgraphController_def NewLeaderElection_def getPodIdentity_def DefaultProberConfig_def)

lemma promoted_reached: "reach (sys_init sim_config) (sys_step sim_config) promoted_controller"
  unfolding promoted_controller_def
  by (rule reach.reach_step, rule reach.reach_step, rule reach.reach_step, rule reach.reach_init, rule start_init,
      rule sys_step.Leader, rule sys_step.Tick, rule sys_step.Tick)

subsection \<open>Properties of the whole controller\<close>



text \<open>
  C11: in every state the controller reaches, each node is stored once and under its own
  name, every replica that a node has cached carries parsed data whose health flag is the meaning of
  its status and lag, the connection pool has at most one driver per address, each verified when it was
  made, and the upstreams of both gateways are those of the history.
\<close>

theorem reachable_state_wf:
  assumes "reach (sys_init c) (sys_step c) s"
  shows "distinct (map fst (MemgraphNodes s)) \<and>
    (\<forall>(k, n) \<in> set (MemgraphNodes s). nd_name n = k \<and>
       (\<forall>r \<in> set (nd_replicasInfo n). \<exists>d. ri_ParsedDataInfo r = Some d \<and>
          di_IsHealthy d = (di_Status d = ''ready'' \<and> 0 \<le> di_Behind d))) \<and>
    distinct (map fst (drivers s)) \<and> (\<forall>(a, d) \<in> set (drivers s). fst d = a \<and> IoVerify d None \<in> set (trace s)) \<and>
    GetUpstreamAddress (gatewayServer s) = routed ''main-gw'' (trace s) \<and>
    read_upstream s = routed ''read-gw'' (trace s)"
proof -
  have "ctl_wf s" using sys.inv_reach [OF assms] .
  then have "cluster_wf s" and "routes_ok s" by (simp_all add: ctl_wf_def)
  moreover have "\<exists>d. ri_ParsedDataInfo r = Some d \<and> di_IsHealthy d = (di_Status d = ''ready'' \<and> 0 \<le> di_Behind d)"
    if "replica_wf r" for r
    using that by (auto simp: replica_wf_def status_wf_def split: option.splits)
  ultimately show ?thesis
    by (fastforce simp: cluster_wf_def pool_wf_def node_wf_def list_all_iff routes_ok_def)
qed

theorem reachable_state_wf_witness:
  "distinct (map fst (MemgraphNodes promoted_controller)) \<and>
   GetUpstreamAddress (gatewayServer promoted_controller) = routed ''main-gw'' (trace promoted_controller)"
  using reachable_state_wf [OF promoted_reached] by simp

end
